(* ===== verification/Prelude.thy ===== *)
theory Prelude
  imports Main "HOL-Library.AList" "HOL-Library.Char_ord" "HOL-Library.List_Lexorder"
    "HOL-Library.Multiset" "HOL-Library.Sublist"
begin

text \<open>
  Shared vocabulary of the development: the pieces of the Go language and of its standard
  library that the sources use, with the lemmas the component theories rest on.

  \<^item> Strings are byte strings (\<^typ>\<open>string\<close>); \<open>go_split\<close>, \<open>go_join\<close>, \<open>go_lower\<close>,
    \<open>EqualFold\<close>, \<open>HasSuffix\<close>, \<open>TrimSuffix\<close>, \<open>TrimPrefix\<close> and \<open>go_index\<close> are package
    \<open>strings\<close> for one-byte separators and ASCII case folding (bytes above 127 are left alone).
  \<^item> A Go map is an association list whose order is the iteration order the runtime happens to
    choose (\<open>gmap\<close>); the interface of maps is the locale \<open>dict\<close>, interpreted on these lists.
  \<^item> A \<open>time.Duration\<close> is a 64-bit count of nanoseconds: \<open>dur_wrap\<close> is the wrap-around of its
    addition and \<open>dur_sat\<close> the saturation of \<open>Time.Sub\<close>.
  \<^item> A panic is a value of \<open>gopanic\<close>, an error of the Kubernetes API a value of \<open>kerr\<close>; both
    are the left summand of a sum type.
\<close>

named_theorems go_str \<open>facts about byte strings\<close>
named_theorems gmap_simps \<open>facts about Go maps\<close>
named_theorems dur_simps \<open>facts about durations\<close>

section \<open>Results and errors\<close>

text \<open>The run-time panics the modelled code can reach.\<close>

datatype gopanic = NilLocation | IndexOutOfRange | NilDereference | NilMap

text \<open>
  An error of the API machinery, classified the way the sources ask for it
  (\<open>errors.IsNotFound\<close>, \<open>IsForbidden\<close>, \<open>IsInvalid\<close>), with its message.
\<close>

datatype kerr = NotFound string | Forbidden string | Invalid string | OtherError string

fun err_msg :: "kerr \<Rightarrow> string" where
  "err_msg (NotFound m) = m"
| "err_msg (Forbidden m) = m"
| "err_msg (Invalid m) = m"
| "err_msg (OtherError m) = m"

fun IsNotFound :: "kerr \<Rightarrow> bool" where
  "IsNotFound (NotFound m) = True"
| "IsNotFound _ = False"

fun rbind :: "'e + 'a \<Rightarrow> ('a \<Rightarrow> 'e + 'b) \<Rightarrow> 'e + 'b" where
  "rbind (Inl e) f = Inl e"
| "rbind (Inr x) f = f x"

lemma rbind_Inr_iff: "rbind r f = Inr y \<longleftrightarrow> (\<exists>x. r = Inr x \<and> f x = Inr y)"
  by (cases r) auto

text \<open>The result of a call that may also panic.\<close>

datatype 'a goval = Ret 'a | Fail kerr | Crash gopanic

fun gbind :: "'a goval \<Rightarrow> ('a \<Rightarrow> 'b goval) \<Rightarrow> 'b goval" where
  "gbind (Ret x) f = f x"
| "gbind (Fail e) f = Fail e"
| "gbind (Crash p) f = Crash p"

fun lift_err :: "kerr + 'a \<Rightarrow> 'a goval" where
  "lift_err (Inl e) = Fail e"
| "lift_err (Inr x) = Ret x"

lemma gbind_Ret_iff: "gbind r f = Ret y \<longleftrightarrow> (\<exists>x. r = Ret x \<and> f x = Ret y)"
  by (cases r) auto

lemma gbind_Crash_iff: "gbind r f = Crash p \<longleftrightarrow> r = Crash p \<or> (\<exists>x. r = Ret x \<and> f x = Crash p)"
  by (cases r) auto

lemma lift_err_simps [simp]: "lift_err r = Ret x \<longleftrightarrow> r = Inr x" "lift_err r \<noteq> Crash p" "lift_err r = Fail e \<longleftrightarrow> r = Inl e"
  by (cases r; simp)+

section \<open>Byte strings\<close>

definition lower_char :: "char \<Rightarrow> char" where
  "lower_char c = (let n = (of_char c :: nat) in if 65 \<le> n \<and> n \<le> 90 then char_of (n + 32) else c)"

definition go_lower :: "string \<Rightarrow> string" where
  "go_lower s = map lower_char s"

definition EqualFold :: "string \<Rightarrow> string \<Rightarrow> bool" where
  "EqualFold a b \<longleftrightarrow> go_lower a = go_lower b"

lemma EqualFold_refl [simp]: "EqualFold a a"
  by (simp add: EqualFold_def)

lemma EqualFold_sym: "EqualFold a b \<Longrightarrow> EqualFold b a"
  by (simp add: EqualFold_def)

lemma EqualFold_trans: "EqualFold a b \<Longrightarrow> EqualFold b c \<Longrightarrow> EqualFold a c"
  by (simp add: EqualFold_def)

lemma EqualFold_Nil [simp]: "EqualFold a [] \<longleftrightarrow> a = []" "EqualFold [] a \<longleftrightarrow> a = []"
  by (auto simp: EqualFold_def go_lower_def)

text \<open>\<open>strings.Split\<close> with a one-byte separator, and \<open>strings.Join\<close>.\<close>

fun go_split :: "char \<Rightarrow> string \<Rightarrow> string list" where
  "go_split c [] = [[]]"
| "go_split c (x # xs) =
     (if x = c then [] # go_split c xs
      else (case go_split c xs of [] \<Rightarrow> [[x]] | y # ys \<Rightarrow> (x # y) # ys))"

fun go_join :: "char \<Rightarrow> string list \<Rightarrow> string" where
  "go_join c [] = []"
| "go_join c [s] = s"
| "go_join c (s # t # ss) = s @ c # go_join c (t # ss)"

lemma go_split_nonempty [simp]: "go_split c s \<noteq> []"
  by (induction s) (auto split: list.splits)

lemma go_split_no_sep: "p \<in> set (go_split c s) \<Longrightarrow> c \<notin> set p"
proof (induction s arbitrary: p)
  case Nil
  then show ?case by simp
next
  case (Cons x xs)
  show ?case
  proof (cases "go_split c xs")
    case Nil
    then show ?thesis by simp
  next
    case (Cons y ys)
    with Cons.prems Cons.IH [of y] Cons.IH [of p] show ?thesis
      by (cases "x = c") auto
  qed
qed

lemma go_join_split [go_str]: "go_join c (go_split c s) = s"
proof (induction s)
  case Nil
  then show ?case by simp
next
  case (Cons x xs)
  then obtain y ys where y: "go_split c xs = y # ys"
    by (cases "go_split c xs") auto
  with Cons show ?case by (cases ys) auto
qed

lemma go_split_sep_free: "c \<notin> set s \<Longrightarrow> go_split c s = [s]"
  by (induction s) auto

lemma go_split_append: "c \<notin> set s \<Longrightarrow> go_split c (s @ c # t) = s # go_split c t"
  by (induction s) auto

lemma go_split_join:
  "\<lbrakk>ps \<noteq> []; \<forall>p \<in> set ps. c \<notin> set p\<rbrakk> \<Longrightarrow> go_split c (go_join c ps) = ps"
  by (induction c ps rule: go_join.induct) (auto simp: go_split_sep_free go_split_append)

lemma go_split_two [go_str]:
  "go_split c s = [a, b] \<longleftrightarrow> s = a @ c # b \<and> c \<notin> set a \<and> c \<notin> set b"
proof
  assume sp: "go_split c s = [a, b]"
  then have "s = go_join c [a, b]" by (metis go_join_split)
  moreover from sp have "c \<notin> set a" "c \<notin> set b"
    using go_split_no_sep [of a c s] go_split_no_sep [of b c s] by auto
  ultimately show "s = a @ c # b \<and> c \<notin> set a \<and> c \<notin> set b" by simp
next
  assume "s = a @ c # b \<and> c \<notin> set a \<and> c \<notin> set b"
  then show "go_split c s = [a, b]" by (simp add: go_split_append go_split_sep_free)
qed

definition HasSuffix :: "string \<Rightarrow> string \<Rightarrow> bool" where
  "HasSuffix s t \<longleftrightarrow> length t \<le> length s \<and> drop (length s - length t) s = t"

definition TrimSuffix :: "string \<Rightarrow> string \<Rightarrow> string" where
  "TrimSuffix s t = (if HasSuffix s t then take (length s - length t) s else s)"

definition HasPrefix :: "string \<Rightarrow> string \<Rightarrow> bool" where
  "HasPrefix s t \<longleftrightarrow> take (length t) s = t"

definition TrimPrefix :: "string \<Rightarrow> string \<Rightarrow> string" where
  "TrimPrefix s t = (if HasPrefix s t then drop (length t) s else s)"

lemma HasSuffix_append [simp]: "HasSuffix (s @ t) t"
  by (simp add: HasSuffix_def)

lemma TrimSuffix_append [simp, go_str]: "TrimSuffix (s @ t) t = s"
  by (simp add: TrimSuffix_def)

lemma TrimSuffix_restore: "HasSuffix s t \<Longrightarrow> TrimSuffix s t @ t = s"
  unfolding TrimSuffix_def HasSuffix_def by (metis append_take_drop_id)

lemma TrimPrefix_append [simp, go_str]: "TrimPrefix (t @ s) t = s"
  by (simp add: TrimPrefix_def HasPrefix_def)

text \<open>\<open>strings.Index\<close> for a one-byte needle; \<open>None\<close> is the result -1.\<close>

fun go_index :: "char \<Rightarrow> string \<Rightarrow> nat option" where
  "go_index c [] = None"
| "go_index c (x # xs) = (if x = c then Some 0 else map_option Suc (go_index c xs))"

lemma go_index_Some: "go_index c s = Some i \<Longrightarrow> i < length s \<and> s ! i = c \<and> c \<notin> set (take i s)"
  by (induction s arbitrary: i) (auto split: if_splits)

section \<open>Decimal numbers\<close>

text \<open>The decimal representation of a natural number (\<open>%d\<close> of \<open>fmt.Sprintf\<close>).\<close>

fun go_itoa :: "nat \<Rightarrow> string" where
  "go_itoa n = (if n < 10 then [char_of (48 + n)] else go_itoa (n div 10) @ [char_of (48 + n mod 10)])"

declare go_itoa.simps [simp del]

lemma digit_char_inj: "a < 10 \<Longrightarrow> b < 10 \<Longrightarrow> (char_of (48 + a :: nat) = char_of (48 + b)) \<longleftrightarrow> a = b"
proof
  assume "a < 10" "b < 10" "char_of (48 + a) = (char_of (48 + b) :: char)"
  then have "(of_char (char_of (48 + a)) :: nat) = of_char (char_of (48 + b))" by simp
  with \<open>a < 10\<close> \<open>b < 10\<close> show "a = b" by simp
qed simp

lemma go_itoa_nonempty: "go_itoa n \<noteq> []"
  by (subst go_itoa.simps) simp

lemma go_itoa_inj: "go_itoa m = go_itoa n \<Longrightarrow> m = n"
proof (induction m arbitrary: n rule: go_itoa.induct)
  case (1 m)
  show ?case
  proof (cases "m < 10 \<or> n < 10")
    case True
    have "m < 10 \<longleftrightarrow> n < 10"
      using 1(2) go_itoa_nonempty [of "m div 10"] go_itoa_nonempty [of "n div 10"]
      by (subst (asm) go_itoa.simps, subst (asm) (2) go_itoa.simps) (auto split: if_splits)
    with True 1(2) show ?thesis
      using digit_char_inj [of m n] by (simp add: go_itoa.simps [of m] go_itoa.simps [of n])
  next
    case False
    then have "go_itoa (m div 10) = go_itoa (n div 10)" "m mod 10 = n mod 10"
      using 1(2) digit_char_inj [of "m mod 10" "n mod 10"]
      by (simp_all add: go_itoa.simps [of m] go_itoa.simps [of n])
    with 1(1) False show ?thesis by (metis div_mult_mod_eq)
  qed
qed

section \<open>Lists\<close>

lemma sorted_last_max: "sorted xs \<Longrightarrow> x \<in> set xs \<Longrightarrow> x \<le> last (xs :: 'a :: linorder list)"
  by (induction xs) auto

lemma sorted_hd_min: "sorted xs \<Longrightarrow> x \<in> set xs \<Longrightarrow> hd (xs :: 'a :: linorder list) \<le> x"
  by (cases xs) auto

section \<open>Sorting\<close>

text \<open>
  \<open>sort.Sort\<close> and \<open>sort.Slice\<close> with a comparison that may not be a strict order: the insertion
  sort the library runs on slices of up to twelve elements. The accumulator is the sorted
  prefix, last element first; an element moves left while \<open>lt\<close> puts it before its neighbour.
\<close>

fun ins_rev :: "('a \<Rightarrow> 'a \<Rightarrow> bool) \<Rightarrow> 'a \<Rightarrow> 'a list \<Rightarrow> 'a list" where
  "ins_rev lt x [] = [x]"
| "ins_rev lt x (y # ys) = (if lt x y then y # ins_rev lt x ys else x # y # ys)"

definition go_sort :: "('a \<Rightarrow> 'a \<Rightarrow> bool) \<Rightarrow> 'a list \<Rightarrow> 'a list" where
  "go_sort lt xs = rev (foldl (\<lambda>acc x. ins_rev lt x acc) [] xs)"

lemma mset_ins_rev: "mset (ins_rev lt x ys) = add_mset x (mset ys)"
  by (induction ys) auto

lemma mset_go_sort [simp]: "mset (go_sort lt xs) = mset xs"
proof -
  have "mset (foldl (\<lambda>acc x. ins_rev lt x acc) acc xs) = mset acc + mset xs" for acc
    by (induction xs arbitrary: acc) (auto simp: mset_ins_rev)
  then show ?thesis by (simp add: go_sort_def)
qed

lemma set_go_sort [simp]: "set (go_sort lt xs) = set xs"
  by (metis mset_go_sort set_mset_mset)

lemma length_go_sort [simp]: "length (go_sort lt xs) = length xs"
  by (metis mset_go_sort size_mset)

lemma go_sort_map: "go_sort lt (map f xs) = map f (go_sort (\<lambda>a b. lt (f a) (f b)) xs)"
proof -
  have ins: "ins_rev lt (f x) (map f ys) = map f (ins_rev (\<lambda>a b. lt (f a) (f b)) x ys)" for x ys
    by (induction ys) auto
  have "foldl (\<lambda>acc x. ins_rev lt x acc) (map f acc) (map f xs)
      = map f (foldl (\<lambda>acc x. ins_rev (\<lambda>a b. lt (f a) (f b)) x acc) acc xs)" for acc
    by (induction xs arbitrary: acc) (auto simp: ins)
  from this [of "[]"] show ?thesis by (simp add: go_sort_def rev_map)
qed

text \<open>
  A comparison that agrees with a total preorder \<open>leq\<close> up to ties sorts by \<open>leq\<close>, although it
  may answer either way on ties.
\<close>

lemma go_sort_sorted:
  assumes tot: "\<And>x y. \<not> lt x y \<Longrightarrow> leq y x" and sub: "\<And>x y. lt x y \<Longrightarrow> leq x y"
    and tr: "\<And>x y z. leq x y \<Longrightarrow> leq y z \<Longrightarrow> leq x z"
  shows "sorted_wrt leq (go_sort lt xs)"
proof -
  have ins: "sorted_wrt (\<lambda>a b. leq b a) (ins_rev lt x ys)" if "sorted_wrt (\<lambda>a b. leq b a) ys" for x ys
    using that
  proof (induction ys)
    case (Cons y ys)
    have "set (ins_rev lt x ys) = insert x (set ys)"
      by (metis mset_ins_rev set_mset_add_mset_insert set_mset_mset)
    with Cons show ?case using tot sub tr by (auto; blast)
  qed simp
  have "sorted_wrt (\<lambda>a b. leq b a) (foldl (\<lambda>acc x. ins_rev lt x acc) acc xs)"
    if "sorted_wrt (\<lambda>a b. leq b a) acc" for acc
    using that by (induction xs arbitrary: acc) (auto simp: ins)
  then show ?thesis by (simp add: go_sort_def sorted_wrt_rev)
qed

section \<open>Go maps\<close>

type_synonym ('k, 'v) gmap = "('k \<times> 'v) list"

text \<open>A nil map is \<open>None\<close> where the sources tell it from an empty one.\<close>

type_synonym strmap = "(string, string) gmap"

definition wf_gm :: "('k, 'v) gmap \<Rightarrow> bool" where
  "wf_gm m \<longleftrightarrow> distinct (map fst m)"

definition gm_put :: "'k \<Rightarrow> 'v \<Rightarrow> ('k, 'v) gmap \<Rightarrow> ('k, 'v) gmap" where
  "gm_put k v m = AList.update k v m"

definition gm_del :: "'k \<Rightarrow> ('k, 'v) gmap \<Rightarrow> ('k, 'v) gmap" where
  "gm_del k m = filter (\<lambda>e. fst e \<noteq> k) m"

text \<open>Reading a string-valued map: a missing key reads as the empty string.\<close>

definition gm_str :: "strmap \<Rightarrow> string \<Rightarrow> string" where
  "gm_str m k = (case map_of m k of None \<Rightarrow> '''' | Some v \<Rightarrow> v)"

text \<open>
  \<open>reflect.DeepEqual\<close> on two non-nil maps: equal lengths, and every entry of the first is an
  entry of the second.
\<close>

definition gm_equal :: "('k, 'v) gmap \<Rightarrow> ('k, 'v) gmap \<Rightarrow> bool" where
  "gm_equal m n \<longleftrightarrow> length m = length n \<and> (\<forall>(k, v) \<in> set m. map_of n k = Some v)"

text \<open>\<open>reflect.DeepEqual\<close> on maps that may be nil: a nil map equals only a nil map.\<close>

fun gm_equal_nil :: "('k, 'v) gmap option \<Rightarrow> ('k, 'v) gmap option \<Rightarrow> bool" where
  "gm_equal_nil None None = True"
| "gm_equal_nil (Some m) (Some n) = gm_equal m n"
| "gm_equal_nil _ _ = False"

text \<open>
  What the sources rely on when they use a map: the laws of lookup after a store and after a
  deletion. The client lemmas are the ones the component proofs use.
\<close>

locale dict =
  fixes look :: "'m \<Rightarrow> 'k \<Rightarrow> 'v option"
    and put :: "'k \<Rightarrow> 'v \<Rightarrow> 'm \<Rightarrow> 'm"
    and del :: "'k \<Rightarrow> 'm \<Rightarrow> 'm"
    and wf :: "'m \<Rightarrow> bool"
  assumes look_put: "look (put k v m) = (look m)(k \<mapsto> v)"
    and look_del: "wf m \<Longrightarrow> look (del k m) = (look m)(k := None)"
    and wf_put: "wf m \<Longrightarrow> wf (put k v m)"
    and wf_del: "wf m \<Longrightarrow> wf (del k m)"
begin

lemma look_put_same: "look (put k v m) k = Some v"
  by (simp add: look_put)

lemma look_put_other: "k' \<noteq> k \<Longrightarrow> look (put k v m) k' = look m k'"
  by (simp add: look_put)

lemma look_del_put: "wf m \<Longrightarrow> look (del k (put k v m)) = look (del k m)"
  by (simp add: look_put look_del wf_put)

lemma dom_del: "wf m \<Longrightarrow> dom (look (del k m)) = dom (look m) - {k}"
  by (simp add: look_del)

lemma wf_fold_put: "wf m \<Longrightarrow> wf (fold (\<lambda>x. put (f x) (g x)) xs m)"
  by (induction xs arbitrary: m) (auto simp: wf_put)

lemma look_fold_put:
  "look (fold (\<lambda>x. put (f x) (g x)) xs m) = look m ++ map_of (rev (map (\<lambda>x. (f x, g x)) xs))"
proof (induction xs arbitrary: m)
  case Nil
  then show ?case by simp
next
  case (Cons x xs)
  then show ?case by (simp add: look_put fun_eq_iff map_add_def split: option.splits)
qed

lemma dom_fold_put: "dom (look (fold (\<lambda>x. put (f x) (g x)) xs m)) = dom (look m) \<union> f ` set xs"
  by (induction xs arbitrary: m) (auto simp: look_put)

lemma wf_fold_del: "wf m \<Longrightarrow> wf (fold del ks m)"
  by (induction ks arbitrary: m) (auto simp: wf_del)

lemma look_fold_del: "wf m \<Longrightarrow> look (fold del ks m) = (look m) |` (- set ks)"
  by (induction ks arbitrary: m) (auto simp: look_del wf_del restrict_map_def fun_eq_iff)

end

lemma map_of_filter_key: "map_of (filter (\<lambda>e. fst e \<noteq> k) m) = (map_of m)(k := None)"
  by (induction m) (auto simp: fun_eq_iff)

interpretation gm: dict map_of gm_put gm_del wf_gm
  by unfold_locales
    (auto simp: gm_put_def gm_del_def wf_gm_def update_conv' map_of_filter_key
      intro: distinct_update distinct_map_filter)

lemmas gm_laws [gmap_simps] = gm.look_put gm.look_del gm.wf_put gm.wf_del

lemma map_of_gm_del: "map_of (gm_del k m) = (map_of m)(k := None)"
  by (simp add: gm_del_def map_of_filter_key)

lemma gm_str_put: "gm_str (gm_put k v m) k' = (if k' = k then v else gm_str m k')"
  by (simp add: gm_str_def gmap_simps)

lemma gm_str_del: "gm_str (gm_del k m) k' = (if k' = k then '''' else gm_str m k')"
  by (simp add: gm_str_def map_of_gm_del)

lemma gm_equal_iff:
  assumes "wf_gm m" and "wf_gm n"
  shows "gm_equal m n \<longleftrightarrow> map_of m = map_of n"
proof
  assume eq: "gm_equal m n"
  have card: "card (dom (map_of x)) = length x" if "wf_gm x" for x :: "('a, 'b) gmap"
    using that by (simp add: wf_gm_def dom_map_of_conv_image_fst) (metis distinct_card length_map list.set_map)
  have sub: "map_of m \<subseteq>\<^sub>m map_of n"
    using eq by (fastforce simp: gm_equal_def map_le_def dest: map_of_SomeD)
  then have "dom (map_of m) \<subseteq> dom (map_of n)" by (rule map_le_implies_dom_le)
  moreover have "card (dom (map_of m)) = card (dom (map_of n))"
    using eq assms card by (simp add: gm_equal_def)
  ultimately have "dom (map_of m) = dom (map_of n)"
    by (simp add: card_subset_eq finite_dom_map_of)
  with sub show "map_of m = map_of n"
    by (metis map_le_antisym map_le_def)
next
  assume eq: "map_of m = map_of n"
  then have "dom (map_of m) = dom (map_of n)" by simp
  then have "length m = length n"
    using assms by (simp add: wf_gm_def dom_map_of_conv_image_fst)
      (metis distinct_card length_map list.set_map)
  moreover have "\<forall>(k, v) \<in> set m. map_of n k = Some v"
    using assms(1) by (auto simp: wf_gm_def simp flip: eq)
  ultimately show "gm_equal m n" by (simp add: gm_equal_def)
qed

section \<open>Durations\<close>

text \<open>Nanoseconds; \<open>time.Duration\<close> is an \<open>int64\<close>.\<close>

type_synonym duration = int

definition dur_wrap :: "int \<Rightarrow> duration" where
  "dur_wrap x = (x + 2 ^ 63) mod 2 ^ 64 - 2 ^ 63"

definition dur_sat :: "int \<Rightarrow> duration" where
  "dur_sat x = max (- (2 ^ 63)) (min (2 ^ 63 - 1) x)"

definition dur_add :: "duration \<Rightarrow> duration \<Rightarrow> duration" where
  "dur_add a b = dur_wrap (a + b)"

definition minute_ns :: int where
  "minute_ns = 60000000000"

definition day_ns :: int where
  "day_ns = 86400000000000"

lemma dur_wrap_id [dur_simps]: "- (2 ^ 63) \<le> x \<Longrightarrow> x < 2 ^ 63 \<Longrightarrow> dur_wrap x = x"
  by (simp add: dur_wrap_def)

lemma dur_sat_id [dur_simps]: "- (2 ^ 63) \<le> x \<Longrightarrow> x < 2 ^ 63 \<Longrightarrow> dur_sat x = x"
  by (simp add: dur_sat_def)

lemma dur_sat_sign [simp]:
  "dur_sat x = 0 \<longleftrightarrow> x = 0" "0 \<le> dur_sat x \<longleftrightarrow> 0 \<le> x" "dur_sat x \<le> 0 \<longleftrightarrow> x \<le> 0"
  "0 < dur_sat x \<longleftrightarrow> 0 < x" "dur_sat x < 0 \<longleftrightarrow> x < 0"
  by (auto simp: dur_sat_def max_def min_def)

lemma dur_wrap_range: "- (2 ^ 63) \<le> dur_wrap x \<and> dur_wrap x < 2 ^ 63"
proof -
  have "0 \<le> (x + 2 ^ 63) mod 2 ^ 64" "(x + 2 ^ 63) mod 2 ^ 64 < (2 ^ 64 :: int)"
    by (rule pos_mod_sign, simp) (rule pos_mod_bound, simp)
  then show ?thesis by (simp add: dur_wrap_def)
qed

end
