(* ===== verification/TimeWindow.thy ===== *)
theory TimeWindow
  imports Prelude
begin

text \<open>
  The time windows of a subscription (\<open>pkg/utils/timewindow.go\<close>): when a subscription may
  deploy, and how long to wait until it may.

  A \<open>time.Time\<close> that stands for a time of day (parsed with \<open>time.Kitchen\<close>, on 1 January of
  year 0) is a \<open>gotime\<close>: its distance in nanoseconds from that day's midnight and the minute
  of the day it shows. The current time is an instant with its zone, where a zone gives the
  wall clock of every instant. The time zone database (\<open>time.LoadLocation\<close>) and the clock
  that stands in for an unparsable time of day are arguments of the definitions.
\<close>

section \<open>Data\<close>

record HourRange =
  Start :: string
  End :: string

record TimeWindow =
  WindowType :: string
  Location :: string
  Daysofweek :: "string list"
  Hours :: "HourRange list"

record gotime =
  t_abs :: int
  t_wall :: int

record hourRangesInTime =
  h_start :: gotime
  h_end :: gotime

record civil =
  c_wday :: int
  c_hour :: int
  c_min :: int

type_synonym zone = "int \<Rightarrow> civil"
type_synonym tzdb = "string \<Rightarrow> zone option"

record ltime =
  lt_inst :: int
  lt_zone :: zone

definition Weekday :: "ltime \<Rightarrow> int" where
  "Weekday t = c_wday (lt_zone t (lt_inst t))"

definition Hour :: "ltime \<Rightarrow> int" where
  "Hour t = c_hour (lt_zone t (lt_inst t))"

definition Minute :: "ltime \<Rightarrow> int" where
  "Minute t = c_min (lt_zone t (lt_inst t))"

type_synonym runDays = "int list"

section \<open>Times of day\<close>

definition time_before :: "gotime \<Rightarrow> gotime \<Rightarrow> bool" where
  "time_before a b \<longleftrightarrow> t_abs a < t_abs b"

definition time_sub :: "gotime \<Rightarrow> gotime \<Rightarrow> duration" where
  "time_sub a b = dur_sat (t_abs a - t_abs b)"

definition add_24h :: "gotime \<Rightarrow> gotime" where
  "add_24h t = t\<lparr>t_abs := t_abs t + day_ns\<rparr>"

text \<open>\<open>time.Date(0, 1, 1, h, m, 0, 0, loc)\<close>: the minute \<open>m\<close> of the day.\<close>

definition clock :: "int \<Rightarrow> gotime" where
  "clock m = \<lparr>t_abs = m * minute_ns, t_wall = m\<rparr>"

definition digit_val :: "char \<Rightarrow> int option" where
  "digit_val c = (let n = (of_char c :: int) in if 48 \<le> n \<and> n \<le> 57 then Some (n - 48) else None)"

text \<open>
  \<open>time.Parse\<close> with the layout \<open>3:04PM\<close>: one or two digits for the hour (at most 12), two for
  the minute (below 60), AM or PM, and nothing else. The result is the minute of the day.
\<close>

definition kitchen_rest :: "int \<Rightarrow> string \<Rightarrow> int option" where
  "kitchen_rest h s =
     (case s of
        [c0, c1, c2, c3, c4] \<Rightarrow>
          (if c0 = CHR '':'' then
             (case (digit_val c1, digit_val c2) of
                (Some m1, Some m2) \<Rightarrow>
                  (if h \<le> 12 \<and> m1 * 10 + m2 < 60 then
                     (if c3 = CHR ''P'' \<and> c4 = CHR ''M'' then
                        Some ((if h < 12 then h + 12 else h) * 60 + m1 * 10 + m2)
                      else if c3 = CHR ''A'' \<and> c4 = CHR ''M'' then
                        Some ((if h = 12 then 0 else h) * 60 + m1 * 10 + m2)
                      else None)
                   else None)
              | _ \<Rightarrow> None)
           else None)
      | _ \<Rightarrow> None)"

definition parseKitchen :: "string \<Rightarrow> int option" where
  "parseKitchen s =
     (case s of
        a # rest \<Rightarrow>
          (case digit_val a of
             None \<Rightarrow> None
           | Some d1 \<Rightarrow>
               (case rest of
                  b # rest' \<Rightarrow>
                    (case digit_val b of
                       None \<Rightarrow> kitchen_rest d1 rest
                     | Some d2 \<Rightarrow> kitchen_rest (d1 * 10 + d2) rest')
                | [] \<Rightarrow> None))
      | [] \<Rightarrow> None)"

definition parseTimeWithKitchenFormat :: "gotime \<Rightarrow> string \<Rightarrow> gotime" where
  "parseTimeWithKitchenFormat now tstr =
     (case parseKitchen tstr of None \<Rightarrow> now | Some m \<Rightarrow> clock m)"

definition MIDNIGHT :: string where
  "MIDNIGHT = ''12:00AM''"

definition lastMidnight :: "gotime \<Rightarrow> gotime" where
  "lastMidnight now = parseTimeWithKitchenFormat now MIDNIGHT"

definition isMidnight :: "gotime \<Rightarrow> bool" where
  "isMidnight t \<longleftrightarrow> t_wall t = 0"

definition maxHour :: "gotime \<Rightarrow> gotime \<Rightarrow> gotime" where
  "maxHour a b = (if time_before a b then b else a)"

section \<open>Hour ranges\<close>

fun merge_loop :: "hourRangesInTime \<Rightarrow> hourRangesInTime list \<Rightarrow> hourRangesInTime list" where
  "merge_loop cur [] = [cur]"
| "merge_loop cur (x # xs) =
     (if t_abs (h_start x) \<le> t_abs (h_end cur)
      then merge_loop (cur\<lparr>h_end := maxHour (h_end cur) (h_end x)\<rparr>) xs
      else cur # merge_loop x xs)"

definition mergeHourRanges :: "hourRangesInTime list \<Rightarrow> hourRangesInTime list" where
  "mergeHourRanges rs =
     (case sort_key (\<lambda>s. t_abs (h_start s)) rs of
        [] \<Rightarrow> rs
      | [_] \<Rightarrow> rs
      | x # xs \<Rightarrow> merge_loop x xs)"

definition toSlot :: "gotime \<Rightarrow> HourRange \<Rightarrow> hourRangesInTime" where
  "toSlot now r =
     (let s = parseTimeWithKitchenFormat now (Start r);
          e = parseTimeWithKitchenFormat now (End r)
      in if time_before s e \<or> isMidnight e then \<lparr>h_start = s, h_end = e\<rparr>
         else \<lparr>h_start = e, h_end = s\<rparr>)"

definition validateHourRange :: "gotime \<Rightarrow> HourRange list \<Rightarrow> hourRangesInTime list" where
  "validateHourRange now rg = mergeHourRanges (map (toSlot now) rg)"

definition isThereGap :: "gotime \<Rightarrow> gotime \<Rightarrow> bool" where
  "isThereGap st ed \<longleftrightarrow> time_sub ed st \<noteq> 0"

fun reverse_loop :: "gotime \<Rightarrow> hourRangesInTime list \<Rightarrow> hourRangesInTime list \<times> gotime" where
  "reverse_loop sp [] = ([], sp)"
| "reverse_loop sp (slot # slots) =
     (let (out, sp') = reverse_loop (h_end slot) slots
      in ((if isThereGap sp (h_start slot) then \<lparr>h_start = sp, h_end = h_start slot\<rparr> # out else out), sp'))"

definition reverseRange :: "gotime \<Rightarrow> hourRangesInTime list \<Rightarrow> hourRangesInTime list" where
  "reverseRange now ins =
     (if ins = [] then ins
      else let (out, sp0) = reverse_loop (lastMidnight now) ins;
               sp = (if isMidnight sp0 then add_24h sp0 else sp0);
               nextMidnight = add_24h (lastMidnight now)
           in if isThereGap sp nextMidnight then out @ [\<lparr>h_start = sp, h_end = nextMidnight\<rparr>] else out)"

section \<open>Days of the week\<close>

definition weekdayMap :: "(string \<times> int) list" where
  "weekdayMap = [(''sunday'', 0), (''monday'', 1), (''tuesday'', 2), (''wednesday'', 3),
     (''thursday'', 4), (''friday'', 5), (''saturday'', 6)]"

fun days_loop :: "string list \<Rightarrow> runDays \<Rightarrow> string list \<Rightarrow> runDays \<times> string list" where
  "days_loop [] vwds found = (vwds, found)"
| "days_loop (wd # wds) vwds found =
     (let w = go_lower wd in
      case map_of weekdayMap w of
        Some v \<Rightarrow> (if w \<in> set found then days_loop wds vwds found
                   else days_loop wds (vwds @ [v]) (w # found))
      | None \<Rightarrow> days_loop wds vwds found)"

definition validateDaysofweekSlice :: "string list \<Rightarrow> runDays \<times> runDays" where
  "validateDaysofweekSlice wds =
     (if wds = [] then ([], [])
      else let (vwds, found) = days_loop wds [] []
           in (vwds, map snd (filter (\<lambda>(k, v). k \<notin> set found) weekdayMap)))"

definition isCurDayInDaysOfWeek :: "runDays \<Rightarrow> int \<Rightarrow> bool" where
  "isCurDayInDaysOfWeek r curWeekday \<longleftrightarrow> curWeekday \<in> set r"

section \<open>Waiting times\<close>

definition gt_of :: "ltime \<Rightarrow> gotime" where
  "gt_of cur = clock (Hour cur * 60 + Minute cur)"

definition timeLeftTillNextMidNight :: "gotime \<Rightarrow> gotime \<Rightarrow> duration" where
  "timeLeftTillNextMidNight now gt = time_sub (add_24h (lastMidnight now)) gt"

fun slot_loop :: "gotime \<Rightarrow> hourRangesInTime list \<Rightarrow> duration" where
  "slot_loop gt [] = 0"
| "slot_loop gt (slot # slots) =
     (if time_sub gt (h_start slot) \<le> 0 then time_sub (h_start slot) gt
      else if time_sub gt (h_start slot) > 0 \<and> time_sub gt (h_end slot) \<le> 0 then 0
      else slot_loop gt slots)"

definition tillNextSlot :: "gotime \<Rightarrow> hourRangesInTime list \<Rightarrow> gotime \<Rightarrow> gopanic + duration" where
  "tillNextSlot now slots gt =
     (if slots = [] then Inl IndexOutOfRange
      else if time_before (h_end (last slots)) gt
      then Inr (dur_add (timeLeftTillNextMidNight now gt)
                  (time_sub (h_start (hd slots)) (lastMidnight now)))
      else Inr (slot_loop gt slots))"

definition tillNextSlotFromMidnight :: "gotime \<Rightarrow> hourRangesInTime list \<Rightarrow> gopanic + duration" where
  "tillNextSlotFromMidnight now slots = tillNextSlot now slots (lastMidnight now)"

fun tillNextSlotInCurrentDay :: "hourRangesInTime list \<Rightarrow> gotime \<Rightarrow> duration" where
  "tillNextSlotInCurrentDay [] gt = -1"
| "tillNextSlotInCurrentDay (slot # slots) gt =
     (if time_sub gt (h_start slot) > 0 \<and> (time_sub gt (h_end slot) \<le> 0 \<or> isMidnight (h_end slot)) then 0
      else if time_sub gt (h_start slot) \<le> 0 then time_sub (h_start slot) gt
      else tillNextSlotInCurrentDay slots gt)"

text \<open>The loop over the sorted run days: \<open>None\<close> is the early return of zero.\<close>

fun weekday_loop :: "int \<Rightarrow> bool \<Rightarrow> int \<Rightarrow> runDays \<Rightarrow> int option" where
  "weekday_loop cw today days [] = Some days"
| "weekday_loop cw today days (d # ds) =
     (if cw = d \<and> today then None
      else if cw < d then Some (d - cw)
      else weekday_loop cw today (d - cw + 7) ds)"

definition durationToNextRunableWeekday :: "runDays \<Rightarrow> hourRangesInTime list \<Rightarrow> ltime \<Rightarrow> duration" where
  "durationToNextRunableWeekday r ins cur =
     (if r = [] then 0
      else let rs = sort r; cw = Weekday cur
           in if cw > last rs then dur_wrap ((7 - cw + hd rs - 1) * day_ns)
              else (case weekday_loop cw (tillNextSlotInCurrentDay ins (gt_of cur) \<ge> 0) 0 rs of
                      None \<Rightarrow> 0
                    | Some days \<Rightarrow> dur_wrap ((days - 1) * day_ns)))"

definition nextDay :: "ltime \<Rightarrow> ltime" where
  "nextDay cur = cur\<lparr>lt_inst := lt_inst cur + day_ns\<rparr>"

text \<open>The three-way sum the active branch returns when it has to look beyond today.\<close>

definition beyondToday :: "gotime \<Rightarrow> hourRangesInTime list \<Rightarrow> runDays \<Rightarrow> ltime \<Rightarrow> gopanic + duration" where
  "beyondToday now slots rdays cur =
     rbind (tillNextSlotFromMidnight now slots)
       (\<lambda>fs. Inr (dur_add (dur_add (timeLeftTillNextMidNight now (gt_of cur)) fs)
                    (durationToNextRunableWeekday rdays slots cur)))"

definition generateNextPoint ::
  "gotime \<Rightarrow> hourRangesInTime list \<Rightarrow> runDays \<Rightarrow> ltime \<Rightarrow> bool \<Rightarrow> gopanic + duration" where
  "generateNextPoint now slots rdays cur blocked =
     (if slots = [] \<and> rdays = [] then Inr 0
      else if blocked then
        (if Weekday cur \<in> set rdays then Inr 0
         else if slots \<noteq> [] \<and> tillNextSlotInCurrentDay slots (gt_of cur) \<ge> 0
         then Inr (tillNextSlotInCurrentDay slots (gt_of cur))
         else let nextActiveTime = timeLeftTillNextMidNight now (gt_of cur)
              in if slots \<noteq> [] then
                   (if \<not> isCurDayInDaysOfWeek rdays (Weekday (nextDay cur))
                    then rbind (tillNextSlotFromMidnight now slots) (\<lambda>fs. Inr (dur_add nextActiveTime fs))
                    else Inr nextActiveTime)
                 else Inr (dur_add nextActiveTime (durationToNextRunableWeekday rdays slots cur)))
      else if slots = [] \<and> rdays \<noteq> [] then
        (if isCurDayInDaysOfWeek rdays (Weekday cur) then Inr 0
         else Inr (dur_add (timeLeftTillNextMidNight now (gt_of cur))
                     (durationToNextRunableWeekday rdays slots cur)))
      else if slots \<noteq> [] \<and> rdays = [] then tillNextSlot now slots (gt_of cur)
      else if \<not> isCurDayInDaysOfWeek rdays (Weekday cur) then beyondToday now slots rdays cur
      else if durationToNextRunableWeekday rdays slots cur = 0
              \<and> tillNextSlotInCurrentDay slots (gt_of cur) \<ge> 0
      then Inr (tillNextSlotInCurrentDay slots (gt_of cur))
      else beyondToday now slots rdays cur)"

section \<open>The exported operations\<close>

definition getLoc :: "tzdb \<Rightarrow> string \<Rightarrow> zone option" where
  "getLoc tz loc = tz loc"

definition UnifyTimeZone :: "tzdb \<Rightarrow> TimeWindow \<Rightarrow> int \<Rightarrow> gopanic + ltime" where
  "UnifyTimeZone tz tw t =
     (case getLoc tz (Location tw) of
        None \<Rightarrow> Inl NilLocation
      | Some z \<Rightarrow> Inr \<lparr>lt_inst = t, lt_zone = z\<rparr>)"

definition isBlockType :: "TimeWindow \<Rightarrow> bool" where
  "isBlockType tw \<longleftrightarrow> WindowType tw \<noteq> '''' \<and>
     (EqualFold (WindowType tw) ''block'' \<or> EqualFold (WindowType tw) ''blocked'')"

definition NextStartPoint :: "tzdb \<Rightarrow> gotime \<Rightarrow> TimeWindow option \<Rightarrow> int \<Rightarrow> gopanic + duration" where
  "NextStartPoint tz now twp t =
     (case twp of
        None \<Rightarrow> Inr 0
      | Some tw \<Rightarrow>
          rbind (UnifyTimeZone tz tw t) (\<lambda>cur.
            let vHr = validateHourRange now (Hours tw);
                (rDays, rveDays) = validateDaysofweekSlice (Daysofweek tw)
            in if isBlockType tw
               then generateNextPoint now (reverseRange now vHr) rveDays cur True
               else generateNextPoint now vHr rDays cur False))"

definition IsInWindow :: "tzdb \<Rightarrow> gotime \<Rightarrow> TimeWindow option \<Rightarrow> int \<Rightarrow> gopanic + bool" where
  "IsInWindow tz now twp t =
     (case twp of
        None \<Rightarrow> Inr True
      | Some tw \<Rightarrow> rbind (NextStartPoint tz now twp t) (\<lambda>d. Inr (d = 0)))"

definition NextStatusReconcile :: "tzdb \<Rightarrow> gotime \<Rightarrow> TimeWindow option \<Rightarrow> int \<Rightarrow> gopanic + duration" where
  "NextStatusReconcile tz now twp t =
     (case twp of
        None \<Rightarrow> Inr 0
      | Some tw \<Rightarrow>
          rbind (UnifyTimeZone tz tw t) (\<lambda>cur.
            if Daysofweek tw = [] \<and> Hours tw = [] then Inr 0
            else rbind (IsInWindow tz now twp t) (\<lambda>inw.
              rbind
                (if inw then
                   (let vHr = validateHourRange now (Hours tw);
                        vdays = fst (validateDaysofweekSlice (Daysofweek tw))
                    in if isBlockType tw then generateNextPoint now vHr vdays cur False
                       else generateNextPoint now (reverseRange now vHr) vdays cur False)
                 else NextStartPoint tz now twp t)
                (\<lambda>d. Inr (dur_add d minute_ns)))))"

end
