(* ===== verification/TimeWindowFacts.thy ===== *)
theory TimeWindowFacts
  imports TimeWindow
begin

text \<open>
  What the time window code computes. Slots are related to pairs of minutes of the day
  (\<open>slots_of\<close>); on pairs, merging is an ordinary interval merge whose result is separated and
  covers the same minutes, and the loops over slots are characterised by membership in the
  covered minutes. The properties at the end state what \<open>IsInWindow\<close> and
  \<open>NextStartPoint\<close> promise, on every branch, and where they do not keep it.
\<close>

section \<open>Slots as pairs of minutes\<close>

definition tod :: "int \<Rightarrow> gotime" where
  "tod m = (if m = 1440 then \<lparr>t_abs = day_ns, t_wall = 0\<rparr> else clock m)"

definition slot :: "int \<times> int \<Rightarrow> hourRangesInTime" where
  "slot p = \<lparr>h_start = clock (fst p), h_end = tod (snd p)\<rparr>"

abbreviation slots_of :: "(int \<times> int) list \<Rightarrow> hourRangesInTime list" where
  "slots_of ps \<equiv> map slot ps"

definition pair_ok :: "int \<times> int \<Rightarrow> bool" where
  "pair_ok p \<longleftrightarrow> 0 \<le> fst p \<and> fst p \<le> snd p \<and> snd p \<le> 1440 \<and> snd p \<noteq> 0 \<and> fst p < 1440"

definition pairs_ok :: "(int \<times> int) list \<Rightarrow> bool" where
  "pairs_ok ps \<longleftrightarrow> (\<forall>p \<in> set ps. pair_ok p) \<and> sorted_wrt (\<lambda>p q. snd p \<le> fst q) ps"

definition separated :: "(int \<times> int) list \<Rightarrow> bool" where
  "separated ps \<longleftrightarrow> sorted_wrt (\<lambda>p q. snd p < fst q) ps"

definition minutes :: "(int \<times> int) list \<Rightarrow> int set" where
  "minutes ps = (\<Union>p \<in> set ps. {fst p..snd p})"

lemma minutes_simps [simp]:
  "minutes [] = {}" "minutes (p # ps) = {fst p..snd p} \<union> minutes ps"
  by (auto simp: minutes_def)

lemma pairs_ok_Cons:
  "pairs_ok (p # ps) \<longleftrightarrow> pair_ok p \<and> pairs_ok ps \<and> (\<forall>q \<in> set ps. snd p \<le> fst q)"
  by (auto simp: pairs_ok_def)

lemma pairs_ok_Nil [simp]: "pairs_ok []"
  by (simp add: pairs_ok_def)

lemma t_abs_clock [simp]: "t_abs (clock m) = m * minute_ns" "t_wall (clock m) = m"
  by (simp_all add: clock_def)

lemma t_abs_tod [simp]: "t_abs (tod m) = m * minute_ns"
  by (simp add: tod_def day_ns_def minute_ns_def)

lemma slot_sel [simp]: "h_start (slot p) = clock (fst p)" "h_end (slot p) = tod (snd p)"
  by (simp_all add: slot_def)

lemma isMidnight_tod: "0 < m \<Longrightarrow> m \<le> 1440 \<Longrightarrow> isMidnight (tod m) \<longleftrightarrow> m = 1440"
  by (simp add: isMidnight_def tod_def)

lemma minute_scale [simp]:
  "a * minute_ns < b * minute_ns \<longleftrightarrow> a < b" "a * minute_ns \<le> b * minute_ns \<longleftrightarrow> a \<le> b"
  "a * minute_ns - b * minute_ns = (a - b) * minute_ns"
  "a * minute_ns = b * minute_ns \<longleftrightarrow> a = b"
  "0 < a * minute_ns \<longleftrightarrow> 0 < a" "0 \<le> a * minute_ns \<longleftrightarrow> 0 \<le> a"
  "a * minute_ns < 0 \<longleftrightarrow> a < 0" "a * minute_ns \<le> 0 \<longleftrightarrow> a \<le> 0"
  by (auto simp: minute_ns_def left_diff_distrib)

lemma time_sub_clock:
  "- 1440 \<le> a - b \<Longrightarrow> a - b \<le> 1440 \<Longrightarrow> dur_sat ((a - b) * minute_ns) = (a - b) * minute_ns"
  by (rule dur_sat_id) (simp_all add: minute_ns_def)

section \<open>Parsing a time of day\<close>

lemma digit_val_range: "digit_val c = Some d \<Longrightarrow> 0 \<le> d \<and> d \<le> 9"
  by (auto simp: digit_val_def Let_def split: if_splits)

lemma kitchen_rest_range: "kitchen_rest h s = Some m \<Longrightarrow> 0 \<le> h \<Longrightarrow> 0 \<le> m \<and> m < 1440"
  unfolding kitchen_rest_def
  by (auto split: list.splits option.splits if_splits dest!: digit_val_range)

lemma parseKitchen_range: "parseKitchen s = Some m \<Longrightarrow> 0 \<le> m \<and> m < 1440"
  unfolding parseKitchen_def
  by (auto split: list.splits option.splits dest!: digit_val_range elim!: kitchen_rest_range)

lemma parse_midnight: "parseKitchen MIDNIGHT = Some 0"
  by code_simp

lemma lastMidnight_eq [simp]: "lastMidnight now = clock 0"
  by (simp add: lastMidnight_def parseTimeWithKitchenFormat_def parse_midnight)

lemma add_24h_midnight [simp]: "add_24h (clock 0) = tod 1440"
  by (simp add: add_24h_def clock_def tod_def)

lemma timeLeft_eq:
  "0 \<le> m \<Longrightarrow> m \<le> 1440 \<Longrightarrow> timeLeftTillNextMidNight now (clock m) = (1440 - m) * minute_ns"
  by (simp add: timeLeftTillNextMidNight_def time_sub_def time_sub_clock)

section \<open>Merging hour ranges\<close>

fun merge_pairs :: "int \<times> int \<Rightarrow> (int \<times> int) list \<Rightarrow> (int \<times> int) list" where
  "merge_pairs p [] = [p]"
| "merge_pairs p (q # qs) =
     (if fst q \<le> snd p then merge_pairs (fst p, max (snd p) (snd q)) qs else p # merge_pairs q qs)"

definition normal_pairs :: "(int \<times> int) list \<Rightarrow> (int \<times> int) list" where
  "normal_pairs ps = (case sort_key fst ps of [] \<Rightarrow> [] | p # qs \<Rightarrow> merge_pairs p qs)"

lemma maxHour_tod: "maxHour (tod a) (tod b) = tod (max a b)"
  by (auto simp: maxHour_def time_before_def max_def)

lemma merge_loop_refines: "merge_loop (slot p) (slots_of qs) = slots_of (merge_pairs p qs)"
proof (induction qs arbitrary: p)
  case Nil
  then show ?case by simp
next
  case (Cons q qs)
  have "(slot p)\<lparr>h_end := maxHour (h_end (slot p)) (h_end (slot q))\<rparr> = slot (fst p, max (snd p) (snd q))"
    by (simp add: slot_def maxHour_tod)
  with Cons show ?case by simp
qed

lemma sort_key_map_mono:
  assumes "\<And>x y. f (g x) \<le> f (g y) \<longleftrightarrow> h x \<le> h y"
  shows "sort_key f (map g xs) = map g (sort_key h xs)"
proof -
  have ins: "insort_key f (g x) (map g ys) = map g (insort_key h x ys)" for x ys
    by (induction ys) (auto simp: assms)
  show ?thesis by (induction xs) (auto simp: ins)
qed

lemma mergeHourRanges_refines: "mergeHourRanges (slots_of ps) = slots_of (normal_pairs ps)"
proof -
  have srt: "sort_key (\<lambda>s. t_abs (h_start s)) (slots_of ps) = slots_of (sort_key fst ps)"
    by (rule sort_key_map_mono) simp
  have one: "ps = [p]" if "sort_key fst ps = [p]" for p
  proof -
    have "mset ps = mset [p]" using that by (metis mset_sort)
    then show ?thesis by simp
  qed
  have none: "ps = []" if "sort_key fst ps = []"
    using that by (metis length_0_conv length_sort)
  show ?thesis
  proof (cases "sort_key fst ps" rule: remdups_adj.cases)
    case (3 x y xs)
    then have "mergeHourRanges (slots_of ps) = merge_loop (slot x) (slots_of (y # xs))"
      by (simp add: mergeHourRanges_def srt del: merge_loop.simps)
    also have "\<dots> = slots_of (merge_pairs x (y # xs))" by (rule merge_loop_refines)
    finally show ?thesis by (simp add: normal_pairs_def 3 del: merge_pairs.simps)
  qed (auto simp: mergeHourRanges_def normal_pairs_def dest: one none)
qed

lemma merge_pairs_spec:
  assumes "pair_ok p" "\<forall>q \<in> set qs. pair_ok q \<and> fst p \<le> fst q" "sorted (map fst qs)"
  shows "pairs_ok (merge_pairs p qs) \<and> separated (merge_pairs p qs)
    \<and> minutes (merge_pairs p qs) = {fst p..snd p} \<union> minutes qs
    \<and> (\<forall>r \<in> set (merge_pairs p qs). fst p \<le> fst r)"
  using assms
proof (induction p qs rule: merge_pairs.induct)
  case (1 p)
  then show ?case by (simp add: pairs_ok_def separated_def)
next
  case (2 p q qs)
  show ?case
  proof (cases "fst q \<le> snd p")
    case True
    have "{fst p..max (snd p) (snd q)} = {fst p..snd p} \<union> {fst q..snd q}"
      using True 2(3,4) by (auto simp: pair_ok_def max_def)
    moreover have "pair_ok (fst p, max (snd p) (snd q))"
      using 2(3,4) by (auto simp: pair_ok_def)
    ultimately show ?thesis using 2(1) True 2(4,5) by auto
  next
    case False
    with 2(4,5) have IH: "pairs_ok (merge_pairs q qs)" "separated (merge_pairs q qs)"
      "minutes (merge_pairs q qs) = {fst q..snd q} \<union> minutes qs"
      "\<forall>r \<in> set (merge_pairs q qs). fst q \<le> fst r"
      using 2(2) by auto
    with False 2(3,4) show ?thesis by (fastforce simp: pairs_ok_Cons separated_def)
  qed
qed

lemma normal_pairs_spec:
  assumes "\<forall>p \<in> set ps. pair_ok p"
  shows "pairs_ok (normal_pairs ps)" and "minutes (normal_pairs ps) = minutes ps"
    and "normal_pairs ps = [] \<longleftrightarrow> ps = []" and "separated (normal_pairs ps)"
proof -
  have *: "pairs_ok (normal_pairs ps) \<and> separated (normal_pairs ps) \<and> minutes (normal_pairs ps) = minutes ps \<and> (normal_pairs ps = [] \<longleftrightarrow> ps = [])"
  proof (cases "sort_key fst ps")
    case Nil
    then have "ps = []" by (metis length_0_conv length_sort)
    then show ?thesis by (simp add: normal_pairs_def separated_def)
  next
    case (Cons p qs)
    have srt: "sorted (map fst (p # qs))" using sorted_sort_key [of fst ps] Cons by simp
    have set_eq: "set ps = set (p # qs)" using Cons by (metis set_sort)
    have mins: "minutes ps = {fst p..snd p} \<union> minutes qs" unfolding minutes_def set_eq by auto
    have "pair_ok p" "\<forall>q \<in> set qs. pair_ok q \<and> fst p \<le> fst q"
      using assms srt set_eq by auto
    from merge_pairs_spec [OF this] srt
    have "pairs_ok (merge_pairs p qs)" "separated (merge_pairs p qs)" "minutes (merge_pairs p qs) = minutes ps"
      by (auto simp: mins)
    moreover have "merge_pairs p qs \<noteq> []"
      by (induction p qs rule: merge_pairs.induct) auto
    moreover have "ps \<noteq> []" using set_eq by auto
    ultimately show ?thesis by (simp add: normal_pairs_def Cons)
  qed
  then show "pairs_ok (normal_pairs ps)" "minutes (normal_pairs ps) = minutes ps"
    "normal_pairs ps = [] \<longleftrightarrow> ps = []" "separated (normal_pairs ps)" by auto
qed


section \<open>The loops over slots\<close>

lemma tillNextSlotInCurrentDay_cases:
  assumes "pairs_ok ps" and "0 \<le> m" and "m < 1440"
  shows "(m \<in> minutes ps \<and> tillNextSlotInCurrentDay (slots_of ps) (clock m) = 0)
    \<or> ((\<forall>p \<in> set ps. snd p < m) \<and> tillNextSlotInCurrentDay (slots_of ps) (clock m) = - 1)
    \<or> (\<exists>p \<in> set ps. m < fst p \<and> m \<notin> minutes ps
          \<and> tillNextSlotInCurrentDay (slots_of ps) (clock m) = (fst p - m) * minute_ns)"
  using assms
proof (induction ps)
  case Nil
  then show ?case by simp
next
  case (Cons p ps)
  then have p: "pair_ok p" "pairs_ok ps" "\<forall>q \<in> set ps. snd p \<le> fst q"
    by (auto simp: pairs_ok_Cons)
  have midn: "isMidnight (tod (snd p)) \<longleftrightarrow> snd p = 1440"
    using p(1) by (intro isMidnight_tod) (auto simp: pair_ok_def)
  have sub: "dur_sat ((fst p - m) * minute_ns) = (fst p - m) * minute_ns"
    using p(1) Cons.prems(2,3) by (intro time_sub_clock) (auto simp: pair_ok_def)
  have out: "m \<notin> minutes ps" if "m < fst p"
    using that p by (fastforce simp: minutes_def pair_ok_def)
  consider "fst p < m \<and> m \<le> snd p" | "m \<le> fst p" | "snd p < m" by linarith
  then show ?case
  proof cases
    case 1
    then show ?thesis using Cons.prems by (simp add: time_sub_def midn)
  next
    case 2
    then show ?thesis using p(1) out by (cases "m = fst p") (auto simp: time_sub_def sub pair_ok_def)
  next
    case 3
    with p(1) Cons.prems(3) have "tillNextSlotInCurrentDay (slots_of (p # ps)) (clock m)
        = tillNextSlotInCurrentDay (slots_of ps) (clock m)"
      by (auto simp: time_sub_def midn pair_ok_def)
    with Cons.IH [OF p(2) Cons.prems(2,3)] 3 show ?thesis by auto
  qed
qed

lemma minutes_bound: "pairs_ok ps \<Longrightarrow> m \<in> minutes ps \<Longrightarrow> \<exists>p \<in> set ps. m \<le> snd p"
  by (auto simp: minutes_def)

lemma tillNextSlotInCurrentDay_0:
  assumes "pairs_ok ps" and "0 \<le> m" and "m < 1440"
  shows "tillNextSlotInCurrentDay (slots_of ps) (clock m) = 0 \<longleftrightarrow> m \<in> minutes ps"
  using tillNextSlotInCurrentDay_cases [OF assms] by (fastforce simp: minutes_def minute_ns_def)

lemma tillNextSlotInCurrentDay_neg:
  assumes "pairs_ok ps" and "0 \<le> m" and "m < 1440"
  shows "tillNextSlotInCurrentDay (slots_of ps) (clock m) < 0 \<longleftrightarrow> (\<forall>p \<in> set ps. snd p < m)"
  using tillNextSlotInCurrentDay_cases [OF assms] assms(1)
  by (fastforce simp: minutes_def minute_ns_def pairs_ok_def pair_ok_def)

lemma slot_loop_eq:
  assumes "pairs_ok ps" and "0 \<le> m" and "m < 1440" and "\<exists>p \<in> set ps. m \<le> snd p"
  shows "slot_loop (clock m) (slots_of ps) = tillNextSlotInCurrentDay (slots_of ps) (clock m)"
  using assms
proof (induction ps)
  case Nil
  then show ?case by simp
next
  case (Cons p ps)
  then have p: "pair_ok p" "pairs_ok ps" by (auto simp: pairs_ok_Cons)
  have midn: "isMidnight (tod (snd p)) \<longleftrightarrow> snd p = 1440"
    using p(1) by (intro isMidnight_tod) (auto simp: pair_ok_def)
  show ?case
  proof (cases "m \<le> snd p")
    case True
    then show ?thesis by (simp add: time_sub_def)
  next
    case False
    with Cons p show ?thesis by (auto simp: time_sub_def midn pair_ok_def)
  qed
qed

lemma last_pair_max: "pairs_ok ps \<Longrightarrow> p \<in> set ps \<Longrightarrow> snd p \<le> snd (last ps)"
proof (induction ps)
  case Nil
  then show ?case by simp
next
  case (Cons q ps)
  show ?case
  proof (cases "ps = []")
    case True
    with Cons.prems show ?thesis by simp
  next
    case False
    with Cons.prems have "pairs_ok ps" "snd q \<le> fst (last ps)" "pair_ok (last ps)"
      by (auto simp: pairs_ok_def)
    with Cons False show ?thesis by (auto simp: pair_ok_def)
  qed
qed

lemma hd_pair_min: "pairs_ok ps \<Longrightarrow> p \<in> set ps \<Longrightarrow> fst (hd ps) \<le> fst p"
  by (cases ps) (auto simp: pairs_ok_Cons pair_ok_def)

lemma day_part_range: "0 \<le> x \<Longrightarrow> x \<le> 14400 \<Longrightarrow> - (2 ^ 63) \<le> x * minute_ns \<and> x * minute_ns < 2 ^ 63"
  by (simp add: minute_ns_def)

lemma dur_add_minutes:
  assumes "0 \<le> a" "0 \<le> b" "a + b \<le> 14400"
  shows "dur_add (a * minute_ns) (b * minute_ns) = (a + b) * minute_ns"
  using day_part_range [of "a + b"] assms
  by (simp add: dur_add_def dur_wrap_id distrib_right)

lemma tillNextSlot_eq:
  assumes ok: "pairs_ok ps" and ne: "ps \<noteq> []" and m: "0 \<le> m" "m < 1440"
  shows "tillNextSlot now (slots_of ps) (clock m) =
    Inr (if \<forall>p \<in> set ps. snd p < m then (1440 - m + fst (hd ps)) * minute_ns
         else tillNextSlotInCurrentDay (slots_of ps) (clock m))"
proof -
  have last: "last ps \<in> set ps" using ne by simp
  have hd: "0 \<le> fst (hd ps)" "fst (hd ps) \<le> 1440"
    using ok ne by (cases ps; auto simp: pairs_ok_Cons pair_ok_def)+
  have before: "time_before (h_end (last (slots_of ps))) (clock m) \<longleftrightarrow> (\<forall>p \<in> set ps. snd p < m)"
    using last last_pair_max [OF ok] ne by (fastforce simp: time_before_def last_map)
  have first: "time_sub (h_start (hd (slots_of ps))) (clock 0) = fst (hd ps) * minute_ns"
    using hd time_sub_clock [of "fst (hd ps)" 0] ne by (simp add: time_sub_def hd_map)
  show ?thesis
    using ne m hd slot_loop_eq [OF ok m]
    by (auto simp: tillNextSlot_def before first timeLeft_eq dur_add_minutes not_less)
qed

lemma tillNextSlotFromMidnight_eq:
  assumes ok: "pairs_ok ps" and ne: "ps \<noteq> []"
  shows "tillNextSlotFromMidnight now (slots_of ps) = Inr (fst (hd ps) * minute_ns)"
proof -
  obtain p qs where ps: "ps = p # qs" using ne by (cases ps) auto
  then have p: "pair_ok p" using ok by (simp add: pairs_ok_Cons)
  have "tillNextSlotInCurrentDay (slots_of ps) (clock 0) = fst p * minute_ns"
    using p time_sub_clock [of "fst p" 0] by (auto simp: ps time_sub_def pair_ok_def)
  moreover have "\<not> (\<forall>p \<in> set ps. snd p < 0)" using p by (auto simp: ps pair_ok_def)
  moreover have "hd ps = p" by (simp add: ps)
  ultimately show ?thesis
    using tillNextSlot_eq [OF ok ne, of 0 now]
    by (auto simp: tillNextSlotFromMidnight_def simp del: tillNextSlotInCurrentDay.simps)
qed


section \<open>Days of the week\<close>

definition validDays :: "string list \<Rightarrow> int set" where
  "validDays wds = {v. \<exists>wd \<in> set wds. map_of weekdayMap (go_lower wd) = Some v}"

lemma weekdayMap_inj: "map_of weekdayMap a = Some v \<Longrightarrow> map_of weekdayMap b = Some v \<Longrightarrow> a = b"
  by (auto simp: weekdayMap_def split: if_splits)

lemma weekdayMap_range: "map_of weekdayMap a = Some v \<Longrightarrow> 0 \<le> v \<and> v \<le> 6"
  by (auto simp: weekdayMap_def split: if_splits)

lemma days_loop_spec:
  "days_loop wds vwds found = (vs, fs) \<Longrightarrow>
     set fs = set found \<union> {w \<in> go_lower ` set wds. map_of weekdayMap w \<noteq> None}
     \<and> set vs = set vwds \<union> {v. \<exists>wd \<in> set wds. go_lower wd \<notin> set found \<and> map_of weekdayMap (go_lower wd) = Some v}"
proof (induction wds arbitrary: vwds found)
  case Nil
  then show ?case by auto
next
  case (Cons wd wds)
  show ?case
  proof (cases "map_of weekdayMap (go_lower wd)")
    case None
    then have "days_loop wds vwds found = (vs, fs)" using Cons.prems by simp
    from Cons.IH [OF this] None show ?thesis by auto
  next
    case (Some v)
    show ?thesis
    proof (cases "go_lower wd \<in> set found")
      case True
      with Some Cons.prems have "days_loop wds vwds found = (vs, fs)" by simp
      from Cons.IH [OF this] True Some show ?thesis by auto
    next
      case False
      with Some Cons.prems have "days_loop wds (vwds @ [v]) (go_lower wd # found) = (vs, fs)" by simp
      from Cons.IH [OF this] Some False show ?thesis by auto (metis option.inject)+
    qed
  qed
qed

lemma validate_days_run: "set (fst (validateDaysofweekSlice wds)) = validDays wds"
proof (cases "wds = []")
  case True
  then show ?thesis by (simp add: validateDaysofweekSlice_def validDays_def)
next
  case False
  obtain vs fs where "days_loop wds [] [] = (vs, fs)" by fastforce
  with days_loop_spec [OF this] False show ?thesis
    by (simp add: validateDaysofweekSlice_def validDays_def)
qed

lemma weekdayMap_distinct: "distinct (map fst weekdayMap)"
  by (simp add: weekdayMap_def)

lemma weekdayMap_snd: "snd ` set weekdayMap = {0..6}"
  by (auto simp: weekdayMap_def)

lemma validate_days_reverse:
  assumes "wds \<noteq> []"
  shows "set (snd (validateDaysofweekSlice wds)) = {0..6} - validDays wds"
proof -
  obtain vs fs where loop: "days_loop wds [] [] = (vs, fs)" by fastforce
  have fs: "set fs = {w \<in> go_lower ` set wds. map_of weekdayMap w \<noteq> None}"
    using days_loop_spec [OF loop] by simp
  have "set (snd (validateDaysofweekSlice wds)) = snd ` {e \<in> set weekdayMap. fst e \<notin> set fs}"
    using assms loop by (auto simp: validateDaysofweekSlice_def)
  also have "\<dots> = snd ` set weekdayMap - validDays wds"
  proof -
    have "fst e \<in> set fs \<longleftrightarrow> snd e \<in> validDays wds" if "e \<in> set weekdayMap" for e
    proof -
      have e: "map_of weekdayMap (fst e) = Some (snd e)"
        using that weekdayMap_distinct by simp
      then show ?thesis by (auto simp: fs validDays_def dest: weekdayMap_inj)
    qed
    then show ?thesis by auto
  qed
  finally show ?thesis by (simp add: weekdayMap_snd)
qed

lemma validDays_range: "validDays wds \<subseteq> {0..6}"
  by (auto simp: validDays_def dest: weekdayMap_range)

lemma weekday_loop_today: "sorted rs \<Longrightarrow> cw \<in> set rs \<Longrightarrow> weekday_loop cw True days rs = None"
  by (induction rs arbitrary: days) auto

lemma weekday_loop_later:
  "sorted rs \<Longrightarrow> \<not> (cw \<in> set rs \<and> today) \<Longrightarrow> rs \<noteq> [] \<Longrightarrow> set rs \<subseteq> {0..6} \<Longrightarrow> 0 \<le> cw \<Longrightarrow> cw \<le> 6 \<Longrightarrow>
     \<exists>D. weekday_loop cw today days rs = Some D \<and> 1 \<le> D \<and> D \<le> 7 \<and> (cw + D) mod 7 \<in> set rs"
proof (induction rs arbitrary: days)
  case Nil
  then show ?case by simp
next
  case (Cons d ds)
  show ?case
  proof (cases "cw < d")
    case True
    with Cons.prems show ?thesis by auto
  next
    case False
    show ?thesis
    proof (cases "ds = []")
      case True
      with False Cons.prems show ?thesis by (intro exI [of _ "d - cw + 7"]) auto
    next
      case ds: False
      with Cons.prems obtain D where "weekday_loop cw today (d - cw + 7) ds = Some D"
        "1 \<le> D" "D \<le> 7" "(cw + D) mod 7 \<in> set ds"
        using Cons.IH [of "d - cw + 7"] by auto
      with False Cons.prems show ?thesis by auto
    qed
  qed
qed

lemma durationToNext_today:
  assumes "w \<in> set r" and "Weekday cur = w" and "0 \<le> tillNextSlotInCurrentDay ins (gt_of cur)"
  shows "durationToNextRunableWeekday r ins cur = 0"
proof -
  have "w \<le> last (sort r)" using assms(1) by (intro sorted_last_max) simp_all
  with assms show ?thesis
    by (auto simp: durationToNextRunableWeekday_def Let_def weekday_loop_today)
qed


lemma durationToNext_later:
  assumes ne: "r \<noteq> []" and r: "set r \<subseteq> {0..6}" and w: "Weekday cur = w" "0 \<le> w" "w \<le> 6"
    and later: "\<not> (w \<in> set r \<and> 0 \<le> tillNextSlotInCurrentDay ins (gt_of cur))"
  shows "\<exists>D. durationToNextRunableWeekday r ins cur = (D - 1) * 1440 * minute_ns
    \<and> 1 \<le> D \<and> D \<le> 7 \<and> (w + D) mod 7 \<in> set r"
proof -
  have ne': "sort r \<noteq> []" using ne by (metis length_0_conv length_sort)
  have day: "dur_wrap ((D - 1) * day_ns) = (D - 1) * 1440 * minute_ns" if "1 \<le> D" "D \<le> 7" for D
    using that by (simp add: dur_wrap_id day_ns_def minute_ns_def)
  show ?thesis
  proof (cases "last (sort r) < w")
    case True
    have hd: "hd (sort r) \<in> set r" using ne' by (metis hd_in_set set_sort)
    then have "0 \<le> hd (sort r)" "hd (sort r) \<le> 6" using r by auto
    moreover have "hd (sort r) < w" using True ne' sorted_hd_min [of "sort r" "last (sort r)"] last_in_set [OF ne'] by simp
    ultimately show ?thesis
      using True hd w ne day [of "7 - w + hd (sort r)"]
      by (intro exI [of _ "7 - w + hd (sort r)"]) (simp add: durationToNextRunableWeekday_def Let_def)
  next
    case False
    obtain D where "weekday_loop w (0 \<le> tillNextSlotInCurrentDay ins (gt_of cur)) 0 (sort r) = Some D"
      "1 \<le> D" "D \<le> 7" "(w + D) mod 7 \<in> set r"
      using weekday_loop_later [of "sort r" w "0 \<le> tillNextSlotInCurrentDay ins (gt_of cur)" 0]
        later ne' r w by auto
    with False w ne day [of D] show ?thesis
      by (auto simp: durationToNextRunableWeekday_def Let_def)
  qed
qed

section \<open>The next point of an active window\<close>

definition landing :: "int set \<Rightarrow> (int \<times> int) list \<Rightarrow> int \<Rightarrow> bool" where
  "landing days ps x \<longleftrightarrow> (days = {} \<or> (x div 1440) mod 7 \<in> days) \<and> (ps = [] \<or> x mod 1440 \<in> minutes ps)"

lemma landing_day:
  "0 \<le> m \<Longrightarrow> m < 1440 \<Longrightarrow>
     landing days ps (w * 1440 + m) \<longleftrightarrow> (days = {} \<or> w mod 7 \<in> days) \<and> (ps = [] \<or> m \<in> minutes ps)"
  by (simp add: landing_def)

lemma hd_minutes: "pairs_ok ps \<Longrightarrow> ps \<noteq> [] \<Longrightarrow> fst (hd ps) \<in> minutes ps \<and> 0 \<le> fst (hd ps) \<and> fst (hd ps) < 1440"
  by (cases ps) (auto simp: pairs_ok_Cons pair_ok_def)

lemma beyondToday_eq:
  assumes ok: "pairs_ok ps" "ps \<noteq> []" and m: "gt_of cur = clock m" "0 \<le> m" "m < 1440"
    and dur: "durationToNextRunableWeekday rdays (slots_of ps) cur = (D - 1) * 1440 * minute_ns" "1 \<le> D" "D \<le> 7"
  shows "beyondToday now (slots_of ps) rdays cur = Inr ((D * 1440 - m + fst (hd ps)) * minute_ns)"
proof -
  have f: "0 \<le> fst (hd ps)" "fst (hd ps) < 1440" using hd_minutes [OF ok] by auto
  have "dur_add (dur_add ((1440 - m) * minute_ns) (fst (hd ps) * minute_ns)) ((D - 1) * 1440 * minute_ns)
      = ((1440 - m) + fst (hd ps) + (D - 1) * 1440) * minute_ns"
    using f m dur dur_add_minutes [of "1440 - m" "fst (hd ps)"]
      dur_add_minutes [of "1440 - m + fst (hd ps)" "(D - 1) * 1440"] by simp
  also have "(1440 - m) + fst (hd ps) + (D - 1) * 1440 = D * 1440 - m + fst (hd ps)" by simp
  finally show ?thesis
    using m by (simp add: beyondToday_def tillNextSlotFromMidnight_eq [OF ok] timeLeft_eq dur(1))
qed

text \<open>
  A wait \<open>lands\<close> when it is a whole number of minutes, shorter than eight days, leads to an
  open minute of the week, and is zero if the window is open now.
\<close>

definition lands :: "int set \<Rightarrow> (int \<times> int) list \<Rightarrow> int \<Rightarrow> int \<Rightarrow> gopanic + duration \<Rightarrow> bool" where
  "lands days ps w m res \<longleftrightarrow> (\<exists>k. res = Inr (k * minute_ns) \<and> 0 \<le> k \<and> k < 8 * 1440
     \<and> landing days ps (w * 1440 + m + k) \<and> (landing days ps (w * 1440 + m) \<longrightarrow> k = 0))"

lemma landsI:
  "\<lbrakk>res = Inr (k * minute_ns); 0 \<le> k; k < 8 * 1440; landing days ps (w * 1440 + m + k);
    landing days ps (w * 1440 + m) \<longrightarrow> k = 0\<rbrakk> \<Longrightarrow> lands days ps w m res"
  unfolding lands_def by blast

definition now_at :: "ltime \<Rightarrow> int \<Rightarrow> int \<Rightarrow> bool" where
  "now_at cur w m \<longleftrightarrow> Weekday cur = w \<and> 0 \<le> w \<and> w \<le> 6 \<and> gt_of cur = clock m \<and> 0 \<le> m \<and> m < 1440"

lemma now_atD:
  assumes "now_at cur w m"
  shows "Weekday cur = w" "0 \<le> w" "w \<le> 6" "gt_of cur = clock m" "0 \<le> m" "m < 1440" "w mod 7 = w"
  using assms by (auto simp: now_at_def)

lemma landing_now:
  "now_at cur w m \<Longrightarrow> landing days ps (w * 1440 + m) \<longleftrightarrow> (days = {} \<or> w \<in> days) \<and> (ps = [] \<or> m \<in> minutes ps)"
  by (simp add: landing_day now_atD)

lemma lands_slot_today:
  assumes ok: "pairs_ok ps" "ps \<noteq> []" and n: "now_at cur w m" and w: "days = {} \<or> w \<in> days"
    and T: "0 \<le> tillNextSlotInCurrentDay (slots_of ps) (clock m)"
  shows "lands days ps w m (Inr (tillNextSlotInCurrentDay (slots_of ps) (clock m)))"
proof (cases "m \<in> minutes ps")
  case True
  with n ok w show ?thesis
    by (intro landsI [where k = 0]) (auto simp: landing_now now_atD tillNextSlotInCurrentDay_0)
next
  case False
  with T obtain p where p: "p \<in> set ps" "m < fst p"
    "tillNextSlotInCurrentDay (slots_of ps) (clock m) = (fst p - m) * minute_ns"
    using tillNextSlotInCurrentDay_cases [OF ok(1), of m] n by (auto simp: now_at_def)
  have "0 \<le> fst p" "fst p < 1440" "fst p \<le> snd p" using p(1) ok by (auto simp: pairs_ok_def pair_ok_def)
  moreover have "fst p \<in> minutes ps" using p(1) \<open>fst p \<le> snd p\<close> by (auto simp: minutes_def)
  moreover have "landing days ps (w * 1440 + fst p)"
    using landing_day [of "fst p" days ps w] w calculation now_atD(7) [OF n] by simp
  ultimately show ?thesis
    using p False n ok(2) by (intro landsI [where k = "fst p - m"]) (auto simp: landing_now now_at_def)
qed

lemma lands_other_day:
  assumes n: "now_at cur w m" and D: "1 \<le> D" "D \<le> 7" and day: "days = {} \<or> (w + D) mod 7 \<in> days"
    and f: "0 \<le> f" "f < 1440" "ps = [] \<or> f \<in> minutes ps"
    and closed: "\<not> landing days ps (w * 1440 + m)"
  shows "lands days ps w m (Inr ((D * 1440 - m + f) * minute_ns))"
proof (rule landsI [OF refl])
  have eq: "w * 1440 + m + (D * 1440 - m + f) = (w + D) * 1440 + f" by algebra
  show "landing days ps (w * 1440 + m + (D * 1440 - m + f))"
    unfolding eq using landing_day [OF f(1,2), of days ps "w + D"] day f(3) by blast
qed (use n D f closed in \<open>auto simp: now_at_def\<close>)

lemma lands_slots_only:
  assumes ok: "pairs_ok ps" "ps \<noteq> []" and n: "now_at cur w m"
  shows "lands {} ps w m (tillNextSlot now (slots_of ps) (clock m))"
proof (cases "\<forall>p \<in> set ps. snd p < m")
  case True
  then have "m \<notin> minutes ps" by (auto simp: minutes_def)
  with True show ?thesis
    using lands_other_day [OF n, of 1 "{}" "fst (hd ps)" ps] hd_minutes [OF ok] tillNextSlot_eq [OF ok, of m now] n ok(2)
    by (auto simp: landing_now now_at_def)
next
  case False
  then show ?thesis
    using lands_slot_today [OF ok n, of "{}"] tillNextSlot_eq [OF ok, of m now] n
      tillNextSlotInCurrentDay_neg [OF ok(1), of m]
    by (auto simp: now_at_def not_less)
qed

lemma later_day:
  assumes "r \<noteq> []" "set r \<subseteq> {0..6}" "now_at cur w m"
    and "\<not> (w \<in> set r \<and> 0 \<le> tillNextSlotInCurrentDay ins (clock m))"
  obtains D where "durationToNextRunableWeekday r ins cur = (D - 1) * 1440 * minute_ns"
    "1 \<le> D" "D \<le> 7" "(w + D) mod 7 \<in> set r"
  using durationToNext_later [OF assms(1,2), of cur w ins] assms(3,4) by (auto simp: now_at_def)

lemma lands_days_only:
  assumes r: "r \<noteq> []" "set r \<subseteq> {0..6}" and n: "now_at cur w m"
  shows "lands (set r) [] w m (generateNextPoint now [] r cur False)"
proof (cases "w \<in> set r")
  case True
  with r n show ?thesis
    by (intro landsI [where k = 0]) (auto simp: generateNextPoint_def isCurDayInDaysOfWeek_def landing_now now_atD)
next
  case False
  with later_day [OF r n, of "[]"] obtain D where
    D: "durationToNextRunableWeekday r [] cur = (D - 1) * 1440 * minute_ns" "1 \<le> D" "D \<le> 7" "(w + D) mod 7 \<in> set r"
    by auto
  have "dur_add ((1440 - m) * minute_ns) ((D - 1) * 1440 * minute_ns) = (D * 1440 - m + 0) * minute_ns"
    using D n dur_add_minutes [of "1440 - m" "(D - 1) * 1440"] by (simp add: now_at_def)
  moreover have "\<not> landing (set r) [] (w * 1440 + m)" using False r(1) by (simp add: landing_now [OF n])
  ultimately show ?thesis
    using lands_other_day [OF n D(2,3), of "set r" 0 "[]"] False D(1,4) r n
    by (simp add: generateNextPoint_def isCurDayInDaysOfWeek_def timeLeft_eq now_at_def)
qed

lemma lands_beyond:
  assumes ok: "pairs_ok ps" "ps \<noteq> []" and r: "r \<noteq> []" "set r \<subseteq> {0..6}" and n: "now_at cur w m"
    and past: "\<not> (w \<in> set r \<and> 0 \<le> tillNextSlotInCurrentDay (slots_of ps) (clock m))"
  shows "lands (set r) ps w m (beyondToday now (slots_of ps) r cur)"
proof -
  obtain D where D: "durationToNextRunableWeekday r (slots_of ps) cur = (D - 1) * 1440 * minute_ns"
    "1 \<le> D" "D \<le> 7" "(w + D) mod 7 \<in> set r" using later_day [OF r n past] .
  have "\<not> landing (set r) ps (w * 1440 + m)"
    using past r(1) ok n tillNextSlotInCurrentDay_0 [OF ok(1), of m] by (auto simp: landing_now now_at_def)
  then show ?thesis
    using lands_other_day [OF n D(2,3), of "set r" "fst (hd ps)" ps] D(4) hd_minutes [OF ok]
      beyondToday_eq [OF ok _ _ _ D(1-3), of m now] n
    by (auto simp: now_at_def)
qed

lemma active_point:
  assumes ok: "pairs_ok ps" and r: "set r \<subseteq> {0..6}" and n: "now_at cur w m"
  shows "lands (set r) ps w m (generateNextPoint now (slots_of ps) r cur False)"
proof -
  consider "ps = []" "r = []" | "ps = []" "r \<noteq> []" | "ps \<noteq> []" "r = []"
    | "ps \<noteq> []" "r \<noteq> []" "w \<in> set r \<and> 0 \<le> tillNextSlotInCurrentDay (slots_of ps) (clock m)"
    | "ps \<noteq> []" "r \<noteq> []" "\<not> (w \<in> set r \<and> 0 \<le> tillNextSlotInCurrentDay (slots_of ps) (clock m))"
    by blast
  then show ?thesis
  proof cases
    case 1
    then show ?thesis by (intro landsI [where k = 0]) (auto simp: generateNextPoint_def landing_def)
  next
    case 2
    then show ?thesis using lands_days_only [OF _ r n] by simp
  next
    case 3
    then show ?thesis using lands_slots_only [OF ok _ n, of now] n by (simp add: generateNextPoint_def now_at_def)
  next
    case 4
    then have "generateNextPoint now (slots_of ps) r cur False = Inr (tillNextSlotInCurrentDay (slots_of ps) (clock m))"
      using n durationToNext_today [of w r cur "slots_of ps"]
      by (simp add: generateNextPoint_def isCurDayInDaysOfWeek_def now_at_def)
    then show ?thesis using lands_slot_today [OF ok _ n, of "set r"] 4 by simp
  next
    case 5
    then have "generateNextPoint now (slots_of ps) r cur False = beyondToday now (slots_of ps) r cur"
      using n by (auto simp: generateNextPoint_def isCurDayInDaysOfWeek_def now_at_def)
    then show ?thesis using lands_beyond [OF ok _ _ r n] 5 by simp
  qed
qed


section \<open>Windows whose ranges end before midnight\<close>

text \<open>
  An hour range is \<open>plainRange\<close> when both of its times parse and it does not end at 12:00AM.
  \<open>rangePair\<close> gives its two minutes of the day in order: a range may be written backwards.
\<close>

definition plainRange :: "HourRange \<Rightarrow> bool" where
  "plainRange r = (case (parseKitchen (Start r), parseKitchen (End r)) of
     (Some a, Some b) \<Rightarrow> b \<noteq> 0 | _ \<Rightarrow> False)"

definition rangePair :: "HourRange \<Rightarrow> int \<times> int" where
  "rangePair r = (case (parseKitchen (Start r), parseKitchen (End r)) of
     (Some a, Some b) \<Rightarrow> (min a b, max a b) | _ \<Rightarrow> (0, 0))"

lemma toSlot_plain:
  assumes "plainRange r"
  shows "toSlot now r = slot (rangePair r) \<and> pair_ok (rangePair r) \<and> snd (rangePair r) < 1440"
proof -
  obtain a b where ab: "parseKitchen (Start r) = Some a" "parseKitchen (End r) = Some b" "b \<noteq> 0"
    using assms by (auto simp: plainRange_def split: option.splits)
  then have "0 \<le> a" "a < 1440" "0 \<le> b" "b < 1440" using parseKitchen_range by blast+
  with ab show ?thesis
    by (auto simp: toSlot_def parseTimeWithKitchenFormat_def rangePair_def Let_def time_before_def
        isMidnight_def slot_def tod_def pair_ok_def min_def max_def)
qed

lemma validate_plain:
  assumes "\<forall>r \<in> set rs. plainRange r"
  shows "validateHourRange now rs = slots_of (normal_pairs (map rangePair rs))"
    and "\<forall>p \<in> set (map rangePair rs). pair_ok p \<and> snd p < 1440"
proof -
  have "map (toSlot now) rs = slots_of (map rangePair rs)" using assms by (simp add: toSlot_plain)
  then show "validateHourRange now rs = slots_of (normal_pairs (map rangePair rs))"
    unfolding validateHourRange_def by (metis mergeHourRanges_refines)
  show "\<forall>p \<in> set (map rangePair rs). pair_ok p \<and> snd p < 1440" using assms by (simp add: toSlot_plain)
qed

definition civil_ok :: "zone \<Rightarrow> bool" where
  "civil_ok z \<longleftrightarrow> (\<forall>t. 0 \<le> c_wday (z t) \<and> c_wday (z t) \<le> 6 \<and> 0 \<le> c_hour (z t) \<and> c_hour (z t) \<le> 23
     \<and> 0 \<le> c_min (z t) \<and> c_min (z t) \<le> 59)"

definition minuteOfDay :: "zone \<Rightarrow> int \<Rightarrow> int" where
  "minuteOfDay z t = c_hour (z t) * 60 + c_min (z t)"

lemma civil_now_at:
  assumes "civil_ok z"
  shows "now_at \<lparr>lt_inst = t, lt_zone = z\<rparr> (c_wday (z t)) (minuteOfDay z t)"
proof -
  have "0 \<le> c_wday (z t)" "c_wday (z t) \<le> 6" "0 \<le> c_hour (z t)" "c_hour (z t) \<le> 23"
    "0 \<le> c_min (z t)" "c_min (z t) \<le> 59" using assms by (auto simp: civil_ok_def)
  then show ?thesis by (simp add: now_at_def Weekday_def gt_of_def Hour_def Minute_def minuteOfDay_def)
qed

lemma normal_landing:
  assumes "\<forall>p \<in> set ps. pair_ok p"
  shows "landing days (normal_pairs ps) x \<longleftrightarrow> landing days ps x"
  using normal_pairs_spec [OF assms] by (simp add: landing_def)

lemma active_lands:
  assumes "tz (Location tw) = Some z" "civil_ok z" "\<not> isBlockType tw" "\<forall>r \<in> set (Hours tw). plainRange r"
  shows "lands (validDays (Daysofweek tw)) (normal_pairs (map rangePair (Hours tw)))
    (c_wday (z t)) (minuteOfDay z t) (NextStartPoint tz now (Some tw) t)"
proof -
  have "pairs_ok (normal_pairs (map rangePair (Hours tw)))"
    using validate_plain(2) [OF assms(4)] by (intro normal_pairs_spec) blast
  moreover have "set (fst (validateDaysofweekSlice (Daysofweek tw))) \<subseteq> {0..6}"
    using validDays_range by (simp add: validate_days_run)
  ultimately show ?thesis
    using active_point [OF _ _ civil_now_at [OF assms(2), of t], where now = now] assms(1,3)
    by (simp add: NextStartPoint_def UnifyTimeZone_def getLoc_def validate_plain(1) [OF assms(4)]
        case_prod_unfold flip: validate_days_run)
qed


section \<open>The reversed ranges of a blocking window\<close>

fun gaps :: "int \<Rightarrow> (int \<times> int) list \<Rightarrow> (int \<times> int) list" where
  "gaps sp [] = [(sp, 1440)]"
| "gaps sp (p # ps) = (if sp \<noteq> fst p then (sp, fst p) # gaps (snd p) ps else gaps (snd p) ps)"

lemma isThereGap_clock: "isThereGap (clock a) (clock b) \<longleftrightarrow> a \<noteq> b"
  by (auto simp: isThereGap_def time_sub_def minute_ns_def)

lemma reverse_loop_refines:
  "\<forall>p \<in> set ps. pair_ok p \<and> snd p < 1440 \<Longrightarrow>
     reverse_loop (clock sp) (slots_of ps) = (slots_of (butlast (gaps sp ps)), clock (fst (last (gaps sp ps))))"
proof (induction ps arbitrary: sp)
  case Nil
  then show ?case by simp
next
  case (Cons p ps)
  have tod: "tod (snd p) = clock (snd p)" "tod (fst p) = clock (fst p)"
    using Cons.prems by (auto simp: tod_def pair_ok_def)
  have ne: "gaps x ps \<noteq> []" for x by (induction ps arbitrary: x) auto
  have "slot (sp, fst p) = \<lparr>h_start = clock sp, h_end = clock (fst p)\<rparr>" by (simp add: slot_def tod)
  with Cons ne tod show ?case by (auto simp: isThereGap_clock)
qed

lemma gaps_last: "\<forall>p \<in> set ps. pair_ok p \<and> snd p < 1440 \<Longrightarrow> ps \<noteq> [] \<Longrightarrow>
   last (gaps sp ps) = (snd (last ps), 1440) \<and> gaps sp ps \<noteq> []"
proof (induction ps arbitrary: sp)
  case Nil
  then show ?case by simp
next
  case (Cons p ps)
  then show ?case by (cases "ps = []") auto
qed

lemma reverseRange_refines:
  assumes "\<forall>p \<in> set ps. pair_ok p \<and> snd p < 1440" and "ps \<noteq> []"
  shows "reverseRange now (slots_of ps) = slots_of (gaps 0 ps)"
proof -
  let ?b = "snd (last ps)"
  have "pair_ok (last ps)" "?b < 1440" using assms last_in_set [of ps] by auto
  then have b: "0 < ?b" "?b < 1440" by (auto simp: pair_ok_def)
  have lst: "last (gaps 0 ps) = (?b, 1440)" "gaps 0 ps \<noteq> []" using gaps_last [OF assms] by auto
  have "isThereGap (clock ?b) (tod 1440)"
    using b by (simp add: isThereGap_def time_sub_def minute_ns_def)
  then have "reverseRange now (slots_of ps) = slots_of (butlast (gaps 0 ps)) @ [slot (?b, 1440)]"
    using assms(2) b lst(1) by (simp add: reverseRange_def reverse_loop_refines [OF assms(1)] isMidnight_def slot_def Let_def)
  also have "\<dots> = slots_of (gaps 0 ps)" using lst by (metis append_butlast_last_id list.map(2) map_append list.simps(8))
  finally show ?thesis .
qed

lemma gaps_ok:
  "pairs_ok ps \<Longrightarrow> \<forall>p \<in> set ps. sp \<le> fst p \<and> snd p < 1440 \<Longrightarrow> 0 \<le> sp \<Longrightarrow> sp < 1440 \<Longrightarrow>
     pairs_ok (gaps sp ps) \<and> (\<forall>q \<in> set (gaps sp ps). sp \<le> fst q)"
proof (induction ps arbitrary: sp)
  case Nil
  then show ?case by (simp add: pairs_ok_def pair_ok_def)
next
  case (Cons p ps)
  then have p: "pair_ok p" "pairs_ok ps" "\<forall>q \<in> set ps. snd p \<le> fst q \<and> snd q < 1440"
    by (auto simp: pairs_ok_Cons)
  have b: "0 \<le> snd p" "snd p < 1440" "sp \<le> fst p" "fst p \<le> snd p"
    using Cons.prems p(1) by (auto simp: pair_ok_def)
  then have IH: "pairs_ok (gaps (snd p) ps)" "\<forall>q \<in> set (gaps (snd p) ps). snd p \<le> fst q"
    using Cons.IH [OF p(2,3)] by auto
  have up: "sp \<le> fst q \<and> fst p \<le> fst q" if "q \<in> set (gaps (snd p) ps)" for q
    using IH(2) that b(3,4) by force
  show ?case
  proof (cases "sp = fst p")
    case True
    then show ?thesis using IH(1) up by simp
  next
    case False
    then have "pair_ok (sp, fst p)" using p(1) Cons.prems(3,4) b(3) by (auto simp: pair_ok_def)
    then show ?thesis using False IH(1) up by (simp add: pairs_ok_Cons)
  qed
qed

text \<open>
  A minute is blocked when it lies inside a slot: after its start (or at midnight, if the slot
  starts there) and before its end. The end points belong to the open gaps around the slot.
\<close>

definition inside :: "(int \<times> int) list \<Rightarrow> int \<Rightarrow> int \<Rightarrow> bool" where
  "inside ps sp m \<longleftrightarrow> (\<exists>p \<in> set ps. (fst p < m \<or> (fst p = m \<and> m = sp)) \<and> m < snd p)"

lemma gaps_minutes:
  "pairs_ok ps \<Longrightarrow> separated ps \<Longrightarrow> \<forall>p \<in> set ps. sp \<le> fst p \<and> snd p < 1440 \<Longrightarrow>
     0 \<le> sp \<Longrightarrow> sp \<le> m \<Longrightarrow> m < 1440 \<Longrightarrow> m \<in> minutes (gaps sp ps) \<longleftrightarrow> \<not> inside ps sp m"
proof (induction ps arbitrary: sp)
  case Nil
  then show ?case by (simp add: inside_def)
next
  case (Cons p ps)
  then have p: "pair_ok p" "pairs_ok ps" "separated ps" "\<forall>q \<in> set ps. snd p < fst q \<and> snd q < 1440"
    by (auto simp: pairs_ok_Cons separated_def)
  have "0 \<le> snd p" using p(1) by (simp add: pair_ok_def)
  then have IH: "m \<in> minutes (gaps (snd p) ps) \<longleftrightarrow> \<not> inside ps (snd p) m" if "snd p \<le> m"
    using Cons.IH [OF p(2,3), of "snd p"] p(4) that Cons.prems(6) by (simp add: less_imp_le)
  have b: "sp \<le> fst p" "fst p \<le> snd p" "0 \<le> snd p" "snd p < 1440"
    using Cons.prems(3) p(1) by (auto simp: pair_ok_def)
  have "\<forall>q \<in> set (gaps (snd p) ps). snd p \<le> fst q"
    using gaps_ok [OF p(2), of "snd p"] p(4) b(3,4) by (simp add: less_imp_le)
  then have low: "m \<notin> minutes (gaps (snd p) ps)" if "m < snd p"
    using that by (fastforce simp: minutes_def)
  have not_in: "\<not> inside ps x m" if "m \<le> snd p" for x
    using p(4) that unfolding inside_def by force
  have sp_eq: "inside ps (snd p) m = inside ps sp m"
    unfolding inside_def using p(4) b(1,2) by (intro bex_cong refl) force
  have Cons_inside: "inside (p # ps) sp m \<longleftrightarrow> (fst p < m \<or> fst p = m \<and> m = sp) \<and> m < snd p \<or> inside ps sp m"
    by (auto simp: inside_def)
  have gaps: "m \<in> minutes (gaps sp (p # ps)) \<longleftrightarrow> sp \<noteq> fst p \<and> m \<le> fst p \<or> m \<in> minutes (gaps (snd p) ps)"
    using Cons.prems(5) by auto
  show ?case
  proof (cases "snd p \<le> m")
    case True
    then have "m \<in> minutes (gaps (snd p) ps) \<longleftrightarrow> \<not> inside (p # ps) sp m"
      using IH sp_eq unfolding Cons_inside by simp
    moreover have "\<not> inside (p # ps) sp m" if "m \<le> fst p"
      using that True not_in b unfolding Cons_inside by simp
    ultimately show ?thesis using gaps by blast
  next
    case False
    then have "inside (p # ps) sp m \<longleftrightarrow> fst p < m \<or> fst p = m \<and> m = sp"
      using not_in [of sp] unfolding Cons_inside by simp
    with False low gaps b Cons.prems(5) show ?thesis by auto
  qed
qed


lemma gaps_reach_midnight: "\<forall>p \<in> set ps. pair_ok p \<and> snd p < 1440 \<Longrightarrow> ps \<noteq> [] \<Longrightarrow> \<exists>q \<in> set (gaps sp ps). snd q = 1440"
  using gaps_last [of ps sp] by (metis last_in_set snd_conv)

lemma blocked_point:
  assumes ok: "pairs_ok ps" "separated ps" "\<forall>p \<in> set ps. snd p < 1440" "ps \<noteq> []" and n: "now_at cur w m"
  shows "\<exists>d. generateNextPoint now (slots_of (gaps 0 ps)) r cur True = Inr d
    \<and> (d = 0 \<longleftrightarrow> w \<in> set r \<or> \<not> inside ps 0 m)"
proof -
  have all: "\<forall>p \<in> set ps. pair_ok p \<and> snd p < 1440" "\<forall>p \<in> set ps. 0 \<le> fst p \<and> snd p < 1440"
    using ok by (auto simp: pairs_ok_def pair_ok_def)
  have g: "pairs_ok (gaps 0 ps)" "gaps 0 ps \<noteq> []"
    using gaps_ok [OF ok(1) all(2)] gaps_last [OF all(1) ok(4)] by auto
  have "\<not> (\<forall>q \<in> set (gaps 0 ps). snd q < m)"
    using gaps_reach_midnight [OF all(1) ok(4), of 0] now_atD(6) [OF n] by fastforce
  then have "0 \<le> tillNextSlotInCurrentDay (slots_of (gaps 0 ps)) (clock m)"
    using tillNextSlotInCurrentDay_neg [OF g(1) now_atD(5,6) [OF n]] by linarith
  moreover have "tillNextSlotInCurrentDay (slots_of (gaps 0 ps)) (clock m) = 0 \<longleftrightarrow> \<not> inside ps 0 m"
    using tillNextSlotInCurrentDay_0 [OF g(1) now_atD(5,6) [OF n]] now_atD(5,6) [OF n]
      gaps_minutes [OF ok(1,2) all(2)] by simp
  ultimately show ?thesis
    using g(2) by (auto simp: generateNextPoint_def now_atD [OF n])
qed

text \<open>The largest end minute of the merged ranges is an end minute of the ranges.\<close>

lemma merge_pairs_bound:
  "snd p < b \<Longrightarrow> \<forall>q \<in> set qs. snd q < b \<Longrightarrow> \<forall>q \<in> set (merge_pairs p qs). snd q < b"
  by (induction p qs rule: merge_pairs.induct) auto

lemma normal_pairs_bound:
  assumes "\<forall>q \<in> set ps. snd q < b"
  shows "\<forall>q \<in> set (normal_pairs ps). snd q < b"
proof (cases "sort_key fst ps")
  case Nil
  then show ?thesis by (simp add: normal_pairs_def)
next
  case (Cons p qs)
  then have "set ps = set (p # qs)" by (metis set_sort)
  with assms merge_pairs_bound [of p b qs] show ?thesis by (simp add: normal_pairs_def Cons)
qed

lemma blocked_at:
  assumes "tz (Location tw) = Some z" "civil_ok z" "isBlockType tw" "\<forall>r \<in> set (Hours tw). plainRange r" "Hours tw \<noteq> []"
  shows "\<exists>d. NextStartPoint tz now (Some tw) t = Inr d
    \<and> (d = 0 \<longleftrightarrow> \<not> ((Daysofweek tw = [] \<or> c_wday (z t) \<in> validDays (Daysofweek tw))
        \<and> inside (normal_pairs (map rangePair (Hours tw))) 0 (minuteOfDay z t)))"
proof -
  let ?ps = "normal_pairs (map rangePair (Hours tw))"
  have plain: "\<forall>p \<in> set (map rangePair (Hours tw)). pair_ok p" "\<forall>p \<in> set (map rangePair (Hours tw)). snd p < 1440"
    using validate_plain(2) [OF assms(4)] by auto
  have ok: "pairs_ok ?ps" "separated ?ps" "\<forall>p \<in> set ?ps. snd p < 1440" "?ps \<noteq> []"
    using normal_pairs_spec [OF plain(1)] normal_pairs_bound [OF plain(2)] assms(5) by auto
  have rev: "reverseRange now (slots_of ?ps) = slots_of (gaps 0 ?ps)"
    using ok by (intro reverseRange_refines) (auto simp: pairs_ok_def)
  have days: "c_wday (z t) \<in> set (snd (validateDaysofweekSlice (Daysofweek tw)))
      \<longleftrightarrow> Daysofweek tw \<noteq> [] \<and> c_wday (z t) \<notin> validDays (Daysofweek tw)"
    using validate_days_reverse [of "Daysofweek tw"] assms(2)
    by (auto simp: civil_ok_def validateDaysofweekSlice_def)
  show ?thesis
    using blocked_point [OF ok civil_now_at [OF assms(2), of t], of now "snd (validateDaysofweekSlice (Daysofweek tw))"]
      assms(1,3) days
    by (auto simp: NextStartPoint_def UnifyTimeZone_def getLoc_def validate_plain(1) [OF assms(4)] rev case_prod_unfold)
qed

section \<open>Steady zones\<close>

text \<open>
  A zone is steady from \<open>t\<close> on when its clock runs without a change of offset for the next
  eight days: every minute of real time is a minute of the week on the wall.
\<close>

definition weekMinute :: "zone \<Rightarrow> int \<Rightarrow> int" where
  "weekMinute z t = c_wday (z t) * 1440 + minuteOfDay z t"

definition steady :: "zone \<Rightarrow> int \<Rightarrow> bool" where
  "steady z t \<longleftrightarrow> (\<forall>k \<in> {0..<11520}. weekMinute z (t + k * minute_ns) = (weekMinute z t + k) mod 10080)"

definition utc :: zone where
  "utc t = (let n = t div minute_ns in
     \<lparr>c_wday = (n div 1440 + 4) mod 7, c_hour = n mod 1440 div 60, c_min = n mod 60\<rparr>)"

lemma landing_mod: "landing days ps (x mod 10080) \<longleftrightarrow> landing days ps x"
proof -
  have "(x mod 10080) mod 1440 = x mod 1440" by (rule mod_mod_cancel) simp
  moreover have "(x div 1440) mod 7 = (x mod 10080 div 1440) mod 7"
  proof -
    have "x = x mod 10080 + (x div 10080 * 7) * 1440" by simp
    then have "x div 1440 = x mod 10080 div 1440 + x div 10080 * 7" by linarith
    then show ?thesis by simp
  qed
  ultimately show ?thesis by (simp add: landing_def)
qed

lemma minuteOfDay_range: "civil_ok z \<Longrightarrow> 0 \<le> minuteOfDay z t \<and> minuteOfDay z t < 1440"
  using civil_now_at [of z t] by (auto simp: now_at_def)

lemma lands_open:
  assumes "lands days ps w m (Inr d)"
  shows "d = 0 \<longleftrightarrow> landing days ps (w * 1440 + m)"
  using assms by (auto simp: lands_def minute_ns_def)


lemma active_wait_opens:
  assumes "tz (Location tw) = Some z" "civil_ok z" "\<not> isBlockType tw" "\<forall>r \<in> set (Hours tw). plainRange r" "steady z t"
  obtains d where "NextStartPoint tz now (Some tw) t = Inr d" "0 \<le> d" "d < 8 * day_ns"
    "NextStartPoint tz now (Some tw) (t + d) = Inr 0"
proof -
  let ?days = "validDays (Daysofweek tw)" and ?ps = "normal_pairs (map rangePair (Hours tw))"
  obtain k where k: "NextStartPoint tz now (Some tw) t = Inr (k * minute_ns)" "0 \<le> k" "k < 8 * 1440"
    "landing ?days ?ps (weekMinute z t + k)"
    using active_lands [where t = t and tz = tz and now = now, OF assms(1-4)] by (auto simp: lands_def weekMinute_def)
  have "landing ?days ?ps (weekMinute z (t + k * minute_ns))"
    using assms(5) k by (simp add: steady_def landing_mod)
  moreover obtain d where "NextStartPoint tz now (Some tw) (t + k * minute_ns) = Inr d"
    "lands ?days ?ps (c_wday (z (t + k * minute_ns))) (minuteOfDay z (t + k * minute_ns)) (Inr d)"
    using active_lands [where t = "t + k * minute_ns" and tz = tz and now = now, OF assms(1-4)] unfolding lands_def by fastforce
  ultimately have "NextStartPoint tz now (Some tw) (t + k * minute_ns) = Inr 0"
    using lands_open by (metis weekMinute_def)
  then show thesis using that k by (simp add: day_ns_def minute_ns_def)
qed

lemma utc_ok: "civil_ok utc"
proof -
  have "0 \<le> n mod 1440 div 60 \<and> n mod 1440 div 60 \<le> (23 :: int)" for n
    using pos_mod_sign [of 1440 n] pos_mod_bound [of 1440 n] by linarith
  moreover have "n mod 60 \<le> (59 :: int)" "n mod 7 \<le> (6 :: int)" for n
    using pos_mod_bound [of 60 n] pos_mod_bound [of 7 n] by linarith+
  ultimately show ?thesis by (simp add: civil_ok_def utc_def Let_def)
qed

lemma utc_weekMinute: "weekMinute utc t = (t div minute_ns + 5760) mod 10080"
proof -
  define n where "n = t div minute_ns"
  have "n mod 1440 div 60 * 60 + n mod 60 = n mod 1440"
    using div_mult_mod_eq [of "n mod 1440" 60] mod_mod_cancel [of 60 1440 n] by simp
  then have "weekMinute utc t = (n div 1440 + 4) mod 7 * 1440 + n mod 1440"
    by (simp add: weekMinute_def minuteOfDay_def utc_def n_def Let_def)
  also have "\<dots> = (n + 5760) mod (1440 * 7)"
    using zmod_zmult2_eq [of 7 "n + 5760" 1440] div_mult_self1 [of 1440 n 4] mod_mult_self1 [of n 4 1440]
    by (simp add: ac_simps)
  finally show ?thesis by (simp add: n_def)
qed

lemma utc_steady: "steady utc t"
proof -
  have "(t + k * minute_ns) div minute_ns = t div minute_ns + k" for k by (simp add: minute_ns_def)
  then show ?thesis by (simp add: steady_def utc_weekMinute mod_add_right_eq ac_simps)
qed

section \<open>The promises of the exported operations\<close>

text \<open>
  C17 An active window whose hour ranges are well formed (they parse and do not end at 12:00AM) is
  open exactly when today is one of its valid days (or it names none) and the current minute,
  in the zone of the window, lies in one of its hour ranges (or it has none).
\<close>

theorem IsInWindow_active:
  assumes "tz (Location tw) = Some z" and "civil_ok z" and "\<not> isBlockType tw"
    and "\<forall>r \<in> set (Hours tw). plainRange r"
  shows "IsInWindow tz now (Some tw) t =
    Inr ((validDays (Daysofweek tw) = {} \<or> c_wday (z t) \<in> validDays (Daysofweek tw))
       \<and> (Hours tw = [] \<or> minuteOfDay z t \<in> minutes (map rangePair (Hours tw))))"
proof -
  let ?days = "validDays (Daysofweek tw)"
  obtain d where d: "NextStartPoint tz now (Some tw) t = Inr d"
    and l: "lands ?days (normal_pairs (map rangePair (Hours tw))) (c_wday (z t)) (minuteOfDay z t) (Inr d)"
    using active_lands [where t = t and now = now and tz = tz, OF assms] unfolding lands_def by fastforce
  have "\<forall>p \<in> set (map rangePair (Hours tw)). pair_ok p" using validate_plain(2) [OF assms(4)] by blast
  with lands_open [OF l] show ?thesis
    using landing_now [OF civil_now_at [OF assms(2), of t], of ?days "map rangePair (Hours tw)"]
      normal_landing [of "map rangePair (Hours tw)" ?days] by (simp add: IsInWindow_def d)
qed

definition tw_ex :: TimeWindow where
  "tw_ex = \<lparr>WindowType = ''active'', Location = ''UTC'', Daysofweek = [''Monday'', ''wednesday''],
     Hours = [\<lparr>Start = ''10:30AM'', End = ''1:00PM''\<rparr>, \<lparr>Start = ''2:00PM'', End = ''12:30PM''\<rparr>]\<rparr>"

definition tz_ex :: tzdb where
  "tz_ex l = (if l = ''UTC'' then Some utc else None)"

theorem IsInWindow_active_witness:
  "IsInWindow tz_ex (clock 7) (Some tw_ex) (4 * day_ns + 660 * minute_ns) = Inr True
   \<and> IsInWindow tz_ex (clock 7) (Some tw_ex) (5 * day_ns + 660 * minute_ns) = Inr False"
proof -
  have h: "tz_ex (Location tw_ex) = Some utc" "\<not> isBlockType tw_ex" "\<forall>r \<in> set (Hours tw_ex). plainRange r"
    by (simp add: tz_ex_def tw_ex_def) code_simp+
  have v: "validDays (Daysofweek tw_ex) = {1, 3}"
    by (simp flip: validate_days_run) code_simp
  have m: "map rangePair (Hours tw_ex) = [(630, 780), (750, 840)]" by code_simp
  have z: "utc (4 * day_ns + 660 * minute_ns) = \<lparr>c_wday = 1, c_hour = 11, c_min = 0\<rparr>"
    "utc (5 * day_ns + 660 * minute_ns) = \<lparr>c_wday = 2, c_hour = 11, c_min = 0\<rparr>" by code_simp+
  show ?thesis
    using IsInWindow_active [where tz = tz_ex and now = "clock 7", OF h(1) utc_ok h(2,3)]
    by (simp add: v m z minuteOfDay_def)
qed



text \<open>
  A blocking window with well-formed hour ranges is closed exactly when today is one of its days
  (or it names none at all) and the current minute is strictly inside one of the merged
  ranges, a range that starts at midnight including midnight itself.
\<close>

theorem IsInWindow_blocked:
  assumes "tz (Location tw) = Some z" and "civil_ok z" and "isBlockType tw"
    and "\<forall>r \<in> set (Hours tw). plainRange r" and "Hours tw \<noteq> []"
  shows "IsInWindow tz now (Some tw) t =
    Inr (\<not> ((Daysofweek tw = [] \<or> c_wday (z t) \<in> validDays (Daysofweek tw))
       \<and> inside (normal_pairs (map rangePair (Hours tw))) 0 (minuteOfDay z t)))"
  using blocked_at [where tz = tz and now = now and t = t, OF assms] by (auto simp: IsInWindow_def)

theorem IsInWindow_blocked_witness:
  "IsInWindow tz_ex (clock 7) (Some (tw_ex\<lparr>WindowType := ''blocked''\<rparr>)) (4 * day_ns + 780 * minute_ns) = Inr False"
proof -
  let ?tw = "tw_ex\<lparr>WindowType := ''blocked''\<rparr>"
  have h: "tz_ex (Location ?tw) = Some utc" "isBlockType ?tw" "\<forall>r \<in> set (Hours ?tw). plainRange r" "Hours ?tw \<noteq> []"
    by (simp add: tz_ex_def tw_ex_def) code_simp+
  have v: "1 \<in> validDays (Daysofweek ?tw)"
    by (simp flip: validate_days_run) code_simp
  have m: "normal_pairs (map rangePair (Hours tw_ex)) = [(630, 840)]" by code_simp
  have z: "utc (4 * day_ns + 780 * minute_ns) = \<lparr>c_wday = 1, c_hour = 13, c_min = 0\<rparr>" by code_simp
  show ?thesis
    using IsInWindow_blocked [where tz = tz_ex and now = "clock 7" and t = "4 * day_ns + 780 * minute_ns", OF h(1) utc_ok h(2-4)] v
    by (simp add: m z minuteOfDay_def inside_def)
qed



section \<open>Where the code departs from its own description\<close>

text \<open>
  A window whose location is not in the time zone database makes every exported operation
  panic on the nil location, although \<open>getLoc\<close> logs that UTC is used instead.
\<close>

theorem unknown_location_panics:
  assumes "tz (Location tw) = None"
  shows "IsInWindow tz now (Some tw) t = Inl NilLocation \<and> NextStartPoint tz now (Some tw) t = Inl NilLocation
    \<and> NextStatusReconcile tz now (Some tw) t = Inl NilLocation"
  using assms by (simp add: IsInWindow_def NextStartPoint_def NextStatusReconcile_def UnifyTimeZone_def getLoc_def)

theorem unknown_location_panics_witness:
  "IsInWindow tz_ex (clock 0) (Some (tw_ex\<lparr>Location := ''Mars/Phobos''\<rparr>)) 0 = Inl NilLocation"
proof -
  have "tz_ex (Location (tw_ex\<lparr>Location := ''Mars/Phobos''\<rparr>)) = None" by (simp add: tz_ex_def)
  from unknown_location_panics [where tz = tz_ex, OF this] show ?thesis by blast
qed

text \<open>
  A window that blocks all seven days of the week and has no hour ranges never blocks:
  the reversed day list is empty, and an empty day list with no slots means open.
\<close>

theorem block_whole_week_open:
  assumes "tz (Location tw) = Some z" and "isBlockType tw" and "Hours tw = []" and "validDays (Daysofweek tw) = {0..6}"
  shows "IsInWindow tz now (Some tw) t = Inr True"
proof -
  have "Daysofweek tw \<noteq> []" using assms(4) by (auto simp: validDays_def)
  then have "snd (validateDaysofweekSlice (Daysofweek tw)) = []"
    using validate_days_reverse [of "Daysofweek tw"] assms(4) by simp
  then show ?thesis
    using assms(1-3)
    by (simp add: IsInWindow_def NextStartPoint_def UnifyTimeZone_def getLoc_def case_prod_unfold
        validateHourRange_def mergeHourRanges_def reverseRange_def generateNextPoint_def)
qed

definition week_ex :: TimeWindow where
  "week_ex = \<lparr>WindowType = ''blocked'', Location = ''UTC'',
     Daysofweek = [''Sunday'', ''Monday'', ''Tuesday'', ''Wednesday'', ''Thursday'', ''Friday'', ''Saturday''], Hours = []\<rparr>"

theorem block_whole_week_open_witness: "IsInWindow tz_ex (clock 0) (Some week_ex) 0 = Inr True"
proof -
  have tz: "tz_ex (Location week_ex) = Some utc" by (simp add: tz_ex_def week_ex_def)
  have blk: "isBlockType week_ex" by code_simp
  have "fst (validateDaysofweekSlice (Daysofweek week_ex)) = [0, 1, 2, 3, 4, 5, 6]" by code_simp
  then have "validDays (Daysofweek week_ex) = set [0, 1, 2, 3, 4, 5, 6]" by (metis validate_days_run)
  also have "\<dots> = {0..6}" by auto
  finally have days: "validDays (Daysofweek week_ex) = {0..6}" .
  have "Hours week_ex = []" by (simp add: week_ex_def)
  from block_whole_week_open [where tz = tz_ex, OF tz blk this days] show ?thesis .
qed

text \<open>
  An active window with no days and a single range that ends at 12:00AM is closed at every
  minute after the start of the range, although the code means 12:00AM to be the end of the
  day: the wait is until the start of the range on the following day.
\<close>

theorem midnight_end_closed:
  assumes "tz (Location tw) = Some z" and "civil_ok z" and "\<not> isBlockType tw" and "validDays (Daysofweek tw) = {}"
    and "Hours tw = [r]" and "parseKitchen (Start r) = Some a" and "End r = MIDNIGHT" and "a < minuteOfDay z t"
  shows "NextStartPoint tz now (Some tw) t = Inr ((1440 - minuteOfDay z t + a) * minute_ns)"
proof -
  have m: "0 \<le> minuteOfDay z t" "minuteOfDay z t < 1440" using minuteOfDay_range [OF assms(2)] by auto
  have a: "0 \<le> a" using parseKitchen_range [OF assms(6)] by simp
  have slots: "validateHourRange now [r] = [\<lparr>h_start = clock a, h_end = clock 0\<rparr>]"
    using assms(6,7) by (simp add: validateHourRange_def mergeHourRanges_def toSlot_def Let_def
        parseTimeWithKitchenFormat_def parse_midnight isMidnight_def)
  have days: "fst (validateDaysofweekSlice (Daysofweek tw)) = []"
    using validate_days_run [of "Daysofweek tw"] assms(4) by simp
  have gt: "gt_of \<lparr>lt_inst = t, lt_zone = z\<rparr> = clock (minuteOfDay z t)"
    using civil_now_at [OF assms(2), of t] by (simp add: now_at_def)
  have "NextStartPoint tz now (Some tw) t
      = tillNextSlot now [\<lparr>h_start = clock a, h_end = clock 0\<rparr>] (clock (minuteOfDay z t))"
    using assms(1,3) by (simp add: NextStartPoint_def UnifyTimeZone_def getLoc_def case_prod_unfold assms(5)
        slots days generateNextPoint_def gt)
  also have "\<dots> = Inr (dur_add ((1440 - minuteOfDay z t) * minute_ns) (a * minute_ns))"
    using m a assms(8) parseKitchen_range [OF assms(6)] time_sub_clock [of a 0]
    by (simp add: tillNextSlot_def time_before_def timeLeft_eq time_sub_def)
  also have "\<dots> = Inr ((1440 - minuteOfDay z t + a) * minute_ns)"
    using m a assms(8) dur_add_minutes [of "1440 - minuteOfDay z t" a] by simp
  finally show ?thesis .
qed

definition evening_ex :: TimeWindow where
  "evening_ex = \<lparr>WindowType = '''', Location = ''UTC'', Daysofweek = [],
     Hours = [\<lparr>Start = ''6:00PM'', End = MIDNIGHT\<rparr>]\<rparr>"

theorem midnight_end_closed_witness:
  "NextStartPoint tz_ex (clock 0) (Some evening_ex) (1200 * minute_ns) = Inr (1320 * minute_ns)"
proof -
  have h: "tz_ex (Location evening_ex) = Some utc" "\<not> isBlockType evening_ex"
    "Hours evening_ex = [\<lparr>Start = ''6:00PM'', End = MIDNIGHT\<rparr>]" "validDays (Daysofweek evening_ex) = {}"
    "minuteOfDay utc (1200 * minute_ns) = 1200"
    by (simp_all add: tz_ex_def evening_ex_def isBlockType_def validDays_def) code_simp
  have "parseKitchen ''6:00PM'' = Some 1080" by code_simp
  with midnight_end_closed [where tz = tz_ex and now = "clock 0" and a = 1080 and t = "1200 * minute_ns", OF h(1) utc_ok h(2,4,3)] h(5) show ?thesis by simp
qed

text \<open>
  With run days Monday and Wednesday, an active window that is past its hours on a Wednesday
  waits for the following Wednesday and skips the Monday in between.
\<close>

definition skip_ex :: TimeWindow where
  "skip_ex = \<lparr>WindowType = ''active'', Location = ''UTC'', Daysofweek = [''Monday'', ''Wednesday''],
     Hours = [\<lparr>Start = ''9:00AM'', End = ''10:00AM''\<rparr>]\<rparr>"

theorem next_point_skips_monday:
  "NextStartPoint tz_ex (clock 0) (Some skip_ex) (6 * day_ns + 660 * minute_ns) = Inr ((7 * 1440 - 120) * minute_ns)
   \<and> IsInWindow tz_ex (clock 0) (Some skip_ex) (11 * day_ns + 570 * minute_ns) = Inr True"
  by (intro conjI) code_simp+

end
