(* ===== verification/PlacementRule.thy ===== *)
theory PlacementRule
  imports Prelude
begin

text \<open>
  The placement rule controller (\<open>pkg/placementrule\<close>): from the managed clusters of the hub and
  a placement rule it computes the clusters the rule decides for.

  The Kubernetes client is a record of functions, an argument of the operations: reading is a
  function, and a write returns the new world together with its error. The order in which the
  runtime ranges over a map is the argument \<open>rng\<close>; base64 decoding (\<open>dec\<close>) and the label
  selector of the API machinery (inside \<open>list_clusters\<close>) are arguments too.
\<close>

section \<open>Data\<close>

record ClusterConditionFilter =
  ccf_type :: string
  ccf_status :: string

datatype SelectionOrder = SelectionOrderNone | SelectionOrderDesc | SelectionOrderAsce

datatype ResourceType = ResourceTypeNone | ResourceTypeCPU | ResourceTypeMemory | ResourceTypeOther string

record ResourceHint =
  rh_type :: ResourceType
  rh_order :: SelectionOrder

record LabelSelectorRequirement =
  lsr_key :: string
  lsr_operator :: string
  lsr_values :: "string list"

record LabelSelector =
  MatchLabels :: strmap
  MatchExpressions :: "LabelSelectorRequirement list"

record GenericPlacementFields =
  gp_clusters :: "string list"
  gp_selector :: "LabelSelector option"

record PlacementDecision =
  ClusterName :: string
  ClusterNamespace :: string

record PlacementRule =
  pr_name :: string
  pr_namespace :: string
  pr_annotations :: "strmap option"
  pr_scheduler :: string
  pr_replicas :: "int option"
  pr_generic :: GenericPlacementFields
  pr_conditions :: "ClusterConditionFilter list option"
  pr_hint :: "ResourceHint option"
  pr_policies :: "string list option"
  pr_decisions :: "PlacementDecision list"

text \<open>Quantities are integers in the smallest unit; \<open>Cmp\<close> compares their values.\<close>

record ManagedCluster =
  mc_name :: string
  mc_deleted :: "int option"
  mc_labels :: "strmap option"
  mc_conditions :: "(string \<times> string) list"
  mc_allocatable :: "(string, int) gmap option"

type_synonym clmap = "(string, ManagedCluster) gmap"

record Subject =
  sb_kind :: string
  sb_name :: string
  sb_namespace :: string

record ClusterRoleBinding =
  crb_subjects :: "Subject list"
  crb_ref_group :: string
  crb_ref_kind :: string
  crb_ref_name :: string

record PolicyRule =
  APIGroups :: "string list"
  Resources :: "string list"
  Verbs :: "string list"
  ResourceNames :: "string list"

record hub_client =
  list_clusters :: "LabelSelector option \<Rightarrow> kerr + ManagedCluster list"
  list_bindings :: "kerr + ClusterRoleBinding list"
  get_cluster_role :: "string \<Rightarrow> kerr + PolicyRule list"

section \<open>Users and groups\<close>

definition UserIdentityAnnotation :: string where
  "UserIdentityAnnotation = ''open-cluster-management.io/user-identity''"

definition UserGroupAnnotation :: string where
  "UserGroupAnnotation = ''open-cluster-management.io/user-group''"

definition AdminUsers :: "string list" where
  "AdminUsers = [''admin'', ''multicluster-observability-operator'', ''openshift-gitops-argocd-application-controller'']"

definition AdminGroups :: "string list" where
  "AdminGroups = [''masters'', ''cluster-admins'']"

definition ExtractUserAndGroup :: "(string \<Rightarrow> string option) \<Rightarrow> strmap \<Rightarrow> string \<times> string list" where
  "ExtractUserAndGroup dec annotations =
     ((case map_of annotations UserIdentityAnnotation of
         Some e \<Rightarrow> (case dec e of Some u \<Rightarrow> u | None \<Rightarrow> '''')
       | None \<Rightarrow> ''''),
      (case map_of annotations UserGroupAnnotation of
         Some e \<Rightarrow> (case dec e of Some g \<Rightarrow> go_split (CHR '','') g | None \<Rightarrow> [])
       | None \<Rightarrow> []))"

definition IfClusterAdmin :: "string \<Rightarrow> string list \<Rightarrow> bool" where
  "IfClusterAdmin user groups \<longleftrightarrow>
     last (go_split (CHR '':'') user) \<in> set AdminUsers
     \<or> (\<exists>g \<in> set groups. last (go_split (CHR '':'') g) \<in> set AdminGroups)"

section \<open>Listing the candidate clusters\<close>

definition nameRequirement :: "string list \<Rightarrow> LabelSelectorRequirement" where
  "nameRequirement cls = \<lparr>lsr_key = ''name'', lsr_operator = ''In'', lsr_values = cls\<rparr>"

definition placementSelector :: "GenericPlacementFields \<Rightarrow> LabelSelector option" where
  "placementSelector p =
     (if gp_clusters p \<noteq> []
      then Some \<lparr>MatchLabels = [], MatchExpressions = [nameRequirement (gp_clusters p)]\<rparr>
      else gp_selector p)"

text \<open>A terminating cluster is left out; a later cluster of the same name replaces an earlier one.\<close>

definition terminating :: "ManagedCluster \<Rightarrow> bool" where
  "terminating cl \<longleftrightarrow> (case mc_deleted cl of None \<Rightarrow> False | Some t \<Rightarrow> t \<noteq> 0)"

definition clusters_to_map :: "ManagedCluster list \<Rightarrow> clmap" where
  "clusters_to_map cls = fold (\<lambda>cl. gm_put (mc_name cl) cl) (filter (\<lambda>cl. \<not> terminating cl) cls) []"

definition PlaceByGenericPlacmentFields :: "hub_client \<Rightarrow> GenericPlacementFields \<Rightarrow> kerr + clmap" where
  "PlaceByGenericPlacmentFields c p =
     (case list_clusters c (placementSelector p) of
        Inl e \<Rightarrow> (if IsNotFound e then Inr [] else Inl e)
      | Inr cls \<Rightarrow> Inr (clusters_to_map cls))"

section \<open>Filters\<close>

definition condMap :: "ClusterConditionFilter list \<Rightarrow> strmap" where
  "condMap conds = fold (\<lambda>c. gm_put (ccf_type c) (ccf_status c)) conds []"

definition condMatched :: "strmap \<Rightarrow> ManagedCluster \<Rightarrow> bool" where
  "condMatched cm cl \<longleftrightarrow>
     (\<forall>(ty, st) \<in> set (mc_conditions cl). case map_of cm ty of Some want \<Rightarrow> want = st | None \<Rightarrow> True)"

definition filteClustersByStatus :: "PlacementRule \<Rightarrow> clmap \<Rightarrow> clmap" where
  "filteClustersByStatus inst clmap =
     (case pr_conditions inst of
        None \<Rightarrow> clmap
      | Some conds \<Rightarrow> filter (\<lambda>(k, cl). condMatched (condMap conds) cl) clmap)"

definition filteClustersByPolicies :: "PlacementRule \<Rightarrow> clmap \<Rightarrow> clmap" where
  "filteClustersByPolicies inst clmap = clmap"

definition grantsGet :: "PolicyRule \<Rightarrow> bool" where
  "grantsGet rule \<longleftrightarrow>
     (\<exists>g \<in> set (APIGroups rule). g = ''cluster.open-cluster-management.io'' \<or> g = ''*'')
     \<and> (\<exists>r \<in> set (Resources rule). r = ''managedclusters'' \<or> r = ''*'')
     \<and> (\<exists>v \<in> set (Verbs rule). v = ''get'' \<or> v = ''*'')"

definition ALL_CLUSTERS :: string where
  "ALL_CLUSTERS = ''ALL_CLUSTERS''"

definition GetManagedClusters :: "hub_client \<Rightarrow> string \<Rightarrow> string list" where
  "GetManagedClusters c roleName =
     (case get_cluster_role c roleName of
        Inl e \<Rightarrow> []
      | Inr rules \<Rightarrow>
          concat (map (\<lambda>rule. if ResourceNames rule = [] then [ALL_CLUSTERS] else ResourceNames rule)
                    (filter grantsGet rules)))"

definition subjectMatches :: "string \<Rightarrow> string list \<Rightarrow> Subject \<Rightarrow> bool" where
  "subjectMatches user groups s =
     (if sb_name s = user \<and> sb_kind s = ''User'' then True
      else if sb_kind s = ''ServiceAccount'' \<and> sb_namespace s \<noteq> '''' \<and> sb_name s \<noteq> ''''
      then user = ''system:serviceaccount:'' @ sb_namespace s @ '':'' @ sb_name s
      else if sb_kind s = ''Group'' then (\<exists>g \<in> set groups. sb_name s = g)
      else False)"

definition boundClusters :: "hub_client \<Rightarrow> string \<Rightarrow> string list \<Rightarrow> ClusterRoleBinding list \<Rightarrow> string list" where
  "boundClusters c user groups bindings =
     concat (map (\<lambda>b. if (\<exists>s \<in> set (crb_subjects b). subjectMatches user groups s)
                         \<and> crb_ref_group b = ''rbac.authorization.k8s.io'' \<and> crb_ref_kind b = ''ClusterRole''
                      then GetManagedClusters c (crb_ref_name b) else []) bindings)"

definition ValidateClustersByClusterRole :: "hub_client \<Rightarrow> string \<Rightarrow> string list \<Rightarrow> clmap \<Rightarrow> clmap" where
  "ValidateClustersByClusterRole c user groups clmap =
     (case list_bindings c of
        Inl e \<Rightarrow> clmap
      | Inr bindings \<Rightarrow>
          (let cls = boundClusters c user groups bindings
           in if ALL_CLUSTERS \<in> set cls then clmap
              else filter (\<lambda>(k, cl). k \<in> set cls) clmap))"

definition filteClustersByUser ::
  "hub_client \<Rightarrow> (string \<Rightarrow> string option) \<Rightarrow> PlacementRule \<Rightarrow> clmap \<Rightarrow> clmap" where
  "filteClustersByUser c dec inst clmap =
     (case pr_annotations inst of
        None \<Rightarrow> clmap
      | Some annotations \<Rightarrow>
          (if map_of annotations UserIdentityAnnotation = None then clmap
           else let (user, groups) = ExtractUserAndGroup dec annotations
                in if IfClusterAdmin user groups then clmap
                   else ValidateClustersByClusterRole c user groups clmap))"

text \<open>
  The filter by access reviews (\<open>utils/auth.go\<close>): \<open>sar\<close> is the authorization API, asked for
  \<open>get\<close> on a managed cluster, or \<open>None\<close> without a client. A cluster whose review fails or is
  refused is dropped.
\<close>

definition filterClusterByUserIdentity ::
  "(string \<Rightarrow> string list \<Rightarrow> string \<Rightarrow> kerr + bool) option \<Rightarrow> (string \<Rightarrow> string option) \<Rightarrow> strmap option
     \<Rightarrow> ManagedCluster list \<Rightarrow> ManagedCluster list" where
  "filterClusterByUserIdentity sar dec annotations clusters =
     (case (sar, annotations) of
        (Some review, Some ann) \<Rightarrow>
          (let (user, groups) = ExtractUserAndGroup dec ann
           in filter (\<lambda>cl. case review user groups (mc_name cl) of Inl e \<Rightarrow> False | Inr allowed \<Rightarrow> allowed) clusters)
      | _ \<Rightarrow> clusters)"

definition FilteClustersByIdentity ::
  "(string \<Rightarrow> string list \<Rightarrow> string \<Rightarrow> kerr + bool) option \<Rightarrow> (string \<Rightarrow> string option) \<Rightarrow> strmap option \<Rightarrow> clmap \<Rightarrow> clmap" where
  "FilteClustersByIdentity sar dec annotations clmap =
     (case annotations of
        None \<Rightarrow> clmap
      | Some ann \<Rightarrow>
          (if map_of ann UserIdentityAnnotation = None then clmap
           else let valid = map mc_name (filterClusterByUserIdentity sar dec annotations (map snd clmap))
                in filter (\<lambda>(k, cl). k \<in> set valid) clmap))"

section \<open>Ordering and picking\<close>

record clusterInfo =
  ci_name :: string
  ci_namespace :: string
  ci_metrics :: int

record clusterIndex =
  Ascedent :: bool
  Clusters :: "clusterInfo list"

definition ci_less :: "bool \<Rightarrow> clusterInfo \<Rightarrow> clusterInfo \<Rightarrow> bool" where
  "ci_less asc x y = (let lt = ci_metrics x < ci_metrics y in if \<not> asc then \<not> lt else lt)"

definition quantity :: "(string, int) gmap \<Rightarrow> string \<Rightarrow> int" where
  "quantity m k = (case map_of m k of None \<Rightarrow> 0 | Some q \<Rightarrow> q)"

definition clusterMetrics :: "ResourceHint \<Rightarrow> ManagedCluster \<Rightarrow> int" where
  "clusterMetrics h cl =
     (case mc_allocatable cl of
        None \<Rightarrow> 0
      | Some al \<Rightarrow> (case rh_type h of
            ResourceTypeCPU \<Rightarrow> quantity al ''cpu''
          | ResourceTypeMemory \<Rightarrow> quantity al ''memory''
          | _ \<Rightarrow> 0))"

definition sortClustersByResourceHint :: "(clmap \<Rightarrow> clmap) \<Rightarrow> PlacementRule \<Rightarrow> clmap \<Rightarrow> clusterIndex option" where
  "sortClustersByResourceHint rng inst clmap =
     (case pr_hint inst of
        None \<Rightarrow> None
      | Some h \<Rightarrow>
          (let asc = (rh_order h = SelectionOrderAsce);
               cls = map (\<lambda>(k, cl). \<lparr>ci_name = mc_name cl, ci_namespace = mc_name cl,
                                       ci_metrics = clusterMetrics h cl\<rparr>) (rng clmap)
           in Some \<lparr>Ascedent = asc, Clusters = go_sort (ci_less asc) cls\<rparr>))"

definition mkDecision :: "string \<Rightarrow> PlacementDecision" where
  "mkDecision n = \<lparr>ClusterName = n, ClusterNamespace = n\<rparr>"

text \<open>
  The loop over the existing decisions: those still eligible are picked (and removed from the
  map) until the tot is reached.
\<close>

fun pick_existing :: "int \<Rightarrow> int \<Rightarrow> PlacementDecision list \<Rightarrow> clmap \<Rightarrow> PlacementDecision list \<times> clmap \<times> int" where
  "pick_existing tot picked [] clmap = ([], clmap, picked)"
| "pick_existing tot picked (d # ds) clmap =
     (if map_of clmap (ClusterName d) = None then pick_existing tot picked ds clmap
      else if picked < tot then
        (let (out, m, p) = pick_existing tot (picked + 1) ds (gm_del (ClusterName d) clmap)
         in (mkDecision (ClusterName d) # out, m, p))
      else ([], clmap, picked))"

fun pick_rest :: "int \<Rightarrow> int \<Rightarrow> string list \<Rightarrow> PlacementDecision list" where
  "pick_rest tot picked [] = []"
| "pick_rest tot picked (n # ns) =
     (if picked < tot then mkDecision n # pick_rest tot (picked + 1) ns else [])"

definition pickClustersByReplicas ::
  "(clmap \<Rightarrow> clmap) \<Rightarrow> PlacementRule \<Rightarrow> clmap \<Rightarrow> clusterIndex option \<Rightarrow> PlacementDecision list" where
  "pickClustersByReplicas rng inst clmap clidx =
     (let n = int (length clmap);
          tot = (case pr_replicas inst of Some r \<Rightarrow> if n > r then r else n | None \<Rightarrow> n)
      in case clidx of
           None \<Rightarrow>
             (let (out, m, picked) = pick_existing tot 0 (pr_decisions inst) clmap
              in sort_key ClusterName (out @ pick_rest tot picked (map (\<lambda>(k, cl). mc_name cl) (rng m))))
         | Some ci \<Rightarrow> pick_rest tot 0 (filter (\<lambda>n. map_of clmap n \<noteq> None) (map ci_name (Clusters ci))))"

section \<open>The reconcile loop\<close>

definition eligible :: "hub_client \<Rightarrow> (string \<Rightarrow> string option) \<Rightarrow> PlacementRule \<Rightarrow> clmap \<Rightarrow> clmap" where
  "eligible c dec inst clmap =
     filteClustersByPolicies inst (filteClustersByUser c dec inst (filteClustersByStatus inst clmap))"

definition hubReconcile ::
  "hub_client \<Rightarrow> (string \<Rightarrow> string option) \<Rightarrow> (clmap \<Rightarrow> clmap) \<Rightarrow> PlacementRule \<Rightarrow> kerr + PlacementRule" where
  "hubReconcile c dec rng inst =
     (if pr_replicas inst = Some 0 then Inr (inst\<lparr>pr_decisions := []\<rparr>)
      else rbind (PlaceByGenericPlacmentFields c (pr_generic inst)) (\<lambda>clmap.
        let m = eligible c dec inst clmap;
            clidx = sortClustersByResourceHint rng inst m
        in Inr (inst\<lparr>pr_decisions := pickClustersByReplicas rng inst m clidx\<rparr>)))"

text \<open>The comparison of the old and the new decisions by name, entry by entry.\<close>

fun decisions_loop :: "strmap \<Rightarrow> PlacementDecision list \<Rightarrow> bool \<times> strmap" where
  "decisions_loop org [] = (False, org)"
| "decisions_loop org (d # ds) =
     (case map_of org (ClusterName d) of
        None \<Rightarrow> (True, org)
      | Some ns \<Rightarrow> (if ns \<noteq> ClusterNamespace d then (True, org)
                    else decisions_loop (gm_del (ClusterName d) org) ds))"

definition decisionsUpdated :: "PlacementDecision list \<Rightarrow> PlacementDecision list \<Rightarrow> bool" where
  "decisionsUpdated old new =
     (let org = fold (\<lambda>d. gm_put (ClusterName d) (ClusterNamespace d)) old [];
          (diff, rest) = decisions_loop org new
      in old \<noteq> new \<or> diff \<or> rest \<noteq> [])"

definition SchedulerNameDefault :: string where "SchedulerNameDefault = ''default''"

definition SchedulerNameMCM :: string where "SchedulerNameMCM = ''mcm''"

record 'w rule_store =
  get_rule :: "'w \<Rightarrow> string \<times> string \<Rightarrow> kerr + PlacementRule"
  update_rule_status :: "'w \<Rightarrow> PlacementRule \<Rightarrow> 'w \<times> kerr option"

definition Reconcile ::
  "hub_client \<Rightarrow> (string \<Rightarrow> string option) \<Rightarrow> (clmap \<Rightarrow> clmap) \<Rightarrow> 'w rule_store \<Rightarrow> string \<times> string \<Rightarrow> 'w \<Rightarrow> 'w \<times> kerr option" where
  "Reconcile c dec rng st key w =
     (case get_rule st w key of
        Inl e \<Rightarrow> (w, if IsNotFound e then None else Some e)
      | Inr inst \<Rightarrow>
          (if pr_scheduler inst \<noteq> '''' \<and> pr_scheduler inst \<noteq> SchedulerNameDefault
              \<and> pr_scheduler inst \<noteq> SchedulerNameMCM then (w, None)
           else case hubReconcile c dec rng inst of
                  Inl e \<Rightarrow> (w, Some e)
                | Inr inst' \<Rightarrow>
                    (if decisionsUpdated (pr_decisions inst) (pr_decisions inst')
                     then update_rule_status st w inst' else (w, None))))"

definition MapClusterToRules :: "kerr + PlacementRule list \<Rightarrow> (string \<times> string) list" where
  "MapClusterToRules rules =
     map (\<lambda>pl. (pr_namespace pl, pr_name pl)) (case rules of Inl e \<Rightarrow> [] | Inr rs \<Rightarrow> rs)"

end
