(* ===== verification/PlacementRuleFacts.thy ===== *)
theory PlacementRuleFacts
  imports PlacementRule
begin

text \<open>
  What the placement rule controller promises. Every filter of the reconcile loop only removes
  clusters (locale \<open>cluster_filter\<close>, interpreted on the filters and on their composition), the
  picker takes as many of the remaining clusters as the rule asks for, and the status is
  written exactly when the decisions change.
\<close>

section \<open>Filters only remove clusters\<close>

lemma subseq_set: "subseq xs ys \<Longrightarrow> set xs \<subseteq> set ys"
  by (auto simp: subseq_conv_nths dest: in_set_nthsD)

lemma subseq_distinct_map: "subseq xs ys \<Longrightarrow> distinct (map f ys) \<Longrightarrow> distinct (map f xs)"
  by (auto simp: subseq_conv_nths nths_map intro: distinct_nthsI simp flip: nths_map)

locale cluster_filter =
  fixes f :: "clmap \<Rightarrow> clmap"
  assumes removes: "subseq (f m) m"
begin

lemma filtered_subset: "set (f m) \<subseteq> set m"
  by (rule subseq_set [OF removes])

lemma filtered_length: "length (f m) \<le> length m"
  using removes by (rule list_emb_length)

lemma filtered_wf: "wf_gm m \<Longrightarrow> wf_gm (f m)"
  unfolding wf_gm_def by (rule subseq_distinct_map [OF removes])

lemma filtered_lookup: "wf_gm m \<Longrightarrow> map_of (f m) k = Some cl \<Longrightarrow> map_of m k = Some cl"
  using filtered_subset [of m] filtered_wf [of m] by (auto simp: wf_gm_def)

end

lemma subseq_filter_id: "subseq (filter P xs) xs"
  by (induction xs) auto

lemma role_removes: "subseq (ValidateClustersByClusterRole c user groups m) m"
  by (simp add: ValidateClustersByClusterRole_def Let_def subseq_filter_id split: sum.splits)

interpretation by_status: cluster_filter "filteClustersByStatus inst" for inst
  by unfold_locales (simp add: filteClustersByStatus_def subseq_filter_id split: option.splits)

interpretation by_user: cluster_filter "filteClustersByUser c dec inst" for c dec inst
  by unfold_locales (simp add: filteClustersByUser_def role_removes split: option.splits prod.splits)

interpretation by_identity: cluster_filter "FilteClustersByIdentity sar dec ann" for sar dec ann
  by unfold_locales (simp add: FilteClustersByIdentity_def Let_def subseq_filter_id split: option.splits)

interpretation by_policies: cluster_filter "filteClustersByPolicies inst" for inst
  by unfold_locales (simp add: filteClustersByPolicies_def)

interpretation elig: cluster_filter "eligible c dec inst" for c dec inst
  by unfold_locales
    (metis eligible_def by_status.removes by_user.removes by_policies.removes subseq_order.trans)

section \<open>The candidate map\<close>

definition wf_clmap :: "clmap \<Rightarrow> bool" where
  "wf_clmap m \<longleftrightarrow> wf_gm m \<and> (\<forall>(k, cl) \<in> set m. mc_name cl = k \<and> \<not> terminating cl)"

lemma wf_clmap_nil: "wf_clmap []"
  by (simp add: wf_clmap_def wf_gm_def)

lemma gm_put_set: "set (gm_put k v m) \<subseteq> insert (k, v) (set m)"
  by (induction m) (auto simp: gm_put_def)

lemma put_wf_clmap: "wf_clmap m \<Longrightarrow> \<not> terminating cl \<Longrightarrow> wf_clmap (gm_put (mc_name cl) cl m)"
  unfolding wf_clmap_def using gm_put_set [of "mc_name cl" cl m] by (fastforce simp: gmap_simps)

lemma clusters_to_map_wf: "wf_clmap (clusters_to_map cls)"
proof -
  have "wf_clmap (fold (\<lambda>cl. gm_put (mc_name cl) cl) (filter (\<lambda>cl. \<not> terminating cl) cls) m)" if "wf_clmap m" for m
    using that by (induction cls arbitrary: m) (auto intro: put_wf_clmap)
  then show ?thesis by (simp add: clusters_to_map_def wf_clmap_nil)
qed

lemma clusters_to_map_dom:
  "fst ` set (clusters_to_map cls) = mc_name ` {cl \<in> set cls. \<not> terminating cl}"
  using gm.dom_fold_put [of mc_name "\<lambda>cl. cl" "filter (\<lambda>cl. \<not> terminating cl) cls" "[] :: clmap"]
  by (simp add: clusters_to_map_def dom_map_of_conv_image_fst)

lemma subseq_wf_clmap: "subseq m' m \<Longrightarrow> wf_clmap m \<Longrightarrow> wf_clmap m'"
  unfolding wf_clmap_def wf_gm_def
  using subseq_set subseq_distinct_map by blast

lemma place_wf: "PlaceByGenericPlacmentFields c p = Inr m \<Longrightarrow> wf_clmap m"
  by (auto simp: PlaceByGenericPlacmentFields_def clusters_to_map_wf wf_clmap_nil split: sum.splits if_splits)

section \<open>Picking\<close>

lemma pick_rest_take: "pick_rest tot p ns = map mkDecision (take (nat (tot - p)) ns)"
proof (induction ns arbitrary: p)
  case Nil
  then show ?case by simp
next
  case (Cons n ns)
  show ?case
  proof (cases "p < tot")
    case True
    then have "nat (tot - p) = Suc (nat (tot - (p + 1)))" by simp
    with Cons True show ?thesis by simp
  qed simp
qed

lemma map_of_fst: "map_of m k = None \<longleftrightarrow> k \<notin> fst ` set m"
  by (rule map_of_eq_None_iff)

lemma pick_existing_spec:
  "pick_existing tot p ds m = (out, m', p') \<Longrightarrow> wf_gm m \<Longrightarrow>
     m' = filter (\<lambda>e. fst e \<notin> ClusterName ` set out) m \<and> distinct (map ClusterName out)
     \<and> ClusterName ` set out \<subseteq> ClusterName ` set ds \<inter> fst ` set m
     \<and> (\<forall>d \<in> set out. ClusterNamespace d = ClusterName d) \<and> p' = p + int (length out)
     \<and> (out \<noteq> [] \<longrightarrow> p' \<le> tot) \<and> (p' < tot \<longrightarrow> ClusterName ` set ds \<inter> fst ` set m \<subseteq> ClusterName ` set out)"
proof (induction tot p ds m arbitrary: out m' p' rule: pick_existing.induct)
  case (1 tot p m)
  then show ?case by auto
next
  case (2 tot p d ds m)
  consider "map_of m (ClusterName d) = None" | "map_of m (ClusterName d) \<noteq> None" "p < tot"
    | "map_of m (ClusterName d) \<noteq> None" "\<not> p < tot" by blast
  then show ?case
  proof cases
    case 1
    with "2.prems" have "pick_existing tot p ds m = (out, m', p')" by simp
    from "2.IH"(1) [OF 1 this "2.prems"(2)] 1 show ?thesis by (auto simp: map_of_fst)
  next
    case 2
    let ?n = "ClusterName d" and ?m = "gm_del (ClusterName d) m"
    obtain out1 where o: "pick_existing tot (p + 1) ds ?m = (out1, m', p')" "out = mkDecision ?n # out1"
      using "2.prems" 2 by (auto split: prod.splits)
    have IH: "m' = filter (\<lambda>e. fst e \<notin> ClusterName ` set out1) ?m" "distinct (map ClusterName out1)"
      "ClusterName ` set out1 \<subseteq> ClusterName ` set ds \<inter> fst ` set ?m"
      "\<forall>d \<in> set out1. ClusterNamespace d = ClusterName d" "p' = p + 1 + int (length out1)"
      "out1 \<noteq> [] \<longrightarrow> p' \<le> tot" "p' < tot \<longrightarrow> ClusterName ` set ds \<inter> fst ` set ?m \<subseteq> ClusterName ` set out1"
      using "2.IH"(2) [OF 2 o(1)] "2.prems"(2) by (auto simp: gmap_simps)
    have del: "fst ` set ?m = fst ` set m - {?n}" by (auto simp: gm_del_def)
    have n: "ClusterName (mkDecision ?n) = ?n" "ClusterNamespace (mkDecision ?n) = ?n" by (simp_all add: mkDecision_def)
    have "m' = filter (\<lambda>e. fst e \<notin> ClusterName ` set out) m"
      using IH(1) o(2) n by (auto simp: gm_del_def intro: filter_cong)
    moreover have "?n \<in> fst ` set m" using 2(1) by (simp add: map_of_fst)
    ultimately show ?thesis using IH del o(2) n 2(2) by (cases "out1 = []") auto
  next
    case 3
    with "2.prems" show ?thesis by auto
  qed
qed

definition replicasTotal :: "int option \<Rightarrow> nat \<Rightarrow> nat" where
  "replicasTotal r n = (case r of None \<Rightarrow> n | Some k \<Rightarrow> min (nat k) n)"

lemma names_mkDecision [simp]: "map ClusterName (map mkDecision ns) = ns"
  by (induction ns) (auto simp: mkDecision_def)

lemma set_mkDecision [simp]: "ClusterName ` mkDecision ` A = A"
  by (force simp: mkDecision_def)

lemma wf_clmap_names: "wf_clmap m \<Longrightarrow> map (\<lambda>(k, cl). mc_name cl) m = map fst m"
  by (auto simp: wf_clmap_def)

lemma perm_names:
  assumes "wf_clmap m" and "mset l = mset m"
  shows "distinct (map (\<lambda>(k, cl). mc_name cl) l)" "set (map (\<lambda>(k, cl). mc_name cl) l) = fst ` set m"
    "length l = length m"
proof -
  have "mset (map (\<lambda>(k, cl). mc_name cl) l) = mset (map fst m)"
    using wf_clmap_names [OF assms(1)] assms(2) by (metis mset_map)
  moreover have "distinct (map fst m)" using assms(1) by (simp add: wf_clmap_def wf_gm_def)
  ultimately show "distinct (map (\<lambda>(k, cl). mc_name cl) l)" "set (map (\<lambda>(k, cl). mc_name cl) l) = fst ` set m"
    by (metis mset_eq_imp_distinct_iff, metis mset_eq_setD list.set_map)
  show "length l = length m" using assms(2) by (rule mset_eq_length)
qed

text \<open>The decisions a rule makes among the eligible clusters, as a specification.\<close>

definition valid_decisions :: "int option \<Rightarrow> clmap \<Rightarrow> PlacementDecision list \<Rightarrow> bool" where
  "valid_decisions r m ds \<longleftrightarrow> distinct (map ClusterName ds) \<and> ClusterName ` set ds \<subseteq> fst ` set m
     \<and> (\<forall>d \<in> set ds. ClusterNamespace d = ClusterName d) \<and> length ds = replicasTotal r (length m)"

abbreviation pickTotal :: "int option \<Rightarrow> nat \<Rightarrow> int" where
  "pickTotal r n \<equiv> (case r of Some k \<Rightarrow> if int n > k then k else int n | None \<Rightarrow> int n)"

lemma pickTotal_nat: "nat (pickTotal r n) = replicasTotal r n" "nat (pickTotal r n) \<le> n"
  by (auto simp: replicasTotal_def min_def split: option.splits)

lemma filter_keys_length:
  assumes "wf_gm m" and "A \<subseteq> fst ` set m"
  shows "length (filter (\<lambda>e. fst e \<notin> A) m) = length m - card A"
proof -
  have "length (filter (\<lambda>e. fst e \<notin> A) m) = length (filter (\<lambda>k. k \<notin> A) (map fst m))"
    by (simp add: filter_map comp_def)
  also have "\<dots> = card (set (map fst m) - A)"
    using distinct_length_filter [of "map fst m" "\<lambda>k. k \<notin> A"] assms(1)
    unfolding wf_gm_def by (metis (no_types) Collect_mem_eq Compl_eq Diff_eq Int_commute)
  also have "\<dots> = card (set (map fst m)) - card A"
    using assms(2) finite_subset [OF assms(2)] by (intro card_Diff_subset) auto
  also have "card (set (map fst m)) = length m"
    using assms(1) distinct_card [of "map fst m"] by (simp add: wf_gm_def)
  finally show ?thesis .
qed

lemma pick_unsorted:
  assumes wf: "wf_clmap m" and perm: "\<And>m'. mset (rng m') = mset m'"
    and ex: "pick_existing tot 0 ds m = (out, m', p')" and tot: "nat tot \<le> length m"
    and res: "res = out @ pick_rest tot p' (map (\<lambda>(k, cl). mc_name cl) (rng m'))"
  shows "distinct (map ClusterName res)" "ClusterName ` set res \<subseteq> fst ` set m"
    "\<forall>d \<in> set res. ClusterNamespace d = ClusterName d" "length res = nat tot"
proof -
  have wfm: "wf_gm m" using wf by (simp add: wf_clmap_def)
  note sp = pick_existing_spec [OF ex wfm]
  have m': "m' = filter (\<lambda>e. fst e \<notin> ClusterName ` set out) m" using sp by (elim conjE)
  have o2: "ClusterName ` set out \<subseteq> ClusterName ` set ds \<inter> fst ` set m" using sp by (elim conjE)
  have o3: "\<forall>d \<in> set out. ClusterNamespace d = ClusterName d" using sp by (elim conjE)
  have o4: "p' = 0 + int (length out)" using sp by (elim conjE)
  have o5: "out \<noteq> [] \<longrightarrow> p' \<le> tot" using sp by (elim conjE)
  have o1: "distinct (map ClusterName out)" using sp by (elim conjE)
  have o: "ClusterName ` set out \<subseteq> fst ` set m" "p' = int (length out)" using o2 o4 by simp_all
  have wf': "wf_clmap m'" using subseq_wf_clmap [OF subseq_filter_id wf] m' by simp
  note names = perm_names [OF wf' perm]
  let ?ns = "map (\<lambda>(k, cl). mc_name cl) (rng m')"
  have rest: "pick_rest tot p' ?ns = map mkDecision (take (nat (tot - p')) ?ns)" by (rule pick_rest_take)
  have sub: "set (take (nat (tot - p')) ?ns) \<subseteq> fst ` set m'" using names(2) by (metis set_take_subset)
  moreover have "fst ` set m' \<inter> ClusterName ` set out = {}" unfolding m' by auto
  ultimately have dis: "set (take (nat (tot - p')) ?ns) \<inter> ClusterName ` set out = {}" by blast
  have d_take: "distinct (take (nat (tot - p')) ?ns)" using names(1) by (rule distinct_take)
  show "distinct (map ClusterName res)"
    using o1 d_take dis unfolding res rest map_append names_mkDecision by (simp add: Int_commute)
  have "ClusterName ` set res = ClusterName ` set out \<union> set (take (nat (tot - p')) ?ns)"
    unfolding res rest by (simp only: set_append image_Un set_map set_mkDecision)
  moreover have "set (take (nat (tot - p')) ?ns) \<subseteq> fst ` set m"
    by (rule order_trans [OF sub]) (auto simp: m')
  ultimately show "ClusterName ` set res \<subseteq> fst ` set m" using o(1) by (simp only: Un_subset_iff simp_thms)
  show "\<forall>d \<in> set res. ClusterNamespace d = ClusterName d"
    using o3 unfolding res rest by (auto simp: mkDecision_def)
  have "length m' = length m - card (ClusterName ` set out)"
    using filter_keys_length [OF wfm o(1)] m' by simp
  also have "card (ClusterName ` set out) = length out"
    using o1 distinct_card [of "map ClusterName out"] by simp
  finally have "length m' = length m - length out" .
  then have "length res = length out + min (nat (tot - int (length out))) (length m - length out)"
    using o(2) names(3) unfolding res rest by simp
  then show "length res = nat tot" using o(2) o5 tot by (cases "out = []") auto
qed

lemma pick_sorted:
  assumes wf: "wf_clmap m" and perm: "mset (rng m) = mset m" and h: "pr_hint inst = Some h"
    and ci: "sortClustersByResourceHint rng inst m = Some ci"
  shows "filter (\<lambda>n. map_of m n \<noteq> None) (map ci_name (Clusters ci)) = map ci_name (Clusters ci)"
    "distinct (map ci_name (Clusters ci))" "set (map ci_name (Clusters ci)) = fst ` set m" "length (Clusters ci) = length m"
proof -
  let ?infos = "map (\<lambda>(k, cl). \<lparr>ci_name = mc_name cl, ci_namespace = mc_name cl, ci_metrics = clusterMetrics h cl\<rparr>) (rng m)"
  have cls: "mset (Clusters ci) = mset ?infos"
    using ci h by (auto simp: sortClustersByResourceHint_def Let_def)
  have "map ci_name ?infos = map (\<lambda>(k, cl). mc_name cl) (rng m)" by (simp add: case_prod_unfold)
  then have names: "mset (map ci_name (Clusters ci)) = mset (map (\<lambda>(k, cl). mc_name cl) (rng m))"
    unfolding mset_map cls by (simp only: flip: mset_map)
  show s: "set (map ci_name (Clusters ci)) = fst ` set m"
    using mset_eq_setD [OF names] perm_names(2) [OF wf perm] by (simp only:)
  show "distinct (map ci_name (Clusters ci))"
    using mset_eq_imp_distinct_iff [OF names] perm_names(1) [OF wf perm] by (simp only:)
  show "length (Clusters ci) = length m"
    using mset_eq_length [OF cls] perm_names(3) [OF wf perm] by simp
  show "filter (\<lambda>n. map_of m n \<noteq> None) (map ci_name (Clusters ci)) = map ci_name (Clusters ci)"
    using s by (intro filter_True) (auto simp: map_of_fst)
qed

lemma valid_decisions_sort: "valid_decisions r m (sort_key k ds) \<longleftrightarrow> valid_decisions r m ds"
proof -
  have "mset (map ClusterName (sort_key k ds)) = mset (map ClusterName ds)" by simp
  then have "distinct (map ClusterName (sort_key k ds)) = distinct (map ClusterName ds)"
    by (rule mset_eq_imp_distinct_iff)
  then show ?thesis by (simp add: valid_decisions_def)
qed

lemma pick_valid:
  assumes wf: "wf_clmap m" and perm: "\<And>m'. mset (rng m') = mset m'"
  shows "valid_decisions (pr_replicas inst) m
    (pickClustersByReplicas rng inst m (sortClustersByResourceHint rng inst m))"
proof (cases "sortClustersByResourceHint rng inst m")
  case None
  let ?tot = "pickTotal (pr_replicas inst) (length m)"
  obtain out m' p' where ex: "pick_existing ?tot 0 (pr_decisions inst) m = (out, m', p')" by (metis prod_cases3)
  note spec = pick_unsorted [OF wf perm ex pickTotal_nat(2) refl]
  show ?thesis
    unfolding None pickClustersByReplicas_def Let_def option.case ex prod.case valid_decisions_sort
    using spec unfolding valid_decisions_def by (simp only: pickTotal_nat(1) simp_thms)
next
  case (Some ci)
  then obtain h where h: "pr_hint inst = Some h" by (auto simp: sortClustersByResourceHint_def split: option.splits)
  note sp = pick_sorted [OF wf perm h Some]
  let ?tot = "pickTotal (pr_replicas inst) (length m)"
  have eq: "pickClustersByReplicas rng inst m (Some ci) = map mkDecision (take (nat ?tot) (map ci_name (Clusters ci)))"
    unfolding pickClustersByReplicas_def Let_def option.case sp(1) pick_rest_take by simp
  have "set (take (nat ?tot) (map ci_name (Clusters ci))) \<subseteq> fst ` set m" using sp(3) by (metis set_take_subset)
  moreover have "distinct (take (nat ?tot) (map ci_name (Clusters ci)))" using sp(2) by (rule distinct_take)
  moreover have "length (take (nat ?tot) (map ci_name (Clusters ci))) = replicasTotal (pr_replicas inst) (length m)"
    using sp(4) pickTotal_nat [where r = "pr_replicas inst" and n = "length m"] by simp
  ultimately show ?thesis
    unfolding Some eq valid_decisions_def names_mkDecision
    by (simp only: length_map set_map set_mkDecision simp_thms) (auto simp: mkDecision_def)
qed


section \<open>The decisions of a rule\<close>

lemma hub_decisions:
  assumes "PlaceByGenericPlacmentFields c (pr_generic inst) = Inr m" and "\<And>m'. mset (rng m') = mset m'"
  shows "\<exists>ds. hubReconcile c dec rng inst = Inr (inst\<lparr>pr_decisions := ds\<rparr>)
    \<and> valid_decisions (pr_replicas inst) (eligible c dec inst m) ds"
proof -
  have wf: "wf_clmap (eligible c dec inst m)"
    using subseq_wf_clmap [OF elig.removes place_wf [OF assms(1)]] .
  show ?thesis
  proof (cases "pr_replicas inst = Some 0")
    case True
    then show ?thesis by (simp add: hubReconcile_def valid_decisions_def replicasTotal_def)
  next
    case False
    then show ?thesis
      using pick_valid [OF wf assms(2), of inst] assms(1) by (auto simp: hubReconcile_def Let_def)
  qed
qed

text \<open>
  C1 When the clusters can be listed, a reconcile of a placement rule always yields decisions: for
  distinct clusters, all of them eligible (listed, not terminating, and kept by the status,
  user and policy filters), each with its own name as namespace, and exactly as many as the
  rule asks for or as there are, whichever is less. The iteration order of the map is
  arbitrary.
\<close>

theorem hubReconcile_valid:
  assumes "list_clusters c (placementSelector (pr_generic inst)) = Inr cls" and "\<forall>m'. mset (rng m') = mset m'"
  shows "\<exists>ds. hubReconcile c dec rng inst = Inr (inst\<lparr>pr_decisions := ds\<rparr>)
    \<and> valid_decisions (pr_replicas inst) (eligible c dec inst (clusters_to_map cls)) ds"
proof -
  have "PlaceByGenericPlacmentFields c (pr_generic inst) = Inr (clusters_to_map cls)"
    using assms(1) by (simp add: PlaceByGenericPlacmentFields_def)
  then show ?thesis using assms(2) by (intro hub_decisions) blast+
qed

definition cl_ex :: "string \<Rightarrow> int \<Rightarrow> ManagedCluster" where
  "cl_ex n cpu = \<lparr>mc_name = n, mc_deleted = None, mc_labels = None,
     mc_conditions = [(''ManagedClusterConditionAvailable'', ''True'')], mc_allocatable = Some [(''cpu'', cpu)]\<rparr>"

definition client_ex :: hub_client where
  "client_ex = \<lparr>list_clusters = (\<lambda>s. Inr [cl_ex ''c2'' 4, cl_ex ''c1'' 8, (cl_ex ''c3'' 2)\<lparr>mc_deleted := Some 7\<rparr>]),
     list_bindings = Inr [\<lparr>crb_subjects = [\<lparr>sb_kind = ''User'', sb_name = ''bob'', sb_namespace = ''''\<rparr>],
       crb_ref_group = ''rbac.authorization.k8s.io'', crb_ref_kind = ''ClusterRole'', crb_ref_name = ''r''\<rparr>],
     get_cluster_role = (\<lambda>n. if n = ''r'' then Inr [\<lparr>APIGroups = [''*''], Resources = [''managedclusters''],
       Verbs = [''list'', ''get''], ResourceNames = [''c1'']\<rparr>] else Inl (NotFound n))\<rparr>"

definition rule_ex :: PlacementRule where
  "rule_ex = \<lparr>pr_name = ''rule'', pr_namespace = ''ns'', pr_annotations = None, pr_scheduler = '''', pr_replicas = Some 1,
     pr_generic = \<lparr>gp_clusters = [], gp_selector = None\<rparr>, pr_conditions = None, pr_hint = None, pr_policies = None,
     pr_decisions = [mkDecision ''c1'']\<rparr>"

theorem hubReconcile_valid_witness:
  "\<exists>ds. hubReconcile client_ex Some id rule_ex = Inr (rule_ex\<lparr>pr_decisions := ds\<rparr>)
    \<and> valid_decisions (Some 1) [(''c2'', cl_ex ''c2'' 4), (''c1'', cl_ex ''c1'' 8)] ds"
proof -
  let ?cls = "[cl_ex ''c2'' 4, cl_ex ''c1'' 8, (cl_ex ''c3'' 2)\<lparr>mc_deleted := Some 7\<rparr>]"
  have l: "list_clusters client_ex (placementSelector (pr_generic rule_ex)) = Inr ?cls" by (simp add: client_ex_def)
  have "eligible client_ex Some rule_ex (clusters_to_map ?cls) = [(''c2'', cl_ex ''c2'' 4), (''c1'', cl_ex ''c1'' 8)]"
    by code_simp
  moreover have "pr_replicas rule_ex = Some 1" by (simp add: rule_ex_def)
  moreover have "\<forall>m'. mset (id m') = mset (m' :: clmap)" by simp
  ultimately show ?thesis using hubReconcile_valid [OF l, of id Some] by metis
qed

text \<open>
  C2 The user filter never lets a rule decide for a cluster its user may not get: when the rule
  carries a user identity that is not a cluster administrator and the role bindings can be
  listed, every decision is for a cluster that some cluster role bound to the user or to one
  of its groups grants \<open>get\<close> on, by a rule without resource names or by one that names the
  cluster (or that uses the reserved name \<open>ALL_CLUSTERS\<close>).
\<close>

definition may_get :: "hub_client \<Rightarrow> string \<Rightarrow> string list \<Rightarrow> ClusterRoleBinding list \<Rightarrow> string \<Rightarrow> bool" where
  "may_get c user groups bindings cl \<longleftrightarrow>
     (\<exists>b \<in> set bindings. (\<exists>s \<in> set (crb_subjects b). subjectMatches user groups s)
        \<and> crb_ref_kind b = ''ClusterRole''
        \<and> (\<exists>rules. get_cluster_role c (crb_ref_name b) = Inr rules
             \<and> (\<exists>rule \<in> set rules. grantsGet rule
                  \<and> (ResourceNames rule = [] \<or> cl \<in> set (ResourceNames rule) \<or> ALL_CLUSTERS \<in> set (ResourceNames rule)))))"

lemma managed_granted:
  assumes "k \<in> set (GetManagedClusters c role)"
  obtains rules rule where "get_cluster_role c role = Inr rules" "rule \<in> set rules" "grantsGet rule"
    "k \<in> set (ResourceNames rule) \<or> ResourceNames rule = [] \<and> k = ALL_CLUSTERS"
proof -
  obtain rules where "get_cluster_role c role = Inr rules"
    using assms by (cases "get_cluster_role c role") (auto simp: GetManagedClusters_def)
  with assms that show thesis by (auto simp: GetManagedClusters_def split: if_splits)
qed

lemma bound_may_get:
  assumes "k \<in> set (boundClusters c user groups bs)" and "k = cl \<or> k = ALL_CLUSTERS"
  shows "may_get c user groups bs cl"
proof -
  obtain b where b: "b \<in> set bs" "\<exists>s \<in> set (crb_subjects b). subjectMatches user groups s"
    "crb_ref_kind b = ''ClusterRole''" "k \<in> set (GetManagedClusters c (crb_ref_name b))"
    using assms(1) by (auto simp: boundClusters_def split: if_splits)
  from b(4) show ?thesis
    by (rule managed_granted) (use b assms(2) in \<open>auto simp: may_get_def\<close>)
qed

lemma role_filter_may_get:
  assumes "list_bindings c = Inr bs" and "k \<in> fst ` set (ValidateClustersByClusterRole c user groups m)"
  shows "may_get c user groups bs k"
  using assms bound_may_get [of ALL_CLUSTERS c user groups bs k] bound_may_get [of k c user groups bs k]
  by (auto simp: ValidateClustersByClusterRole_def Let_def split: if_splits)



text \<open>
  C23 Without a resource hint the decisions come sorted by cluster name and are stable: a cluster
  that was decided before and is still eligible is only dropped when every place is taken by
  clusters that were decided before.
\<close>

theorem hubReconcile_stable:
  assumes "pr_hint inst = None" and "PlaceByGenericPlacmentFields c (pr_generic inst) = Inr m"
    and "hubReconcile c dec rng inst = Inr inst'"
  shows "sorted (map ClusterName (pr_decisions inst'))
    \<and> (\<forall>n \<in> ClusterName ` set (pr_decisions inst') - ClusterName ` set (pr_decisions inst).
         ClusterName ` set (pr_decisions inst) \<inter> fst ` set (eligible c dec inst m) \<subseteq> ClusterName ` set (pr_decisions inst'))"
proof (cases "pr_replicas inst = Some 0")
  case True
  with assms(3) have "pr_decisions inst' = []" by (auto simp: hubReconcile_def)
  then show ?thesis by simp
next
  case False
  let ?m = "eligible c dec inst m" and ?old = "pr_decisions inst"
  define tot where "tot = pickTotal (pr_replicas inst) (length ?m)"
  have wf: "wf_gm ?m" using subseq_wf_clmap [OF elig.removes place_wf [OF assms(2)]] by (simp add: wf_clmap_def)
  obtain out m' p' where ex: "pick_existing tot 0 ?old ?m = (out, m', p')" by (metis prod_cases3)
  let ?rest = "pick_rest tot p' (map (\<lambda>(k, cl). mc_name cl) (rng m'))"
  have new: "pr_decisions inst' = sort_key ClusterName (out @ ?rest)"
  proof -
    have "inst' = inst\<lparr>pr_decisions := pickClustersByReplicas rng inst ?m None\<rparr>"
      using assms False by (simp add: hubReconcile_def Let_def sortClustersByResourceHint_def)
    moreover have "pickClustersByReplicas rng inst ?m None = sort_key ClusterName (out @ ?rest)"
      unfolding pickClustersByReplicas_def Let_def option.case tot_def [symmetric] ex prod.case ..
    ultimately show ?thesis by simp
  qed
  note sp = pick_existing_spec [OF ex wf]
  have "ClusterName ` set out \<subseteq> ClusterName ` set ?old \<inter> fst ` set ?m" using sp by (elim conjE)
  then have old: "ClusterName ` set out \<subseteq> ClusterName ` set ?old" by simp
  have keep: "p' < tot \<longrightarrow> ClusterName ` set ?old \<inter> fst ` set ?m \<subseteq> ClusterName ` set out"
    using sp by (elim conjE)
  have names: "ClusterName ` set (pr_decisions inst') = ClusterName ` set out \<union> ClusterName ` set ?rest"
    unfolding new by auto
  have "ClusterName ` set ?old \<inter> fst ` set ?m \<subseteq> ClusterName ` set (pr_decisions inst')"
    if n: "n \<in> ClusterName ` set (pr_decisions inst') - ClusterName ` set ?old" for n
  proof -
    have "n \<in> ClusterName ` set ?rest" using n old names by blast
    then have "p' < tot" unfolding pick_rest_take by (cases "p' < tot") simp_all
    with keep names show ?thesis by blast
  qed
  moreover have "sorted (map ClusterName (pr_decisions inst'))" unfolding new by (rule sorted_sort_key)
  ultimately show ?thesis by blast
qed

theorem hubReconcile_stable_witness:
  "hubReconcile client_ex Some rev (rule_ex\<lparr>pr_replicas := Some 2\<rparr>)
     = Inr (rule_ex\<lparr>pr_replicas := Some 2, pr_decisions := [mkDecision ''c1'', mkDecision ''c2'']\<rparr>)
   \<and> sorted (map ClusterName [mkDecision ''c1'', mkDecision ''c2''])
   \<and> ClusterName ` set (pr_decisions rule_ex) \<inter> fst ` set (eligible client_ex Some (rule_ex\<lparr>pr_replicas := Some 2\<rparr>)
        (clusters_to_map [cl_ex ''c2'' 4, cl_ex ''c1'' 8])) \<subseteq> {''c1'', ''c2''}"
proof -
  let ?r = "rule_ex\<lparr>pr_replicas := Some 2\<rparr>"
  have h: "pr_hint ?r = None"
    "hubReconcile client_ex Some rev ?r = Inr (?r\<lparr>pr_decisions := [mkDecision ''c1'', mkDecision ''c2'']\<rparr>)"
    "PlaceByGenericPlacmentFields client_ex (pr_generic ?r) = Inr (clusters_to_map [cl_ex ''c2'' 4, cl_ex ''c1'' 8])"
    by (simp add: rule_ex_def) code_simp+
  have old: "pr_decisions ?r = [mkDecision ''c1'']" "pr_decisions rule_ex = [mkDecision ''c1'']"
    by (simp_all add: rule_ex_def)
  show ?thesis using hubReconcile_stable [OF h(1,3,2)] h(2) unfolding old by (simp add: mkDecision_def)
qed

text \<open>
  With a resource hint the decisions are the best eligible clusters in the order of the hint:
  no eligible cluster that was left out has more (or, in ascending order, less) of the
  resource than one that was picked, and the picked ones are sorted by it.
\<close>

definition hint_before :: "ResourceHint \<Rightarrow> ManagedCluster \<Rightarrow> ManagedCluster \<Rightarrow> bool" where
  "hint_before h a b \<longleftrightarrow> (if rh_order h = SelectionOrderAsce then clusterMetrics h a \<le> clusterMetrics h b
     else clusterMetrics h b \<le> clusterMetrics h a)"

lemma index_sorted:
  assumes "sortClustersByResourceHint rng inst m = Some ci" and "pr_hint inst = Some h"
  shows "\<exists>cls. mset cls = mset (rng m) \<and> sorted_wrt (\<lambda>a b. hint_before h (snd a) (snd b)) cls
    \<and> map ci_name (Clusters ci) = map (\<lambda>(k, cl). mc_name cl) cls"
proof -
  let ?asc = "rh_order h = SelectionOrderAsce"
  define info where "info = (\<lambda>(k :: string, cl). \<lparr>ci_name = mc_name cl, ci_namespace = mc_name cl, ci_metrics = clusterMetrics h cl\<rparr>)"
  have ci: "Clusters ci = go_sort (ci_less ?asc) (map info (rng m))"
    using assms by (auto simp: sortClustersByResourceHint_def Let_def info_def)
  define cls where "cls = go_sort (\<lambda>a b. ci_less ?asc (info a) (info b)) (rng m)"
  have cls: "mset cls = mset (rng m)" "Clusters ci = map info cls" by (simp_all add: cls_def ci go_sort_map)
  have "sorted_wrt (\<lambda>x y. if ?asc then ci_metrics x \<le> ci_metrics y else ci_metrics y \<le> ci_metrics x) (Clusters ci)"
    unfolding ci by (rule go_sort_sorted) (auto simp: ci_less_def Let_def split: if_splits)
  then have "sorted_wrt (\<lambda>a b. hint_before h (snd a) (snd b)) cls"
    unfolding cls(2) sorted_wrt_map by (rule sorted_wrt_mono_rel [rotated]) (auto simp: info_def hint_before_def split: if_splits)
  moreover have "map ci_name (Clusters ci) = map (\<lambda>(k, cl). mc_name cl) cls"
    by (simp add: cls(2) info_def case_prod_unfold)
  ultimately show ?thesis using cls(1) by blast
qed

theorem hubReconcile_best:
  assumes "pr_hint inst = Some h" and "PlaceByGenericPlacmentFields c (pr_generic inst) = Inr m"
    and "\<forall>m'. mset (rng m') = mset m'" and "hubReconcile c dec rng inst = Inr inst'" and "pr_replicas inst \<noteq> Some 0"
  shows "\<exists>picked left. mset (picked @ left) = mset (eligible c dec inst m)
    \<and> map ClusterName (pr_decisions inst') = map fst picked
    \<and> sorted_wrt (\<lambda>a b. hint_before h (snd a) (snd b)) picked
    \<and> (\<forall>a \<in> set picked. \<forall>b \<in> set left. hint_before h (snd a) (snd b))"
proof -
  let ?m = "eligible c dec inst m"
  let ?tot = "nat (pickTotal (pr_replicas inst) (length ?m))"
  have wf: "wf_clmap ?m" using subseq_wf_clmap [OF elig.removes place_wf [OF assms(2)]] .
  obtain ci where ci: "sortClustersByResourceHint rng inst ?m = Some ci"
    using assms(1) by (simp add: sortClustersByResourceHint_def Let_def)
  obtain cls where cls: "mset cls = mset (rng ?m)" "sorted_wrt (\<lambda>a b. hint_before h (snd a) (snd b)) cls"
    "map ci_name (Clusters ci) = map (\<lambda>(k, cl). mc_name cl) cls" using index_sorted [OF ci assms(1)] by blast
  have same: "mset cls = mset ?m" using cls(1) assms(3) by simp
  then have names: "map (\<lambda>(k, cl). mc_name cl) cls = map fst cls"
    using wf mset_eq_setD [OF same] by (auto simp: wf_clmap_def)
  have perm: "mset (rng ?m) = mset ?m" using assms(3) by blast
  have "pr_decisions inst' = map mkDecision (take ?tot (map fst cls))"
    using assms ci pick_sorted(1) [OF wf perm assms(1) ci] cls(3) names
    by (auto simp: hubReconcile_def Let_def pickClustersByReplicas_def pick_rest_take)
  then have "map ClusterName (pr_decisions inst') = map fst (take ?tot cls)"
    by (simp add: take_map del: map_map)
  moreover have "sorted_wrt (\<lambda>a b. hint_before h (snd a) (snd b)) (take ?tot cls @ drop ?tot cls)" using cls(2) by simp
  moreover have "mset (take ?tot cls @ drop ?tot cls) = mset ?m" using same by simp
  ultimately show ?thesis unfolding sorted_wrt_append by blast
qed

theorem hubReconcile_best_witness:
  "hint_before \<lparr>rh_type = ResourceTypeCPU, rh_order = SelectionOrderDesc\<rparr> (cl_ex ''c1'' 8) (cl_ex ''c2'' 4)"
proof -
  let ?h = "\<lparr>rh_type = ResourceTypeCPU, rh_order = SelectionOrderDesc\<rparr>"
  let ?inst = "rule_ex\<lparr>pr_hint := Some ?h\<rparr>" and ?m = "[(''c2'', cl_ex ''c2'' 4), (''c1'', cl_ex ''c1'' 8)]"
  have h: "hubReconcile client_ex Some id ?inst = Inr (?inst\<lparr>pr_decisions := [mkDecision ''c1'']\<rparr>)"
    "PlaceByGenericPlacmentFields client_ex (pr_generic ?inst) = Inr ?m" "eligible client_ex Some ?inst ?m = ?m"
    "pr_replicas ?inst \<noteq> Some 0" by code_simp+
  have hint: "pr_hint ?inst = Some ?h" and perm: "\<forall>m'. mset (id m') = mset (m' :: clmap)" by simp_all
  from hubReconcile_best [OF hint h(2) perm h(1,4)] obtain picked left
    where p: "mset (picked @ left) = mset ?m" "map ClusterName (pr_decisions (?inst\<lparr>pr_decisions := [mkDecision ''c1'']\<rparr>)) = map fst picked"
      "\<forall>a \<in> set picked. \<forall>b \<in> set left. hint_before ?h (snd a) (snd b)"
    unfolding h(3) by blast
  have "[''c1''] = map fst picked" using p(2) by (simp add: mkDecision_def)
  then obtain x where x: "picked = [(''c1'', x)]" by auto
  have "set (picked @ left) = set ?m" using p(1) by (rule mset_eq_setD)
  then have in1: "(''c1'', x) \<in> set ?m" and in2: "(''c2'', cl_ex ''c2'' 4) \<in> set (picked @ left)" unfolding x by (metis list.set_intros(1) append_Cons)+
  have "x = cl_ex ''c1'' 8" using in1 by simp
  moreover have "(''c2'', cl_ex ''c2'' 4) \<in> set left" using in2 by (simp add: x)
  ultimately show ?thesis using p(3) [rule_format, of "(''c1'', x)" "(''c2'', cl_ex ''c2'' 4)"] by (simp add: x)
qed

section \<open>Writing the status\<close>

lemma decisions_loop_same:
  "distinct (map ClusterName ds) \<Longrightarrow> wf_gm org \<Longrightarrow>
     map_of org = map_of (map (\<lambda>d. (ClusterName d, ClusterNamespace d)) ds) \<Longrightarrow> decisions_loop org ds = (False, [])"
proof (induction ds arbitrary: org)
  case Nil
  then show ?case by simp
next
  case (Cons d ds)
  let ?org = "gm_del (ClusterName d) org"
  have hd: "map_of org (ClusterName d) = Some (ClusterNamespace d)" using Cons.prems(3) by simp
  have "map_of (map (\<lambda>d. (ClusterName d, ClusterNamespace d)) ds) (ClusterName d) = None"
    using Cons.prems(1) by (simp add: map_of_eq_None_iff image_image)
  then have "map_of ?org = map_of (map (\<lambda>d. (ClusterName d, ClusterNamespace d)) ds)"
    using Cons.prems(2,3) by (auto simp: gmap_simps fun_eq_iff)
  then have "decisions_loop ?org ds = (False, [])"
    using Cons.prems by (intro Cons.IH) (auto simp: gmap_simps)
  then show ?case by (simp add: hd)
qed

lemma decisionsUpdated_iff:
  assumes "distinct (map ClusterName new)"
  shows "decisionsUpdated old new \<longleftrightarrow> old \<noteq> new"
proof -
  let ?org = "fold (\<lambda>d. gm_put (ClusterName d) (ClusterNamespace d)) new []"
  have "distinct (map fst (map (\<lambda>d. (ClusterName d, ClusterNamespace d)) new))" using assms by (simp add: comp_def)
  then have "map_of ?org = map_of (map (\<lambda>d. (ClusterName d, ClusterNamespace d)) new)"
    by (simp add: gm.look_fold_put map_of_inject_set rev_map [symmetric] del: map_map)
  moreover have "wf_gm ?org" by (rule gm.wf_fold_put) (simp add: wf_gm_def)
  ultimately have "decisions_loop ?org new = (False, [])" by (intro decisions_loop_same assms)
  then show ?thesis by (auto simp: decisionsUpdated_def Let_def split: prod.splits)
qed

text \<open>
  A reconcile of a rule that the controller schedules writes the status exactly when the new
  decisions differ from the stored ones, with the outcome of that write as its result;
  otherwise, and for a rule of another scheduler or one that is gone, nothing is written.
\<close>

theorem Reconcile_writes:
  assumes "\<forall>m'. mset (rng m') = mset m'"
  shows "Reconcile c dec rng st key w =
    (case get_rule st w key of
       Inl e \<Rightarrow> (w, if IsNotFound e then None else Some e)
     | Inr inst \<Rightarrow>
         (if pr_scheduler inst \<notin> {'''', ''default'', ''mcm''} then (w, None)
          else case hubReconcile c dec rng inst of
                 Inl e \<Rightarrow> (w, Some e)
               | Inr inst' \<Rightarrow> (if pr_decisions inst' = pr_decisions inst then (w, None) else update_rule_status st w inst')))"
proof (cases "get_rule st w key")
  case (Inr inst)
  show ?thesis
  proof (cases "hubReconcile c dec rng inst")
    case hub: (Inr inst')
    have "distinct (map ClusterName (pr_decisions inst'))"
    proof (cases "pr_replicas inst = Some 0")
      case True
      with hub show ?thesis by (auto simp: hubReconcile_def)
    next
      case False
      with hub obtain m where "PlaceByGenericPlacmentFields c (pr_generic inst) = Inr m"
        by (auto simp: hubReconcile_def rbind_Inr_iff)
      then show ?thesis using hub_decisions [of c inst m rng dec] assms hub by (auto simp: valid_decisions_def)
    qed
    then have "decisionsUpdated (pr_decisions inst) (pr_decisions inst') \<longleftrightarrow> pr_decisions inst \<noteq> pr_decisions inst'"
      by (rule decisionsUpdated_iff)
    with Inr hub show ?thesis by (auto simp: Reconcile_def SchedulerNameDefault_def SchedulerNameMCM_def)
  qed (simp add: Reconcile_def Inr SchedulerNameDefault_def SchedulerNameMCM_def)
qed (simp add: Reconcile_def)

definition store_ex :: "PlacementRule rule_store" where
  "store_ex = \<lparr>get_rule = (\<lambda>w k. Inr w), update_rule_status = (\<lambda>w r. (r, None))\<rparr>"

theorem Reconcile_writes_witness:
  "Reconcile client_ex Some id store_ex (''ns'', ''rule'') (rule_ex\<lparr>pr_decisions := []\<rparr>)
     = (rule_ex\<lparr>pr_decisions := [mkDecision ''c2'']\<rparr>, None)"
proof -
  have "\<forall>m'. mset (id m') = mset (m' :: clmap)" by simp
  from Reconcile_writes [OF this, of client_ex Some store_ex "(''ns'', ''rule'')" "rule_ex\<lparr>pr_decisions := []\<rparr>"]
  show ?thesis by (simp add: store_ex_def) code_simp
qed

text \<open>
  The filter by access reviews keeps exactly the clusters whose review for the user and groups
  of the object succeeds and is granted.
\<close>

theorem identity_filter_reviews:
  assumes "wf_clmap m" and "map_of ann UserIdentityAnnotation \<noteq> None" and "ExtractUserAndGroup dec ann = (user, groups)"
  shows "FilteClustersByIdentity (Some review) dec (Some ann) m
    = filter (\<lambda>(k, cl). review user groups k = Inr True) m"
proof -
  have names: "mc_name cl = k" if "(k, cl) \<in> set m" for k cl using assms(1) that by (auto simp: wf_clmap_def)
  let ?ok = "\<lambda>k. case review user groups k of Inl e \<Rightarrow> False | Inr allowed \<Rightarrow> allowed"
  have ok: "?ok k \<longleftrightarrow> review user groups k = Inr True" for k by (auto split: sum.splits)
  have "set (map mc_name (filterClusterByUserIdentity (Some review) dec (Some ann) (map snd m)))
      = {k. k \<in> fst ` set m \<and> ?ok k}"
    using assms(3) names by (force simp: filterClusterByUserIdentity_def)
  then show ?thesis
    using assms(2) by (force simp: FilteClustersByIdentity_def Let_def ok intro!: filter_cong)
qed

theorem identity_filter_reviews_witness:
  "FilteClustersByIdentity (Some (\<lambda>u g n. Inr (u = ''bob'' \<and> n = ''c1''))) Some (Some [(UserIdentityAnnotation, ''bob'')])
     [(''c2'', cl_ex ''c2'' 4), (''c1'', cl_ex ''c1'' 8)] = [(''c1'', cl_ex ''c1'' 8)]"
proof -
  have "wf_clmap [(''c2'', cl_ex ''c2'' 4), (''c1'', cl_ex ''c1'' 8)]"
    by (simp add: wf_clmap_def wf_gm_def cl_ex_def terminating_def)
  moreover have "ExtractUserAndGroup Some [(UserIdentityAnnotation, ''bob'')] = (''bob'', [])" by code_simp
  ultimately show ?thesis
    using identity_filter_reviews [of "[(''c2'', cl_ex ''c2'' 4), (''c1'', cl_ex ''c1'' 8)]" "[(UserIdentityAnnotation, ''bob'')]"
        Some "''bob''" "[]" "\<lambda>u g n. Inr (u = ''bob'' \<and> n = ''c1'')"] by simp
qed

section \<open>Failing open\<close>

text \<open>
  When the role bindings cannot be listed, the user filter removes nothing: the decisions of a
  rule of a user without any rights are those of an administrator.
\<close>

theorem user_filter_fails_open:
  assumes "list_bindings c = Inl e"
  shows "filteClustersByUser c dec inst m = m"
  using assms by (auto simp: filteClustersByUser_def ValidateClustersByClusterRole_def split: option.splits prod.splits)

theorem user_filter_fails_open_witness:
  "filteClustersByUser (client_ex\<lparr>list_bindings := Inl (OtherError ''down'')\<rparr>) Some
     (rule_ex\<lparr>pr_annotations := Some [(UserIdentityAnnotation, ''eve'')]\<rparr>) [(''c2'', cl_ex ''c2'' 4)] = [(''c2'', cl_ex ''c2'' 4)]"
  by (rule user_filter_fails_open [of _ "OtherError ''down''"]) simp

end
