(* ===== verification/KubeObjects.thy ===== *)
theory KubeObjects
  imports PlacementRule TimeWindow
begin

text \<open>
  The objects the subscription code works on: untyped Kubernetes objects, channels and
  subscriptions (\<open>pkg/apis/apps/v1/subscription_types.go\<close>). A pointer that may be nil and a map
  that the code tells from an empty one are options. The content of an untyped object outside
  its metadata is a JSON value.
\<close>

section \<open>Untyped objects\<close>

datatype json = JNull | JBool bool | JNum int | JStr string | JArr "json list" | JObj "(string \<times> json) list"

record OwnerReference =
  or_apiVersion :: string
  or_kind :: string
  or_name :: string
  or_uid :: string

record Unstructured =
  u_apiVersion :: string
  u_kind :: string
  u_name :: string
  u_namespace :: string
  u_resourceVersion :: string
  u_uid :: string
  u_labels :: "strmap option"
  u_annotations :: "strmap option"
  u_owners :: "OwnerReference list"
  u_body :: "(string \<times> json) list"

type_synonym nsname = "string \<times> string"

text \<open>Reading a key of a map that may be nil: a missing key reads as the empty string.\<close>

definition anno :: "strmap option \<Rightarrow> string \<Rightarrow> string" where
  "anno m k = (case m of None \<Rightarrow> '''' | Some l \<Rightarrow> gm_str l k)"

lemma anno_None [simp]: "anno None k = ''''"
  by (simp add: anno_def)

definition anno_del :: "string \<Rightarrow> strmap option \<Rightarrow> strmap option" where
  "anno_del k = map_option (gm_del k)"

definition group :: string where
  "group = ''apps.open-cluster-management.io''"

definition AnnotationSyncSource :: string where "AnnotationSyncSource = group @ ''/sync-source''"
definition AnnotationDeployables :: string where "AnnotationDeployables = group @ ''/deployables''"
definition AnnotationTopo :: string where "AnnotationTopo = group @ ''/topo''"
definition AnnotationHosting :: string where "AnnotationHosting = group @ ''/hosting-subscription''"
definition AnnotationGitCommit :: string where "AnnotationGitCommit = group @ ''/git-current-commit''"
definition AnnotationGitTargetCommit :: string where "AnnotationGitTargetCommit = group @ ''/git-desired-commit''"
definition AnnotationGitTag :: string where "AnnotationGitTag = group @ ''/git-tag''"
definition AnnotationClusterAdmin :: string where "AnnotationClusterAdmin = group @ ''/cluster-admin''"
definition AnnotationChannelType :: string where "AnnotationChannelType = group @ ''/channel-type''"
definition AnnotationHostingDeployable :: string where "AnnotationHostingDeployable = group @ ''/hosting-deployable''"
definition AnnotationResourceReconcileOption :: string where
  "AnnotationResourceReconcileOption = group @ ''/reconcile-option''"
definition AnnotationResourceDoNotDeleteOption :: string where
  "AnnotationResourceDoNotDeleteOption = group @ ''/do-not-delete''"
definition AnnotationResourceReconcileLevel :: string where
  "AnnotationResourceReconcileLevel = group @ ''/reconcile-rate''"
definition AnnotationManagedCluster :: string where "AnnotationManagedCluster = group @ ''/managed-cluster''"
definition AnnotationUserIdentity :: string where "AnnotationUserIdentity = ''open-cluster-management.io/user-identity''"
definition MergeReconcile :: string where "MergeReconcile = ''merge''"
definition ReplaceReconcile :: string where "ReplaceReconcile = ''replace''"
definition MergeAndOwnReconcile :: string where "MergeAndOwnReconcile = ''mergeAndOwn''"
definition LabelSubscriptionPause :: string where "LabelSubscriptionPause = ''subscription-pause''"

section \<open>Subscriptions\<close>

record PackageFilter =
  pf_labelSelector :: "LabelSelector option"
  pf_annotations :: "strmap option"
  pf_version :: string
  pf_filterRef :: "string option"

text \<open>The raw content of an override, parsed; \<open>None\<close> when it is not a JSON object.\<close>

type_synonym ClusterOverride = "(string \<times> json) list option"

record Overrides =
  ov_alias :: string
  ov_name :: string
  ov_overrides :: "ClusterOverride list"

record AllowDenyItem =
  ad_apiVersion :: string
  ad_kinds :: "string list"

record ClusterOverrides =
  co_cluster :: string
  co_overrides :: "ClusterOverride list"

record SubscriptionSpec =
  sp_channel :: string
  sp_secondary :: string
  sp_package :: string
  sp_packageFilter :: "PackageFilter option"
  sp_packageOverrides :: "Overrides list option"
  sp_overrides :: "ClusterOverrides list option"
  sp_timewindow :: "TimeWindow option"
  sp_hooksecret :: "string option"
  sp_allow :: "AllowDenyItem list"
  sp_deny :: "AllowDenyItem list"
  sp_watchHelm :: bool

record SubscriptionUnitStatus =
  us_phase :: string
  us_message :: string
  us_reason :: string
  us_time :: int
  us_resource :: "string option"

type_synonym pkgmap = "(string \<times> SubscriptionUnitStatus option) list option"

text \<open>\<open>SubscriptionPerClusterStatus\<close> has the map of package statuses as its only field.\<close>

type_synonym clstmap = "(string \<times> pkgmap option) list option"

record SubscriptionStatus =
  st_phase :: string
  st_message :: string
  st_reason :: string
  st_time :: int
  st_prehook :: string
  st_posthook :: string
  st_statuses :: clstmap

definition SubscriptionSubscribed :: string where "SubscriptionSubscribed = ''Subscribed''"
definition SubscriptionFailed :: string where "SubscriptionFailed = ''Failed''"

record Subscription =
  sub_name :: string
  sub_namespace :: string
  sub_labels :: "strmap option"
  sub_annotations :: "strmap option"
  sub_finalizers :: "string list option"
  sub_deleted :: "int option"
  sub_uid :: string
  sub_owners :: "OwnerReference list"
  sub_spec :: SubscriptionSpec
  sub_status :: SubscriptionStatus

section \<open>Channels\<close>

text \<open>A reference to a secret or a config map: its name and a namespace the user may give.\<close>

record Channel =
  ch_name :: string
  ch_namespace :: string
  ch_annotations :: "strmap option"
  ch_type :: string
  ch_pathname :: string
  ch_secretRef :: "nsname option"
  ch_configMapRef :: "nsname option"
  ch_insecure :: bool

end
