(* ===== verification/PlacementDecision.thy ===== *)
theory PlacementDecision
  imports PlacementRule
begin

text \<open>
  The placement rule status controller (\<open>pkg/placementrule/controller/placementrule\<close>,
  \<open>placementdecision.go\<close> and \<open>placementrule_status_controller.go\<close>): it publishes the decisions of
  a rule as \<open>PlacementDecision\<close> objects of at most a hundred clusters each. The API server is an
  argument; \<open>pd_api\<close> states what the code relies on.
\<close>

section \<open>Data\<close>

record ClusterDecision =
  cd_cluster :: string
  cd_reason :: string

record PDObject =
  pd_name :: string
  pd_namespace :: string
  pd_labels :: strmap
  pd_owner :: "(string \<times> string) list"
  pd_decisions :: "ClusterDecision list"

record 'w pd_client =
  pd_get :: "'w \<Rightarrow> string \<times> string \<Rightarrow> kerr + PDObject"
  pd_create :: "'w \<Rightarrow> PDObject \<Rightarrow> 'w \<times> kerr option"
  pd_update_status :: "'w \<Rightarrow> PDObject \<Rightarrow> 'w \<times> kerr option"
  pd_list :: "'w \<Rightarrow> string \<Rightarrow> string \<Rightarrow> kerr + PDObject list"
  pd_delete :: "'w \<Rightarrow> PDObject \<Rightarrow> 'w \<times> kerr option"

definition placementRuleLabel :: string where
  "placementRuleLabel = ''cluster.open-cluster-management.io/placementrule''"

definition maxNumOfClusterDecisions :: nat where
  "maxNumOfClusterDecisions = 100"

section \<open>Operations\<close>

function decisionSlices :: "'a list \<Rightarrow> 'a list list" where
  "decisionSlices xs =
     (if xs = [] then []
      else if length xs > maxNumOfClusterDecisions
      then take maxNumOfClusterDecisions xs # decisionSlices (drop maxNumOfClusterDecisions xs)
      else [xs])"
  by pat_completeness auto

termination decisionSlices
  by (relation "measure length") (auto simp: maxNumOfClusterDecisions_def)

declare decisionSlices.simps [simp del]

definition decisionName :: "string \<Rightarrow> nat \<Rightarrow> string" where
  "decisionName rule index = rule @ ''-decision-'' @ go_itoa (index + 1)"

definition newDecision :: "PlacementRule \<Rightarrow> string \<Rightarrow> PDObject" where
  "newDecision rule n = \<lparr>pd_name = n, pd_namespace = pr_namespace rule,
     pd_labels = [(placementRuleLabel, pr_name rule)], pd_owner = [(''PlacementRule'', pr_name rule)], pd_decisions = []\<rparr>"

definition updateDecisions ::
  "'w pd_client \<Rightarrow> PDObject \<Rightarrow> ClusterDecision list \<Rightarrow> 'w \<Rightarrow> 'w \<times> kerr option" where
  "updateDecisions c pd ds w = (if pd_decisions pd = ds then (w, None) else pd_update_status c w (pd\<lparr>pd_decisions := ds\<rparr>))"

definition createOrUpdatePlacementDecision ::
  "'w pd_client \<Rightarrow> PlacementRule \<Rightarrow> string \<Rightarrow> ClusterDecision list \<Rightarrow> 'w \<Rightarrow> 'w \<times> kerr option" where
  "createOrUpdatePlacementDecision c rule n ds w =
     (if length ds > maxNumOfClusterDecisions then (w, Some (OtherError ''exceeds the max limitation''))
      else case pd_get c w (pr_namespace rule, n) of
             Inl e \<Rightarrow>
               (if IsNotFound e then
                  (case pd_create c w (newDecision rule n) of
                     (w', Some e') \<Rightarrow> (w', Some e')
                   | (w', None) \<Rightarrow> updateDecisions c (newDecision rule n) ds w')
                else (w, Some e))
           | Inr pd \<Rightarrow> updateDecisions c pd ds w)"

fun bind_slices ::
  "'w pd_client \<Rightarrow> PlacementRule \<Rightarrow> nat \<Rightarrow> ClusterDecision list list \<Rightarrow> 'w \<Rightarrow> 'w \<times> kerr list" where
  "bind_slices c rule index [] w = (w, [])"
| "bind_slices c rule index (ds # dss) w =
     (let (w', e) = createOrUpdatePlacementDecision c rule (decisionName (pr_name rule) index) ds w;
          (w'', es) = bind_slices c rule (index + 1) dss w'
      in (w'', (case e of None \<Rightarrow> es | Some x \<Rightarrow> x # es)))"

fun delete_redundant :: "'w pd_client \<Rightarrow> string list \<Rightarrow> PDObject list \<Rightarrow> 'w \<Rightarrow> 'w \<times> kerr list" where
  "delete_redundant c names [] w = (w, [])"
| "delete_redundant c names (p # ps) w =
     (if pd_name p \<in> set names then delete_redundant c names ps w
      else let (w', e) = pd_delete c w p; (w'', es) = delete_redundant c names ps w'
           in (w'', (case e of None \<Rightarrow> es | Some x \<Rightarrow> if IsNotFound x then es else x # es)))"

definition ruleSlices :: "PlacementRule \<Rightarrow> ClusterDecision list list" where
  "ruleSlices rule = decisionSlices (map (\<lambda>d. \<lparr>cd_cluster = ClusterName d, cd_reason = ''''\<rparr>) (pr_decisions rule))"

definition syncPlacementDecisions :: "'w pd_client \<Rightarrow> PlacementRule \<Rightarrow> 'w \<Rightarrow> 'w \<times> kerr list" where
  "syncPlacementDecisions c rule w =
     (let slices = ruleSlices rule;
          names = map (decisionName (pr_name rule)) [0..<length slices];
          (w', errs) = bind_slices c rule 0 slices w
      in if errs \<noteq> [] then (w', errs)
         else case pd_list c w' (pr_namespace rule) (pr_name rule) of
                Inl e \<Rightarrow> (w', [e])
              | Inr ps \<Rightarrow> delete_redundant c names ps w')"

definition ReconcileStatus ::
  "'w pd_client \<Rightarrow> ('w \<Rightarrow> string \<times> string \<Rightarrow> kerr + PlacementRule) \<Rightarrow> string \<times> string \<Rightarrow> 'w \<Rightarrow> 'w \<times> kerr list" where
  "ReconcileStatus c getr key w =
     (case getr w key of
        Inl e \<Rightarrow> (w, if IsNotFound e then [] else [e])
      | Inr rule \<Rightarrow> syncPlacementDecisions c rule w)"

section \<open>What the code relies on\<close>

text \<open>
  \<open>obs w\<close> is the content of the API server in world \<open>w\<close>, by namespace and name. A successful
  call has its effect, a failed one has none, and a read tells the truth.
\<close>

definition pd_key :: "PDObject \<Rightarrow> string \<times> string" where
  "pd_key p = (pd_namespace p, pd_name p)"

definition pd_api :: "'w pd_client \<Rightarrow> ('w \<Rightarrow> string \<times> string \<Rightarrow> PDObject option) \<Rightarrow> bool" where
  "pd_api c obs \<longleftrightarrow>
     (\<forall>w k p. obs w k = Some p \<longrightarrow> pd_key p = k)
     \<and> (\<forall>w k p. pd_get c w k = Inr p \<longrightarrow> obs w k = Some p)
     \<and> (\<forall>w p. obs (fst (pd_create c w p)) =
           (if snd (pd_create c w p) = None then (obs w)(pd_key p \<mapsto> p) else obs w))
     \<and> (\<forall>w p. obs (fst (pd_update_status c w p)) =
           (if snd (pd_update_status c w p) = None then (obs w)(pd_key p \<mapsto> p) else obs w))
     \<and> (\<forall>w ns v ps. pd_list c w ns v = Inr ps \<longrightarrow>
           set ps = {p. \<exists>n. obs w (ns, n) = Some p \<and> map_of (pd_labels p) placementRuleLabel = Some v})
     \<and> (\<forall>w p. obs (fst (pd_delete c w p)) =
           (case snd (pd_delete c w p) of None \<Rightarrow> (obs w)(pd_key p := None) | Some e \<Rightarrow> obs w))
     \<and> (\<forall>w p e. snd (pd_delete c w p) = Some e \<longrightarrow> IsNotFound e \<longrightarrow> obs w (pd_key p) = None)"

lemma pd_apiD:
  assumes "pd_api c obs"
  shows api_keyed: "obs w k = Some p \<Longrightarrow> pd_key p = k"
    and api_get: "pd_get c w k = Inr p \<Longrightarrow> obs w k = Some p"
    and api_create: "pd_create c w p = (w', None) \<Longrightarrow> obs w' = (obs w)(pd_key p \<mapsto> p)"
    and api_update: "pd_update_status c w p = (w', None) \<Longrightarrow> obs w' = (obs w)(pd_key p \<mapsto> p)"
    and api_list: "pd_list c w ns v = Inr ps \<Longrightarrow>
      set ps = {p. \<exists>n. obs w (ns, n) = Some p \<and> map_of (pd_labels p) placementRuleLabel = Some v}"
    and api_delete: "pd_delete c w p = (w', e) \<Longrightarrow> e = None \<or> (\<exists>x. e = Some x \<and> IsNotFound x) \<Longrightarrow>
      obs w' = (obs w)(pd_key p := None)"
proof -
  note api = assms [unfolded pd_api_def]
  note c1 = api [THEN conjunct1] and r1 = api [THEN conjunct2]
  note c2 = r1 [THEN conjunct1] and r2 = r1 [THEN conjunct2]
  note c3 = r2 [THEN conjunct1] and r3 = r2 [THEN conjunct2]
  note c4 = r3 [THEN conjunct1] and r4 = r3 [THEN conjunct2]
  note c5 = r4 [THEN conjunct1] and r5 = r4 [THEN conjunct2]
  note c6 = r5 [THEN conjunct1] and c7 = r5 [THEN conjunct2]
  show "obs w k = Some p \<Longrightarrow> pd_key p = k" using c1 by blast
  show "pd_get c w k = Inr p \<Longrightarrow> obs w k = Some p" using c2 by blast
  show "pd_create c w p = (w', None) \<Longrightarrow> obs w' = (obs w)(pd_key p \<mapsto> p)"
    using c3 [rule_format, of w p] by simp
  show "pd_update_status c w p = (w', None) \<Longrightarrow> obs w' = (obs w)(pd_key p \<mapsto> p)"
    using c4 [rule_format, of w p] by simp
  show "pd_list c w ns v = Inr ps \<Longrightarrow>
      set ps = {p. \<exists>n. obs w (ns, n) = Some p \<and> map_of (pd_labels p) placementRuleLabel = Some v}"
    by (rule c5 [rule_format])
  show "pd_delete c w p = (w', e) \<Longrightarrow> e = None \<or> (\<exists>x. e = Some x \<and> IsNotFound x) \<Longrightarrow>
      obs w' = (obs w)(pd_key p := None)"
    using c6 [rule_format, of w p] c7 [rule_format, of w p] by (cases e) (auto simp: fun_upd_idem)
qed

section \<open>Properties\<close>

lemma decisionSlices_spec:
  "concat (decisionSlices xs) = xs \<and> (\<forall>s \<in> set (decisionSlices xs). s \<noteq> [] \<and> length s \<le> maxNumOfClusterDecisions)"
proof (induction xs rule: decisionSlices.induct)
  case (1 xs)
  have pos: "0 < maxNumOfClusterDecisions" by (simp add: maxNumOfClusterDecisions_def)
  show ?case
  proof (cases "length xs > maxNumOfClusterDecisions")
    case True
    then have "xs \<noteq> []" using pos by auto
    with 1 [OF this True] True pos show ?thesis by (subst (1 2) decisionSlices.simps) auto
  next
    case False
    then show ?thesis by (subst (1 2) decisionSlices.simps) auto
  qed
qed

lemma decisionName_inj: "decisionName r i = decisionName r j \<Longrightarrow> i = j"
  using go_itoa_inj [of "i + 1" "j + 1"] by (simp add: decisionName_def)

lemma updateDecisions_obs:
  assumes "pd_api c obs" "updateDecisions c pd ds w = (w', None)" "obs w k = Some pd"
  shows "obs w' = (obs w)(k \<mapsto> pd\<lparr>pd_decisions := ds\<rparr>)"
proof (cases "pd_decisions pd = ds")
  case True
  then have "pd\<lparr>pd_decisions := ds\<rparr> = pd" by auto
  with assms True show ?thesis by (auto simp: updateDecisions_def)
next
  case False
  have "pd_key (pd\<lparr>pd_decisions := ds\<rparr>) = k" using api_keyed [OF assms(1,3)] by (simp add: pd_key_def)
  moreover have "pd_update_status c w (pd\<lparr>pd_decisions := ds\<rparr>) = (w', None)"
    using assms(2) False by (simp add: updateDecisions_def)
  ultimately show ?thesis using api_update [OF assms(1)] by metis
qed

lemma createOrUpdate_obs:
  assumes api: "pd_api c obs" and ok: "createOrUpdatePlacementDecision c rule n ds w = (w', None)"
  shows "\<exists>p. obs w' = (obs w)((pr_namespace rule, n) \<mapsto> p) \<and> pd_decisions p = ds"
proof (cases "pd_get c w (pr_namespace rule, n)")
  case (Inl e)
  let ?p = "newDecision rule n"
  have nf: "IsNotFound e" "\<not> length ds > maxNumOfClusterDecisions"
    using ok Inl by (auto simp: createOrUpdatePlacementDecision_def split: if_splits)
  then obtain w1 where w1: "pd_create c w ?p = (w1, None)" "updateDecisions c ?p ds w1 = (w', None)"
    using ok Inl by (auto simp: createOrUpdatePlacementDecision_def split: prod.splits option.splits)
  have o1: "obs w1 = (obs w)((pr_namespace rule, n) \<mapsto> ?p)"
    using api_create [OF api w1(1)] by (simp add: pd_key_def newDecision_def)
  then have "obs w1 (pr_namespace rule, n) = Some ?p" by simp
  from updateDecisions_obs [OF api w1(2) this]
  have "obs w' = (obs w1)((pr_namespace rule, n) \<mapsto> ?p\<lparr>pd_decisions := ds\<rparr>)" .
  then show ?thesis using o1 by (intro exI [of _ "?p\<lparr>pd_decisions := ds\<rparr>"]) simp
next
  case (Inr pd)
  then have "obs w (pr_namespace rule, n) = Some pd" by (rule api_get [OF api])
  moreover have "updateDecisions c pd ds w = (w', None)"
    using ok Inr by (auto simp: createOrUpdatePlacementDecision_def split: if_splits)
  ultimately show ?thesis using updateDecisions_obs [OF api] by fastforce
qed

lemma bind_slices_obs:
  assumes "pd_api c obs"
  shows "bind_slices c rule i dss w = (w', []) \<Longrightarrow>
     (\<forall>j < length dss. \<exists>p. obs w' (pr_namespace rule, decisionName (pr_name rule) (i + j)) = Some p \<and> pd_decisions p = dss ! j)
     \<and> (\<forall>k. (\<forall>j < length dss. k \<noteq> (pr_namespace rule, decisionName (pr_name rule) (i + j))) \<longrightarrow> obs w' k = obs w k)"
proof (induction dss arbitrary: i w)
  case Nil
  then show ?case by simp
next
  case (Cons ds dss)
  let ?n = "\<lambda>i. (pr_namespace rule, decisionName (pr_name rule) i)"
  obtain w1 where w1: "createOrUpdatePlacementDecision c rule (decisionName (pr_name rule) i) ds w = (w1, None)"
    "bind_slices c rule (i + 1) dss w1 = (w', [])"
    using Cons.prems by (auto split: prod.splits option.splits)
  obtain p where p: "obs w1 = (obs w)(?n i \<mapsto> p)" "pd_decisions p = ds"
    using createOrUpdate_obs [OF assms w1(1)] by blast
  note IH = Cons.IH [OF w1(2)]
  have "\<forall>j < length dss. ?n i \<noteq> ?n (i + 1 + j)" using decisionName_inj [of _ i] by fastforce
  then have "obs w' (?n i) = Some p" using IH p(1) by simp
  then have "\<exists>p. obs w' (?n (i + j)) = Some p \<and> pd_decisions p = (ds # dss) ! j" if "j < length (ds # dss)" for j
    using that p(2) IH by (cases j) auto
  moreover have "obs w' k = obs w k" if "\<forall>j < length (ds # dss). k \<noteq> ?n (i + j)" for k
  proof -
    have "k \<noteq> ?n i" "\<forall>j < length dss. k \<noteq> ?n (i + 1 + j)" using that by force+
    then have "obs w' k = obs w1 k" using IH by blast
    then show ?thesis using p(1) \<open>k \<noteq> ?n i\<close> by simp
  qed
  ultimately show ?case by blast
qed

definition redundant :: "string list \<Rightarrow> PDObject list \<Rightarrow> (string \<times> string) set" where
  "redundant names ps = pd_key ` {p \<in> set ps. pd_name p \<notin> set names}"

lemma redundant_Cons:
  "redundant names (p # ps) = (if pd_name p \<in> set names then redundant names ps else insert (pd_key p) (redundant names ps))"
  by (auto simp: redundant_def)

lemma delete_redundant_obs:
  assumes api: "pd_api c obs"
  shows "delete_redundant c names ps w = (w', []) \<Longrightarrow> obs w' k = (if k \<in> redundant names ps then None else obs w k)"
proof (induction ps arbitrary: w)
  case Nil
  then show ?case by (simp add: redundant_def)
next
  case (Cons p ps)
  show ?case
  proof (cases "pd_name p \<in> set names")
    case True
    with Cons show ?thesis by (simp add: redundant_Cons)
  next
    case False
    then obtain w1 e where w1: "pd_delete c w p = (w1, e)" "delete_redundant c names ps w1 = (w', [])"
      "e = None \<or> (\<exists>x. e = Some x \<and> IsNotFound x)"
      using Cons.prems by (auto split: prod.splits option.splits if_splits)
    have "obs w1 = (obs w)(pd_key p := None)" using api_delete [OF api w1(1,3)] .
    then show ?thesis using Cons.IH [OF w1(2)] False by (simp add: redundant_Cons)
  qed
qed

text \<open>
  C3 When the publication of a rule reports no error, the hub holds exactly the decisions of the
  rule: the i-th object carries the i-th slice, the slices put together are the decided
  clusters in order, none has more than a hundred, and no other decision object of the rule
  is left in its namespace.
\<close>

theorem syncPlacementDecisions_publishes:
  assumes "pd_api c obs" and "syncPlacementDecisions c rule w = (w', [])"
  shows "map cd_cluster (concat (ruleSlices rule)) = map ClusterName (pr_decisions rule)
    \<and> (\<forall>s \<in> set (ruleSlices rule). s \<noteq> [] \<and> length s \<le> 100)
    \<and> (\<forall>i < length (ruleSlices rule). \<exists>p. obs w' (pr_namespace rule, decisionName (pr_name rule) i) = Some p
          \<and> pd_decisions p = ruleSlices rule ! i)
    \<and> (\<forall>n p. obs w' (pr_namespace rule, n) = Some p \<longrightarrow> map_of (pd_labels p) placementRuleLabel = Some (pr_name rule)
          \<longrightarrow> (\<exists>i < length (ruleSlices rule). n = decisionName (pr_name rule) i))"
proof -
  let ?sl = "ruleSlices rule" and ?ns = "pr_namespace rule" and ?n = "decisionName (pr_name rule)"
  let ?names = "map ?n [0..<length ?sl]"
  obtain w1 ps where w1: "bind_slices c rule 0 ?sl w = (w1, [])" "pd_list c w1 ?ns (pr_name rule) = Inr ps"
    "delete_redundant c ?names ps w1 = (w', [])"
    using assms(2) by (auto simp: syncPlacementDecisions_def Let_def split: prod.splits sum.splits if_splits)
  note b = bind_slices_obs [OF assms(1) w1(1)] and d = delete_redundant_obs [OF assms(1) w1(3)]
  have lst: "set ps = {p. \<exists>n. obs w1 (?ns, n) = Some p \<and> map_of (pd_labels p) placementRuleLabel = Some (pr_name rule)}"
    by (rule api_list [OF assms(1) w1(2)])
  note keyed = api_keyed [OF assms(1)]
  have kept: "obs w' (?ns, ?n i) = obs w1 (?ns, ?n i)" if "i < length ?sl" for i
  proof -
    have "?n i \<in> set ?names" using that by simp
    then have "(?ns, ?n i) \<notin> redundant ?names ps" unfolding pd_key_def redundant_def by force
    then show ?thesis using d by simp
  qed
  have only: "\<exists>i < length ?sl. n = ?n i"
    if p: "obs w' (?ns, n) = Some p" "map_of (pd_labels p) placementRuleLabel = Some (pr_name rule)" for n p
  proof (rule ccontr)
    assume "\<not> (\<exists>i < length ?sl. n = ?n i)"
    then have out: "n \<notin> set ?names" by auto
    have "obs w1 (?ns, n) = Some p" using d p(1) by (simp split: if_splits)
    then have "p \<in> set ps" "pd_key p = (?ns, n)" using lst p(2) keyed by blast+
    then have "(?ns, n) \<in> redundant ?names ps" using out by (force simp: redundant_def pd_key_def)
    then show False using d p(1) by simp
  qed
  have "concat ?sl = map (\<lambda>d. \<lparr>cd_cluster = ClusterName d, cd_reason = ''''\<rparr>) (pr_decisions rule)"
    using decisionSlices_spec unfolding ruleSlices_def by blast
  then have "map cd_cluster (concat ?sl) = map ClusterName (pr_decisions rule)" by (simp add: comp_def)
  moreover have "\<forall>s \<in> set ?sl. s \<noteq> [] \<and> length s \<le> 100"
    using decisionSlices_spec unfolding ruleSlices_def maxNumOfClusterDecisions_def by blast
  ultimately show ?thesis using b kept only by auto
qed

text \<open>An API server that holds its objects in a list, for the witness.\<close>

definition mem_obs :: "PDObject list \<Rightarrow> string \<times> string \<Rightarrow> PDObject option" where
  "mem_obs w k = map_of (map (\<lambda>p. (pd_key p, p)) w) k"

definition mem_put :: "PDObject list \<Rightarrow> PDObject \<Rightarrow> PDObject list" where
  "mem_put w p = p # filter (\<lambda>q. pd_key q \<noteq> pd_key p) w"

definition mem_client :: "PDObject list pd_client" where
  "mem_client = \<lparr>pd_get = (\<lambda>w k. case mem_obs w k of None \<Rightarrow> Inl (NotFound ''no such object'') | Some p \<Rightarrow> Inr p),
     pd_create = (\<lambda>w p. if mem_obs w (pd_key p) = None then (mem_put w p, None) else (w, Some (OtherError ''exists''))),
     pd_update_status = (\<lambda>w p. (mem_put w p, None)),
     pd_list = (\<lambda>w ns v. Inr (filter (\<lambda>p. pd_namespace p = ns \<and> mem_obs w (pd_key p) = Some p
        \<and> map_of (pd_labels p) placementRuleLabel = Some v) w)),
     pd_delete = (\<lambda>w p. if mem_obs w (pd_key p) = None then (w, Some (NotFound ''no such object''))
        else (filter (\<lambda>q. pd_key q \<noteq> pd_key p) w, None))\<rparr>"

lemma mem_obs_key: "mem_obs w k = Some p \<Longrightarrow> pd_key p = k \<and> p \<in> set w"
  by (auto simp: mem_obs_def dest: map_of_SomeD)

lemma mem_obs_filter: "mem_obs (filter (\<lambda>q. pd_key q \<noteq> k) w) = (mem_obs w)(k := None)"
  by (induction w) (auto simp: mem_obs_def fun_eq_iff)

lemma mem_obs_put: "mem_obs (mem_put w p) = (mem_obs w)(pd_key p \<mapsto> p)"
  using mem_obs_filter [of "pd_key p" w] by (auto simp: mem_put_def mem_obs_def fun_eq_iff)

lemma mem_list:
  "set (filter (\<lambda>p. pd_namespace p = ns \<and> mem_obs w (pd_key p) = Some p \<and> P p) w)
     = {p. \<exists>n. mem_obs w (ns, n) = Some p \<and> P p}"
proof -
  have "p \<in> set w \<and> pd_namespace p = ns \<and> mem_obs w (pd_key p) = Some p \<longleftrightarrow> (\<exists>n. mem_obs w (ns, n) = Some p)" for p
    using mem_obs_key [of w _ p] by (metis pd_key_def prod.inject)
  then show ?thesis by auto
qed

lemma mem_api: "pd_api mem_client mem_obs"
  unfolding pd_api_def mem_client_def pd_client.select_convs
proof (intro conjI allI impI)
  fix w k p
  assume "mem_obs w k = Some p"
  then show "pd_key p = k" by (simp add: mem_obs_key)
next
  fix w k p
  assume "(case mem_obs w k of None \<Rightarrow> Inl (NotFound ''no such object'') | Some p \<Rightarrow> Inr p) = Inr p"
  then show "mem_obs w k = Some p" by (simp split: option.splits)
qed (auto simp: mem_obs_put mem_obs_filter mem_list [simplified] split: if_splits)

definition pub_ex :: PlacementRule where
  "pub_ex = \<lparr>pr_name = ''rule'', pr_namespace = ''ns'', pr_annotations = None, pr_scheduler = '''', pr_replicas = None,
     pr_generic = \<lparr>gp_clusters = [], gp_selector = None\<rparr>, pr_conditions = None, pr_hint = None, pr_policies = None,
     pr_decisions = [mkDecision ''c1'']\<rparr>"

definition pub_world :: "PDObject list" where
  "pub_world = [(newDecision pub_ex ''rule-decision-1'')\<lparr>pd_decisions := [\<lparr>cd_cluster = ''c1'', cd_reason = ''''\<rparr>]\<rparr>]"

theorem syncPlacementDecisions_publishes_witness:
  "syncPlacementDecisions mem_client pub_ex [newDecision pub_ex ''rule-decision-2''] = (pub_world, [])
   \<and> (\<exists>p. mem_obs pub_world (''ns'', decisionName ''rule'' 0) = Some p \<and> pd_decisions p = [\<lparr>cd_cluster = ''c1'', cd_reason = ''''\<rparr>])"
proof -
  have run: "syncPlacementDecisions mem_client pub_ex [newDecision pub_ex ''rule-decision-2''] = (pub_world, [])" by code_simp
  have sl: "ruleSlices pub_ex = [[\<lparr>cd_cluster = ''c1'', cd_reason = ''''\<rparr>]]" by code_simp
  have "pr_namespace pub_ex = ''ns''" "pr_name pub_ex = ''rule''" by (simp_all add: pub_ex_def)
  then show ?thesis using syncPlacementDecisions_publishes [OF mem_api run] run by (simp add: sl)
qed

end
