(* ===== verification/Predicates.thy ===== *)
theory Predicates
  imports PlacementDecision
begin

text \<open>
  The event predicates of the hub controllers (\<open>pkg/placementrule/utils/cluster.go\<close>,
  \<open>placementrule_status_controller.go\<close>): which changes of the watched objects start a reconcile.

  An update predicate is meant to drop an event exactly when the part of the object that the
  controller looks at is unchanged. That is the locale \<open>update_filter\<close>: \<open>upd\<close> is the predicate,
  \<open>view\<close> the part, \<open>ok\<close> what the API server guarantees of the objects. Its client lemmas say that
  dropping events loses nothing, however many are dropped in a row.
\<close>

section \<open>Update predicates\<close>

locale update_filter =
  fixes upd :: "'o \<Rightarrow> 'o \<Rightarrow> bool" and view :: "'o \<Rightarrow> 'v" and ok :: "'o \<Rightarrow> bool"
  assumes upd_iff: "ok a \<Longrightarrow> ok b \<Longrightarrow> upd a b \<longleftrightarrow> view a \<noteq> view b"
begin

lemma upd_self: "ok a \<Longrightarrow> \<not> upd a a"
  by (simp add: upd_iff)

lemma upd_sym: "ok a \<Longrightarrow> ok b \<Longrightarrow> upd a b \<longleftrightarrow> upd b a"
  by (auto simp: upd_iff)

lemma dropped_same: "ok a \<Longrightarrow> ok b \<Longrightarrow> \<not> upd a b \<Longrightarrow> view a = view b"
  by (simp add: upd_iff)

text \<open>A run of updates whose events are all dropped leaves the view where it was.\<close>

lemma dropped_run:
  "ok a \<Longrightarrow> \<forall>x \<in> set xs. ok x \<Longrightarrow> sorted_wrt (\<lambda>x y. \<not> upd x y) (a # xs) \<Longrightarrow> view (last (a # xs)) = view a"
  by (induction xs rule: rev_induct) (auto simp: sorted_wrt_append upd_iff)

lemma dropped_steps:
  "ok a \<Longrightarrow> \<forall>x \<in> set xs. ok x \<Longrightarrow> successively (\<lambda>x y. \<not> upd x y) (a # xs) \<Longrightarrow> view (last (a # xs)) = view a"
proof (induction xs arbitrary: a)
  case Nil
  then show ?case by simp
next
  case (Cons x xs)
  then have "view x = view a" by (simp add: upd_iff)
  moreover have "view (last (x # xs)) = view x" using Cons by simp
  ultimately show ?case by simp
qed

end

section \<open>Managed clusters\<close>

text \<open>The loop over the new conditions against the map of the old ones: \<open>None\<close> is the early return of true.\<close>

fun cond_loop :: "strmap \<Rightarrow> (string \<times> string) list \<Rightarrow> strmap option" where
  "cond_loop old [] = Some old"
| "cond_loop old (c # cs) =
     (case map_of old (fst c) of
        None \<Rightarrow> None
      | Some st \<Rightarrow> (if st \<noteq> snd c then None else cond_loop (gm_del (fst c) old) cs))"

definition condsToMap :: "(string \<times> string) list \<Rightarrow> strmap" where
  "condsToMap cs = fold (\<lambda>c. gm_put (fst c) (snd c)) cs []"

definition ClusterPredicateUpdate :: "ManagedCluster \<Rightarrow> ManagedCluster \<Rightarrow> bool" where
  "ClusterPredicateUpdate old new \<longleftrightarrow>
     mc_deleted old \<noteq> mc_deleted new \<or> \<not> gm_equal_nil (mc_labels old) (mc_labels new)
     \<or> (case cond_loop (condsToMap (mc_conditions old)) (mc_conditions new) of
          None \<Rightarrow> True
        | Some rest \<Rightarrow> rest \<noteq> [])"

definition ClusterPredicateCreate :: "ManagedCluster \<Rightarrow> bool" where
  "ClusterPredicateCreate cl = True"

text \<open>
  The API server keeps the conditions of a cluster as a list keyed by type, and labels as a map.
\<close>

definition mc_ok :: "ManagedCluster \<Rightarrow> bool" where
  "mc_ok cl \<longleftrightarrow> distinct (map fst (mc_conditions cl)) \<and> (case mc_labels cl of None \<Rightarrow> True | Some l \<Rightarrow> wf_gm l)"

definition mc_view ::
  "ManagedCluster \<Rightarrow> int option \<times> (string \<Rightarrow> string option) option \<times> (string \<Rightarrow> string option)" where
  "mc_view cl = (mc_deleted cl, map_option map_of (mc_labels cl), map_of (mc_conditions cl))"

lemma condsToMap_spec:
  assumes "distinct (map fst cs)"
  shows "map_of (condsToMap cs) = map_of cs" "wf_gm (condsToMap cs)"
proof -
  show "wf_gm (condsToMap cs)" unfolding condsToMap_def by (rule gm.wf_fold_put) (simp add: wf_gm_def)
  have "map_of (rev cs) = map_of cs" using assms by (subst map_of_inject_set) (auto simp: rev_map [symmetric])
  then show "map_of (condsToMap cs) = map_of cs" by (simp add: condsToMap_def gm.look_fold_put)
qed

lemma cond_loop_spec:
  "distinct (map fst cs) \<Longrightarrow> wf_gm old \<Longrightarrow> cond_loop old cs = Some [] \<longleftrightarrow> map_of old = map_of cs"
proof (induction cs arbitrary: old)
  case Nil
  then show ?case by simp
next
  case (Cons c cs)
  have c: "map_of cs (fst c) = None" using Cons.prems(1) by (simp add: map_of_eq_None_iff)
  have del: "wf_gm (gm_del (fst c) old)" "map_of (gm_del (fst c) old) = (map_of old)(fst c := None)"
    using Cons.prems(2) by (simp_all add: gmap_simps)
  show ?case
  proof (cases "map_of old (fst c) = Some (snd c)")
    case True
    then have "cond_loop old (c # cs) = cond_loop (gm_del (fst c) old) cs" by simp
    also have "\<dots> = Some [] \<longleftrightarrow> (map_of old)(fst c := None) = map_of cs"
      using Cons.IH [OF _ del(1)] Cons.prems(1) unfolding del(2) list.map distinct.simps by (elim conjE)
    also have "\<dots> \<longleftrightarrow> map_of old = map_of (c # cs)"
      using True c by (metis fun_upd_idem_iff fun_upd_upd map_of.simps(2))
    finally show ?thesis .
  next
    case False
    then have "cond_loop old (c # cs) = None" by (auto split: option.splits)
    moreover have "map_of old \<noteq> map_of (c # cs)" using False by (metis fun_upd_same map_of.simps(2))
    ultimately show ?thesis by (metis option.distinct(1))
  qed
qed

lemma labels_equal:
  "(case a of None \<Rightarrow> True | Some l \<Rightarrow> wf_gm l) \<Longrightarrow> (case b of None \<Rightarrow> True | Some l \<Rightarrow> wf_gm l) \<Longrightarrow>
     gm_equal_nil a b \<longleftrightarrow> map_option map_of a = map_option map_of b"
  by (cases a; cases b) (auto simp: gm_equal_iff)

interpretation mcp: update_filter ClusterPredicateUpdate mc_view mc_ok
proof
  fix a b
  assume ok: "mc_ok a" "mc_ok b"
  have conds: "(case cond_loop (condsToMap (mc_conditions a)) (mc_conditions b) of None \<Rightarrow> True | Some rest \<Rightarrow> rest \<noteq> [])
      \<longleftrightarrow> map_of (mc_conditions a) \<noteq> map_of (mc_conditions b)"
    using cond_loop_spec [of "mc_conditions b" "condsToMap (mc_conditions a)"] condsToMap_spec [of "mc_conditions a"] ok
    by (auto simp: mc_ok_def split: option.splits)
  show "ClusterPredicateUpdate a b \<longleftrightarrow> mc_view a \<noteq> mc_view b"
    using labels_equal [of "mc_labels a" "mc_labels b"] ok
    unfolding ClusterPredicateUpdate_def conds by (auto simp: mc_view_def mc_ok_def)
qed

section \<open>Decisions\<close>

definition placementRuleStatusUpdate :: "PlacementRule \<Rightarrow> PlacementRule \<Rightarrow> bool" where
  "placementRuleStatusUpdate old new \<longleftrightarrow> pr_decisions new \<noteq> pr_decisions old"

definition PlacementDecisionUpdate :: "PDObject \<Rightarrow> PDObject \<Rightarrow> bool" where
  "PlacementDecisionUpdate old new \<longleftrightarrow> pd_decisions old \<noteq> pd_decisions new"

definition PlacementDecisionPredicateUpdate :: "PDObject \<Rightarrow> PDObject \<Rightarrow> bool" where
  "PlacementDecisionPredicateUpdate old new = (if pd_decisions new \<noteq> pd_decisions old then True else False)"

interpretation prs: update_filter placementRuleStatusUpdate pr_decisions "\<lambda>_. True"
  by unfold_locales (auto simp: placementRuleStatusUpdate_def)

interpretation pdp: update_filter PlacementDecisionUpdate pd_decisions "\<lambda>_. True"
  by unfold_locales (auto simp: PlacementDecisionUpdate_def)

interpretation pdu: update_filter PlacementDecisionPredicateUpdate pd_decisions "\<lambda>_. True"
  by unfold_locales (auto simp: PlacementDecisionPredicateUpdate_def)

section \<open>Secrets and services\<close>

definition ACMClusterSecretLabel :: string where
  "ACMClusterSecretLabel = ''apps.open-cluster-management.io/secret-type''"

definition ArgocdClusterSecretLabel :: string where
  "ArgocdClusterSecretLabel = ''apps.open-cluster-management.io/acm-cluster''"

text \<open>A nil label map reads like an empty one.\<close>

definition label :: "strmap option \<Rightarrow> string \<Rightarrow> string option" where
  "label ls k = (case ls of None \<Rightarrow> None | Some m \<Rightarrow> map_of m k)"

definition AcmClusterSecretUpdate :: "strmap option \<Rightarrow> strmap option \<Rightarrow> bool" where
  "AcmClusterSecretUpdate old new =
     (if label old ACMClusterSecretLabel = Some ''acm-cluster'' then True
      else if label new ACMClusterSecretLabel = Some ''acm-cluster'' then True else False)"

definition AcmClusterSecretEvent :: "strmap option \<Rightarrow> bool" where
  "AcmClusterSecretEvent ls =
     (case label ls ACMClusterSecretLabel of None \<Rightarrow> False | Some t \<Rightarrow> if t \<noteq> ''acm-cluster'' then False else True)"

definition ArgocdClusterSecretUpdate :: "strmap option \<Rightarrow> strmap option \<Rightarrow> bool" where
  "ArgocdClusterSecretUpdate old new =
     (if label old ArgocdClusterSecretLabel = Some ''true'' then True
      else if label new ArgocdClusterSecretLabel = Some ''true'' then True else False)"

definition ArgocdClusterSecretEvent :: "strmap option \<Rightarrow> bool" where
  "ArgocdClusterSecretEvent ls =
     (case label ls ArgocdClusterSecretLabel of None \<Rightarrow> False | Some t \<Rightarrow> if t \<noteq> ''true'' then False else True)"

text \<open>Update and create of a managed cluster secret (new object), and its deletion.\<close>

definition ManagedClusterSecretUpsert :: "strmap option \<Rightarrow> bool" where
  "ManagedClusterSecretUpsert ls = (if label ls ArgocdClusterSecretLabel \<noteq> None then False else True)"

definition ManagedClusterSecretDelete :: "strmap option \<Rightarrow> bool" where
  "ManagedClusterSecretDelete ls = (if label ls ArgocdClusterSecretLabel \<noteq> None then True else False)"

definition isArgocdServer :: "strmap option \<Rightarrow> bool" where
  "isArgocdServer ls \<longleftrightarrow> label ls ''app.kubernetes.io/part-of'' = Some ''argocd''
     \<and> label ls ''app.kubernetes.io/component'' = Some ''server''"

definition ArgocdServerUpdate :: "strmap option \<Rightarrow> strmap option \<Rightarrow> bool" where
  "ArgocdServerUpdate old new = (if isArgocdServer old then True else if isArgocdServer new then True else False)"

definition ArgocdServerEvent :: "strmap option \<Rightarrow> bool" where
  "ArgocdServerEvent ls =
     (case ls of
        None \<Rightarrow> False
      | Some m \<Rightarrow> if gm_str m ''app.kubernetes.io/part-of'' \<noteq> ''argocd''
                     \<or> gm_str m ''app.kubernetes.io/component'' \<noteq> ''server'' then False else True)"

text \<open>
  The cluster predicate loses no change: along any run of updates of a managed cluster whose
  events are all dropped, its deletion time, its labels and the status of its conditions stay
  what they were, and every change of them starts a reconcile.
\<close>

theorem cluster_predicate_sound:
  assumes "mc_ok a" and "\<forall>x \<in> set xs. mc_ok x" and "mc_ok b"
  shows "(successively (\<lambda>x y. \<not> ClusterPredicateUpdate x y) (a # xs) \<longrightarrow> mc_view (last (a # xs)) = mc_view a)
    \<and> (ClusterPredicateUpdate a b \<longleftrightarrow> mc_view a \<noteq> mc_view b)"
  using mcp.dropped_steps [OF assms(1,2)] mcp.upd_iff [OF assms(1,3)] by blast

theorem cluster_predicate_sound_witness:
  "ClusterPredicateUpdate
     \<lparr>mc_name = ''c'', mc_deleted = None, mc_labels = Some [(''a'', ''1'')], mc_conditions = [(''Joined'', ''True'')], mc_allocatable = None\<rparr>
     \<lparr>mc_name = ''c'', mc_deleted = None, mc_labels = Some [(''a'', ''1'')], mc_conditions = [(''Joined'', ''False'')], mc_allocatable = None\<rparr>"
  (is "ClusterPredicateUpdate ?a ?b")
proof -
  have "mc_ok ?a" "mc_ok ?b" by (simp_all add: mc_ok_def wf_gm_def)
  moreover have "mc_view ?a \<noteq> mc_view ?b" by (auto simp: mc_view_def fun_eq_iff)
  ultimately show ?thesis using cluster_predicate_sound [of ?a "[]" ?b] by simp
qed

text \<open>
  A service event and an update agree on what the Argo CD server is: the create and delete
  predicates accept exactly the labelled services, and an update is accepted when either side
  of it is one. The secret predicates have the same shape.
\<close>

theorem argocd_predicates_agree:
  "(ArgocdServerEvent ls \<longleftrightarrow> isArgocdServer ls)
   \<and> (ArgocdServerUpdate old new \<longleftrightarrow> ArgocdServerEvent old \<or> ArgocdServerEvent new)
   \<and> (ArgocdClusterSecretUpdate old new \<longleftrightarrow> ArgocdClusterSecretEvent old \<or> ArgocdClusterSecretEvent new)
   \<and> (AcmClusterSecretUpdate old new \<longleftrightarrow> AcmClusterSecretEvent old \<or> AcmClusterSecretEvent new)
   \<and> (ManagedClusterSecretUpsert ls \<longleftrightarrow> \<not> ManagedClusterSecretDelete ls)"
proof -
  have ev: "ArgocdServerEvent l \<longleftrightarrow> isArgocdServer l" for l
    by (auto simp: ArgocdServerEvent_def isArgocdServer_def label_def gm_str_def split: option.splits)
  then show ?thesis
    by (auto simp: ArgocdServerUpdate_def ArgocdClusterSecretUpdate_def ArgocdClusterSecretEvent_def
        AcmClusterSecretUpdate_def AcmClusterSecretEvent_def ManagedClusterSecretUpsert_def
        ManagedClusterSecretDelete_def split: option.splits)
qed

end
