(* ===== verification/SubscriptionUtils.thy ===== *)
theory SubscriptionUtils
  imports KubeObjects Predicates
begin

text \<open>
  The helpers of \<open>pkg/utils/subscription.go\<close>: which changes of a subscription count, what its
  status says about a package, which resources it may deploy, how often it is reconciled, and
  the parsing of names. API reads are arguments; so are the label selector of the API machinery
  (\<open>sel\<close>), the hash of long release names (\<open>sha\<close>), JSON marshalling and the clock.
\<close>

section \<open>Changes of a subscription\<close>

definition annotationsSep :: char where "annotationsSep = CHR '',''"

definition stringToSet :: "string \<Rightarrow> char \<Rightarrow> string list" where
  "stringToSet s sep = remdups (go_split sep s)"

text \<open>Both sides lose the key; the boolean says whether they held the same set of words.\<close>

definition isEqualAnnotationFiled ::
  "strmap option \<Rightarrow> strmap option \<Rightarrow> string \<Rightarrow> bool \<times> strmap option \<times> strmap option" where
  "isEqualAnnotationFiled o' n key =
     (set (stringToSet (anno o' key) annotationsSep) = set (stringToSet (anno n key) annotationsSep),
      anno_del key o', anno_del key n)"

definition FilterOutTimeRelatedFields :: "Subscription \<Rightarrow> Subscription" where
  "FilterOutTimeRelatedFields s =
     (let anno0 = (case sub_annotations s of None \<Rightarrow> [] | Some a \<Rightarrow> a);
          fields = [''kubectl.kubernetes.io/last-applied-configuration''] @
            (if gm_str anno0 AnnotationGitTag = '''' \<and> gm_str anno0 AnnotationGitTargetCommit = ''''
             then [AnnotationGitCommit] else [])
      in s\<lparr>sub_annotations := Some (fold gm_del fields anno0)\<rparr>)"

fun labelSelector_equal :: "LabelSelector option \<Rightarrow> LabelSelector option \<Rightarrow> bool" where
  "labelSelector_equal None None = True"
| "labelSelector_equal (Some a) (Some b) \<longleftrightarrow> gm_equal (MatchLabels a) (MatchLabels b) \<and> MatchExpressions a = MatchExpressions b"
| "labelSelector_equal _ _ = False"

fun filter_equal :: "PackageFilter option \<Rightarrow> PackageFilter option \<Rightarrow> bool" where
  "filter_equal None None = True"
| "filter_equal (Some a) (Some b) \<longleftrightarrow> labelSelector_equal (pf_labelSelector a) (pf_labelSelector b)
     \<and> gm_equal_nil (pf_annotations a) (pf_annotations b) \<and> pf_version a = pf_version b \<and> pf_filterRef a = pf_filterRef b"
| "filter_equal _ _ = False"

text \<open>\<open>reflect.DeepEqual\<close> on two specs: maps are compared as maps, everything else as is.\<close>

definition spec_equal :: "SubscriptionSpec \<Rightarrow> SubscriptionSpec \<Rightarrow> bool" where
  "spec_equal a b \<longleftrightarrow> filter_equal (sp_packageFilter a) (sp_packageFilter b)
     \<and> a\<lparr>sp_packageFilter := None\<rparr> = b\<lparr>sp_packageFilter := None\<rparr>"

definition IsSubscriptionBasicChanged :: "Subscription \<Rightarrow> Subscription \<Rightarrow> bool" where
  "IsSubscriptionBasicChanged o' n =
     (let fo = FilterOutTimeRelatedFields o'; fn = FilterOutTimeRelatedFields n
      in if sub_finalizers fo \<noteq> sub_finalizers fn then True
         else if \<not> gm_equal_nil (sub_labels fo) (sub_labels fn) then True
         else let (eq1, oa1, na1) = isEqualAnnotationFiled (sub_annotations fo) (sub_annotations fn) AnnotationDeployables
              in if \<not> eq1 then True
         else let (eq2, oa2, na2) = isEqualAnnotationFiled oa1 na1 AnnotationTopo
              in if \<not> eq2 then True
         else let (eq3, oa3, na3) = isEqualAnnotationFiled oa2 na2 AnnotationGitCommit
              in if \<not> eq3 then True
         else if \<not> gm_equal_nil oa3 na3 then True
         else if \<not> spec_equal (sub_spec fo) (sub_spec fn) then True
         else False)"

definition IsSubscriptionResourceChanged :: "Subscription \<Rightarrow> Subscription \<Rightarrow> bool" where
  "IsSubscriptionResourceChanged o' n =
     (if IsSubscriptionBasicChanged o' n then True
      else if st_phase (sub_status n) = '''' \<or> st_phase (sub_status n) \<noteq> st_phase (sub_status o') then True
      else False)"

definition SubscriptionPredicateUpdate :: "Subscription \<Rightarrow> Subscription \<Rightarrow> bool" where
  "SubscriptionPredicateUpdate old new = IsSubscriptionBasicChanged old new"

definition clusterLabel :: string where "clusterLabel = ''apps.open-cluster-management.io/cluster''"

text \<open>The report predicates: \<open>same\<close> is the comparison of the two whole reports.\<close>

definition AppSubSummaryUpdate :: "strmap option \<Rightarrow> strmap option \<Rightarrow> bool \<Rightarrow> bool" where
  "AppSubSummaryUpdate oldLabels newLabels same =
     (if label oldLabels clusterLabel = None \<or> label newLabels clusterLabel = None \<or> anno newLabels clusterLabel = ''''
      then False else \<not> same)"

definition AppSubSummaryEvent :: "strmap option \<Rightarrow> bool" where
  "AppSubSummaryEvent ls = (if label ls clusterLabel = None \<or> anno ls clusterLabel = '''' then False else True)"

definition ChannelPredicateUpdate :: "Channel \<Rightarrow> Channel \<Rightarrow> bool" where
  "ChannelPredicateUpdate old new =
     (if \<not> gm_equal_nil (ch_annotations old) (ch_annotations new) then True
      else (ch_type new, ch_pathname new, ch_secretRef new, ch_configMapRef new, ch_insecure new)
           \<noteq> (ch_type old, ch_pathname old, ch_secretRef old, ch_configMapRef old, ch_insecure old))"

definition ServiceAccountPredicate :: "string \<Rightarrow> string \<Rightarrow> string \<Rightarrow> bool" where
  "ServiceAccountPredicate addonNs ns name =
     (if EqualFold ns addonNs \<and> EqualFold name ''application-manager'' then True else False)"

section \<open>Messages and statuses\<close>

text \<open>\<open>cluster1:active,cluster2:block\<close> as a map; a unit with more than one colon is skipped.\<close>

definition unit_put :: "string \<Rightarrow> strmap \<Rightarrow> strmap" where
  "unit_put u out = (case go_split (CHR '':'') u of
       [k, v] \<Rightarrow> gm_put k v out
     | [k] \<Rightarrow> gm_put k '''' out
     | _ \<Rightarrow> out)"

definition stringToMap :: "string \<Rightarrow> strmap" where
  "stringToMap msg = fold unit_put (go_split (CHR '','') msg) []"

definition isSameMessage :: "string \<Rightarrow> string \<Rightarrow> bool" where
  "isSameMessage a b = gm_equal (stringToMap a) (stringToMap b)"

fun isEqualSubscriptionUnitStatus :: "SubscriptionUnitStatus option \<Rightarrow> SubscriptionUnitStatus option \<Rightarrow> bool" where
  "isEqualSubscriptionUnitStatus None None = True"
| "isEqualSubscriptionUnitStatus (Some a) (Some b) \<longleftrightarrow> isSameMessage (us_message a) (us_message b)
     \<and> us_phase a = us_phase b \<and> us_reason a = us_reason b \<and> us_resource a = us_resource b"
| "isEqualSubscriptionUnitStatus _ _ = False"

text \<open>The shape of both map comparisons: equal sizes, and every entry of the first has its match in the second.\<close>

definition maps_match :: "('v \<Rightarrow> 'v \<Rightarrow> bool) \<Rightarrow> (string \<times> 'v) list \<Rightarrow> (string \<times> 'v) list \<Rightarrow> bool" where
  "maps_match eq a b \<longleftrightarrow> length a = length b
     \<and> (\<forall>(k, v) \<in> set a. case map_of b k of None \<Rightarrow> False | Some w \<Rightarrow> eq v w)"

definition unnil :: "'a list option \<Rightarrow> 'a list" where
  "unnil m = (case m of None \<Rightarrow> [] | Some l \<Rightarrow> l)"

lemma unnil_simps [simp]: "unnil None = []" "unnil (Some l) = l"
  by (simp_all add: unnil_def)

lemma anno_unnil: "anno m k = gm_str (unnil m) k"
  by (cases m) (auto simp: gm_str_def anno_def)

definition isEqualSubPerClusterStatus :: "pkgmap \<Rightarrow> pkgmap \<Rightarrow> bool" where
  "isEqualSubPerClusterStatus a b = maps_match isEqualSubscriptionUnitStatus (unnil a) (unnil b)"

fun perCluster_match :: "pkgmap option \<Rightarrow> pkgmap option \<Rightarrow> bool" where
  "perCluster_match None None = True"
| "perCluster_match (Some v) (Some w) = isEqualSubPerClusterStatus v w"
| "perCluster_match _ _ = False"

definition isEqualSubClusterStatus :: "clstmap \<Rightarrow> clstmap \<Rightarrow> bool" where
  "isEqualSubClusterStatus a b = maps_match perCluster_match (unnil a) (unnil b)"

definition isEmptySubscriptionStatus :: "SubscriptionStatus \<Rightarrow> bool" where
  "isEmptySubscriptionStatus a =
     (if st_message a \<noteq> '''' \<or> st_phase a \<noteq> '''' \<or> st_reason a \<noteq> '''' \<or> unnil (st_statuses a) \<noteq> [] then False else True)"

definition isEqualSubscriptionStatus :: "SubscriptionStatus \<Rightarrow> SubscriptionStatus \<Rightarrow> bool" where
  "isEqualSubscriptionStatus a b =
     (if \<not> isSameMessage (st_message a) (st_message b) then False
      else if st_phase a \<noteq> st_phase b \<or> st_reason a \<noteq> st_reason b then False
      else if length (unnil (st_statuses a)) \<noteq> length (unnil (st_statuses b)) then False
      else if length (unnil (st_statuses a)) = 0 then True
      else isEqualSubClusterStatus (st_statuses a) (st_statuses b))"

definition isAnsibleStatusEqual :: "SubscriptionStatus \<Rightarrow> SubscriptionStatus \<Rightarrow> bool" where
  "isAnsibleStatusEqual a b =
     (if st_posthook a \<noteq> st_posthook b then False else if st_prehook a \<noteq> st_prehook b then False else True)"

definition IsHubRelatedStatusChanged :: "SubscriptionStatus \<Rightarrow> SubscriptionStatus \<Rightarrow> bool" where
  "IsHubRelatedStatusChanged old new =
     (if \<not> isAnsibleStatusEqual old new then True
      else if st_phase old \<noteq> st_phase new \<or> st_reason old \<noteq> st_reason new
              \<or> \<not> isSameMessage (st_message old) (st_message new) then True
      else if \<not> isEqualSubClusterStatus (st_statuses old) (st_statuses new) then True
      else False)"

definition emptyUnitStatus :: SubscriptionUnitStatus where
  "emptyUnitStatus = \<lparr>us_phase = '''', us_message = '''', us_reason = '''', us_time = 0, us_resource = None\<rparr>"

text \<open>
  \<open>marshal\<close> is \<open>json.Marshal\<close> of the status, which yields no bytes when it fails; \<open>raw\<close> is the
  resource status to record, if any.
\<close>

definition newUnitStatus ::
  "int \<Rightarrow> ('s \<Rightarrow> string option) \<Rightarrow> SubscriptionUnitStatus \<Rightarrow> string option \<Rightarrow> 's option \<Rightarrow> SubscriptionUnitStatus" where
  "newUnitStatus now marshal old pkgerr status =
     (let u = (case pkgerr of
                 None \<Rightarrow> old\<lparr>us_phase := SubscriptionSubscribed, us_reason := '''', us_message := ''''\<rparr>
               | Some e \<Rightarrow> old\<lparr>us_phase := SubscriptionFailed, us_reason := e\<rparr>)
      in u\<lparr>us_time := now,
           us_resource := (case status of
               None \<Rightarrow> None
             | Some s \<Rightarrow> Some (case marshal s of None \<Rightarrow> '''' | Some b \<Rightarrow> b))\<rparr>)"

definition SetInClusterPackageStatus ::
  "int \<Rightarrow> ('s \<Rightarrow> string option) \<Rightarrow> SubscriptionStatus \<Rightarrow> string \<Rightarrow> string option \<Rightarrow> 's option \<Rightarrow> SubscriptionStatus" where
  "SetInClusterPackageStatus now marshal substatus pkgname pkgerr status =
     (let sts = unnil (st_statuses substatus);
          pkgs = (case map_of sts ''/'' of Some (Some (Some m)) \<Rightarrow> m | _ \<Rightarrow> []);
          old = (case map_of pkgs pkgname of Some (Some u) \<Rightarrow> u | _ \<Rightarrow> emptyUnitStatus);
          new = newUnitStatus now marshal old pkgerr status;
          newStatus = substatus\<lparr>st_statuses := Some (gm_put ''/'' (Some (Some (gm_put pkgname (Some new) pkgs))) sts),
                                st_time := now\<rparr>
      in if isEmptySubscriptionStatus newStatus \<or> \<not> isEqualSubscriptionStatus substatus newStatus
         then newStatus else substatus)"

text \<open>The status writers: a read and a write of the stored subscription, errors are logged only.\<close>

record 'w sub_client =
  sub_get :: "'w \<Rightarrow> nsname \<Rightarrow> kerr + Subscription"
  sub_update_status :: "'w \<Rightarrow> Subscription \<Rightarrow> 'w \<times> kerr option"

definition UpdateLastUpdateTime :: "int \<Rightarrow> 'w sub_client \<Rightarrow> nsname \<Rightarrow> 'w \<Rightarrow> 'w" where
  "UpdateLastUpdateTime now c key w =
     (case sub_get c w key of
        Inl e \<Rightarrow> w
      | Inr s \<Rightarrow> fst (sub_update_status c w (s\<lparr>sub_status := (sub_status s)\<lparr>st_time := now\<rparr>\<rparr>)))"

definition UpdateSubscriptionStatus :: "'w sub_client \<Rightarrow> nsname \<Rightarrow> string \<Rightarrow> string \<Rightarrow> 'w \<Rightarrow> 'w" where
  "UpdateSubscriptionStatus c key phase reason w =
     (case sub_get c w key of
        Inl e \<Rightarrow> w
      | Inr s \<Rightarrow> fst (sub_update_status c w (s\<lparr>sub_status := (sub_status s)\<lparr>st_phase := phase, st_reason := reason\<rparr>\<rparr>)))"

section \<open>Names\<close>

definition ParseNamespacedName :: "string \<Rightarrow> string \<times> string" where
  "ParseNamespacedName s = (case go_split (CHR ''/'') s of [a, b] \<Rightarrow> (a, b) | _ \<Rightarrow> ('''', ''''))"

definition ParseAPIVersion :: "string \<Rightarrow> string \<times> string" where
  "ParseAPIVersion s = (case go_split (CHR ''/'') s of [v] \<Rightarrow> ('''', v) | [g, v] \<Rightarrow> (g, v) | _ \<Rightarrow> ('''', ''''))"

text \<open>The hosting subscription of an object, by its annotations, as namespace and name.\<close>

definition GetHostSubscriptionFromObject :: "strmap option \<Rightarrow> nsname option" where
  "GetHostSubscriptionFromObject annotations =
     (case annotations of
        None \<Rightarrow> None
      | Some a \<Rightarrow>
          (if gm_str a AnnotationHosting = '''' then None
           else case go_split (CHR ''/'') (gm_str a AnnotationHosting) of [ns, n] \<Rightarrow> Some (ns, n) | _ \<Rightarrow> None))"

definition IsHostingAppsub :: "Subscription \<Rightarrow> bool" where
  "IsHostingAppsub s = (case sub_annotations s of None \<Rightarrow> False | Some a \<Rightarrow> map_of a AnnotationHosting \<noteq> None)"

definition maxNameLength :: nat where "maxNameLength = 31"
definition randomLength :: nat where "randomLength = 5"
definition maxGeneratedNameLength :: nat where "maxGeneratedNameLength = maxNameLength - randomLength - 1"

definition GetReleaseName :: "(string \<Rightarrow> string) \<Rightarrow> string \<Rightarrow> string" where
  "GetReleaseName sha base =
     (if length base > maxNameLength
      then take maxGeneratedNameLength base @ ''-'' @ take randomLength (sha base)
      else base)"

section \<open>Overrides\<close>

definition prepareOverrides :: "string \<Rightarrow> Subscription \<Rightarrow> ClusterOverride list option" where
  "prepareOverrides pkgName s =
     (case sp_packageOverrides (sub_spec s) of
        None \<Rightarrow> None
      | Some ovs \<Rightarrow>
          (let out = concat (map ov_overrides (filter (\<lambda>ov. ov_name ov = pkgName) ovs))
           in if out = [] then None else Some out))"

definition PrepareOverrides :: "nsname \<Rightarrow> Subscription \<Rightarrow> ClusterOverride list option" where
  "PrepareOverrides cluster s =
     (case sp_overrides (sub_spec s) of
        None \<Rightarrow> None
      | Some ovs \<Rightarrow>
          map_option co_overrides (find (\<lambda>ov. co_cluster ov = snd cluster
            \<or> (co_cluster ov = ''/'' \<and> snd cluster \<noteq> '''' \<and> fst cluster \<noteq> '''')) ovs))"

text \<open>
  \<open>setNested\<close> is \<open>unstructured.SetNestedField\<close>: it fails without effect when a field on the way is
  not an object. A failing field is logged and skipped, a malformed override ends the run.
\<close>

fun override_loop ::
  "('o \<Rightarrow> string list \<Rightarrow> json \<Rightarrow> 'o option) \<Rightarrow> 'o \<Rightarrow> ClusterOverride list \<Rightarrow> string + 'o" where
  "override_loop setNested ovt [] = Inr ovt"
| "override_loop setNested ovt (ov # ovs) =
     (case ov of
        None \<Rightarrow> Inl ''can not parse override''
      | Some m \<Rightarrow>
          (case map_of m ''path'' of
             Some (JStr path) \<Rightarrow>
               (case setNested ovt (go_split (CHR ''.'') path) (case map_of m ''value'' of None \<Rightarrow> JNull | Some v \<Rightarrow> v) of
                  None \<Rightarrow> override_loop setNested ovt ovs
                | Some ovt' \<Rightarrow> override_loop setNested ovt' ovs)
           | _ \<Rightarrow> Inl ''can not convert path of override''))"

definition OverrideTemplate ::
  "('o \<Rightarrow> string list \<Rightarrow> json \<Rightarrow> 'o option) \<Rightarrow> 'o \<Rightarrow> ClusterOverride list option \<Rightarrow> string + 'o" where
  "OverrideTemplate setNested template overrides =
     (case overrides of None \<Rightarrow> Inr template | Some ovs \<Rightarrow> override_loop setNested template ovs)"

definition OverrideResourceBySubscription ::
  "('o \<Rightarrow> string list \<Rightarrow> json \<Rightarrow> 'o option) \<Rightarrow> 'o \<Rightarrow> string \<Rightarrow> Subscription \<Rightarrow> string + 'o" where
  "OverrideResourceBySubscription setNested template pkgName s = OverrideTemplate setNested template (prepareOverrides pkgName s)"

section \<open>Which resources may be deployed\<close>

text \<open>\<open>sel ls\<close> is the converted selector, or \<open>None\<close> when the conversion fails and matches nothing.\<close>

definition LabelsChecker :: "('s \<Rightarrow> (strmap \<Rightarrow> bool) option) \<Rightarrow> 's \<Rightarrow> strmap \<Rightarrow> bool" where
  "LabelsChecker sel labelSelector ls = (case sel labelSelector of None \<Rightarrow> False | Some matches \<Rightarrow> matches ls)"

definition KeywordsChecker :: "('s \<Rightarrow> (strmap \<Rightarrow> bool) option) \<Rightarrow> 's \<Rightarrow> string list \<Rightarrow> bool" where
  "KeywordsChecker sel labelSelector ks = LabelsChecker sel labelSelector (fold (\<lambda>k. gm_put k ''true'') ks [])"

definition GetPauseLabel :: "Subscription \<Rightarrow> bool" where
  "GetPauseLabel s = (if anno (sub_labels s) LabelSubscriptionPause \<noteq> '''' \<and> EqualFold (anno (sub_labels s) LabelSubscriptionPause) ''true''
     then True else False)"

definition AllowApplyTemplate :: "(nsname \<Rightarrow> kerr + Subscription) \<Rightarrow> Unstructured \<Rightarrow> bool" where
  "AllowApplyTemplate get template =
     (if EqualFold (u_kind template) ''Subscription'' then True
      else case GetHostSubscriptionFromObject (u_annotations template) of
             None \<Rightarrow> True
           | Some key \<Rightarrow>
               (case get key of
                  Inl e \<Rightarrow> True
                | Inr s \<Rightarrow> if GetPauseLabel s then False else True))"

type_synonym kindlist = "(string \<times> strmap) list"

definition kindOf :: "kindlist \<Rightarrow> string \<Rightarrow> string \<Rightarrow> string" where
  "kindOf l api kind = (case map_of l api of None \<Rightarrow> '''' | Some m \<Rightarrow> gm_str m kind)"

definition addKind :: "string \<Rightarrow> string \<Rightarrow> kindlist \<Rightarrow> kindlist" where
  "addKind api kind l = gm_put api (gm_put kind kind (case map_of l api of None \<Rightarrow> [] | Some m \<Rightarrow> m)) l"

definition kindList :: "AllowDenyItem list \<Rightarrow> kindlist" where
  "kindList items = fold (\<lambda>it. fold (addKind (ad_apiVersion it)) (ad_kinds it)) items []"

definition GetAllowDenyLists :: "Subscription \<Rightarrow> kindlist \<times> kindlist" where
  "GetAllowDenyLists s = (kindList (sp_allow (sub_spec s)), kindList (sp_deny (sub_spec s)))"

definition IsResourceAllowed :: "Unstructured \<Rightarrow> kindlist \<Rightarrow> bool \<Rightarrow> bool" where
  "IsResourceAllowed r allowlist isAdmin =
     (if isAdmin then
        (if allowlist = [] then True
         else kindOf allowlist (u_apiVersion r) (u_kind r) \<noteq> '''' \<or> kindOf allowlist (u_apiVersion r) ''*'' \<noteq> '''')
      else u_apiVersion r \<noteq> ''policy.open-cluster-management.io/v1'')"

definition IsResourceDenied :: "Unstructured \<Rightarrow> kindlist \<Rightarrow> bool \<Rightarrow> bool" where
  "IsResourceDenied r denyList isAdmin =
     (if isAdmin then
        (if denyList = [] then False
         else kindOf denyList (u_apiVersion r) (u_kind r) \<noteq> '''' \<or> kindOf denyList (u_apiVersion r) ''*'' \<noteq> '''')
      else False)"

section \<open>Rewriting metadata\<close>

definition RemoveSubAnnotations :: "Unstructured \<Rightarrow> Unstructured" where
  "RemoveSubAnnotations obj =
     (let a = unnil (map_option (fold gm_del [AnnotationClusterAdmin, AnnotationHosting, AnnotationSyncSource,
                AnnotationHostingDeployable, AnnotationChannelType]) (u_annotations obj))
      in obj\<lparr>u_annotations := (if length a > 0 then Some a else None)\<rparr>)"

definition RemoveSubOwnerRef :: "Unstructured \<Rightarrow> Unstructured" where
  "RemoveSubOwnerRef obj = obj\<lparr>u_owners := filter (\<lambda>r. \<not> EqualFold (or_kind r) ''Subscription'') (u_owners obj)\<rparr>"

definition partOf :: string where "partOf = ''app.kubernetes.io/part-of''"

definition AddPartOfLabel :: "Subscription \<Rightarrow> strmap option \<Rightarrow> strmap option" where
  "AddPartOfLabel s m =
     (if anno (sub_labels s) partOf \<noteq> '''' then Some (gm_put partOf (anno (sub_labels s) partOf) (unnil m)) else m)"

definition SetPartOfLabel :: "Subscription \<Rightarrow> Unstructured \<Rightarrow> Unstructured" where
  "SetPartOfLabel s rsc =
     (case AddPartOfLabel s (u_labels rsc) of None \<Rightarrow> rsc | Some l \<Rightarrow> rsc\<lparr>u_labels := Some l\<rparr>)"

definition IsSubscriptionBeDeleted :: "(nsname \<Rightarrow> kerr + Subscription) \<Rightarrow> nsname \<Rightarrow> bool" where
  "IsSubscriptionBeDeleted get key =
     (case get key of
        Inl e \<Rightarrow> IsNotFound e
      | Inr s \<Rightarrow> (case sub_deleted s of None \<Rightarrow> False | Some t \<Rightarrow> t \<noteq> 0))"

section \<open>Reconcile rate\<close>

definition GetReconcileRate :: "strmap option \<Rightarrow> strmap option \<Rightarrow> string" where
  "GetReconcileRate chn sub =
     (let lv = anno chn AnnotationResourceReconcileLevel;
          rate = (if lv = '''' then ''medium''
                  else if EqualFold lv ''off'' then ''off''
                  else if EqualFold lv ''low'' then ''low''
                  else if EqualFold lv ''medium'' then ''medium''
                  else if EqualFold lv ''high'' then ''high''
                  else ''medium'')
      in if EqualFold (anno sub AnnotationResourceReconcileLevel) ''off'' then ''off'' else rate)"

text \<open>The interval, the retry interval (both durations) and the number of retries.\<close>

definition GetReconcileInterval :: "string \<Rightarrow> string \<Rightarrow> duration \<times> duration \<times> nat" where
  "GetReconcileInterval rate chType =
     (if EqualFold rate ''low'' then (60 * minute_ns, 3 * minute_ns, 3)
      else if EqualFold rate ''medium'' then
        ((if EqualFold chType ''objectbucket'' then 15 * minute_ns
          else if EqualFold chType ''helmrepo'' then 15 * minute_ns else 3 * minute_ns),
         90000000000, 1)
      else if EqualFold rate ''high'' then (2 * minute_ns, minute_ns, 1)
      else (3 * minute_ns, 90000000000, 1))"

section \<open>Manifest works\<close>

text \<open>\<open>semEq\<close> is \<open>equality.Semantic.DeepEqual\<close> on the content, \<open>parse\<close> the JSON decoder.\<close>

definition strip :: "(string \<times> json) list \<Rightarrow> (string \<times> json) list" where
  "strip b = gm_del ''status'' (gm_del ''metadata'' b)"

text \<open>\<open>GroupVersionKind\<close> of an object; empty when the API version has more than one slash.\<close>

definition gvk :: "Unstructured \<Rightarrow> (string \<times> string) \<times> string" where
  "gvk u = (if length (go_split (CHR ''/'') (u_apiVersion u)) > 2 then (('''', ''''), '''')
     else (ParseAPIVersion (u_apiVersion u), u_kind u))"

definition isSameUnstructured ::
  "((string \<times> json) list \<Rightarrow> (string \<times> json) list \<Rightarrow> bool) \<Rightarrow> Unstructured \<Rightarrow> Unstructured \<Rightarrow> bool" where
  "isSameUnstructured semEq a b =
     (if gvk a \<noteq> gvk b then False
      else if u_name a \<noteq> u_name b then False
      else if u_namespace a \<noteq> u_namespace b then False
      else if \<not> gm_equal (unnil (u_labels a)) (unnil (u_labels b)) then False
      else if \<not> gm_equal (unnil (u_annotations a)) (unnil (u_annotations b)) then False
      else semEq (strip (u_body a)) (strip (u_body b)))"

fun manifests_loop ::
  "((string \<times> json) list \<Rightarrow> (string \<times> json) list \<Rightarrow> bool) \<Rightarrow> ('r \<Rightarrow> Unstructured option) \<Rightarrow> 'r list \<Rightarrow> 'r list \<Rightarrow> bool" where
  "manifests_loop semEq parse (a # as) (b # bs) =
     (case parse a of
        None \<Rightarrow> False
      | Some oa \<Rightarrow> (case parse b of
            None \<Rightarrow> False
          | Some ob \<Rightarrow> if \<not> isSameUnstructured semEq oa ob then False else manifests_loop semEq parse as bs))"
| "manifests_loop semEq parse _ _ = True"

definition CompareManifestWork ::
  "((string \<times> json) list \<Rightarrow> (string \<times> json) list \<Rightarrow> bool) \<Rightarrow> ('r \<Rightarrow> Unstructured option) \<Rightarrow> 'r list \<Rightarrow> 'r list \<Rightarrow> bool" where
  "CompareManifestWork semEq parse olds news =
     (if length olds \<noteq> length news then False else manifests_loop semEq parse olds news)"

section \<open>Channel references\<close>

definition FetchChannelReferences ::
  "(nsname \<Rightarrow> kerr + 's) \<Rightarrow> (nsname \<Rightarrow> kerr + 'c) \<Rightarrow> Channel \<Rightarrow> 's option \<times> 'c option" where
  "FetchChannelReferences getSecret getConfigMap chn =
     ((case ch_secretRef chn of
         None \<Rightarrow> None
       | Some ref \<Rightarrow> (case getSecret (ch_namespace chn, snd ref) of Inl e \<Rightarrow> None | Inr s \<Rightarrow> Some s)),
      (case ch_configMapRef chn of
         None \<Rightarrow> None
       | Some ref \<Rightarrow> (case getConfigMap (ch_namespace chn, snd ref) of Inl e \<Rightarrow> None | Inr m \<Rightarrow> Some m)))"

end
