(* ===== verification/SubscriptionFacts.thy ===== *)
theory SubscriptionFacts
  imports SubscriptionUtils
begin

text \<open>
  What the helpers of \<open>pkg/utils/subscription.go\<close> promise: the update predicates are instances of
  \<open>update_filter\<close>, comparing statuses is an equivalence, the allow and deny lists mean what they
  list, names parse back, and channel references never leave the namespace of the channel.
\<close>

section \<open>Maps that may be nil\<close>

definition wf_nil :: "('k \<times> 'v) list option \<Rightarrow> bool" where
  "wf_nil m \<longleftrightarrow> wf_gm (unnil m)"

lemma wf_gm_nil [simp]: "wf_gm []"
  by (simp add: wf_gm_def)

lemma gm_put_not_nil [simp]: "gm_put k v m \<noteq> []"
  by (cases m) (auto simp: gm_put_def)

lemma gm_equal_nil_iff:
  "wf_nil a \<Longrightarrow> wf_nil b \<Longrightarrow> gm_equal_nil a b \<longleftrightarrow> map_option map_of a = map_option map_of b"
  by (cases a; cases b) (auto simp: wf_nil_def gm_equal_iff)

section \<open>Changes of a subscription\<close>

definition filter_view where
  "filter_view f = (map_option (\<lambda>l. (map_of (MatchLabels l), MatchExpressions l)) (pf_labelSelector f),
     map_option map_of (pf_annotations f), pf_version f, pf_filterRef f)"

definition filter_ok :: "PackageFilter \<Rightarrow> bool" where
  "filter_ok f \<longleftrightarrow> wf_nil (pf_annotations f) \<and> (case pf_labelSelector f of None \<Rightarrow> True | Some l \<Rightarrow> wf_gm (MatchLabels l))"

lemma filter_equal_iff:
  assumes "\<forall>f \<in> set_option a \<union> set_option b. filter_ok f"
  shows "filter_equal a b \<longleftrightarrow> map_option filter_view a = map_option filter_view b"
proof (cases "a = None \<or> b = None")
  case True
  then show ?thesis by (cases a; cases b) auto
next
  case False
  then obtain f g where fg: "a = Some f" "b = Some g" by auto
  have "labelSelector_equal (pf_labelSelector f) (pf_labelSelector g)
      \<longleftrightarrow> map_option (\<lambda>l. (map_of (MatchLabels l), MatchExpressions l)) (pf_labelSelector f)
        = map_option (\<lambda>l. (map_of (MatchLabels l), MatchExpressions l)) (pf_labelSelector g)"
    using assms fg by (cases "pf_labelSelector f"; cases "pf_labelSelector g") (auto simp: filter_ok_def gm_equal_iff)
  then show ?thesis using assms fg by (auto simp: filter_view_def filter_ok_def gm_equal_nil_iff)
qed

definition words :: "(string \<times> string) list \<Rightarrow> string \<Rightarrow> string set" where
  "words a k = set (go_split (CHR '','') (gm_str a k))"

definition filtered :: "Subscription \<Rightarrow> strmap" where
  "filtered s = unnil (sub_annotations (FilterOutTimeRelatedFields s))"

definition reconciledKeys :: "string set" where
  "reconciledKeys = {AnnotationDeployables, AnnotationTopo, AnnotationGitCommit}"

definition sub_view where
  "sub_view s = (sub_finalizers s, map_option map_of (sub_labels s), (words (filtered s) AnnotationDeployables, words (filtered s) AnnotationTopo, words (filtered s) AnnotationGitCommit),
     (map_of (filtered s)) |` (- reconciledKeys),
     (map_option filter_view (sp_packageFilter (sub_spec s)), (sub_spec s)\<lparr>sp_packageFilter := None\<rparr>))"

definition sub_ok :: "Subscription \<Rightarrow> bool" where
  "sub_ok s \<longleftrightarrow> wf_nil (sub_labels s) \<and> wf_nil (sub_annotations s)
     \<and> (\<forall>f \<in> set_option (sp_packageFilter (sub_spec s)). filter_ok f)"

lemma filter_annotations: "sub_annotations (FilterOutTimeRelatedFields s) = Some (filtered s)"
  by (simp add: filtered_def FilterOutTimeRelatedFields_def Let_def)

lemma filter_keeps:
  "sub_finalizers (FilterOutTimeRelatedFields s) = sub_finalizers s"
  "sub_labels (FilterOutTimeRelatedFields s) = sub_labels s" "sub_spec (FilterOutTimeRelatedFields s) = sub_spec s"
  by (simp_all add: FilterOutTimeRelatedFields_def Let_def)

lemma filterOut_wf: "sub_ok s \<Longrightarrow> wf_gm (filtered s)"
  by (auto simp: filtered_def FilterOutTimeRelatedFields_def Let_def sub_ok_def wf_nil_def unnil_def
      intro!: gm.wf_fold_del gm.wf_del split: option.splits)

lemma reconciled_distinct:
  "AnnotationDeployables \<noteq> AnnotationTopo" "AnnotationDeployables \<noteq> AnnotationGitCommit" "AnnotationTopo \<noteq> AnnotationGitCommit"
  by (simp_all add: AnnotationDeployables_def AnnotationTopo_def AnnotationGitCommit_def)

lemma basic_changed_iff:
  assumes "sub_ok a" "sub_ok b"
  shows "IsSubscriptionBasicChanged a b \<longleftrightarrow> sub_view a \<noteq> sub_view b"
proof -
  let ?a = "filtered a" and ?b = "filtered b"
  let ?D = AnnotationDeployables and ?T = AnnotationTopo and ?G = AnnotationGitCommit
  note wf = filterOut_wf [OF assms(1)] filterOut_wf [OF assms(2)]
  let ?w = "\<lambda>k. words ?a k = words ?b k"
  let ?del = "\<lambda>m. gm_del ?G (gm_del ?T (gm_del ?D m))"
  have del: "map_of (?del m) = (map_of m) |` (- reconciledKeys)" if "wf_gm m" for m :: strmap
    using that by (auto simp: gmap_simps reconciledKeys_def restrict_map_def fun_eq_iff)
  have wfd: "wf_gm (?del m)" if "wf_gm m" for m :: strmap using that by (simp add: gmap_simps)
  have "\<not> IsSubscriptionBasicChanged a b \<longleftrightarrow> sub_finalizers a = sub_finalizers b \<and> gm_equal_nil (sub_labels a) (sub_labels b)
      \<and> ?w ?D \<and> ?w ?T \<and> ?w ?G \<and> gm_equal (?del ?a) (?del ?b) \<and> spec_equal (sub_spec a) (sub_spec b)"
    using wf reconciled_distinct
    by (simp add: IsSubscriptionBasicChanged_def Let_def filter_annotations filter_keeps isEqualAnnotationFiled_def
        stringToSet_def annotationsSep_def anno_def anno_del_def words_def gm_str_del gmap_simps)
  also have "\<dots> \<longleftrightarrow> sub_view a = sub_view b"
  proof -
    have "gm_equal_nil (sub_labels a) (sub_labels b) \<longleftrightarrow> map_option map_of (sub_labels a) = map_option map_of (sub_labels b)"
      using assms by (intro gm_equal_nil_iff) (auto simp: sub_ok_def)
    moreover have "gm_equal (?del ?a) (?del ?b) \<longleftrightarrow> (map_of ?a) |` (- reconciledKeys) = (map_of ?b) |` (- reconciledKeys)"
      using gm_equal_iff [OF wfd [OF wf(1)] wfd [OF wf(2)]] del wf by simp
    moreover have "spec_equal (sub_spec a) (sub_spec b) \<longleftrightarrow>
        map_option filter_view (sp_packageFilter (sub_spec a)) = map_option filter_view (sp_packageFilter (sub_spec b))
        \<and> (sub_spec a)\<lparr>sp_packageFilter := None\<rparr> = (sub_spec b)\<lparr>sp_packageFilter := None\<rparr>"
      using filter_equal_iff assms by (auto simp: spec_equal_def sub_ok_def)
    ultimately show ?thesis unfolding sub_view_def by auto
  qed
  finally show ?thesis by blast
qed

interpretation subp: update_filter SubscriptionPredicateUpdate sub_view sub_ok
  by unfold_locales (simp add: SubscriptionPredicateUpdate_def basic_changed_iff)

definition ch_view where
  "ch_view c = (map_option map_of (ch_annotations c), ch_type c, ch_pathname c, ch_secretRef c, ch_configMapRef c, ch_insecure c)"

interpretation chp: update_filter ChannelPredicateUpdate ch_view "\<lambda>c. wf_nil (ch_annotations c)"
  by unfold_locales (auto simp: ChannelPredicateUpdate_def ch_view_def gm_equal_nil_iff)


definition spec_ex :: SubscriptionSpec where
  "spec_ex = \<lparr>sp_channel = ''ns/ch'', sp_secondary = '''', sp_package = '''', sp_packageFilter = None, sp_packageOverrides = None,
     sp_overrides = None, sp_timewindow = None, sp_hooksecret = None,
     sp_allow = [\<lparr>ad_apiVersion = ''apps/v1'', ad_kinds = [''Deployment'']\<rparr>],
     sp_deny = [\<lparr>ad_apiVersion = ''v1'', ad_kinds = [''*'']\<rparr>], sp_watchHelm = False\<rparr>"

definition status_ex :: SubscriptionStatus where
  "status_ex = \<lparr>st_phase = '''', st_message = ''c1:active'', st_reason = '''', st_time = 0, st_prehook = '''', st_posthook = '''',
     st_statuses = None\<rparr>"

definition sub_ex :: Subscription where
  "sub_ex = \<lparr>sub_name = ''app'', sub_namespace = ''ns'', sub_labels = None, sub_annotations = Some [(AnnotationTopo, ''a,b'')],
     sub_finalizers = None, sub_deleted = None, sub_uid = ''u1'', sub_owners = [], sub_spec = spec_ex, sub_status = status_ex\<rparr>"


section \<open>Comparing statuses\<close>

lemma maps_match_iff:
  assumes wf: "wf_gm a" "wf_gm b"
    and eq: "\<And>v w. v \<in> snd ` set a \<Longrightarrow> w \<in> snd ` set b \<Longrightarrow> eq v w \<longleftrightarrow> f v = f w"
  shows "maps_match eq a b \<longleftrightarrow> (\<lambda>k. map_option f (map_of a k)) = (\<lambda>k. map_option f (map_of b k))"
proof -
  let ?f = "map (\<lambda>(k, v). (k, f v))"
  have of: "map_of (?f m) = (\<lambda>k. map_option f (map_of m k))" for m :: "(string \<times> 'a) list"
    by (induction m) (auto simp: fun_eq_iff)
  have wff: "wf_gm (?f m)" if "wf_gm m" for m :: "(string \<times> 'a) list"
    using that by (simp add: wf_gm_def comp_def case_prod_unfold)
  have "(case map_of b k of None \<Rightarrow> False | Some w \<Rightarrow> eq v w) \<longleftrightarrow> map_option f (map_of b k) = Some (f v)"
    if "(k, v) \<in> set a" for k v
    using that eq [of v] map_of_SomeD [of b k] by (force split: option.splits)
  then have "maps_match eq a b \<longleftrightarrow> gm_equal (?f a) (?f b)"
    by (auto simp: maps_match_def gm_equal_def of)
  also have "\<dots> \<longleftrightarrow> map_of (?f a) = map_of (?f b)" using wf by (intro gm_equal_iff wff)
  finally show ?thesis by (simp add: of)
qed

lemma unit_put_wf: "wf_gm m \<Longrightarrow> wf_gm (unit_put u m)"
  by (auto simp: unit_put_def gmap_simps split: list.splits)

lemma stringToMap_wf: "wf_gm (stringToMap s)"
proof -
  have "wf_gm (fold unit_put us m)" if "wf_gm m" for us m
    using that by (induction us arbitrary: m) (auto simp: unit_put_wf)
  then show ?thesis by (simp add: stringToMap_def)
qed

lemma isSameMessage_iff: "isSameMessage a b \<longleftrightarrow> map_of (stringToMap a) = map_of (stringToMap b)"
  by (simp add: isSameMessage_def gm_equal_iff stringToMap_wf)

definition unit_view where
  "unit_view u = (map_of (stringToMap (us_message u)), us_phase u, us_reason u, us_resource u)"

definition pkgs_view where
  "pkgs_view (pm :: pkgmap) = (\<lambda>k. map_option (map_option unit_view) (map_of (unnil pm) k))"

definition statuses_view where
  "statuses_view (cm :: clstmap) = (\<lambda>k. map_option (map_option pkgs_view) (map_of (unnil cm) k))"

definition status_view where
  "status_view st = (map_of (stringToMap (st_message st)), st_phase st, st_reason st, statuses_view (st_statuses st))"

definition statuses_ok :: "clstmap \<Rightarrow> bool" where
  "statuses_ok cm \<longleftrightarrow> wf_nil cm \<and> (\<forall>(k, pc) \<in> set (unnil cm). \<forall>pm \<in> set_option pc. wf_nil pm)"

lemma unit_status_iff: "isEqualSubscriptionUnitStatus a b \<longleftrightarrow> map_option unit_view a = map_option unit_view b"
  by (cases a; cases b) (auto simp: unit_view_def isSameMessage_iff)

lemma perCluster_iff: "wf_nil a \<Longrightarrow> wf_nil b \<Longrightarrow> isEqualSubPerClusterStatus a b \<longleftrightarrow> pkgs_view a = pkgs_view b"
  unfolding isEqualSubPerClusterStatus_def pkgs_view_def
  by (rule maps_match_iff) (auto simp: wf_nil_def unit_status_iff)

lemma perCluster_match_iff:
  "\<forall>pm \<in> set_option v \<union> set_option w. wf_nil pm \<Longrightarrow> perCluster_match v w \<longleftrightarrow> map_option pkgs_view v = map_option pkgs_view w"
  by (cases v; cases w) (auto simp: perCluster_iff)

lemma clusterStatus_iff:
  assumes "statuses_ok a" "statuses_ok b"
  shows "isEqualSubClusterStatus a b \<longleftrightarrow> statuses_view a = statuses_view b"
  unfolding isEqualSubClusterStatus_def statuses_view_def
proof (rule maps_match_iff)
  show "wf_gm (unnil a)" "wf_gm (unnil b)" using assms by (auto simp: statuses_ok_def wf_nil_def)
  fix v w
  assume "v \<in> snd ` set (unnil a)" "w \<in> snd ` set (unnil b)"
  then show "perCluster_match v w \<longleftrightarrow> map_option pkgs_view v = map_option pkgs_view w"
    using assms by (intro perCluster_match_iff) (fastforce simp: statuses_ok_def)
qed

lemma view_empty: "length (unnil a) = length (unnil b) \<Longrightarrow> length (unnil a) = 0 \<Longrightarrow> statuses_view a = statuses_view b"
  by (simp add: statuses_view_def)

lemma view_length:
  assumes "statuses_ok a" "statuses_ok b" "statuses_view a = statuses_view b"
  shows "length (unnil a) = length (unnil b)"
  using clusterStatus_iff [OF assms(1,2)] assms(3) by (simp add: isEqualSubClusterStatus_def maps_match_def)

lemma status_equal_iff:
  assumes "statuses_ok (st_statuses a)" "statuses_ok (st_statuses b)"
  shows "isEqualSubscriptionStatus a b \<longleftrightarrow> status_view a = status_view b"
  using clusterStatus_iff [OF assms] view_length [OF assms] view_empty [of "st_statuses a" "st_statuses b"]
  by (auto simp: isEqualSubscriptionStatus_def status_view_def isSameMessage_iff)

text \<open>
  C36 Comparing two statuses is comparing what they show: the message as a map from clusters to
  window states, phase, reason, and for every cluster and package the same of its unit status
  and its resource status. Times never count, and a nil map counts as an empty one. So it is an
  equivalence relation, although the code only looks up the keys of one side.
\<close>

theorem isEqualSubscriptionStatus_view:
  assumes "statuses_ok (st_statuses a)" and "statuses_ok (st_statuses b)"
  shows "(isEqualSubscriptionStatus a b \<longleftrightarrow> status_view a = status_view b)
    \<and> (IsHubRelatedStatusChanged a b \<longleftrightarrow>
        (status_view a, st_prehook a, st_posthook a) \<noteq> (status_view b, st_prehook b, st_posthook b))"
  using status_equal_iff [OF assms] clusterStatus_iff [OF assms]
  by (auto simp: IsHubRelatedStatusChanged_def isAnsibleStatusEqual_def status_view_def isSameMessage_iff)

theorem isEqualSubscriptionStatus_view_witness:
  "isEqualSubscriptionStatus (status_ex\<lparr>st_message := ''c1:active,c2:blocked''\<rparr>)
     (status_ex\<lparr>st_message := ''c2:blocked,c1:active'', st_time := 7\<rparr>)"
proof -
  have "map_of (stringToMap ''c1:active,c2:blocked'') = map_of (stringToMap ''c2:blocked,c1:active'')"
  proof -
    have "stringToMap ''c1:active,c2:blocked'' = [(''c1'', ''active''), (''c2'', ''blocked'')]"
      "stringToMap ''c2:blocked,c1:active'' = [(''c2'', ''blocked''), (''c1'', ''active'')]" by code_simp+
    then show ?thesis by auto
  qed
  then show ?thesis
    using isEqualSubscriptionStatus_view [of "status_ex\<lparr>st_message := ''c1:active,c2:blocked''\<rparr>"
        "status_ex\<lparr>st_message := ''c2:blocked,c1:active'', st_time := 7\<rparr>"]
    by (simp add: status_view_def status_ex_def statuses_ok_def wf_nil_def)
qed

section \<open>Recording a package status\<close>

definition pkg_status :: "SubscriptionStatus \<Rightarrow> string \<Rightarrow> string \<Rightarrow> SubscriptionUnitStatus option option" where
  "pkg_status st cl pkg = (case map_of (unnil (st_statuses st)) cl of Some (Some pm) \<Rightarrow> map_of (unnil pm) pkg | _ \<Rightarrow> None)"

definition pkg_unit :: "SubscriptionStatus \<Rightarrow> string \<Rightarrow> SubscriptionUnitStatus" where
  "pkg_unit st pkg = (case pkg_status st ''/'' pkg of Some (Some u) \<Rightarrow> u | _ \<Rightarrow> emptyUnitStatus)"

definition pkg_view where
  "pkg_view st cl pkg = map_option (map_option unit_view) (pkg_status st cl pkg)"

lemma pkg_view_status:
  "pkg_view st cl pkg = (case statuses_view (st_statuses st) cl of Some (Some v) \<Rightarrow> v pkg | _ \<Rightarrow> None)"
  by (auto simp: pkg_view_def pkg_status_def statuses_view_def pkgs_view_def split: option.splits)

definition written :: "int \<Rightarrow> SubscriptionStatus \<Rightarrow> string \<Rightarrow> SubscriptionUnitStatus \<Rightarrow> SubscriptionStatus" where
  "written now st pkg u =
     (let sts = unnil (st_statuses st);
          pkgs = (case map_of sts ''/'' of Some (Some (Some m)) \<Rightarrow> m | _ \<Rightarrow> [])
      in st\<lparr>st_statuses := Some (gm_put ''/'' (Some (Some (gm_put pkg (Some u) pkgs))) sts), st_time := now\<rparr>)"

lemma set_written:
  "SetInClusterPackageStatus now marshal st pkg pkgerr status =
     (let new = written now st pkg (newUnitStatus now marshal (pkg_unit st pkg) pkgerr status)
      in if isEqualSubscriptionStatus st new then st else new)"
proof -
  have old: "(case map_of (case map_of (unnil (st_statuses st)) ''/'' of Some (Some (Some m)) \<Rightarrow> m | _ \<Rightarrow> []) pkg of
      Some (Some u) \<Rightarrow> u | _ \<Rightarrow> emptyUnitStatus) = pkg_unit st pkg"
    by (auto simp: pkg_unit_def pkg_status_def split: option.splits)
  have "\<not> isEmptySubscriptionStatus (written now st pkg u)" for u
    by (simp add: isEmptySubscriptionStatus_def written_def Let_def)
  then show ?thesis unfolding SetInClusterPackageStatus_def Let_def old written_def by simp
qed

lemma gm_put_in: "e \<in> set (gm_put k v m) \<Longrightarrow> e = (k, v) \<or> e \<in> set m"
  by (induction m) (auto simp: gm_put_def split: if_splits)

lemma written_ok:
  assumes "statuses_ok (st_statuses st)"
  shows "statuses_ok (st_statuses (written now st pkg u))"
proof -
  let ?sts = "unnil (st_statuses st)"
  let ?pkgs = "case map_of ?sts ''/'' of Some (Some (Some m)) \<Rightarrow> m | _ \<Rightarrow> []"
  have "wf_gm ?pkgs"
    using assms by (fastforce simp: statuses_ok_def wf_nil_def split: option.splits dest: map_of_SomeD)
  then have "wf_nil (Some (gm_put pkg (Some u) ?pkgs))" by (simp add: wf_nil_def gmap_simps)
  moreover have "wf_nil (Some (gm_put ''/'' x ?sts))" for x
    using assms by (simp add: statuses_ok_def wf_nil_def gmap_simps)
  ultimately show ?thesis
    using assms by (auto simp: statuses_ok_def written_def Let_def dest!: gm_put_in)
qed

lemma pkg_status_written:
  "pkg_status (written now st pkg u) cl p = (if cl = ''/'' \<and> p = pkg then Some (Some u) else pkg_status st cl p)"
  by (auto simp: pkg_status_def written_def Let_def gm.look_put split: option.splits)

text \<open>
  Recording the outcome of a package: afterwards the status shows that package of the local
  cluster as subscribed (with no reason) or as failed with the error as its reason, together
  with the given resource status, and every other package and cluster as before. If that is
  what it showed already, the status is left alone, its time included.
\<close>

theorem SetInClusterPackageStatus_records:
  assumes "statuses_ok (st_statuses st)"
  shows "pkg_view (SetInClusterPackageStatus now marshal st pkg pkgerr status) cl p =
      (if cl = ''/'' \<and> p = pkg
       then Some (Some (unit_view (newUnitStatus now marshal (pkg_unit st pkg) pkgerr status)))
       else pkg_view st cl p)
    \<and> (status_view (SetInClusterPackageStatus now marshal st pkg pkgerr status) = status_view st
        \<longrightarrow> SetInClusterPackageStatus now marshal st pkg pkgerr status = st)"
proof -
  let ?u = "newUnitStatus now marshal (pkg_unit st pkg) pkgerr status"
  let ?w = "written now st pkg ?u" and ?r = "SetInClusterPackageStatus now marshal st pkg pkgerr status"
  have eq: "isEqualSubscriptionStatus st ?w \<longleftrightarrow> status_view st = status_view ?w"
    by (rule status_equal_iff [OF assms written_ok [OF assms]])
  then have r: "?r = (if status_view st = status_view ?w then st else ?w)" by (simp add: set_written Let_def)
  then have "status_view ?r = status_view ?w" by simp
  then have "pkg_view ?r cl p = pkg_view ?w cl p" by (simp add: pkg_view_status status_view_def)
  also have "\<dots> = (if cl = ''/'' \<and> p = pkg then Some (Some (unit_view ?u)) else pkg_view st cl p)"
    by (simp add: pkg_view_def pkg_status_written)
  finally show ?thesis using r by auto
qed

theorem SetInClusterPackageStatus_records_witness:
  "pkg_view (SetInClusterPackageStatus 9 Some status_ex ''nginx'' (Some ''no chart'') None) ''/'' ''nginx'' =
     Some (Some (map_of (stringToMap ''''), ''Failed'', ''no chart'', None))"
proof -
  have ok: "statuses_ok (st_statuses status_ex)" by (simp add: statuses_ok_def wf_nil_def status_ex_def)
  have "unit_view (newUnitStatus 9 Some (pkg_unit status_ex ''nginx'') (Some ''no chart'') None)
      = (map_of (stringToMap ''''), ''Failed'', ''no chart'', None)"
    by (simp add: unit_view_def newUnitStatus_def pkg_unit_def pkg_status_def status_ex_def emptyUnitStatus_def SubscriptionFailed_def)
  then show ?thesis
    using SetInClusterPackageStatus_records [OF ok, of 9 Some "''nginx''" "Some ''no chart''" None "''/''" "''nginx''"] by simp
qed

section \<open>Allow and deny lists\<close>

lemma kindOf_addKind: "kindOf (addKind a k l) a' k' = (if a' = a \<and> k' = k then k else kindOf l a' k')"
  by (auto simp: kindOf_def addKind_def gm.look_put gm_str_def split: option.splits)

lemma kindOf_fold:
  "kindOf (fold (addKind a) ks l) a' k' = (if a' = a \<and> k' \<in> set ks then k' else kindOf l a' k')"
  by (induction ks arbitrary: l) (auto simp: kindOf_addKind)

lemma kindOf_items:
  "kindOf (fold (\<lambda>it. fold (addKind (ad_apiVersion it)) (ad_kinds it)) items l) a k =
     (if \<exists>it \<in> set items. ad_apiVersion it = a \<and> k \<in> set (ad_kinds it) then k else kindOf l a k)"
  by (induction items arbitrary: l) (auto simp: kindOf_fold)

lemma kindOf_kindList:
  "kindOf (kindList items) a k = (if \<exists>it \<in> set items. ad_apiVersion it = a \<and> k \<in> set (ad_kinds it) then k else '''')"
  unfolding kindList_def kindOf_items by (auto simp: kindOf_def)

lemma fold_addKind_nil: "fold (addKind a) ks l = [] \<longleftrightarrow> ks = [] \<and> l = []"
  by (induction ks arbitrary: l) (auto simp: addKind_def)

lemma kindList_nil: "kindList items = [] \<longleftrightarrow> (\<forall>it \<in> set items. ad_kinds it = [])"
proof -
  have "fold (\<lambda>it. fold (addKind (ad_apiVersion it)) (ad_kinds it)) items l = []
      \<longleftrightarrow> (\<forall>it \<in> set items. ad_kinds it = []) \<and> l = []" for l
    by (induction items arbitrary: l) (auto simp: fold_addKind_nil)
  then show ?thesis by (simp add: kindList_def)
qed

text \<open>A resource is listed when an item of its API version names its kind or all kinds.\<close>

definition listed :: "AllowDenyItem list \<Rightarrow> Unstructured \<Rightarrow> bool" where
  "listed items r \<longleftrightarrow> (\<exists>it \<in> set items. ad_apiVersion it = u_apiVersion r \<and> (u_kind r \<in> set (ad_kinds it) \<or> ''*'' \<in> set (ad_kinds it)))"

text \<open>
  C21 The lists of a subscription decide as they read. For a subscription administrator a resource
  is allowed exactly when no item of the allow list names a kind at all or one names its kind
  (or every kind) in its API version, and denied exactly when an item of the deny list does; for
  anyone else the lists do not matter, and everything but policies is allowed.
\<close>

theorem allow_deny_lists:
  assumes "u_kind r \<noteq> ''''"
  shows "(IsResourceAllowed r (fst (GetAllowDenyLists s)) isAdmin \<longleftrightarrow>
      (if isAdmin then (\<forall>it \<in> set (sp_allow (sub_spec s)). ad_kinds it = []) \<or> listed (sp_allow (sub_spec s)) r
       else u_apiVersion r \<noteq> ''policy.open-cluster-management.io/v1''))
    \<and> (IsResourceDenied r (snd (GetAllowDenyLists s)) isAdmin \<longleftrightarrow> isAdmin \<and> listed (sp_deny (sub_spec s)) r)"
  using assms
  by (auto simp: IsResourceAllowed_def IsResourceDenied_def GetAllowDenyLists_def kindOf_kindList kindList_nil listed_def)

definition obj_ex :: "string \<Rightarrow> string \<Rightarrow> Unstructured" where
  "obj_ex api kind = \<lparr>u_apiVersion = api, u_kind = kind, u_name = ''x'', u_namespace = ''ns'', u_resourceVersion = '''', u_uid = '''', u_labels = None,
     u_annotations = Some [(AnnotationHosting, ''ns/app'')], u_owners = [], u_body = []\<rparr>"

theorem allow_deny_lists_witness:
  "IsResourceAllowed (obj_ex ''apps/v1'' ''Deployment'') (fst (GetAllowDenyLists sub_ex)) True
   \<and> \<not> IsResourceAllowed (obj_ex ''v1'' ''Secret'') (fst (GetAllowDenyLists sub_ex)) True
   \<and> IsResourceDenied (obj_ex ''v1'' ''Secret'') (snd (GetAllowDenyLists sub_ex)) True"
  using allow_deny_lists [of "obj_ex ''apps/v1'' ''Deployment''" sub_ex True] allow_deny_lists [of "obj_ex ''v1'' ''Secret''" sub_ex True]
  by (simp add: obj_ex_def listed_def sub_ex_def spec_ex_def)

section \<open>Names\<close>

text \<open>
  A namespaced name parses back: joining a namespace and a name that have no slash and parsing
  the result gives them again, for the parser of channel names and for the hosting annotation of
  an object alike; and whatever parses to something was such a join.
\<close>

theorem namespaced_name_roundtrip:
  assumes "CHR ''/'' \<notin> set ns" and "CHR ''/'' \<notin> set n"
  shows "ParseNamespacedName (ns @ ''/'' @ n) = (ns, n)
    \<and> GetHostSubscriptionFromObject (Some [(AnnotationHosting, ns @ ''/'' @ n)]) = Some (ns, n)
    \<and> ParseAPIVersion (ns @ ''/'' @ n) = (ns, n) \<and> ParseAPIVersion n = ('''', n)
    \<and> (ParseNamespacedName s = (ns, n) \<longrightarrow> s = ns @ ''/'' @ n \<or> (ns, n) = ('''', ''''))"
proof -
  have split: "go_split (CHR ''/'') (ns @ ''/'' @ n) = [ns, n]" using assms by (simp add: go_split_two)
  have "s = ns @ ''/'' @ n \<or> (ns, n) = ('''', '''')" if "ParseNamespacedName s = (ns, n)"
    using that by (auto simp: ParseNamespacedName_def go_split_two split: list.splits)
  then show ?thesis
    using split go_split_sep_free [OF assms(2)]
    by (auto simp: ParseNamespacedName_def ParseAPIVersion_def GetHostSubscriptionFromObject_def gm_str_def)
qed

theorem namespaced_name_roundtrip_witness:
  "GetHostSubscriptionFromObject (Some [(AnnotationHosting, ''ns/app'')]) = Some (''ns'', ''app'')"
  using namespaced_name_roundtrip [of "''ns''" "''app''"] by simp

text \<open>
  A release name never exceeds 31 bytes, is the given name when that fits, and naming again
  changes nothing.
\<close>

theorem release_name_bound:
  "length (GetReleaseName sha base) \<le> 31
   \<and> (length base \<le> 31 \<longrightarrow> GetReleaseName sha base = base)
   \<and> GetReleaseName sha (GetReleaseName sha base) = GetReleaseName sha base"
  by (auto simp: GetReleaseName_def maxNameLength_def maxGeneratedNameLength_def randomLength_def)

theorem release_name_bound_witness:
  "GetReleaseName (\<lambda>s. ''0123456789'') ''a-chart-name-that-is-longer-than-the-limit'' = ''a-chart-name-that-is-long-01234''
   \<and> length (GetReleaseName (\<lambda>s. ''0123456789'') ''a-chart-name-that-is-longer-than-the-limit'') \<le> 31"
  using release_name_bound [of "\<lambda>s. ''0123456789''" "''a-chart-name-that-is-longer-than-the-limit''"]
  by (simp add: GetReleaseName_def maxNameLength_def maxGeneratedNameLength_def randomLength_def)

section \<open>Reconcile rate\<close>

text \<open>
  The rate a subscription is reconciled at is one of four, a subscription can only turn it off,
  and whatever the channel type the retries of a failed reconcile fit into its interval, which
  lies between two minutes and an hour.
\<close>

theorem reconcile_rate_bounds:
  "GetReconcileRate chn sub \<in> {''off'', ''low'', ''medium'', ''high''}
   \<and> GetReconcileRate chn sub \<in> {''off'', GetReconcileRate chn None}
   \<and> (case GetReconcileInterval rate chType of (interval, retry, retries) \<Rightarrow>
        int retries * retry < interval \<and> 2 * minute_ns \<le> interval \<and> interval \<le> 60 * minute_ns \<and> 1 \<le> retries)"
proof -
  have none: "\<not> EqualFold (anno None k) ''off''" for k by (simp add: EqualFold_def go_lower_def)
  show ?thesis by (auto simp: GetReconcileRate_def GetReconcileInterval_def Let_def minute_ns_def none)
qed

section \<open>Channel references\<close>

text \<open>
  Fetching the secret and the config map a channel refers to reads the namespace of the channel
  only: what other namespaces hold, and the namespace written into the reference, make no
  difference to the result.
\<close>

theorem channel_references_local:
  assumes "\<forall>n. getSecret (ch_namespace chn, n) = getSecret' (ch_namespace chn, n)"
    and "\<forall>n. getConfigMap (ch_namespace chn, n) = getConfigMap' (ch_namespace chn, n)"
  shows "FetchChannelReferences getSecret getConfigMap chn
    = FetchChannelReferences getSecret' getConfigMap'
        (chn\<lparr>ch_secretRef := map_option (\<lambda>r. (ns1, snd r)) (ch_secretRef chn),
             ch_configMapRef := map_option (\<lambda>r. (ns2, snd r)) (ch_configMapRef chn)\<rparr>)"
  using assms by (auto simp: FetchChannelReferences_def split: option.splits sum.splits)

theorem channel_references_local_witness:
  "FetchChannelReferences (\<lambda>k. if k = (''kube-system'', ''token'') then Inr ''secret'' else Inl (NotFound ''''))
     (\<lambda>k. Inl (NotFound '''') :: kerr + string)
     \<lparr>ch_name = ''c'', ch_namespace = ''tenant'', ch_annotations = None, ch_type = ''Git'', ch_pathname = '''',
      ch_secretRef = Some (''kube-system'', ''token''), ch_configMapRef = None, ch_insecure = False\<rparr> = (None, None)"
proof -
  let ?c = "\<lparr>ch_name = ''c'', ch_namespace = ''tenant'', ch_annotations = None, ch_type = ''Git'', ch_pathname = '''',
      ch_secretRef = Some (''kube-system'', ''token''), ch_configMapRef = None, ch_insecure = False\<rparr>"
  let ?s = "\<lambda>k. if k = (''kube-system'', ''token'') then Inr ''secret'' else Inl (NotFound '''')"
  let ?m = "\<lambda>k. Inl (NotFound '''') :: kerr + string"
  show ?thesis
    using channel_references_local [of ?s ?c "\<lambda>k. Inl (NotFound '''')" ?m ?m "''''" "''''"]
    by (simp add: FetchChannelReferences_def)
qed

section \<open>Overrides\<close>

lemma override_loop_append:
  "override_loop sn t (xs @ ys) = (case override_loop sn t xs of Inl e \<Rightarrow> Inl e | Inr t' \<Rightarrow> override_loop sn t' ys)"
proof (induction xs arbitrary: t)
  case Nil
  then show ?case by simp
next
  case (Cons x xs)
  then show ?case by (auto split: option.splits json.splits)
qed

text \<open>
  Package overrides are applied one after the other in the order of the subscription, for the
  given package only: a subscription with further overrides of it after the first ones behaves
  like one run on the result of the other, an error of the first run ends both, and overrides of
  other packages leave the template alone.
\<close>

theorem package_overrides_compose:
  assumes "sp_packageOverrides (sub_spec s) = Some (xs @ ys)"
  shows "OverrideResourceBySubscription sn t pkg s =
    (case OverrideResourceBySubscription sn t pkg (s\<lparr>sub_spec := (sub_spec s)\<lparr>sp_packageOverrides := Some xs\<rparr>\<rparr>) of
       Inl e \<Rightarrow> Inl e
     | Inr t' \<Rightarrow> OverrideResourceBySubscription sn t' pkg (s\<lparr>sub_spec := (sub_spec s)\<lparr>sp_packageOverrides := Some ys\<rparr>\<rparr>))
    \<and> ((\<forall>ov \<in> set (xs @ ys). ov_name ov \<noteq> pkg) \<longrightarrow> OverrideResourceBySubscription sn t pkg s = Inr t)"
proof -
  have run: "OverrideResourceBySubscription sn t pkg (s\<lparr>sub_spec := (sub_spec s)\<lparr>sp_packageOverrides := Some zs\<rparr>\<rparr>)
      = override_loop sn t (concat (map ov_overrides (filter (\<lambda>ov. ov_name ov = pkg) zs)))" for zs t
  proof -
    define out where "out = concat (map ov_overrides (filter (\<lambda>ov. ov_name ov = pkg) zs))"
    have "OverrideResourceBySubscription sn t pkg (s\<lparr>sub_spec := (sub_spec s)\<lparr>sp_packageOverrides := Some zs\<rparr>\<rparr>)
        = OverrideTemplate sn t (if out = [] then None else Some out)"
      by (simp only: OverrideResourceBySubscription_def prepareOverrides_def Let_def out_def) simp
    also have "\<dots> = override_loop sn t out" by (simp add: OverrideTemplate_def)
    finally show ?thesis by (simp only: out_def)
  qed
  have self: "s\<lparr>sub_spec := (sub_spec s)\<lparr>sp_packageOverrides := Some (xs @ ys)\<rparr>\<rparr> = s" using assms by simp
  have "filter (\<lambda>ov. ov_name ov = pkg) (xs @ ys) = []" if "\<forall>ov \<in> set (xs @ ys). ov_name ov \<noteq> pkg"
    using that by (simp add: filter_empty_conv)
  then show ?thesis
    using run [of t "xs @ ys"] unfolding self run by (auto simp: override_loop_append split: sum.splits)
qed

theorem package_overrides_compose_witness:
  "OverrideResourceBySubscription (\<lambda>t fs v. Some (t @ [(fs, v)])) [] ''p''
     (sub_ex\<lparr>sub_spec := spec_ex\<lparr>sp_packageOverrides := Some [\<lparr>ov_alias = '''', ov_name = ''q'', ov_overrides = [None]\<rparr>]\<rparr>\<rparr>) = Inr []"
proof -
  let ?s = "sub_ex\<lparr>sub_spec := spec_ex\<lparr>sp_packageOverrides := Some [\<lparr>ov_alias = '''', ov_name = ''q'', ov_overrides = [None]\<rparr>]\<rparr>\<rparr>"
  have "sp_packageOverrides (sub_spec ?s) = Some ([] @ [\<lparr>ov_alias = '''', ov_name = ''q'', ov_overrides = [None]\<rparr>])" by simp
  from package_overrides_compose [OF this, of "\<lambda>t fs v. Some (t @ [(fs, v)])" "[]" "''p''", THEN conjunct2]
  show ?thesis by simp
qed

end
