(* ===== verification/KubeCluster.thy ===== *)
theory KubeCluster
  imports SubscriptionUtils
begin

text \<open>
  What the synchronizer (\<open>pkg/synchronizer/kubernetes\<close>) works on: the status objects of
  \<open>pkg/apis/apps/v1alpha1/subscriptionstatus_types.go\<close>, the data of \<open>sync_server.go\<close> and the API
  servers it talks to. Reads of the API servers, the REST mapper, JSON marshalling, merge patches
  and the clock are the fields of \<open>kube\<close>; every write is one \<open>call\<close>, performed by \<open>exec\<close> on
  the world. \<open>run\<close> says that a world came from another by permitted calls only.
\<close>

section \<open>Status objects\<close>

definition PackageUnknown :: string where "PackageUnknown = ''''"
definition PackageDeployed :: string where "PackageDeployed = ''Deployed''"
definition PackageDeployFailed :: string where "PackageDeployFailed = ''Failed''"
definition PackagePropagationFailed :: string where "PackagePropagationFailed = ''PropagationFailed''"
definition SubscriptionDeployed :: string where "SubscriptionDeployed = ''Deployed''"
definition SubscriptionDeployFailed :: string where "SubscriptionDeployFailed = ''Failed''"

record PackageUnit =
  pu_name :: string
  pu_apiVersion :: string
  pu_kind :: string
  pu_namespace :: string
  pu_phase :: string
  pu_message :: string
  pu_time :: int

record SubscriptionOverallStatus =
  ov_phase :: string
  ov_message :: string
  ov_time :: int

record AppSubStatus =
  as_name :: string
  as_namespace :: string
  as_labels :: strmap
  as_packages :: "PackageUnit list"
  as_overall :: SubscriptionOverallStatus

record SubscriptionReportSummary =
  rs_deployed :: string
  rs_inProgress :: string
  rs_failed :: string
  rs_propagationFailed :: string
  rs_clusters :: string

record SubscriptionReportResult =
  rr_source :: string
  rr_timestamp :: int
  rr_result :: string

text \<open>The elements of the result list are pointers the API server never fills with nil.\<close>

record SubscriptionReport =
  rp_name :: string
  rp_namespace :: string
  rp_labels :: strmap
  rp_type :: string
  rp_summary :: SubscriptionReportSummary
  rp_results :: "SubscriptionReportResult list"
  rp_resources :: "json list"

section \<open>Data of the synchronizer\<close>

type_synonym GVK = "(string \<times> string) \<times> string"

record ResourceUnit =
  ru_resource :: Unstructured
  ru_gvk :: GVK

record DeployUnit =
  du_name :: string
  du_namespace :: string
  du_apiVersion :: string
  du_kind :: string
  du_phase :: string
  du_message :: string

record SubscriptionClusterStatus =
  cs_cluster :: string
  cs_appsub :: nsname
  cs_action :: string
  cs_packages :: "DeployUnit list"

text \<open>The fields of the synchronizer that are not clients; the identity is a pointer.\<close>

record KubeSynchronizer =
  ks_hub :: bool
  ks_standalone :: bool
  ks_synchronizerID :: "nsname option"
  ks_skipResDel :: bool

section \<open>The API servers\<close>

text \<open>A group, version and resource, and with it the namespace of a namespaced client.\<close>

type_synonym GVR = "string \<times> string \<times> string"
type_synonym ResourceInterface = "GVR \<times> string option"

datatype call =
    DynCreate ResourceInterface Unstructured
  | DynUpdate ResourceInterface Unstructured
  | DynPatch ResourceInterface string string
  | DynDelete ResourceInterface string
  | StatusCreate AppSubStatus
  | StatusUpdate AppSubStatus
  | StatusDelete AppSubStatus
  | SubStatusUpdate Subscription
  | ReportCreate SubscriptionReport
  | ReportUpdate SubscriptionReport
  | RecordEvent Subscription string string

text \<open>
  \<open>restMapping w group kind version\<close> is the resource and the name of its scope. \<open>marshal\<close> is
  \<open>MarshalJSON\<close>, \<open>mergePatch\<close> the three-way merge patch of original, modified and current,
  \<open>nsToUnstructured\<close> the conversion of a namespace with a name and annotations, \<open>setNested\<close> is
  \<open>SetNestedField\<close>, \<open>decode64\<close> the base64 decoder of the utilities and \<open>showTime\<close> the date format.
\<close>

record 'w kube =
  restMapping :: "'w \<Rightarrow> string \<Rightarrow> string \<Rightarrow> string \<Rightarrow> kerr + GVR \<times> string"
  now :: "'w \<Rightarrow> int"
  dynGet :: "'w \<Rightarrow> ResourceInterface \<Rightarrow> string \<Rightarrow> kerr + Unstructured"
  localSub :: "'w \<Rightarrow> nsname \<Rightarrow> kerr + Subscription"
  localStatus :: "'w \<Rightarrow> nsname \<Rightarrow> kerr + AppSubStatus"
  listStatus :: "'w \<Rightarrow> kerr + AppSubStatus list"
  remoteSub :: "'w \<Rightarrow> nsname \<Rightarrow> kerr + Subscription"
  remoteReport :: "'w \<Rightarrow> nsname \<Rightarrow> kerr + SubscriptionReport"
  marshal :: "Unstructured \<Rightarrow> kerr + string"
  mergePatch :: "string \<Rightarrow> string \<Rightarrow> string \<Rightarrow> kerr + string"
  nsToUnstructured :: "string \<Rightarrow> strmap \<Rightarrow> kerr + Unstructured"
  setNested :: "Unstructured \<Rightarrow> string list \<Rightarrow> json \<Rightarrow> Unstructured option"
  decode64 :: "string \<Rightarrow> string"
  showTime :: "int \<Rightarrow> string"
  exec :: "'w \<Rightarrow> call \<Rightarrow> 'w \<times> kerr option"

text \<open>How an operation ends.\<close>

datatype outcome = Done | Err kerr | Panic gopanic

fun returned :: "kerr option \<Rightarrow> outcome" where
  "returned None = Done"
| "returned (Some e) = Err e"

fun err_wrap :: "string \<Rightarrow> kerr \<Rightarrow> kerr" where
  "err_wrap p (NotFound m) = NotFound (p @ m)"
| "err_wrap p (Forbidden m) = Forbidden (p @ m)"
| "err_wrap p (Invalid m) = Invalid (p @ m)"
| "err_wrap p (OtherError m) = OtherError (p @ m)"

section \<open>Runs\<close>

inductive run :: "'w kube \<Rightarrow> ('w \<Rightarrow> call \<Rightarrow> bool) \<Rightarrow> 'w \<Rightarrow> 'w \<Rightarrow> bool" for k Q where
  run_refl [simp, intro]: "run k Q w w"
| run_step: "\<lbrakk>run k Q w w'; Q w' c\<rbrakk> \<Longrightarrow> run k Q w (fst (exec k w' c))"

lemma run_call: "Q w c \<Longrightarrow> exec k w c = (w', e) \<Longrightarrow> run k Q w w'"
  using run_step [OF run_refl, of Q w c k] by simp

lemma run_trans [trans]: "\<lbrakk>run k Q w1 w2; run k Q w2 w3\<rbrakk> \<Longrightarrow> run k Q w1 w3"
  by (rotate_tac 1, induction w3 rule: run.induct) (auto intro: run_step)

lemma run_mono: "\<lbrakk>run k Q w w'; \<And>u c. Q u c \<Longrightarrow> R u c\<rbrakk> \<Longrightarrow> run k R w w'"
  by (induction w' rule: run.induct) (auto intro: run_step)

text \<open>What no permitted call changes, a run does not change.\<close>

lemma run_inv: "\<lbrakk>run k Q w w'; I w; \<And>u c. \<lbrakk>I u; Q u c\<rbrakk> \<Longrightarrow> I (fst (exec k u c))\<rbrakk> \<Longrightarrow> I w'"
  by (induction w' rule: run.induct) auto

end
