(* ===== verification/Extension.thy ===== *)
theory Extension
  imports KubeCluster
begin

text \<open>
  The default extension of the synchronizer (\<open>pkg/synchronizer/kubernetes/extension.go\<close>): who
  owns an object. Its Go interface \<open>Extension\<close> is the locale \<open>ownership\<close>. An object is a pointer
  that may be nil; its host is written as \<open>namespace/name\<close> in an annotation.
\<close>

section \<open>Operations\<close>

definition GetHostFromObject :: "Unstructured \<Rightarrow> nsname option" where
  "GetHostFromObject obj = GetHostSubscriptionFromObject (u_annotations obj)"

definition SetSynchronizerToObject :: "Unstructured option \<Rightarrow> nsname option \<Rightarrow> string + Unstructured" where
  "SetSynchronizerToObject obj syncid =
     (case obj of
        None \<Rightarrow> Inl ''trying to set host to nil object''
      | Some u \<Rightarrow>
          (case u_annotations u of
             None \<Rightarrow> Inr u
           | Some a \<Rightarrow> Inr (u\<lparr>u_annotations := Some (gm_del AnnotationManagedCluster a)\<rparr>)))"

definition nsname_string :: "nsname \<Rightarrow> string" where
  "nsname_string n = fst n @ CHR ''/'' # snd n"

definition SetHostToObject :: "Unstructured option \<Rightarrow> nsname \<Rightarrow> nsname option \<Rightarrow> string + Unstructured" where
  "SetHostToObject obj host syncid =
     (case obj of
        None \<Rightarrow> Inl ''trying to set host to nil object''
      | Some u \<Rightarrow>
          (let objanno = unnil (u_annotations u);
               u' = (if gm_str objanno AnnotationHosting = ''''
                     then u\<lparr>u_annotations := Some (gm_put AnnotationHosting (nsname_string host) objanno)\<rparr>
                     else u)
           in SetSynchronizerToObject (Some u') syncid))"

definition IsObjectOwnedBySynchronizer :: "Unstructured option \<Rightarrow> nsname option \<Rightarrow> bool" where
  "IsObjectOwnedBySynchronizer obj syncid =
     (case obj of
        None \<Rightarrow> False
      | Some u \<Rightarrow>
          (case u_annotations u of
             None \<Rightarrow> True
           | Some a \<Rightarrow> map_of a AnnotationManagedCluster = None))"

definition IsObjectOwnedByHost :: "Unstructured option \<Rightarrow> nsname \<Rightarrow> nsname option \<Rightarrow> bool" where
  "IsObjectOwnedByHost obj host syncid =
     (let owned = IsObjectOwnedBySynchronizer obj syncid
      in if \<not> owned then owned
         else case obj of
                None \<Rightarrow> False
              | Some u \<Rightarrow>
                  (case GetHostSubscriptionFromObject (u_annotations u) of
                     None \<Rightarrow> False
                   | Some objhost \<Rightarrow> fst objhost = fst host \<and> snd objhost = snd host))"

section \<open>The interface\<close>

text \<open>A name that can be written into an annotation and read back.\<close>

definition name_ok :: "nsname \<Rightarrow> bool" where
  "name_ok n \<longleftrightarrow> CHR ''/'' \<notin> set (fst n) \<and> CHR ''/'' \<notin> set (snd n)"

locale ownership =
  fixes host :: "'o \<Rightarrow> nsname option"
    and set_host :: "'o option \<Rightarrow> nsname \<Rightarrow> 'i \<Rightarrow> 'e + 'o"
    and owned_sync :: "'o option \<Rightarrow> 'i \<Rightarrow> bool"
    and owned_host :: "'o option \<Rightarrow> nsname \<Rightarrow> 'i \<Rightarrow> bool"
  assumes owned_iff: "owned_host (Some u) h i \<longleftrightarrow> owned_sync (Some u) i \<and> host u = Some h"
    and nil_unowned: "\<not> owned_host None h i"
    and set_total: "\<exists>u'. set_host (Some u) h i = Inr u'"
    and set_owned_sync: "set_host (Some u) h i = Inr u' \<Longrightarrow> owned_sync (Some u') i"
    and set_keeps: "set_host (Some u) h i = Inr u' \<Longrightarrow> host u = Some h' \<Longrightarrow> host u' = Some h'"
begin

text \<open>An object has one owner, and an object that has a host is its own after being claimed.\<close>

lemma owner_unique: "owned_host obj h i \<Longrightarrow> owned_host obj h' i \<Longrightarrow> h = h'"
  using nil_unowned by (cases obj) (auto simp: owned_iff)

lemma claim_hosted:
  assumes "host u = Some h'" "set_host (Some u) h i = Inr u'"
  shows "owned_host (Some u') g i \<longleftrightarrow> g = h'"
  using assms set_keeps [OF assms(2,1)] set_owned_sync [OF assms(2)] by (auto simp: owned_iff)

end

lemma nsname_string_split [simp]:
  "name_ok h \<Longrightarrow> go_split (CHR ''/'') (nsname_string h) = [fst h, snd h]"
  by (simp add: go_split_two nsname_string_def name_ok_def)

lemma hosting_not_managed [simp]: "AnnotationHosting \<noteq> AnnotationManagedCluster" "AnnotationManagedCluster \<noteq> AnnotationHosting"
  by (simp_all add: AnnotationHosting_def AnnotationManagedCluster_def)

lemma SetHostToObject_eq:
  "SetHostToObject (Some u) h i = Inr u' \<Longrightarrow>
     u' = u\<lparr>u_annotations := (if gm_str (unnil (u_annotations u)) AnnotationHosting = ''''
            then Some (gm_del AnnotationManagedCluster (gm_put AnnotationHosting (nsname_string h) (unnil (u_annotations u))))
            else map_option (gm_del AnnotationManagedCluster) (u_annotations u))\<rparr>"
  by (auto simp: SetHostToObject_def SetSynchronizerToObject_def Let_def split: option.splits if_splits)


lemma host_of_put:
  "name_ok h \<Longrightarrow> GetHostSubscriptionFromObject (Some (gm_del AnnotationManagedCluster (gm_put AnnotationHosting (nsname_string h) a))) = Some h"
  by (simp add: GetHostSubscriptionFromObject_def gm_str_del gm_str_put) (simp add: nsname_string_def)

interpretation ext: ownership GetHostFromObject SetHostToObject IsObjectOwnedBySynchronizer IsObjectOwnedByHost
proof unfold_locales
  fix u u' :: Unstructured and h h' :: nsname and i :: "nsname option"
  show "IsObjectOwnedByHost (Some u) h i \<longleftrightarrow> IsObjectOwnedBySynchronizer (Some u) i \<and> GetHostFromObject u = Some h"
    by (cases h) (auto simp: IsObjectOwnedByHost_def GetHostFromObject_def Let_def split: option.splits)
  show "\<not> IsObjectOwnedByHost None h i"
    by (simp add: IsObjectOwnedByHost_def IsObjectOwnedBySynchronizer_def Let_def)
  show "\<exists>u'. SetHostToObject (Some u) h i = Inr u'"
    by (auto simp: SetHostToObject_def SetSynchronizerToObject_def Let_def split: option.splits)
  assume set: "SetHostToObject (Some u) h i = Inr u'"
  then show "IsObjectOwnedBySynchronizer (Some u') i"
    by (auto dest!: SetHostToObject_eq simp: IsObjectOwnedBySynchronizer_def map_of_gm_del
      split: option.splits if_splits)
  assume "GetHostFromObject u = Some h'"
  with set show "GetHostFromObject u' = Some h'"
    by (auto dest!: SetHostToObject_eq
      simp: GetHostFromObject_def GetHostSubscriptionFromObject_def gm_str_del split: option.splits if_splits list.splits)
qed

text \<open>An object without the hosting annotation belongs to the host it is given.\<close>

lemma claim_fresh:
  assumes "anno (u_annotations u) AnnotationHosting = ''''" "name_ok h" "SetHostToObject (Some u) h i = Inr u'"
  shows "IsObjectOwnedByHost (Some u') g i \<longleftrightarrow> g = h"
proof -
  have "GetHostFromObject u' = Some h"
    using assms by (auto dest!: SetHostToObject_eq simp: GetHostFromObject_def host_of_put anno_unnil)
  with ext.set_owned_sync [OF assms(3)] show ?thesis by (auto simp: ext.owned_iff)
qed
end
