(* ===== verification/AppSubStatus.thy ===== *)
theory AppSubStatus
  imports Extension
begin

text \<open>
  Deleting deployed resources and recording what is deployed: \<open>getGVRfromGVK\<close> and
  \<open>DeleteSingleSubscribedResource\<close> of \<open>synchronizer.go\<close>, the status of a subscription on a cluster
  and the report of the cluster (\<open>sync_appsubstatus.go\<close>), and the cleanup loop of
  \<open>sync_server.go\<close>.
\<close>

section \<open>Deleting one resource\<close>

definition getGVRfromGVK :: "'w kube \<Rightarrow> 'w \<Rightarrow> string \<Rightarrow> string \<Rightarrow> string \<Rightarrow> kerr + GVR \<times> bool" where
  "getGVRfromGVK k w g version kind =
     (case restMapping k w g kind version of
        Inl e \<Rightarrow> Inl (err_wrap ''failed to get GVR from restmapping: '' e)
      | Inr (gvr, scope) \<Rightarrow> Inr (gvr, if scope \<noteq> ''namespace'' then False else True))"

definition resourceInterface :: "GVR \<Rightarrow> bool \<Rightarrow> string \<Rightarrow> ResourceInterface" where
  "resourceInterface gvr isNamespaced ns = (if isNamespaced then (gvr, Some ns) else (gvr, None))"

definition hostedBy :: "nsname \<Rightarrow> strmap option \<Rightarrow> bool" where
  "hostedBy host a \<longleftrightarrow>
     \<not> (anno a AnnotationHosting \<noteq> fst host @ ''/'' @ snd host
        \<and> anno a AnnotationHosting \<noteq> fst host @ ''/'' @ snd host @ ''-local'')"

definition DeleteSingleSubscribedResource ::
  "'w kube \<Rightarrow> nsname \<Rightarrow> PackageUnit \<Rightarrow> 'w \<Rightarrow> 'w \<times> kerr option" where
  "DeleteSingleSubscribedResource k hostSub pkg w =
     (let (g, v) = ParseAPIVersion (pu_apiVersion pkg)
      in if g = '''' \<and> v = '''' then
           (if pu_phase pkg = ''Failed'' then (w, None) else (w, Some (OtherError ''invalid apiversion'')))
         else case getGVRfromGVK k w g v (pu_kind pkg) of
                Inl e \<Rightarrow> (w, Some e)
              | Inr (gvr, isNamespaced) \<Rightarrow>
                  (let ri = resourceInterface gvr isNamespaced (pu_namespace pkg)
                   in case dynGet k w ri (pu_name pkg) of
                        Inl e \<Rightarrow> (w, None)
                      | Inr pkgObj \<Rightarrow>
                          (if anno (u_annotations pkgObj) AnnotationResourceDoNotDeleteOption = ''true'' then (w, None)
                           else if \<not> hostedBy hostSub (u_annotations pkgObj) then (w, None)
                           else case exec k w (DynDelete ri (u_name pkgObj)) of
                                  (w', Some e) \<Rightarrow> (w', if \<not> IsNotFound e then Some e else None)
                                | (w', None) \<Rightarrow> (w', None))))"

section \<open>Names and legacy statuses\<close>

definition localSuffix :: string where "localSuffix = ''-local''"
definition localCluster :: string where "localCluster = ''local-cluster''"

definition isLocalCluster :: "bool \<Rightarrow> bool \<Rightarrow> string \<Rightarrow> string \<Rightarrow> bool" where
  "isLocalCluster hub standalone clusterName appsubName \<longleftrightarrow>
     (hub \<and> \<not> standalone)
     \<or> (clusterName = localCluster \<and> HasSuffix appsubName localSuffix)
     \<or> (standalone \<and> HasSuffix appsubName localSuffix)"

definition cutLocal :: "string \<Rightarrow> string" where
  "cutLocal n = (if HasSuffix n localSuffix then take (length n - 6) n else n)"

text \<open>The kind and the name that a legacy package name of a channel ends in.\<close>

definition legacyUnit :: "string \<Rightarrow> string \<Rightarrow> PackageUnit option" where
  "legacyUnit chnNamespace pkgName =
     (let resource = TrimPrefix pkgName (chnNamespace @ ''-'')
      in case go_index (CHR ''-'') resource of
           None \<Rightarrow> None
         | Some idx \<Rightarrow> Some \<lparr>pu_name = drop (idx + 1) resource, pu_apiVersion = '''', pu_kind = take idx resource,
                               pu_namespace = '''', pu_phase = '''', pu_message = '''', pu_time = 0\<rparr>)"

fun legacyUnits :: "string \<Rightarrow> (string \<times> pkgmap option) list \<Rightarrow> gopanic + PackageUnit list" where
  "legacyUnits chn [] = Inr []"
| "legacyUnits chn ((cl, v) # m) =
     (case v of
        None \<Rightarrow> Inl NilDereference
      | Some pkgs \<Rightarrow> rbind (legacyUnits chn m) (\<lambda>us. Inr (List.map_filter (legacyUnit chn \<circ> fst) (unnil pkgs) @ us)))"

definition getResourcesByLegacySubStatus :: "Subscription option \<Rightarrow> gopanic + PackageUnit list" where
  "getResourcesByLegacySubStatus appsub =
     (case appsub of
        None \<Rightarrow> Inr []
      | Some s \<Rightarrow>
          (case go_index (CHR ''/'') (sp_channel (sub_spec s)) of
             None \<Rightarrow> Inr []
           | Some i \<Rightarrow> legacyUnits (drop (i + 1) (sp_channel (sub_spec s))) (unnil (st_statuses (sub_status s)))))"

section \<open>Status objects\<close>

definition overallStatus :: "bool \<Rightarrow> string \<Rightarrow> int \<Rightarrow> SubscriptionOverallStatus" where
  "overallStatus deployFailed msg t =
     \<lparr>ov_phase = (if deployFailed then SubscriptionDeployFailed else SubscriptionDeployed),
      ov_message = (if deployFailed then msg else ''''), ov_time = t\<rparr>"

definition buildAppSubStatus ::
  "string \<Rightarrow> string \<Rightarrow> string \<Rightarrow> string \<Rightarrow> string \<Rightarrow> PackageUnit list \<Rightarrow> bool \<Rightarrow> string \<Rightarrow> int \<Rightarrow> AppSubStatus" where
  "buildAppSubStatus statusName statusNs appsubName appsubNs cluster units deployFailed msg t =
     \<lparr>as_name = statusName, as_namespace = statusNs,
      as_labels = [(group @ ''/cluster'', cluster),
                   (group @ ''/hosting-subscription'', take 63 (appsubNs @ ''.'' @ appsubName))],
      as_packages = units, as_overall = overallStatus deployFailed msg t\<rparr>"

text \<open>The overall status is written anew only when its phase or its message changes.\<close>

definition refreshOverall :: "bool \<Rightarrow> string \<Rightarrow> int \<Rightarrow> AppSubStatus \<Rightarrow> AppSubStatus" where
  "refreshOverall deployFailed msg t p =
     (let o' = overallStatus deployFailed msg t
      in if ov_phase o' \<noteq> ov_phase (as_overall p) \<or> ov_message o' \<noteq> ov_message (as_overall p)
         then p\<lparr>as_overall := o'\<rparr> else p)"

definition GetAppsubReportStatus :: "'w kube \<Rightarrow> bool \<Rightarrow> bool \<Rightarrow> nsname \<Rightarrow> 'w \<Rightarrow> kerr + AppSubStatus" where
  "GetAppsubReportStatus k hub standalone key w =
     localStatus k w (fst key, if hub \<and> \<not> standalone then TrimSuffix (snd key) ''-local'' else snd key)"

definition quoted :: "string \<Rightarrow> string" where
  "quoted s = CHR 0x27 # s @ [CHR 0x27]"

definition recordAppSubStatusEvents :: "'w kube \<Rightarrow> Subscription \<Rightarrow> string \<Rightarrow> PackageUnit list \<Rightarrow> 'w \<Rightarrow> 'w" where
  "recordAppSubStatusEvents k appsub action units w =
     (let curUser = (case map_of (unnil (sub_annotations appsub)) AnnotationUserIdentity of None \<Rightarrow> '''' | Some e \<Rightarrow> decode64 k e);
          row = (\<lambda>r. '','' @ go_join (CHR ''|'') [pu_name r, pu_namespace r, pu_apiVersion r, pu_kind r, pu_phase r, pu_message r,
                      showTime k (pu_time r)]);
          packageStatuses = ''AppSub: '' @ quoted (sub_namespace appsub @ ''/'' @ sub_name appsub)
            @ ''; User: '' @ quoted curUser @ ''; Action: '' @ quoted action @ ''; PackageStatus: ''
            @ quoted (''Name|Namespace|Apiversion|Kind|Phase|Message|LastUpdateTime'' @ concat (map row units))
      in fst (exec k w (RecordEvent appsub action packageStatuses)))"

section \<open>The report of the cluster\<close>

definition newClusterReport :: "string \<Rightarrow> SubscriptionReport" where
  "newClusterReport ns =
     \<lparr>rp_name = ns, rp_namespace = ns, rp_labels = [(group @ ''/cluster'', ''true'')], rp_type = ''Cluster'',
      rp_summary = \<lparr>rs_deployed = ''n/a'', rs_inProgress = ''n/a'', rs_failed = ''n/a'', rs_propagationFailed = ''n/a'',
                     rs_clusters = ''n/a''\<rparr>,
      rp_results = [], rp_resources = []\<rparr>"

definition getClusterAppsubReport :: "'w kube \<Rightarrow> string \<Rightarrow> bool \<Rightarrow> 'w \<Rightarrow> 'w \<times> (kerr + SubscriptionReport)" where
  "getClusterAppsubReport k ns create w =
     (case remoteReport k w (ns, ns) of
        Inr r \<Rightarrow> (w, Inr r)
      | Inl e \<Rightarrow>
          (if IsNotFound e then
             (if create then
                (case exec k w (ReportCreate (newClusterReport ns)) of
                   (w', Some e') \<Rightarrow> (w', Inl e')
                 | (w', None) \<Rightarrow> (w', Inr (newClusterReport ns)))
              else (w, Inl e))
           else (w, Inl e)))"

text \<open>The first entry with a source, and the entries without it.\<close>

fun sourceIndex :: "string \<Rightarrow> SubscriptionReportResult list \<Rightarrow> nat option" where
  "sourceIndex src [] = None"
| "sourceIndex src (r # rs) = (if rr_source r = src then Some 0 else map_option Suc (sourceIndex src rs))"

definition setResult :: "string \<Rightarrow> string \<Rightarrow> int \<Rightarrow> SubscriptionReportResult list \<Rightarrow> SubscriptionReportResult list option" where
  "setResult src result t rs =
     (case sourceIndex src rs of
        None \<Rightarrow> Some (rs @ [\<lparr>rr_source = src, rr_timestamp = t div 1000000000, rr_result = result\<rparr>])
      | Some i \<Rightarrow> (if rr_result (rs ! i) \<noteq> result then Some (rs[i := (rs ! i)\<lparr>rr_result := result\<rparr>]) else None))"

definition isHostedSub :: "Subscription \<Rightarrow> bool" where
  "isHostedSub s \<longleftrightarrow> \<not> (sub_annotations s = None \<or> anno (sub_annotations s) (group @ ''/hosting-subscription'') = '''')"

definition putReportResult :: "'w kube \<Rightarrow> string \<Rightarrow> string \<Rightarrow> bool \<Rightarrow> 'w \<Rightarrow> 'w \<times> kerr option" where
  "putReportResult k ns src deployFailed w =
     (case getClusterAppsubReport k ns True w of
        (w', Inl e) \<Rightarrow> (w', Some e)
      | (w', Inr r) \<Rightarrow>
          (case setResult src (if deployFailed then ''failed'' else ''deployed'') (now k w') (rp_results r) of
             None \<Rightarrow> (w', None)
           | Some rs \<Rightarrow> exec k w' (ReportUpdate (r\<lparr>rp_results := rs\<rparr>))))"

definition updateAppsubReportResult ::
  "'w kube \<Rightarrow> string \<Rightarrow> string \<Rightarrow> string \<Rightarrow> bool \<Rightarrow> bool \<Rightarrow> bool \<Rightarrow> 'w \<Rightarrow> 'w \<times> kerr option" where
  "updateAppsubReportResult k appsubNs appsubName reportNs deployFailed standalone local w =
     (if standalone then
        (let n = (if local \<and> \<not> HasSuffix appsubName localSuffix then appsubName @ localSuffix else appsubName)
         in case remoteSub k w (appsubNs, n) of
              Inl e \<Rightarrow> (w, Some e)
            | Inr s \<Rightarrow>
                (if \<not> isHostedSub s then (w, None)
                 else putReportResult k localCluster (appsubNs @ ''/'' @ cutLocal n) deployFailed w))
      else putReportResult k reportNs (appsubNs @ ''/'' @ appsubName) deployFailed w)"

definition dropReportResult :: "'w kube \<Rightarrow> string \<Rightarrow> string \<Rightarrow> 'w \<Rightarrow> 'w \<times> kerr option" where
  "dropReportResult k ns src w =
     (case getClusterAppsubReport k ns False w of
        (w', Inl e) \<Rightarrow> (w', if IsNotFound e then None else Some e)
      | (w', Inr r) \<Rightarrow>
          (case sourceIndex src (rp_results r) of
             None \<Rightarrow> (w', None)
           | Some i \<Rightarrow> exec k w' (ReportUpdate (r\<lparr>rp_results := take i (rp_results r) @ drop (i + 1) (rp_results r)\<rparr>))))"

definition deleteAppsubReportResult ::
  "'w kube \<Rightarrow> string \<Rightarrow> string \<Rightarrow> string \<Rightarrow> bool \<Rightarrow> 'w \<Rightarrow> 'w \<times> kerr option" where
  "deleteAppsubReportResult k appsubNs appsubName reportNs standalone w =
     (if standalone then
        (case remoteSub k w (appsubNs, appsubName) of
           Inl e \<Rightarrow> (w, Some e)
         | Inr s \<Rightarrow>
             (if \<not> isHostedSub s then (w, None)
              else dropReportResult k localCluster (appsubNs @ ''/'' @ appsubName) w))
      else dropReportResult k reportNs (appsubNs @ ''/'' @ appsubName) w)"


section \<open>The status of a subscription on a cluster\<close>

definition isHelmRelease :: "string \<Rightarrow> string \<Rightarrow> bool" where
  "isHelmRelease api kind \<longleftrightarrow> EqualFold kind ''HelmRelease'' \<and> EqualFold api ''apps.open-cluster-management.io/v1''"

text \<open>The incoming units are one HelmRelease that did not fail.\<close>

fun onlyHelmRelease :: "DeployUnit list \<Rightarrow> bool" where
  "onlyHelmRelease [u] \<longleftrightarrow> isHelmRelease (du_apiVersion u) (du_kind u) \<and> du_phase u \<noteq> PackageDeployFailed"
| "onlyHelmRelease _ = False"

definition shouldSkip :: "SubscriptionClusterStatus \<Rightarrow> bool \<Rightarrow> AppSubStatus \<Rightarrow> bool" where
  "shouldSkip cs foundPkgStatus pkgstatus =
     (case as_packages pkgstatus of
        [] \<Rightarrow> False
      | p # ps \<Rightarrow>
          (if onlyHelmRelease (cs_packages cs) then
             (if foundPkgStatus \<and> du_name (hd (cs_packages cs)) \<noteq> pu_name p then False else True)
           else False))"

definition packageUnit :: "int \<Rightarrow> DeployUnit \<Rightarrow> PackageUnit" where
  "packageUnit t u = \<lparr>pu_name = du_name u, pu_apiVersion = du_apiVersion u, pu_kind = du_kind u,
     pu_namespace = du_namespace u, pu_phase = du_phase u, pu_message = du_message u, pu_time = t\<rparr>"

fun deployFailure :: "bool \<times> string \<Rightarrow> DeployUnit list \<Rightarrow> bool \<times> string" where
  "deployFailure (failed, msg) [] = (failed, msg)"
| "deployFailure (failed, msg) (u # us) =
     deployFailure (if du_phase u = PackageDeployFailed
                    then (True, (if length msg > 0 then msg @ '', '' else msg) @ du_message u)
                    else (failed, msg)) us"

definition sameUnit :: "PackageUnit \<Rightarrow> PackageUnit \<Rightarrow> bool" where
  "sameUnit a b \<longleftrightarrow> pu_name a = pu_name b \<and> pu_namespace a = pu_namespace b \<and> pu_kind a = pu_kind b
     \<and> pu_apiVersion a = pu_apiVersion b"

definition orphans :: "PackageUnit list \<Rightarrow> PackageUnit list \<Rightarrow> PackageUnit list" where
  "orphans olds news = filter (\<lambda>a. \<not> list_ex (sameUnit a) news) olds"

text \<open>Deletes the resources; the ones that could not be deleted come back as failed.\<close>

fun deleteUnits :: "'w kube \<Rightarrow> nsname \<Rightarrow> PackageUnit list \<Rightarrow> 'w \<Rightarrow> 'w \<times> PackageUnit list" where
  "deleteUnits k hostSub [] w = (w, [])"
| "deleteUnits k hostSub (r # rs) w =
     (let (w1, e) = DeleteSingleSubscribedResource k hostSub r w;
          (w2, failed) = deleteUnits k hostSub rs w1
      in (w2, case e of None \<Rightarrow> failed
                      | Some x \<Rightarrow> r\<lparr>pu_phase := PackageDeployFailed, pu_message := err_msg x\<rparr> # failed))"

definition removeLegacy :: "'w kube \<Rightarrow> Subscription \<Rightarrow> 'w \<Rightarrow> 'w \<times> Subscription" where
  "removeLegacy k appsub w =
     (let s = (case localSub k w (sub_namespace appsub, sub_name appsub) of Inl e \<Rightarrow> appsub | Inr s \<Rightarrow> s);
          s' = s\<lparr>sub_status := (sub_status s)\<lparr>st_statuses := Some []\<rparr>\<rparr>
      in (fst (exec k w (SubStatusUpdate s')), s'))"

text \<open>
  Resources that are no longer wanted are deleted. The loop of the source that looks up API
  versions for legacy units assigns to the loop variable, a copy, and so changes nothing.
\<close>

definition dropOrphans ::
  "'w kube \<Rightarrow> Subscription option \<Rightarrow> nsname \<Rightarrow> AppSubStatus \<Rightarrow> PackageUnit list \<Rightarrow> 'w
    \<Rightarrow> 'w \<times> (gopanic + Subscription option \<times> PackageUnit list)" where
  "dropOrphans k appsub hostSub pkgstatus newUnits w =
     (case getResourcesByLegacySubStatus appsub of
        Inl p \<Rightarrow> (w, Inl p)
      | Inr legacy \<Rightarrow>
          (let (w1, failed) = deleteUnits k hostSub (orphans (as_packages pkgstatus @ legacy) newUnits) w
           in if legacy \<noteq> [] then
                (case appsub of
                   None \<Rightarrow> (w1, Inl NilDereference)
                 | Some s \<Rightarrow> (let (w2, s') = removeLegacy k s w1 in (w2, Inr (Some s', newUnits @ failed))))
              else (w1, Inr (appsub, newUnits @ failed))))"

definition recordEvents :: "'w kube \<Rightarrow> Subscription option \<Rightarrow> string \<Rightarrow> PackageUnit list \<Rightarrow> 'w \<Rightarrow> 'w" where
  "recordEvents k appsub action units w =
     (case appsub of None \<Rightarrow> w | Some s \<Rightarrow> recordAppSubStatusEvents k s action units w)"

text \<open>
  The steps of the update of an existing status: the deletion of an empty status and the write
  of a new one. \<open>None\<close> means that the caller goes on to the cluster report.
\<close>

definition deleteStatus ::
  "'w kube \<Rightarrow> KubeSynchronizer \<Rightarrow> SubscriptionClusterStatus \<Rightarrow> string \<Rightarrow> AppSubStatus \<Rightarrow> 'w \<Rightarrow> 'w \<times> outcome" where
  "deleteStatus k s cs appsubName pkgstatus w =
     (case exec k w (StatusDelete pkgstatus) of
        (w', Some e) \<Rightarrow> (w', Err e)
      | (w', None) \<Rightarrow>
          (let (w'', e) = deleteAppsubReportResult k (fst (cs_appsub cs)) appsubName (cs_cluster cs) (ks_standalone s) w'
           in (w'', returned e)))"

definition writeStatus ::
  "'w kube \<Rightarrow> Subscription option \<Rightarrow> AppSubStatus \<Rightarrow> PackageUnit list \<Rightarrow> bool \<times> string \<Rightarrow> 'w \<Rightarrow> 'w \<times> outcome option" where
  "writeStatus k appsub pkgstatus newUnits failure w =
     (let w1 = recordEvents k appsub ''Update'' newUnits w;
          p = (refreshOverall (fst failure) (snd failure) (now k w1) pkgstatus)\<lparr>as_packages := newUnits\<rparr>
      in case exec k w1 (StatusUpdate p) of
           (w2, Some e) \<Rightarrow> (w2, Some (Err e))
         | (w2, None) \<Rightarrow> (w2, None))"

definition failedHelmRelease :: "AppSubStatus \<Rightarrow> bool" where
  "failedHelmRelease p = (case as_packages p of
      [u] \<Rightarrow> isHelmRelease (pu_apiVersion u) (pu_kind u) \<and> pu_phase u = PackageDeployFailed | _ \<Rightarrow> False)"

definition updateStatus ::
  "'w kube \<Rightarrow> KubeSynchronizer \<Rightarrow> Subscription option \<Rightarrow> SubscriptionClusterStatus \<Rightarrow> string \<Rightarrow> bool \<Rightarrow> bool
    \<Rightarrow> AppSubStatus \<Rightarrow> PackageUnit list \<Rightarrow> bool \<times> string \<Rightarrow> 'w \<Rightarrow> 'w \<times> outcome option" where
  "updateStatus k s appsub cs appsubName local skipOrphanDel pkgstatus newUnits failure w =
     (let skip = (if local \<and> failedHelmRelease pkgstatus then False else skipOrphanDel);
          (w1, r) = (if \<not> skip then dropOrphans k appsub (fst (cs_appsub cs), appsubName) pkgstatus newUnits w
                     else (w, Inr (appsub, newUnits)))
      in case r of
           Inl p \<Rightarrow> (w1, Some (Panic p))
         | Inr (appsub', units) \<Rightarrow>
             (if units = [] then (let (w2, o') = deleteStatus k s cs appsubName pkgstatus w1 in (w2, Some o'))
              else writeStatus k appsub' pkgstatus units failure w1))"

definition createStatus ::
  "'w kube \<Rightarrow> Subscription option \<Rightarrow> SubscriptionClusterStatus \<Rightarrow> string \<Rightarrow> PackageUnit list \<Rightarrow> bool \<times> string \<Rightarrow> 'w
    \<Rightarrow> 'w \<times> outcome option" where
  "createStatus k appsub cs appsubName newUnits failure w =
     (let w1 = recordEvents k appsub ''Create'' newUnits w;
          p = buildAppSubStatus appsubName (fst (cs_appsub cs)) appsubName (fst (cs_appsub cs)) (cs_cluster cs)
                newUnits (fst failure) (snd failure) (now k w1)
      in case exec k w1 (StatusCreate p) of
           (w2, Some e) \<Rightarrow> (w2, Some (Err e))
         | (w2, None) \<Rightarrow> (w2, None))"

definition syncApply ::
  "'w kube \<Rightarrow> KubeSynchronizer \<Rightarrow> Subscription option \<Rightarrow> SubscriptionClusterStatus \<Rightarrow> string \<Rightarrow> bool \<Rightarrow> bool
    \<Rightarrow> AppSubStatus option \<Rightarrow> 'w \<Rightarrow> 'w \<times> outcome" where
  "syncApply k s appsub cs appsubName local skipOrphanDel found w =
     (if local \<and> onlyHelmRelease (cs_packages cs) then
        (case getClusterAppsubReport k (cs_cluster cs) True w of
           (w', Inl e) \<Rightarrow> (w', Err e)
         | (w', Inr r) \<Rightarrow> (w', Done))
      else
        (let failure = deployFailure (False, '''') (cs_packages cs);
             newUnits = map (packageUnit (now k w)) (cs_packages cs);
             (w1, o') = (case found of
                None \<Rightarrow> createStatus k appsub cs appsubName newUnits failure w
              | Some p \<Rightarrow> updateStatus k s appsub cs appsubName local skipOrphanDel p newUnits failure w)
         in case o' of
              Some r \<Rightarrow> (w1, r)
            | None \<Rightarrow>
                (let (w2, e) = updateAppsubReportResult k (fst (cs_appsub cs)) appsubName (cs_cluster cs) (fst failure)
                                 (ks_standalone s) local w1
                 in (w2, returned e))))"

text \<open>
  The deletion reads the subscription again. Only when that read fails with something else than
  \<open>NotFound\<close> are the units that could not be deleted looked at.
\<close>

definition failedUnit :: "SubscriptionClusterStatus \<Rightarrow> int \<Rightarrow> DeployUnit \<Rightarrow> PackageUnit" where
  "failedUnit cs t u = \<lparr>pu_name = du_name u, pu_apiVersion = '''', pu_kind = '''', pu_namespace = fst (cs_appsub cs),
     pu_phase = du_phase u, pu_message = du_message u, pu_time = t\<rparr>"

definition deleteFailures ::
  "'w kube \<Rightarrow> Subscription option \<Rightarrow> SubscriptionClusterStatus \<Rightarrow> 'w \<Rightarrow> 'w \<times> PackageUnit list" where
  "deleteFailures k appsub cs w =
     (case appsub of
        None \<Rightarrow> (w, [])
      | Some s \<Rightarrow>
          (case localSub k w (sub_namespace s, sub_name s) of
             Inr s' \<Rightarrow> (w, [])
           | Inl e \<Rightarrow>
               (let subscriptionExist = (if IsNotFound e then False else True);
                    newUnits = (if subscriptionExist then map (packageUnit (now k w)) (cs_packages cs) else []);
                    failed = (if subscriptionExist
                              then map (failedUnit cs (now k w)) (filter (\<lambda>u. du_phase u = PackageDeployFailed) (cs_packages cs))
                              else [])
                in (recordAppSubStatusEvents k s ''Delete'' newUnits w, failed))))"

definition syncDelete ::
  "'w kube \<Rightarrow> KubeSynchronizer \<Rightarrow> Subscription option \<Rightarrow> SubscriptionClusterStatus \<Rightarrow> string \<Rightarrow> bool
    \<Rightarrow> AppSubStatus option \<Rightarrow> 'w \<Rightarrow> 'w \<times> outcome" where
  "syncDelete k s appsub cs appsubName local found w =
     (let (w1, failed) = deleteFailures k appsub cs w
      in if failed = [] then
           (case found of
              Some p \<Rightarrow> deleteStatus k s cs appsubName p w1
            | None \<Rightarrow>
                (let (w2, e) = deleteAppsubReportResult k (fst (cs_appsub cs)) appsubName (cs_cluster cs) (ks_standalone s) w1
                 in (w2, returned e)))
         else
           (case found of
              None \<Rightarrow> (w1, Done)
            | Some p \<Rightarrow>
                (case exec k w1 (StatusUpdate (p\<lparr>as_packages := failed\<rparr>)) of
                   (w2, Some e) \<Rightarrow> (w2, Err e)
                 | (w2, None) \<Rightarrow>
                     (let (w3, e) = updateAppsubReportResult k (fst (cs_appsub cs)) appsubName (cs_cluster cs)
                                      (list_ex (\<lambda>u. du_phase u = PackageDeployFailed) (cs_packages cs)) (ks_standalone s) local w2
                      in (w3, returned e)))))"

definition statusName :: "KubeSynchronizer \<Rightarrow> SubscriptionClusterStatus \<Rightarrow> bool \<Rightarrow> bool \<Rightarrow> string" where
  "statusName s cs local skipOrphanDel =
     (if local \<or> ks_standalone s \<and> skipOrphanDel then cutLocal (snd (cs_appsub cs)) else snd (cs_appsub cs))"

definition emptyStatus :: AppSubStatus where
  "emptyStatus = \<lparr>as_name = '''', as_namespace = '''', as_labels = [], as_packages = [],
     as_overall = \<lparr>ov_phase = '''', ov_message = '''', ov_time = 0\<rparr>\<rparr>"

definition SyncAppsubClusterStatus ::
  "'w kube \<Rightarrow> KubeSynchronizer \<Rightarrow> Subscription option \<Rightarrow> SubscriptionClusterStatus \<Rightarrow> bool option \<Rightarrow> bool option
    \<Rightarrow> 'w \<Rightarrow> 'w \<times> outcome" where
  "SyncAppsubClusterStatus k s appsub cs skipOrphanDelete skipUpdate w =
     (let skipOrphanDel = (case skipOrphanDelete of None \<Rightarrow> False | Some b \<Rightarrow> b);
          skipUpd = (case skipUpdate of None \<Rightarrow> False | Some b \<Rightarrow> b);
          local = isLocalCluster (ks_hub s) (ks_standalone s) (cs_cluster cs) (snd (cs_appsub cs));
          appsubName = statusName s cs local skipOrphanDel
      in case (case localStatus k w (fst (cs_appsub cs), appsubName) of
                 Inr p \<Rightarrow> Inr (Some p) | Inl e \<Rightarrow> if IsNotFound e then Inr None else Inl e) of
           Inl e \<Rightarrow> (w, Err e)
         | Inr found \<Rightarrow>
             (if shouldSkip cs (found \<noteq> None) (case found of None \<Rightarrow> emptyStatus | Some p \<Rightarrow> p) then (w, Done)
              else if found \<noteq> None \<and> skipUpd then
                (let (w1, e) = updateAppsubReportResult k (fst (cs_appsub cs)) appsubName (cs_cluster cs) False
                                 (ks_standalone s) local w
                 in (w1, returned e))
              else if cs_action cs = ''APPLY'' then syncApply k s appsub cs appsubName local skipOrphanDel found w
              else if cs_action cs = ''DELETE'' then syncDelete k s appsub cs appsubName local found w
              else (w, Done)))"

definition UpdateAppsubOverallStatus ::
  "'w kube \<Rightarrow> KubeSynchronizer \<Rightarrow> Subscription \<Rightarrow> bool \<Rightarrow> string \<Rightarrow> 'w \<Rightarrow> 'w \<times> outcome" where
  "UpdateAppsubOverallStatus k s appsub deployFailed message w =
     (case ks_synchronizerID s of
        None \<Rightarrow>
          (case GetAppsubReportStatus k (ks_hub s) (ks_standalone s) (sub_namespace appsub, sub_name appsub) w of
             Inl e \<Rightarrow> (w, if IsNotFound e then Panic NilDereference else Err e)
           | Inr p \<Rightarrow>
               (case exec k w (StatusUpdate (refreshOverall deployFailed message (now k w) p)) of
                  (w2, Some e) \<Rightarrow> (w2, Err e)
                | (w2, None) \<Rightarrow> (w2, Panic NilDereference)))
      | Some syncid \<Rightarrow>
          (let (w1, r) =
             (case GetAppsubReportStatus k (ks_hub s) (ks_standalone s) (sub_namespace appsub, sub_name appsub) w of
                Inr p \<Rightarrow> (w, Inr p)
              | Inl e \<Rightarrow>
                  (if IsNotFound e then
                     (let p = buildAppSubStatus (sub_name appsub) (sub_namespace appsub) (sub_name appsub) (sub_namespace appsub)
                                (snd syncid) [] deployFailed message (now k w)
                      in case exec k w (StatusCreate p) of (w', Some e') \<Rightarrow> (w', Inl e') | (w', None) \<Rightarrow> (w', Inr p))
                   else (w, Inl e)))
           in case r of
                Inl e \<Rightarrow> (w1, Err e)
              | Inr p \<Rightarrow>
                  (case exec k w1 (StatusUpdate (refreshOverall deployFailed message (now k w1) p)) of
                     (w2, Some e) \<Rightarrow> (w2, Err e)
                   | (w2, None) \<Rightarrow>
                       (let (w3, e) = updateAppsubReportResult k (sub_namespace appsub) (sub_name appsub) (snd syncid) deployFailed
                              (ks_standalone s) (isLocalCluster (ks_hub s) (ks_standalone s) (snd syncid) (sub_name appsub)) w2
                        in (w3, returned e)))))"

section \<open>Cleanup of orphan statuses\<close>

fun deleteAll :: "'w kube \<Rightarrow> nsname \<Rightarrow> PackageUnit list \<Rightarrow> 'w \<Rightarrow> 'w \<times> bool" where
  "deleteAll k nsn [] w = (w, False)"
| "deleteAll k nsn (u # us) w =
     (let (w1, e) = DeleteSingleSubscribedResource k nsn u w; (w2, foundErr) = deleteAll k nsn us w1
      in (w2, e \<noteq> None \<or> foundErr))"

fun cleanupStatuses :: "'w kube \<Rightarrow> AppSubStatus list \<Rightarrow> 'w \<Rightarrow> 'w" where
  "cleanupStatuses k [] w = w"
| "cleanupStatuses k (p # ps) w =
     (let nsn = (as_namespace p, as_name p);
          w' = (case localSub k w nsn of
                  Inr s \<Rightarrow> w
                | Inl e \<Rightarrow>
                    (if IsNotFound e \<and> length (as_packages p) > 0 then
                       (let (w1, foundErr) = deleteAll k nsn (as_packages p) w
                        in if \<not> foundErr then fst (exec k w1 (StatusDelete p)) else w1)
                     else w))
      in cleanupStatuses k ps w')"

definition cleanup :: "'w kube \<Rightarrow> 'w \<Rightarrow> 'w" where
  "cleanup k w = (case listStatus k w of Inl e \<Rightarrow> w | Inr ps \<Rightarrow> cleanupStatuses k ps w)"

text \<open>The pauses between the rounds of cleanup, in nanoseconds: they double up to an hour.\<close>

definition nextWait :: "duration \<Rightarrow> duration" where
  "nextWait d = (let d' = dur_wrap (d * 2) in if d' > 60 * minute_ns then 60 * minute_ns else d')"

primrec cleanupWait :: "nat \<Rightarrow> duration" where
  "cleanupWait 0 = 10 * 1000000000"
| "cleanupWait (Suc n) = nextWait (cleanupWait n)"
end
