(* ===== verification/Synchronizer.thy ===== *)
theory Synchronizer
  imports AppSubStatus
begin

text \<open>
  The synchronizer (\<open>pkg/synchronizer/kubernetes/synchronizer.go\<close>): it prepares each resource of a
  subscription, decides whether it may be deployed, creates or updates it on the cluster, and
  reports the result; without resources it removes everything the subscription deployed.
\<close>

section \<open>Creating and updating a resource\<close>

fun IsForbidden :: "kerr \<Rightarrow> bool" where
  "IsForbidden (Forbidden m) = True"
| "IsForbidden _ = False"

fun IsInvalid :: "kerr \<Rightarrow> bool" where
  "IsInvalid (Invalid m) = True"
| "IsInvalid _ = False"

definition namespaceGVR :: GVR where "namespaceGVR = ('''', ''v1'', ''namespaces'')"
definition serviceGVR :: GVR where "serviceGVR = ('''', ''v1'', ''services'')"
definition serviceAccountGVR :: GVR where "serviceAccountGVR = ('''', ''v1'', ''serviceaccounts'')"

definition isSpecialResource :: "GVR \<Rightarrow> bool" where
  "isSpecialResource gvr \<longleftrightarrow> gvr = serviceGVR \<or> gvr = serviceAccountGVR \<or> gvr = namespaceGVR"

text \<open>The annotations of a namespace that is created for a resource.\<close>

definition namespaceAnnotations :: "Unstructured \<Rightarrow> strmap" where
  "namespaceAnnotations tplunit =
     (let tplanno = unnil (u_annotations tplunit);
          a = (if gm_str tplanno AnnotationHosting \<noteq> ''''
               then gm_put AnnotationSyncSource (''subnsdpl-'' @ gm_str tplanno AnnotationHosting)
                      (gm_put AnnotationHosting (gm_str tplanno AnnotationHosting) [])
               else [])
      in if gm_str tplanno AnnotationClusterAdmin \<noteq> ''''
         then gm_put AnnotationClusterAdmin (gm_str tplanno AnnotationClusterAdmin) a else a)"

definition createNamespace :: "'w kube \<Rightarrow> Unstructured \<Rightarrow> 'w \<Rightarrow> 'w \<times> kerr option" where
  "createNamespace k tplunit w =
     (case nsToUnstructured k (u_namespace tplunit) (namespaceAnnotations tplunit) of
        Inl e \<Rightarrow> (w, Some e)
      | Inr ns \<Rightarrow> exec k w (DynCreate (namespaceGVR, None) (ns\<lparr>u_apiVersion := ''v1'', u_kind := ''Namespace''\<rparr>)))"

definition createNewResourceByTemplateUnit ::
  "'w kube \<Rightarrow> ResourceInterface \<Rightarrow> Unstructured \<Rightarrow> 'w \<Rightarrow> 'w \<times> kerr option" where
  "createNewResourceByTemplateUnit k ri tplunit0 w =
     (let tplunit = tplunit0\<lparr>u_resourceVersion := ''''\<rparr>
      in case exec k w (DynCreate ri tplunit) of
           (w1, None) \<Rightarrow> (w1, None)
         | (w1, Some e) \<Rightarrow>
             (if IsNotFound e then
                (case createNamespace k tplunit w1 of
                   (w2, Some e') \<Rightarrow> (w2, Some e')
                 | (w2, None) \<Rightarrow> exec k w2 (DynCreate ri tplunit))
              else (w1, Some e)))"

definition reconcileOption :: "Unstructured \<Rightarrow> string \<Rightarrow> bool" where
  "reconcileOption tplunit v \<longleftrightarrow> EqualFold (anno (u_annotations tplunit) AnnotationResourceReconcileOption) v"

definition mayOverwrite :: "Unstructured \<Rightarrow> bool" where
  "mayOverwrite tplunit \<longleftrightarrow>
     EqualFold (anno (u_annotations tplunit) AnnotationClusterAdmin) ''true''
     \<and> (reconcileOption tplunit MergeReconcile \<or> reconcileOption tplunit ReplaceReconcile
        \<or> reconcileOption tplunit MergeAndOwnReconcile)"

definition isAppsub :: "Unstructured \<Rightarrow> bool" where
  "isAppsub u \<longleftrightarrow> EqualFold (u_kind u) ''subscription'' \<and> EqualFold (u_apiVersion u) ''apps.open-cluster-management.io/v1''"

text \<open>The object that is written in place of an existing one, and whether it is merged into it.\<close>

definition ownedByOthers :: "KubeSynchronizer \<Rightarrow> Unstructured \<Rightarrow> Unstructured \<Rightarrow> bool" where
  "ownedByOthers s origUnit tplunit =
     (case GetHostFromObject tplunit of
        None \<Rightarrow> False
      | Some tplown \<Rightarrow> \<not> IsObjectOwnedByHost (Some origUnit) tplown (ks_synchronizerID s))"

definition mergeUpdate :: "Unstructured \<Rightarrow> bool" where
  "mergeUpdate tplunit = (if reconcileOption tplunit ReplaceReconcile then False else if isAppsub tplunit then False else True)"

definition newObject :: "bool \<Rightarrow> Unstructured \<Rightarrow> Unstructured \<Rightarrow> Unstructured" where
  "newObject overwrite origUnit tplunit =
     (let newobj = tplunit\<lparr>u_resourceVersion := u_resourceVersion origUnit\<rparr>
      in if overwrite \<and> mergeUpdate tplunit \<and> \<not> reconcileOption tplunit MergeAndOwnReconcile
         then RemoveSubOwnerRef (RemoveSubAnnotations newobj) else newobj)"

definition patchResource ::
  "'w kube \<Rightarrow> ResourceInterface \<Rightarrow> Unstructured \<Rightarrow> Unstructured \<Rightarrow> 'w \<Rightarrow> 'w \<times> kerr option" where
  "patchResource k ri origUnit newobj w =
     (case marshal k origUnit of
        Inl e \<Rightarrow> (w, Some e)
      | Inr objb \<Rightarrow>
          (case marshal k newobj of
             Inl e \<Rightarrow> (w, Some e)
           | Inr tplb \<Rightarrow>
               (case mergePatch k tplb tplb objb of
                  Inl e \<Rightarrow> (w, Some e)
                | Inr pb \<Rightarrow> exec k w (DynPatch ri (u_name origUnit) pb))))"

definition updateResourceByTemplateUnit ::
  "'w kube \<Rightarrow> KubeSynchronizer \<Rightarrow> ResourceInterface \<Rightarrow> Unstructured \<Rightarrow> Unstructured \<Rightarrow> bool \<Rightarrow> 'w \<Rightarrow> 'w \<times> kerr option" where
  "updateResourceByTemplateUnit k s ri origUnit tplunit specialResource w =
     (let others = ownedByOthers s origUnit tplunit
      in if others \<and> \<not> mayOverwrite tplunit then
           (w, Some (OtherError (''Obj '' @ u_namespace tplunit @ ''/'' @ u_name tplunit @ '' exists and owned by others, backoff'')))
         else
           (let newobj = newObject others origUnit tplunit
            in if (mergeUpdate tplunit \<or> specialResource) \<and> \<not> isHelmRelease (u_apiVersion tplunit) (u_kind tplunit)
               then patchResource k ri origUnit newobj w
               else case exec k w (DynUpdate ri newobj) of
                      (w', None) \<Rightarrow> (w', None)
                    | (w', Some e) \<Rightarrow> if IsForbidden e then (w', None) else if IsInvalid e then (w', None) else (w', Some e)))"

section \<open>Applying a resource\<close>

definition blockedMsg :: "Unstructured \<Rightarrow> string" where
  "blockedMsg u = ''not deployed by a subscription admin. cluster-scoped resource apiVersion: '' @ u_apiVersion u
     @ '' kind: '' @ u_kind u @ '' name: '' @ u_name u @ '' is not deployed''"

definition deniedMsg :: "Unstructured \<Rightarrow> string" where
  "deniedMsg u = ''the resource apiVersion: '' @ u_apiVersion u @ '' kind: '' @ u_kind u @ '' is on the deny list. Not deployed''"

definition notAllowedMsg :: "bool \<Rightarrow> Unstructured \<Rightarrow> string" where
  "notAllowedMsg isAdmin u =
     (if \<not> isAdmin then ''not deployed by a subscription admin. the resource apiVersion: '' @ u_apiVersion u
        @ '' kind: '' @ u_kind u @ '' is not deployed''
      else ''the resource apiVersion: '' @ u_apiVersion u @ '' kind: '' @ u_kind u @ '' is not on the allow list. Not deployed'')"

definition applyTemplate ::
  "'w kube \<Rightarrow> KubeSynchronizer \<Rightarrow> GVR \<Rightarrow> bool \<Rightarrow> Unstructured \<Rightarrow> bool \<Rightarrow> kindlist \<Rightarrow> kindlist \<Rightarrow> bool \<Rightarrow> 'w
    \<Rightarrow> 'w \<times> kerr option" where
  "applyTemplate k s gvr namespaced tplunit specialResource allowlist denyList isAdmin w =
     (let ri = resourceInterface gvr namespaced (u_namespace tplunit)
      in if \<not> AllowApplyTemplate (localSub k w) tplunit then (w, None)
         else if \<not> namespaced \<and> \<not> isAdmin then (w, Some (OtherError (blockedMsg tplunit)))
         else if IsResourceDenied tplunit denyList isAdmin then (w, Some (OtherError (deniedMsg tplunit)))
         else if \<not> IsResourceAllowed tplunit allowlist isAdmin then (w, Some (OtherError (notAllowedMsg isAdmin tplunit)))
         else case dynGet k w ri (u_name tplunit) of
                Inl e \<Rightarrow> (if IsNotFound e then createNewResourceByTemplateUnit k ri tplunit w else (w, Some e))
              | Inr origUnit \<Rightarrow> updateResourceByTemplateUnit k s ri origUnit tplunit specialResource w)"

section \<open>Preparing a resource\<close>

definition carryLabels :: "Subscription \<Rightarrow> strmap \<Rightarrow> strmap" where
  "carryLabels appsub l =
     fold (\<lambda>(key, v) m. if map_of m key \<noteq> None then m else gm_put key v m) (unnil (sub_labels appsub)) l"

definition OverrideResource :: "'w kube \<Rightarrow> KubeSynchronizer \<Rightarrow> nsname \<Rightarrow> Unstructured \<Rightarrow> 'w \<Rightarrow> kerr + Unstructured" where
  "OverrideResource k s hostSub resource w =
     (case localSub k w hostSub of
        Inl e \<Rightarrow> Inl e
      | Inr appsub \<Rightarrow>
          (if u_kind resource = '''' then 
             Inl (OtherError (''Failed to update template with empty kind. gvk:'' @ fst (fst (gvk resource)) @ ''/''
               @ snd (fst (gvk resource)) @ '', Kind='' @ snd (gvk resource)))
           else
             (let t1 = (if u_name resource = '''' then resource\<lparr>u_name := snd hostSub\<rparr> else resource);
                  t2 = t1\<lparr>u_labels := Some (carryLabels appsub (unnil (u_labels t1)))\<rparr>;
                  t3 = (case SetHostToObject (Some t2) hostSub (ks_synchronizerID s) of Inl e \<Rightarrow> t2 | Inr t \<Rightarrow> t)
              in case ks_synchronizerID s of
                   None \<Rightarrow> Inr t3
                 | Some syncid \<Rightarrow>
                     (case OverrideTemplate (setNested k) t3 (PrepareOverrides syncid appsub) of
                        Inl e \<Rightarrow> Inl (OtherError e)
                      | Inr t4 \<Rightarrow> Inr (if u_namespace t4 \<noteq> sub_namespace appsub then RemoveSubOwnerRef t4 else t4)))))"

definition IsResourceNamespaced :: "'w kube \<Rightarrow> 'w \<Rightarrow> Unstructured \<Rightarrow> bool" where
  "IsResourceNamespaced k w rsc =
     (case getGVRfromGVK k w (fst (fst (gvk rsc))) (snd (fst (gvk rsc))) (snd (gvk rsc)) of
        Inl e \<Rightarrow> False
      | Inr (gvr, isNamespaced) \<Rightarrow> isNamespaced)"

section \<open>Processing a subscription\<close>

definition failedDeploy :: "DeployUnit \<Rightarrow> kerr \<Rightarrow> DeployUnit" where
  "failedDeploy u e = u\<lparr>du_phase := PackageDeployFailed, du_message := err_msg e\<rparr>"

definition blankUnit :: DeployUnit where
  "blankUnit = \<lparr>du_name = '''', du_namespace = '''', du_apiVersion = '''', du_kind = '''', du_phase = '''', du_message = ''''\<rparr>"

definition processResource ::
  "'w kube \<Rightarrow> KubeSynchronizer \<Rightarrow> nsname \<Rightarrow> kindlist \<Rightarrow> kindlist \<Rightarrow> bool \<Rightarrow> ResourceUnit \<Rightarrow> 'w \<Rightarrow> 'w \<times> DeployUnit" where
  "processResource k s hostSub allowlist denyList isAdmin resource w =
     (case OverrideResource k s hostSub (ru_resource resource) w of
        Inl e \<Rightarrow> (w, failedDeploy blankUnit e)
      | Inr t \<Rightarrow>
          (let u = blankUnit\<lparr>du_apiVersion := u_apiVersion t, du_kind := u_kind t, du_name := u_name t\<rparr>
           in case getGVRfromGVK k w (fst (fst (ru_gvk resource))) (snd (fst (ru_gvk resource))) (snd (ru_gvk resource)) of
                Inl e \<Rightarrow> (w, failedDeploy (u\<lparr>du_namespace := u_namespace t\<rparr>) e)
              | Inr (gvr, isNamespaced) \<Rightarrow>
                  (let u' = (if isNamespaced then u\<lparr>du_namespace := u_namespace t\<rparr> else u)
                   in case applyTemplate k s gvr isNamespaced t (isSpecialResource gvr) allowlist denyList isAdmin w of
                        (w', Some e) \<Rightarrow> (w', failedDeploy u' e)
                      | (w', None) \<Rightarrow> (w', u'\<lparr>du_phase := PackageDeployed, du_message := ''''\<rparr>))))"

fun processAll ::
  "'w kube \<Rightarrow> KubeSynchronizer \<Rightarrow> nsname \<Rightarrow> kindlist \<Rightarrow> kindlist \<Rightarrow> bool \<Rightarrow> ResourceUnit list \<Rightarrow> 'w \<Rightarrow> 'w \<times> DeployUnit list" where
  "processAll k s hostSub allowlist denyList isAdmin [] w = (w, [])"
| "processAll k s hostSub allowlist denyList isAdmin (r # rs) w =
     (let (w1, u) = processResource k s hostSub allowlist denyList isAdmin r w;
          (w2, us) = processAll k s hostSub allowlist denyList isAdmin rs w1
      in (w2, u # us))"

definition deleteUnit :: "'w kube \<Rightarrow> nsname \<Rightarrow> DeployUnit \<Rightarrow> PackageUnit \<Rightarrow> 'w \<Rightarrow> 'w \<times> DeployUnit" where
  "deleteUnit k hostSub u pkg w =
     (case DeleteSingleSubscribedResource k hostSub pkg w of
        (w', Some e) \<Rightarrow> (w', failedDeploy u e)
      | (w', None) \<Rightarrow> (w', u\<lparr>du_phase := PackageDeployed, du_message := ''''\<rparr>))"

fun purgeUnits :: "'w kube \<Rightarrow> nsname \<Rightarrow> PackageUnit list \<Rightarrow> 'w \<Rightarrow> 'w \<times> DeployUnit list" where
  "purgeUnits k hostSub [] w = (w, [])"
| "purgeUnits k hostSub (p # ps) w =
     (let u = blankUnit\<lparr>du_apiVersion := pu_apiVersion p, du_kind := pu_kind p, du_name := pu_name p, du_namespace := pu_namespace p\<rparr>;
          (w1, u') = deleteUnit k hostSub u p w;
          (w2, us) = purgeUnits k hostSub ps w1
      in (w2, u' # us))"

text \<open>Legacy units: an API version is looked up for the report, but the unit is deleted without it.\<close>

definition versionOfKind :: "DeployUnit list \<Rightarrow> string \<Rightarrow> string" where
  "versionOfKind us kind = (case find (\<lambda>u. du_kind u = kind) us of None \<Rightarrow> '''' | Some u \<Rightarrow> du_apiVersion u)"

fun purgeLegacy :: "'w kube \<Rightarrow> nsname \<Rightarrow> DeployUnit list \<Rightarrow> PackageUnit list \<Rightarrow> 'w \<Rightarrow> 'w \<times> DeployUnit list" where
  "purgeLegacy k hostSub us [] w = (w, us)"
| "purgeLegacy k hostSub us (p # ps) w =
     (let u = blankUnit\<lparr>du_apiVersion := versionOfKind us (pu_kind p), du_kind := pu_kind p, du_name := pu_name p,
                        du_namespace := pu_namespace p\<rparr>;
          (w1, u') = deleteUnit k hostSub u p w
      in purgeLegacy k hostSub (us @ [u']) ps w1)"

definition syncDeleteStatus ::
  "'w kube \<Rightarrow> KubeSynchronizer \<Rightarrow> Subscription \<Rightarrow> DeployUnit list \<Rightarrow> 'w \<Rightarrow> 'w \<times> outcome" where
  "syncDeleteStatus k s appsub us w =
     (case ks_synchronizerID s of
        None \<Rightarrow> (w, Panic NilDereference)
      | Some syncid \<Rightarrow>
          (case SyncAppsubClusterStatus k s (Some appsub)
                  \<lparr>cs_cluster = snd syncid, cs_appsub = (sub_namespace appsub, sub_name appsub), cs_action = ''DELETE'',
                   cs_packages = us\<rparr> None None w of
             (w', Panic p) \<Rightarrow> (w', Panic p)
           | (w', _) \<Rightarrow> (w', Done)))"

definition PurgeAllSubscribedResources :: "'w kube \<Rightarrow> KubeSynchronizer \<Rightarrow> Subscription \<Rightarrow> 'w \<Rightarrow> 'w \<times> outcome" where
  "PurgeAllSubscribedResources k s appsub w =
     (let hostSub = (sub_namespace appsub, sub_name appsub);
          n = (if ks_hub s \<and> \<not> ks_standalone s then TrimSuffix (sub_name appsub) ''-local'' else sub_name appsub)
      in case localStatus k w (sub_namespace appsub, n) of
           Inl e \<Rightarrow> (if IsNotFound e then syncDeleteStatus k s appsub [] w else (w, Done))
         | Inr p \<Rightarrow>
             (if ks_skipResDel s then syncDeleteStatus k s appsub [] w
              else (let (w1, us) = purgeUnits k hostSub (as_packages p) w
                    in case getResourcesByLegacySubStatus (Some appsub) of
                         Inl e \<Rightarrow> (w1, Panic e)
                       | Inr legacy \<Rightarrow>
                           (let (w2, us') = purgeLegacy k hostSub us legacy w1
                            in syncDeleteStatus k s appsub us' w2))))"

definition ProcessSubResources ::
  "'w kube \<Rightarrow> KubeSynchronizer \<Rightarrow> Subscription \<Rightarrow> ResourceUnit list \<Rightarrow> kindlist \<Rightarrow> kindlist \<Rightarrow> bool \<Rightarrow> bool \<Rightarrow> 'w
    \<Rightarrow> 'w \<times> outcome" where
  "ProcessSubResources k s appsub resources allowlist denyList isAdmin failOnStatusErr w =
     (let hostSub = (sub_namespace appsub, sub_name appsub)
      in if resources = [] then PurgeAllSubscribedResources k s appsub w
         else (let (w1, us) = processAll k s hostSub allowlist denyList isAdmin resources w
               in case ks_synchronizerID s of
                    None \<Rightarrow> (w1, Panic NilDereference)
                  | Some syncid \<Rightarrow>
                      (case SyncAppsubClusterStatus k s (Some appsub)
                              \<lparr>cs_cluster = snd syncid, cs_appsub = hostSub, cs_action = ''APPLY'', cs_packages = us\<rparr> None None w1 of
                         (w2, Done) \<Rightarrow>
                           (if failOnStatusErr then
                              (case GetAppsubReportStatus k (ks_hub s) (ks_standalone s) hostSub w2 of
                                 Inl e \<Rightarrow> (w2, Err e)
                               | Inr p \<Rightarrow>
                                   (if ov_phase (as_overall p) = SubscriptionDeployFailed
                                    then (w2, Err (OtherError (''subscription status error: '' @ ov_message (as_overall p))))
                                    else (w2, Done)))
                            else (w2, Done))
                       | (w2, o') \<Rightarrow> (w2, o'))))"

end
