(* ===== verification/SynchronizerFacts.thy ===== *)
theory SynchronizerFacts
  imports Synchronizer
begin

text \<open>
  What the synchronizer may do to the clusters. \<open>permitted\<close> lists the calls that are allowed in a
  world; every operation is shown to reach its final world by permitted calls only, from the
  deletion of one resource up to \<open>ProcessSubResources\<close>.
\<close>

section \<open>What the synchronizer may write\<close>

fun statusCall :: "call \<Rightarrow> bool" where
  "statusCall (DynCreate ri u) = False"
| "statusCall (DynUpdate ri u) = False"
| "statusCall (DynPatch ri n p) = False"
| "statusCall (DynDelete ri n) = False"
| "statusCall _ = True"

text \<open>An object may be deleted when the read shows that the host deployed it and that it may go.\<close>

definition deletable :: "'w kube \<Rightarrow> nsname set \<Rightarrow> 'w \<Rightarrow> ResourceInterface \<Rightarrow> string \<Rightarrow> bool" where
  "deletable k hosts w ri n \<longleftrightarrow> (\<exists>m obj h. dynGet k w ri m = Inr obj \<and> n = u_name obj \<and> h \<in> hosts
     \<and> hostedBy h (u_annotations obj) \<and> anno (u_annotations obj) AnnotationResourceDoNotDeleteOption \<noteq> ''true'')"

definition deployable :: "kindlist \<Rightarrow> kindlist \<Rightarrow> bool \<Rightarrow> ResourceInterface \<Rightarrow> Unstructured \<Rightarrow> bool" where
  "deployable allowlist denyList isAdmin ri t \<longleftrightarrow> (snd ri = None \<longrightarrow> isAdmin)
     \<and> \<not> IsResourceDenied t denyList isAdmin \<and> IsResourceAllowed t allowlist isAdmin"

text \<open>The object that is there is owned by the same host, or the template carries the annotations
  of a cluster administrator and of a reconcile option.\<close>

definition replaceable :: "'w kube \<Rightarrow> KubeSynchronizer \<Rightarrow> 'w \<Rightarrow> ResourceInterface \<Rightarrow> Unstructured \<Rightarrow> Unstructured \<Rightarrow> bool" where
  "replaceable k s w ri orig t \<longleftrightarrow> dynGet k w ri (u_name t) = Inr orig \<and> (ownedByOthers s orig t \<longrightarrow> mayOverwrite t)"

fun permitted ::
  "'w kube \<Rightarrow> KubeSynchronizer \<Rightarrow> nsname set \<Rightarrow> (ResourceInterface \<Rightarrow> Unstructured \<Rightarrow> bool) \<Rightarrow> 'w \<Rightarrow> call \<Rightarrow> bool" where
  "permitted k s hosts ok w (DynCreate ri u) \<longleftrightarrow>
     (\<exists>t. ok ri t \<and> u = t\<lparr>u_resourceVersion := ''''\<rparr>)
     \<or> (ri = (namespaceGVR, None) \<and> u_apiVersion u = ''v1'' \<and> u_kind u = ''Namespace'')"
| "permitted k s hosts ok w (DynUpdate ri u) \<longleftrightarrow>
     (\<exists>orig t. ok ri t \<and> replaceable k s w ri orig t \<and> u = newObject (ownedByOthers s orig t) orig t)"
| "permitted k s hosts ok w (DynPatch ri n p) \<longleftrightarrow>
     (\<exists>orig t cur new. ok ri t \<and> replaceable k s w ri orig t \<and> n = u_name orig \<and> marshal k orig = Inr cur
        \<and> marshal k (newObject (ownedByOthers s orig t) orig t) = Inr new \<and> mergePatch k new new cur = Inr p)"
| "permitted k s hosts ok w (DynDelete ri n) \<longleftrightarrow> deletable k hosts w ri n"
| "permitted k s hosts ok w _ = True"

lemma permitted_status: "statusCall c \<Longrightarrow> permitted k s hosts ok w c"
  by (cases c) auto

named_theorems runs \<open>operations that reach a world by permitted calls\<close>

text \<open>
  The rules are in continuation form: an operation is reached when the world it starts from is.
\<close>

lemma run_exec [runs]: "run k Q w0 w \<Longrightarrow> Q w c \<Longrightarrow> run k Q w0 (fst (exec k w c))"
  by (rule run_step)

lemma run_delete [runs]:
  assumes "h \<in> hosts" "run k (permitted k s hosts ok) w0 w"
  shows "run k (permitted k s hosts ok) w0 (fst (DeleteSingleSubscribedResource k h pkg w))"
proof -
  have del: "run k (permitted k s hosts ok) w0 (fst (exec k w (DynDelete ri (u_name obj))))"
    if "dynGet k w ri m = Inr obj" "hostedBy h (u_annotations obj)"
      "anno (u_annotations obj) AnnotationResourceDoNotDeleteOption \<noteq> ''true''" for ri m obj
    using that assms(1) by (intro run_exec assms(2)) (auto simp: deletable_def simp del: split_paired_Ex)
  show ?thesis
    by (auto simp: DeleteSingleSubscribedResource_def Let_def case_prod_beta assms(2) split: sum.splits option.splits intro: del)
qed

lemma run_deleteUnits [runs]:
  "h \<in> hosts \<Longrightarrow> run k (permitted k s hosts ok) w0 w \<Longrightarrow> run k (permitted k s hosts ok) w0 (fst (deleteUnits k h us w))"
  by (induction us arbitrary: w) (auto simp: Let_def case_prod_beta intro: run_delete)

lemma run_report [runs]:
  "run k (permitted k s hosts ok) w0 w \<Longrightarrow> run k (permitted k s hosts ok) w0 (fst (getClusterAppsubReport k ns create w))"
  by (auto simp: getClusterAppsubReport_def case_prod_beta split: sum.splits option.splits intro!: runs)

lemma run_putReport [runs]:
  "run k (permitted k s hosts ok) w0 w \<Longrightarrow> run k (permitted k s hosts ok) w0 (fst (putReportResult k ns src b w))"
  by (auto simp: putReportResult_def case_prod_beta split: sum.splits option.splits intro!: runs)

lemma run_dropReport [runs]:
  "run k (permitted k s hosts ok) w0 w \<Longrightarrow> run k (permitted k s hosts ok) w0 (fst (dropReportResult k ns src w))"
  by (auto simp: dropReportResult_def case_prod_beta split: sum.splits option.splits intro!: runs)

lemma run_updateReport [runs]:
  "run k (permitted k s hosts ok) w0 w \<Longrightarrow>
     run k (permitted k s hosts ok) w0 (fst (updateAppsubReportResult k ns n rns b st l w))"
  by (auto simp: updateAppsubReportResult_def Let_def split: sum.splits intro!: runs)

lemma run_deleteReport [runs]:
  "run k (permitted k s hosts ok) w0 w \<Longrightarrow>
     run k (permitted k s hosts ok) w0 (fst (deleteAppsubReportResult k ns n rns st w))"
  by (auto simp: deleteAppsubReportResult_def split: sum.splits intro!: runs)

lemma run_events [runs]:
  "run k (permitted k s hosts ok) w0 w \<Longrightarrow> run k (permitted k s hosts ok) w0 (recordAppSubStatusEvents k a act us w)"
  by (auto simp: recordAppSubStatusEvents_def Let_def intro!: runs)

lemma run_recordEvents [runs]:
  "run k (permitted k s hosts ok) w0 w \<Longrightarrow> run k (permitted k s hosts ok) w0 (recordEvents k a act us w)"
  by (auto simp: recordEvents_def split: option.splits intro!: runs)

lemma run_removeLegacy [runs]:
  "run k (permitted k s hosts ok) w0 w \<Longrightarrow> run k (permitted k s hosts ok) w0 (fst (removeLegacy k a w))"
  by (auto simp: removeLegacy_def Let_def intro!: runs)

lemma run_dropOrphans [runs]:
  "h \<in> hosts \<Longrightarrow> run k (permitted k s hosts ok) w0 w \<Longrightarrow>
     run k (permitted k s hosts ok) w0 (fst (dropOrphans k a h p us w))"
  by (auto simp: dropOrphans_def Let_def case_prod_beta split: sum.splits option.splits intro!: runs)

lemma run_writes [runs]:
  assumes "run k (permitted k s hosts ok) w0 w"
  shows "run k (permitted k s hosts ok) w0 (fst (deleteStatus k s' cs n p w))"
    and "run k (permitted k s hosts ok) w0 (fst (writeStatus k a p us f w))"
    and "run k (permitted k s hosts ok) w0 (fst (createStatus k a cs n us f w))"
    and "run k (permitted k s hosts ok) w0 (fst (deleteFailures k a cs w))"
  using assms
  by (auto simp: deleteStatus_def writeStatus_def createStatus_def deleteFailures_def Let_def case_prod_beta
      split: option.splits sum.splits intro!: runs)

lemma run_updateStatus [runs]:
  "(fst (cs_appsub cs), n) \<in> hosts \<Longrightarrow> run k (permitted k s hosts ok) w0 w \<Longrightarrow>
     run k (permitted k s hosts ok) w0 (fst (updateStatus k s' a cs n l sk p us f w))"
  by (auto simp: updateStatus_def Let_def case_prod_beta split: sum.splits intro!: runs)

lemma run_syncApply [runs]:
  "(fst (cs_appsub cs), n) \<in> hosts \<Longrightarrow> run k (permitted k s hosts ok) w0 w \<Longrightarrow>
     run k (permitted k s hosts ok) w0 (fst (syncApply k s' a cs n l sk f w))"
  by (auto simp: syncApply_def Let_def case_prod_beta split: option.splits sum.splits intro!: runs)

lemma run_syncDelete [runs]:
  "run k (permitted k s hosts ok) w0 w \<Longrightarrow> run k (permitted k s hosts ok) w0 (fst (syncDelete k s' a cs n l f w))"
  by (auto simp: syncDelete_def Let_def case_prod_beta split: option.splits intro!: runs)

lemma run_SyncAppsub [runs]:
  "{cs_appsub cs, (fst (cs_appsub cs), cutLocal (snd (cs_appsub cs)))} \<subseteq> hosts \<Longrightarrow> run k (permitted k s hosts ok) w0 w \<Longrightarrow>
     run k (permitted k s hosts ok) w0 (fst (SyncAppsubClusterStatus k s' a cs so su w))"
  by (auto simp: SyncAppsubClusterStatus_def statusName_def Let_def case_prod_beta split: option.splits sum.splits intro!: runs)

lemma run_createNamespace [runs]:
  "run k (permitted k s hosts ok) w0 w \<Longrightarrow> run k (permitted k s hosts ok) w0 (fst (createNamespace k t w))"
  by (auto simp: createNamespace_def split: sum.splits intro!: runs)

lemma run_createNew [runs]:
  "ok ri t \<Longrightarrow> run k (permitted k s hosts ok) w0 w \<Longrightarrow>
     run k (permitted k s hosts ok) w0 (fst (createNewResourceByTemplateUnit k ri t w))"
  by (auto simp: createNewResourceByTemplateUnit_def Let_def case_prod_beta split: option.splits intro!: runs)

lemma run_updateResource [runs]:
  assumes ok: "ok ri t" and get: "dynGet k w ri (u_name t) = Inr orig" and reach: "run k (permitted k s hosts ok) w0 w"
  shows "run k (permitted k s hosts ok) w0 (fst (updateResourceByTemplateUnit k s ri orig t special w))"
proof (cases "ownedByOthers s orig t \<and> \<not> mayOverwrite t")
  case True
  with reach show ?thesis by (simp add: updateResourceByTemplateUnit_def)
next
  case False
  with ok get have upd: "permitted k s hosts ok w (DynUpdate ri (newObject (ownedByOthers s orig t) orig t))"
    by (auto simp: replaceable_def)
  have patch: "permitted k s hosts ok w (DynPatch ri (u_name orig) pb)"
    if "marshal k orig = Inr cur" "marshal k (newObject (ownedByOthers s orig t) orig t) = Inr new"
      "mergePatch k new new cur = Inr pb" for cur new pb
    using that ok get False by (auto simp: replaceable_def)
  have "run k (permitted k s hosts ok) w0 (fst (patchResource k ri orig (newObject (ownedByOthers s orig t) orig t) w))"
    using reach by (auto simp: patchResource_def simp del: permitted.simps split: sum.splits intro!: run_exec patch)
  with False reach upd show ?thesis
    by (auto simp: updateResourceByTemplateUnit_def Let_def case_prod_beta simp del: permitted.simps
        split: option.splits intro!: run_exec)
qed

lemma run_apply [runs]:
  "run k (permitted k s hosts (deployable allowlist denyList isAdmin)) w0 w \<Longrightarrow>
     run k (permitted k s hosts (deployable allowlist denyList isAdmin)) w0
       (fst (applyTemplate k s gvr namespaced t special allowlist denyList isAdmin w))"
  by (auto simp: applyTemplate_def Let_def deployable_def resourceInterface_def split: sum.splits intro!: runs)

lemma run_process [runs]:
  "run k (permitted k s hosts (deployable allowlist denyList isAdmin)) w0 w \<Longrightarrow>
     run k (permitted k s hosts (deployable allowlist denyList isAdmin)) w0
       (fst (processResource k s h allowlist denyList isAdmin r w))"
  by (auto simp: processResource_def Let_def case_prod_beta split: sum.splits option.splits intro!: runs)

lemma run_processAll [runs]:
  "run k (permitted k s hosts (deployable allowlist denyList isAdmin)) w0 w \<Longrightarrow>
     run k (permitted k s hosts (deployable allowlist denyList isAdmin)) w0
       (fst (processAll k s h allowlist denyList isAdmin rs w))"
  by (induction rs arbitrary: w) (auto simp: Let_def case_prod_beta intro!: run_process)

lemma run_deleteUnit [runs]:
  "h \<in> hosts \<Longrightarrow> run k (permitted k s hosts ok) w0 w \<Longrightarrow>
     run k (permitted k s hosts ok) w0 (fst (deleteUnit k h u p w))"
  by (auto simp: deleteUnit_def case_prod_beta split: option.splits intro!: runs)

lemma run_purgeUnits [runs]:
  "h \<in> hosts \<Longrightarrow> run k (permitted k s hosts ok) w0 w \<Longrightarrow>
     run k (permitted k s hosts ok) w0 (fst (purgeUnits k h ps w))"
  by (induction ps arbitrary: w) (auto simp: Let_def case_prod_beta intro!: run_deleteUnit)

lemma run_purgeLegacy [runs]:
  "h \<in> hosts \<Longrightarrow> run k (permitted k s hosts ok) w0 w \<Longrightarrow>
     run k (permitted k s hosts ok) w0 (fst (purgeLegacy k h us ps w))"
  by (induction ps arbitrary: w us) (auto simp: Let_def case_prod_beta intro!: run_deleteUnit)

definition hostNames :: "Subscription \<Rightarrow> nsname set" where
  "hostNames a = {(sub_namespace a, sub_name a), (sub_namespace a, cutLocal (sub_name a))}"

lemma hostNames_mem [simp]:
  "(sub_namespace a, sub_name a) \<in> hostNames a" "(sub_namespace a, cutLocal (sub_name a)) \<in> hostNames a"
  by (simp_all add: hostNames_def)

lemma run_syncDeleteStatus [runs]:
  "run k (permitted k s (hostNames a) ok) w0 w \<Longrightarrow>
     run k (permitted k s (hostNames a) ok) w0 (fst (syncDeleteStatus k s' a us w))"
  by (auto simp: syncDeleteStatus_def case_prod_beta split: option.splits outcome.splits intro!: runs)

lemma run_purge [runs]:
  "run k (permitted k s (hostNames a) ok) w0 w \<Longrightarrow>
     run k (permitted k s (hostNames a) ok) w0 (fst (PurgeAllSubscribedResources k s' a w))"
  by (auto simp: PurgeAllSubscribedResources_def Let_def case_prod_beta split: sum.splits intro!: runs)

end
