(* ===== verification/MemCluster.thy ===== *)
theory MemCluster
  imports Synchronizer
begin

text \<open>
  A cluster in memory, to evaluate the synchronizer on: objects, statuses, subscriptions and
  reports as lists, writes that succeed unless the object is missing, exists already or lacks its
  namespace. A merge patch is not interpreted; patching marks the object by its resource version.
\<close>

record mem =
  m_objs :: "((ResourceInterface \<times> string) \<times> Unstructured) list"
  m_statuses :: "AppSubStatus list"
  m_subs :: "(nsname \<times> Subscription) list"
  m_reports :: "SubscriptionReport list"
  m_events :: "string list"

definition nsOf :: "string \<Rightarrow> ResourceInterface \<times> string" where
  "nsOf n = ((namespaceGVR, None), n)"

definition st_key :: "AppSubStatus \<Rightarrow> nsname" where
  "st_key p = (as_namespace p, as_name p)"

definition rp_key :: "SubscriptionReport \<Rightarrow> nsname" where
  "rp_key r = (rp_namespace r, rp_name r)"

definition putBy :: "('a \<Rightarrow> 'k) \<Rightarrow> 'a \<Rightarrow> 'a list \<Rightarrow> 'a list" where
  "putBy f x xs = x # filter (\<lambda>y. f y \<noteq> f x) xs"

fun mem_exec :: "mem \<Rightarrow> call \<Rightarrow> mem \<times> kerr option" where
  "mem_exec w (DynCreate ri u) =
     (if snd ri \<noteq> None \<and> map_of (m_objs w) (nsOf (the (snd ri))) = None then (w, Some (NotFound ''namespace not found''))
      else if map_of (m_objs w) (ri, u_name u) \<noteq> None then (w, Some (OtherError ''already exists''))
      else (w\<lparr>m_objs := gm_put (ri, u_name u) u (m_objs w)\<rparr>, None))"
| "mem_exec w (DynUpdate ri u) =
     (if map_of (m_objs w) (ri, u_name u) = None then (w, Some (NotFound ''not found''))
      else (w\<lparr>m_objs := gm_put (ri, u_name u) u (m_objs w)\<rparr>, None))"
| "mem_exec w (DynPatch ri n p) =
     (case map_of (m_objs w) (ri, n) of
        None \<Rightarrow> (w, Some (NotFound ''not found''))
      | Some u \<Rightarrow> (w\<lparr>m_objs := gm_put (ri, n) (u\<lparr>u_resourceVersion := p\<rparr>) (m_objs w)\<rparr>, None))"
| "mem_exec w (DynDelete ri n) =
     (if map_of (m_objs w) (ri, n) = None then (w, Some (NotFound ''not found''))
      else (w\<lparr>m_objs := gm_del (ri, n) (m_objs w)\<rparr>, None))"
| "mem_exec w (StatusCreate p) = (w\<lparr>m_statuses := putBy st_key p (m_statuses w)\<rparr>, None)"
| "mem_exec w (StatusUpdate p) = (w\<lparr>m_statuses := putBy st_key p (m_statuses w)\<rparr>, None)"
| "mem_exec w (StatusDelete p) = (w\<lparr>m_statuses := filter (\<lambda>q. st_key q \<noteq> st_key p) (m_statuses w)\<rparr>, None)"
| "mem_exec w (SubStatusUpdate s) = (w\<lparr>m_subs := gm_put (sub_namespace s, sub_name s) s (m_subs w)\<rparr>, None)"
| "mem_exec w (ReportCreate r) = (w\<lparr>m_reports := putBy rp_key r (m_reports w)\<rparr>, None)"
| "mem_exec w (ReportUpdate r) = (w\<lparr>m_reports := putBy rp_key r (m_reports w)\<rparr>, None)"
| "mem_exec w (RecordEvent s act msg) = (w\<lparr>m_events := act # m_events w\<rparr>, None)"

definition orMissing :: "'a option \<Rightarrow> kerr + 'a" where
  "orMissing x = (case x of None \<Rightarrow> Inl (NotFound ''not found'') | Some y \<Rightarrow> Inr y)"

definition mem_kube :: "mem kube" where
  "mem_kube = \<lparr>
     restMapping = (\<lambda>w g kind v.
       if kind = ''ConfigMap'' then Inr ((g, v, ''configmaps''), ''namespace'')
       else if kind = ''ClusterRole'' then Inr ((g, v, ''clusterroles''), ''root'')
       else Inl (OtherError ''no matches for kind'')),
     now = (\<lambda>w. 1700000000000000000),
     dynGet = (\<lambda>w ri n. orMissing (map_of (m_objs w) (ri, n))),
     localSub = (\<lambda>w key. orMissing (map_of (m_subs w) key)),
     localStatus = (\<lambda>w key. orMissing (find (\<lambda>p. st_key p = key) (m_statuses w))),
     listStatus = (\<lambda>w. Inr (m_statuses w)),
     remoteSub = (\<lambda>w key. orMissing (map_of (m_subs w) key)),
     remoteReport = (\<lambda>w key. orMissing (find (\<lambda>r. rp_key r = key) (m_reports w))),
     marshal = (\<lambda>u. Inr (u_name u)),
     mergePatch = (\<lambda>orig new cur. Inr new),
     nsToUnstructured = (\<lambda>n a. Inr \<lparr>u_apiVersion = '''', u_kind = '''', u_name = n, u_namespace = '''', u_resourceVersion = '''', u_uid = '''',
        u_labels = None, u_annotations = Some a, u_owners = [], u_body = []\<rparr>),
     setNested = (\<lambda>u path v. None),
     decode64 = (\<lambda>x. x), showTime = (\<lambda>t. ''''), exec = mem_exec\<rparr>"

text \<open>A subscription of a managed cluster and two of its resources, the second cluster-scoped.\<close>

definition host_sub :: Subscription where
  "host_sub = \<lparr>sub_name = ''app'', sub_namespace = ''ns'', sub_labels = Some [(''team'', ''blue'')], sub_annotations = None,
     sub_finalizers = None, sub_deleted = None, sub_uid = ''u1'', sub_owners = [],
     sub_spec = \<lparr>sp_channel = ''chn/git'', sp_secondary = '''', sp_package = '''', sp_packageFilter = None, sp_packageOverrides = None,
       sp_overrides = None, sp_timewindow = None, sp_hooksecret = None, sp_allow = [], sp_deny = [], sp_watchHelm = False\<rparr>,
     sub_status = \<lparr>st_phase = '''', st_message = '''', st_reason = '''', st_time = 0, st_prehook = '''', st_posthook = '''', st_statuses = None\<rparr>\<rparr>"

definition res_of :: "string \<Rightarrow> string \<Rightarrow> string \<Rightarrow> string \<Rightarrow> ResourceUnit" where
  "res_of api kind ns n = \<lparr>ru_resource = \<lparr>u_apiVersion = api, u_kind = kind, u_name = n, u_namespace = ns, u_resourceVersion = '''', u_uid = '''',
     u_labels = None, u_annotations = None, u_owners = [], u_body = []\<rparr>, ru_gvk = (ParseAPIVersion api, kind)\<rparr>"

definition mem0 :: mem where
  "mem0 = \<lparr>m_objs = [], m_statuses = [], m_subs = [((''ns'', ''app''), host_sub)], m_reports = [], m_events = []\<rparr>"

definition sync0 :: KubeSynchronizer where
  "sync0 = \<lparr>ks_hub = False, ks_standalone = False, ks_synchronizerID = Some (''cluster1'', ''cluster1''), ks_skipResDel = False\<rparr>"

definition resources0 :: "ResourceUnit list" where
  "resources0 = [res_of ''v1'' ''ConfigMap'' ''web'' ''settings'', res_of ''rbac/v1'' ''ClusterRole'' '''' ''root'']"

end
