(* ===== verification/StatusFacts.thy ===== *)
theory StatusFacts
  imports MemCluster
begin

text \<open>
  What the status of a subscription says after the synchronizer ran. The status objects of the
  API server are \<open>st\<close>; \<open>status_api\<close> is what the code relies on: a read tells the truth, a
  successful write has its effect, a failed one and every other call leave them alone.
\<close>

section \<open>The status API\<close>

fun status_after :: "call \<Rightarrow> kerr option \<Rightarrow> (nsname \<Rightarrow> AppSubStatus option) \<Rightarrow> nsname \<Rightarrow> AppSubStatus option" where
  "status_after (StatusCreate p) None m = m(st_key p \<mapsto> p)"
| "status_after (StatusUpdate p) None m = m(st_key p \<mapsto> p)"
| "status_after (StatusDelete p) None m = m(st_key p := None)"
| "status_after c e m = m"

definition status_api :: "'w kube \<Rightarrow> ('w \<Rightarrow> nsname \<Rightarrow> AppSubStatus option) \<Rightarrow> bool" where
  "status_api k st \<longleftrightarrow>
     (\<forall>w key p. localStatus k w key = Inr p \<longrightarrow> st w key = Some p \<and> st_key p = key)
     \<and> (\<forall>w c. st (fst (exec k w c)) = status_after c (snd (exec k w c)) (st w))"

lemma status_apiD:
  assumes "status_api k st"
  shows status_read: "localStatus k w key = Inr p \<Longrightarrow> st w key = Some p"
    and status_read_key: "localStatus k w key = Inr p \<Longrightarrow> st_key p = key"
    and status_exec: "st (fst (exec k w c)) = status_after c (snd (exec k w c)) (st w)"
  using assms by (auto simp: status_api_def simp del: split_paired_All)

section \<open>Reports leave the statuses alone\<close>

lemma report_keeps_status:
  assumes "status_api k st"
  shows "st (fst (putReportResult k ns src b w)) = st w"
    and "st (fst (dropReportResult k ns src w)) = st w"
  using status_exec [OF assms]
  by (auto simp: putReportResult_def dropReportResult_def getClusterAppsubReport_def case_prod_beta
      split: sum.splits option.splits)

lemma updateReport_keeps_status:
  "status_api k st \<Longrightarrow> st (fst (updateAppsubReportResult k ns n rns b sa l w)) = st w"
  by (auto simp: updateAppsubReportResult_def Let_def report_keeps_status split: sum.splits)

section \<open>Applying\<close>

lemma deployFailure_iff: "fst (deployFailure (f, m) us) \<longleftrightarrow> f \<or> (\<exists>u \<in> set us. du_phase u = PackageDeployFailed)"
  by (induction us arbitrary: f m) auto

lemma deleteUnits_failed: "u \<in> set (snd (deleteUnits k h us w)) \<Longrightarrow> pu_phase u = PackageDeployFailed"
  by (induction us arbitrary: w) (auto simp: Let_def case_prod_beta split: option.splits)

definition shows_units :: "DeployUnit list \<Rightarrow> AppSubStatus \<Rightarrow> bool" where
  "shows_units us p \<longleftrightarrow>
     (\<exists>t extra. as_packages p = map (packageUnit t) us @ extra \<and> (\<forall>u \<in> set extra. pu_phase u = PackageDeployFailed))
     \<and> ov_phase (as_overall p) = (if \<exists>u \<in> set us. du_phase u = PackageDeployFailed then SubscriptionDeployFailed
                                   else SubscriptionDeployed)"

lemma refreshOverall_phase:
  "ov_phase (as_overall (refreshOverall b msg t p)) = (if b then SubscriptionDeployFailed else SubscriptionDeployed)"
  by (auto simp: refreshOverall_def overallStatus_def Let_def)

lemma refreshOverall_key [simp]: "st_key (refreshOverall b msg t p) = st_key p"
  by (simp add: refreshOverall_def st_key_def Let_def)

lemma dropOrphans_units:
  assumes "snd (dropOrphans k a h p us w) = Inr (a', units)"
  shows "\<exists>extra. units = us @ extra \<and> (\<forall>u \<in> set extra. pu_phase u = PackageDeployFailed)"
proof -
  from assms obtain us' where "units = us @ snd (deleteUnits k h us' w)"
    by (auto simp: dropOrphans_def Let_def case_prod_beta split: sum.splits option.splits if_splits)
  then show ?thesis by (auto intro: deleteUnits_failed)
qed

lemma buildAppSubStatus_shows:
  "shows_units us (buildAppSubStatus n ns n' ns' cl (map (packageUnit t) us) (fst (deployFailure (False, '''') us)) msg t')"
  by (simp add: shows_units_def buildAppSubStatus_def overallStatus_def deployFailure_iff) force

lemma createStatus_shows:
  assumes api: "status_api k st"
    and ok: "snd (createStatus k a cs n (map (packageUnit t) us) (deployFailure (False, '''') us) w) = None"
  shows "\<exists>p. st (fst (createStatus k a cs n (map (packageUnit t) us) (deployFailure (False, '''') us) w)) (fst (cs_appsub cs), n) = Some p
     \<and> shows_units us p"
proof -
  define w1 where "w1 = recordEvents k a ''Create'' (map (packageUnit t) us) w"
  define p where "p = buildAppSubStatus n (fst (cs_appsub cs)) n (fst (cs_appsub cs)) (cs_cluster cs) (map (packageUnit t) us)
    (fst (deployFailure (False, '''') us)) (snd (deployFailure (False, '''') us)) (now k w1)"
  have w: "createStatus k a cs n (map (packageUnit t) us) (deployFailure (False, '''') us) w =
      (case exec k w1 (StatusCreate p) of (w2, Some e) \<Rightarrow> (w2, Some (Err e)) | (w2, None) \<Rightarrow> (w2, None))"
    by (simp only: createStatus_def w1_def p_def Let_def)
  have "st_key p = (fst (cs_appsub cs), n)" by (simp add: p_def st_key_def buildAppSubStatus_def)
  moreover have "shows_units us p" unfolding p_def by (rule buildAppSubStatus_shows)
  moreover have "snd (exec k w1 (StatusCreate p)) = None"
    using ok by (auto simp: w case_prod_beta split: option.splits)
  ultimately show ?thesis
    using status_exec [OF api, of w1 "StatusCreate p"] by (simp add: w case_prod_beta)
qed

lemma writeStatus_shows:
  assumes api: "status_api k st" and key: "st_key p = key"
    and units: "units = map (packageUnit t) us @ extra" "\<forall>u \<in> set extra. pu_phase u = PackageDeployFailed"
    and ok: "snd (writeStatus k a p units (deployFailure (False, '''') us) w) = None"
  shows "\<exists>p'. st (fst (writeStatus k a p units (deployFailure (False, '''') us) w)) key = Some p' \<and> shows_units us p'"
proof -
  define w1 where "w1 = recordEvents k a ''Update'' units w"
  define p' where "p' = (refreshOverall (fst (deployFailure (False, '''') us)) (snd (deployFailure (False, '''') us)) (now k w1) p)
    \<lparr>as_packages := units\<rparr>"
  have w: "writeStatus k a p units (deployFailure (False, '''') us) w =
      (case exec k w1 (StatusUpdate p') of (w2, Some e) \<Rightarrow> (w2, Some (Err e)) | (w2, None) \<Rightarrow> (w2, None))"
    by (simp only: writeStatus_def w1_def p'_def Let_def)
  have "st_key p' = key" using key by (simp add: p'_def st_key_def refreshOverall_def Let_def)
  moreover have "shows_units us p'"
    using units by (auto simp: shows_units_def p'_def refreshOverall_phase deployFailure_iff)
  moreover have "snd (exec k w1 (StatusUpdate p')) = None"
    using ok by (auto simp: w case_prod_beta split: option.splits)
  ultimately show ?thesis
    using status_exec [OF api, of w1 "StatusUpdate p'"] by (simp add: w case_prod_beta)
qed

lemma updateStatus_shows:
  assumes api: "status_api k st" and key: "st_key p = key" and ne: "us \<noteq> []"
    and ok: "snd (updateStatus k s a cs n l sk p (map (packageUnit t) us) (deployFailure (False, '''') us) w) = None"
  shows "\<exists>p'. st (fst (updateStatus k s a cs n l sk p (map (packageUnit t) us) (deployFailure (False, '''') us) w)) key = Some p'
     \<and> shows_units us p'"
proof -
  define f where "f = deployFailure (False, '''') us"
  define r where "r = (if \<not> (if l \<and> failedHelmRelease p then False else sk)
    then dropOrphans k a (fst (cs_appsub cs), n) p (map (packageUnit t) us) w else (w, Inr (a, map (packageUnit t) us)))"
  have u: "updateStatus k s a cs n l sk p (map (packageUnit t) us) f w =
      (case snd r of Inl e \<Rightarrow> (fst r, Some (Panic e))
       | Inr (a', units) \<Rightarrow> (if units = [] then (let (w2, o') = deleteStatus k s cs n p (fst r) in (w2, Some o'))
                              else writeStatus k a' p units f (fst r)))"
    by (simp only: updateStatus_def r_def Let_def case_prod_beta)
  from ok obtain a' units where r': "snd r = Inr (a', units)"
    by (auto simp: u [unfolded f_def] split: sum.splits)
  have "\<exists>extra. units = map (packageUnit t) us @ extra \<and> (\<forall>u \<in> set extra. pu_phase u = PackageDeployFailed)"
    using r' dropOrphans_units [of k a "(fst (cs_appsub cs), n)" p "map (packageUnit t) us" w] by (auto simp: r_def split: if_splits)
  then obtain extra where ex: "units = map (packageUnit t) us @ extra" "\<forall>u \<in> set extra. pu_phase u = PackageDeployFailed"
    by blast
  with ne have step: "updateStatus k s a cs n l sk p (map (packageUnit t) us) f w = writeStatus k a' p units f (fst r)"
    by (simp add: u r')
  from writeStatus_shows [OF api key ex, of a' "fst r"] ok show ?thesis
    by (simp add: step [unfolded f_def])
qed

lemma status_goes_on:
  "snd (createStatus k a cs n us f w) \<noteq> Some Done"
  "us \<noteq> [] \<Longrightarrow> snd (updateStatus k s a cs n l sk p us f w) \<noteq> Some Done"
proof -
  have wr: "snd (writeStatus k a p us f w) \<noteq> Some Done" for a us w
    by (auto simp: writeStatus_def Let_def case_prod_beta split: option.splits)
  show "snd (createStatus k a cs n us f w) \<noteq> Some Done"
    by (auto simp: createStatus_def Let_def case_prod_beta split: option.splits)
  assume "us \<noteq> []"
  then show "snd (updateStatus k s a cs n l sk p us f w) \<noteq> Some Done"
    using wr by (auto simp: updateStatus_def Let_def case_prod_beta split: sum.splits dest: dropOrphans_units)
qed

lemma syncApply_shows:
  assumes api: "status_api k st" and found: "\<And>p. found = Some p \<Longrightarrow> st_key p = (fst (cs_appsub cs), n)"
    and units: "cs_packages cs \<noteq> []" "\<not> onlyHelmRelease (cs_packages cs)"
    and ok: "syncApply k s a cs n l sk found w = (w', Done)"
  shows "\<exists>p. st w' (fst (cs_appsub cs), n) = Some p \<and> shows_units (cs_packages cs) p"
proof -
  define f where "f = deployFailure (False, '''') (cs_packages cs)"
  define us where "us = map (packageUnit (now k w)) (cs_packages cs)"
  define r where "r = (case found of None \<Rightarrow> createStatus k a cs n us f w | Some p \<Rightarrow> updateStatus k s a cs n l sk p us f w)"
  have eq: "syncApply k s a cs n l sk found w =
      (case snd r of Some o' \<Rightarrow> (fst r, o') | None \<Rightarrow>
        (fst (updateAppsubReportResult k (fst (cs_appsub cs)) n (cs_cluster cs) (fst f) (ks_standalone s) l (fst r)),
         returned (snd (updateAppsubReportResult k (fst (cs_appsub cs)) n (cs_cluster cs) (fst f) (ks_standalone s) l (fst r)))))"
    using units(2) by (simp only: syncApply_def f_def us_def r_def Let_def case_prod_beta simp_thms if_False)
  have "\<exists>p. st (fst r) (fst (cs_appsub cs), n) = Some p \<and> shows_units (cs_packages cs) p" if "snd r = None"
    using that createStatus_shows [OF api] updateStatus_shows [OF api found units(1)]
    by (auto simp: r_def f_def us_def split: option.splits)
  moreover have "snd r \<noteq> Some Done"
    using units(1) by (auto simp: r_def us_def status_goes_on split: option.splits)
  ultimately show ?thesis
    using ok updateReport_keeps_status [OF api] by (auto simp: eq split: option.splits)
qed


lemma SyncAppsub_shows:
  assumes api: "status_api k st" and act: "cs_action cs = ''APPLY''"
    and units: "cs_packages cs \<noteq> []" "\<not> onlyHelmRelease (cs_packages cs)"
    and n: "n = statusName s cs (isLocalCluster (ks_hub s) (ks_standalone s) (cs_cluster cs) (snd (cs_appsub cs))) False"
    and ok: "SyncAppsubClusterStatus k s a cs None None w = (w', Done)"
  shows "\<exists>p. st w' (fst (cs_appsub cs), n) = Some p \<and> shows_units (cs_packages cs) p"
proof -
  have noskip: "\<not> shouldSkip cs b p" for b p
    using units by (auto simp: shouldSkip_def split: list.splits)
  obtain found where "syncApply k s a cs n (isLocalCluster (ks_hub s) (ks_standalone s) (cs_cluster cs) (snd (cs_appsub cs)))
      False found w = (w', Done)" and "\<And>p. found = Some p \<Longrightarrow> localStatus k w (fst (cs_appsub cs), n) = Inr p"
    using ok act noskip by (auto simp: SyncAppsubClusterStatus_def Let_def n split: sum.splits if_splits)
  then show ?thesis
    using syncApply_shows [OF api _ units] status_read_key [OF api] by blast
qed

lemma processAll_length: "length (snd (processAll k s h al dl adm rs w)) = length rs"
  by (induction rs arbitrary: w) (auto simp: Let_def case_prod_beta)

lemma processAll_ne: "rs \<noteq> [] \<Longrightarrow> snd (processAll k s h al dl adm rs w) \<noteq> []"
  using processAll_length [of k s h al dl adm rs w] by (metis length_0_conv)

text \<open>The name under which the status is written is the one under which it is read back.\<close>

definition plainName :: "KubeSynchronizer \<Rightarrow> string \<Rightarrow> bool" where
  "plainName s n \<longleftrightarrow> ks_hub s \<and> \<not> ks_standalone s \<or> \<not> HasSuffix n localSuffix"

definition readName :: "KubeSynchronizer \<Rightarrow> string \<Rightarrow> string" where
  "readName s n = (if ks_hub s \<and> \<not> ks_standalone s then TrimSuffix n ''-local'' else n)"

lemma statusName_read:
  "plainName s (snd (cs_appsub cs)) \<Longrightarrow>
     statusName s cs (isLocalCluster (ks_hub s) (ks_standalone s) cl (snd (cs_appsub cs))) False = readName s (snd (cs_appsub cs))"
  by (auto simp: statusName_def isLocalCluster_def readName_def plainName_def cutLocal_def TrimSuffix_def localSuffix_def
      numeral_eq_Suc)


definition mem_st :: "mem \<Rightarrow> nsname \<Rightarrow> AppSubStatus option" where
  "mem_st w key = find (\<lambda>p. st_key p = key) (m_statuses w)"

lemma find_putBy: "find (\<lambda>p. f p = key) (putBy f x xs) = (if key = f x then Some x else find (\<lambda>p. f p = key) xs)"
  by (induction xs) (auto simp: putBy_def)

lemma find_filter_key: "find (\<lambda>p. f p = key) (filter (\<lambda>q. f q \<noteq> a) xs) = (if key = a then None else find (\<lambda>p. f p = key) xs)"
  by (induction xs) auto

lemma find_prop: "find P xs = Some x \<Longrightarrow> P x"
  by (induction xs) (auto split: if_splits)

lemma mem_kube_sel:
  "exec mem_kube = mem_exec"
  "localStatus mem_kube w key = orMissing (find (\<lambda>p. st_key p = key) (m_statuses w))"
  by (simp_all add: mem_kube_def)

lemma mem_exec_status: "mem_st (fst (mem_exec w c)) = status_after c (snd (mem_exec w c)) (mem_st w)"
  by (cases c; rule ext) (simp_all add: mem_st_def find_putBy find_filter_key split: option.split)

lemma mem_status_api: "status_api mem_kube mem_st"
  using find_prop
  by (fastforce simp: status_api_def mem_kube_sel mem_exec_status mem_st_def orMissing_def simp del: split_paired_All split: option.splits)

end
