(* ===== verification/DeployFacts.thy ===== *)
theory DeployFacts
  imports StatusFacts
begin

text \<open>
  Facts about single operations of the synchronizer: how a resource is prepared, what an update
  writes, what the cluster report says, and what happens when resources cannot be deleted.
\<close>

section \<open>Preparing a resource\<close>

lemma carryLabels_map: "map_of (carryLabels a l) = map_of (unnil (sub_labels a)) ++ map_of l"
proof -
  have step: "map_of (if map_of m key \<noteq> None then m else gm_put key v m) = [key \<mapsto> v] ++ map_of m" for m and key v :: string
    by (auto simp: gmap_simps fun_eq_iff map_add_def split: option.splits)
  have "map_of (fold (\<lambda>(key, v) m. if map_of m key \<noteq> None then m else gm_put key v m) xs l) = map_of xs ++ map_of l" for xs
  proof (induction xs arbitrary: l)
    case (Cons x xs)
    then show ?case
      by (cases x) (simp add: step del: not_None_eq, simp add: fun_eq_iff map_add_def split: option.splits)
  qed simp
  then show ?thesis by (simp add: carryLabels_def)
qed

lemma SetHostToObject_frame:
  assumes "SetHostToObject (Some u) h i = Inr u'"
  shows "u_kind u' = u_kind u" "u_name u' = u_name u" "u_labels u' = u_labels u" "u_namespace u' = u_namespace u"
    "u_owners u' = u_owners u"
  using SetHostToObject_eq [OF assms] by simp_all

text \<open>
  A resource that is prepared without cluster overrides keeps its kind, gets the name of the
  subscription if it has none, carries the labels of the subscription below its own, is owned by
  the host that it names or else by the subscription, and outside the namespace of the
  subscription it keeps no owner reference to a subscription.
\<close>

theorem OverrideResource_prepares:
  assumes sub: "localSub k w hostSub = Inr appsub" and kind: "u_kind r \<noteq> ''''"
    and id: "ks_synchronizerID s = Some i" and noov: "PrepareOverrides i appsub = None"
    and name: "name_ok hostSub"
  shows "\<exists>t. OverrideResource k s hostSub r w = Inr t \<and> u_kind t = u_kind r
    \<and> u_name t = (if u_name r = '''' then snd hostSub else u_name r)
    \<and> map_of (unnil (u_labels t)) = map_of (unnil (sub_labels appsub)) ++ map_of (unnil (u_labels r))
    \<and> (anno (u_annotations r) AnnotationHosting = '''' \<longrightarrow> (\<forall>h. IsObjectOwnedByHost (Some t) h (Some i) \<longleftrightarrow> h = hostSub))
    \<and> (\<forall>h'. GetHostFromObject r = Some h' \<longrightarrow> (\<forall>h. IsObjectOwnedByHost (Some t) h (Some i) \<longleftrightarrow> h = h'))
    \<and> (u_namespace r \<noteq> sub_namespace appsub \<longrightarrow> (\<forall>o' \<in> set (u_owners t). \<not> EqualFold (or_kind o') ''Subscription''))"
proof -
  define t2 where "t2 = (if u_name r = '''' then r\<lparr>u_name := snd hostSub\<rparr> else r)
    \<lparr>u_labels := Some (carryLabels appsub (unnil (u_labels r)))\<rparr>"
  obtain t3 where t3: "SetHostToObject (Some t2) hostSub (Some i) = Inr t3"
    using ext.set_total by blast
  define t where "t = (if u_namespace t3 \<noteq> sub_namespace appsub then RemoveSubOwnerRef t3 else t3)"
  have run: "OverrideResource k s hostSub r w = Inr t"
    using sub kind id noov t3 by (auto simp: OverrideResource_def OverrideTemplate_def t2_def t_def Let_def)
  have fields: "u_kind t3 = u_kind r" "u_name t3 = (if u_name r = '''' then snd hostSub else u_name r)"
      "u_labels t3 = Some (carryLabels appsub (unnil (u_labels r)))" "u_namespace t3 = u_namespace r" "u_owners t3 = u_owners r"
    using SetHostToObject_frame [OF t3] by (simp_all add: t2_def)
  have ann: "u_annotations t2 = u_annotations r" by (simp add: t2_def)
  have own: "IsObjectOwnedByHost (Some t) h (Some i) \<longleftrightarrow> IsObjectOwnedByHost (Some t3) h (Some i)" for h
    by (simp add: t_def RemoveSubOwnerRef_def IsObjectOwnedByHost_def IsObjectOwnedBySynchronizer_def Let_def)
  have "IsObjectOwnedByHost (Some t3) h (Some i) \<longleftrightarrow> h = hostSub" if "anno (u_annotations r) AnnotationHosting = ''''" for h
    using claim_fresh [OF _ name t3] that ann by simp
  moreover have "IsObjectOwnedByHost (Some t3) h (Some i) \<longleftrightarrow> h = h'" if "GetHostFromObject r = Some h'" for h h'
    using ext.claim_hosted [OF _ t3] that ann by (simp add: GetHostFromObject_def)
  moreover have "u_kind t = u_kind r" "u_name t = (if u_name r = '''' then snd hostSub else u_name r)"
      "map_of (unnil (u_labels t)) = map_of (unnil (sub_labels appsub)) ++ map_of (unnil (u_labels r))"
      "u_namespace r \<noteq> sub_namespace appsub \<longrightarrow> (\<forall>o' \<in> set (u_owners t). \<not> EqualFold (or_kind o') ''Subscription'')"
    using fields by (auto simp: t_def RemoveSubOwnerRef_def carryLabels_map)
  ultimately show ?thesis using run by (intro exI [of _ t] conjI allI impI) (simp_all only: own simp_thms)
qed

definition host_res :: Unstructured where
  "host_res = (ru_resource (res_of ''v1'' ''ConfigMap'' ''web'' ''''))\<lparr>u_labels := Some [(''team'', ''red'')],
     u_owners := [\<lparr>or_apiVersion = ''apps/v1'', or_kind = ''Subscription'', or_name = ''app'', or_uid = ''1''\<rparr>]\<rparr>"

theorem OverrideResource_prepares_witness:
  "\<exists>t. OverrideResource mem_kube sync0 (''ns'', ''app'') host_res mem0 = Inr t \<and> u_name t = ''app''
     \<and> IsObjectOwnedByHost (Some t) (''ns'', ''app'') (ks_synchronizerID sync0)"
proof -
  have "localSub mem_kube mem0 (''ns'', ''app'') = Inr host_sub" "u_kind host_res \<noteq> ''''"
    "ks_synchronizerID sync0 = Some (''cluster1'', ''cluster1'')" "PrepareOverrides (''cluster1'', ''cluster1'') host_sub = None"
    "name_ok (''ns'', ''app'')"
    by code_simp+
  note OverrideResource_prepares [OF this]
  moreover have "u_name host_res = ''''" "anno (u_annotations host_res) AnnotationHosting = ''''" by code_simp+
  ultimately show ?thesis
    using \<open>ks_synchronizerID sync0 = _\<close> by (auto simp del: split_paired_All)
qed

section \<open>Updating a resource\<close>

lemma RemoveSub_anno:
  "k \<in> {AnnotationClusterAdmin, AnnotationHosting, AnnotationSyncSource, AnnotationHostingDeployable, AnnotationChannelType} \<Longrightarrow>
     anno (u_annotations (RemoveSubAnnotations u)) k = ''''"
  by (cases "u_annotations u") (auto simp: RemoveSubAnnotations_def Let_def anno_def gm_str_del)

lemma not_hostedBy: "anno a AnnotationHosting = '''' \<Longrightarrow> \<not> hostedBy h a"
  by (simp add: hostedBy_def)

lemma no_host: "anno a AnnotationHosting = '''' \<Longrightarrow> GetHostSubscriptionFromObject a = None"
  by (auto simp: GetHostSubscriptionFromObject_def anno_def split: option.splits)

text \<open>
  The object that is written over an object of another owner with the merge option names no
  host, so that no subscription owns it or deletes it later, and no subscription is among its
  owner references. In every other case (the same owner, or the options that replace or take
  over) the written object keeps the host and the owner references of the template.
\<close>

theorem newObject_ownership:
  "if overwrite \<and> mergeUpdate t \<and> \<not> reconcileOption t MergeAndOwnReconcile
   then GetHostFromObject (newObject overwrite orig t) = None
     \<and> (\<forall>h. \<not> hostedBy h (u_annotations (newObject overwrite orig t)))
     \<and> list_all (\<lambda>r. \<not> EqualFold (or_kind r) ''Subscription'') (u_owners (newObject overwrite orig t))
   else GetHostFromObject (newObject overwrite orig t) = GetHostFromObject t
     \<and> u_owners (newObject overwrite orig t) = u_owners t"
proof -
  let ?u = "RemoveSubOwnerRef (RemoveSubAnnotations (t\<lparr>u_resourceVersion := u_resourceVersion orig\<rparr>))"
  have "anno (u_annotations ?u) AnnotationHosting = ''''"
    by (simp add: RemoveSubOwnerRef_def RemoveSub_anno)
  then show ?thesis
    by (auto simp: newObject_def Let_def GetHostFromObject_def no_host not_hostedBy list_all_iff RemoveSubOwnerRef_def)
qed


section \<open>The report of a cluster\<close>

text \<open>What a list of results says about each source; the first entry of a source counts.\<close>

definition results_view :: "SubscriptionReportResult list \<Rightarrow> string \<Rightarrow> string option" where
  "results_view rs = map_of (map (\<lambda>r. (rr_source r, rr_result r)) rs)"

definition results_ok :: "SubscriptionReportResult list \<Rightarrow> bool" where
  "results_ok rs \<longleftrightarrow> distinct (map rr_source rs)"

lemma sourceIndex_None: "sourceIndex src rs = None \<longleftrightarrow> src \<notin> rr_source ` set rs"
  by (induction rs) auto

lemma sourceIndex_Some: "sourceIndex src rs = Some i \<Longrightarrow> i < length rs \<and> rr_source (rs ! i) = src"
  by (induction rs arbitrary: i) (auto split: if_splits)

lemma view_append: "results_view (xs @ ys) = results_view ys ++ results_view xs"
  by (simp add: results_view_def)

lemma view_None: "src \<notin> rr_source ` set rs \<Longrightarrow> results_view rs src = None"
  by (force simp: results_view_def map_of_eq_None_iff)

lemma index_split:
  assumes ok: "results_ok rs" and i: "sourceIndex src rs = Some i"
  obtains xs r ys where "rs = xs @ r # ys" "length xs = i" "rr_source r = src"
    "src \<notin> rr_source ` set xs" "src \<notin> rr_source ` set ys"
proof -
  from sourceIndex_Some [OF i] have "i < length rs" "rr_source (rs ! i) = src" by auto
  with ok show thesis
    by (intro that [of "take i rs" "rs ! i" "drop (Suc i) rs"])
      (auto simp: results_ok_def id_take_nth_drop [symmetric] distinct_conv_nth in_set_conv_nth)
qed

lemma setResult_spec:
  assumes ok: "results_ok rs" and rs': "rs' = (case setResult src res t rs of None \<Rightarrow> rs | Some x \<Rightarrow> x)"
  shows "results_ok rs' \<and> results_view rs' = (results_view rs)(src \<mapsto> res)"
proof (cases "sourceIndex src rs")
  case None
  then have "src \<notin> rr_source ` set rs" by (simp add: sourceIndex_None)
  with None ok rs' view_None [of src rs] show ?thesis
    by (auto simp: setResult_def results_ok_def view_append results_view_def fun_eq_iff map_add_def split: option.splits)
next
  case (Some i)
  obtain xs r ys where sp: "rs = xs @ r # ys" "length xs = i" "rr_source r = src"
    "src \<notin> rr_source ` set xs" "src \<notin> rr_source ` set ys"
    using index_split [OF ok Some] .
  then have rs'': "rs' = xs @ r\<lparr>rr_result := res\<rparr> # ys"
    using rs' Some by (auto simp: setResult_def split: if_splits)
  show ?thesis
    using ok view_None [OF sp(4)] unfolding rs'' sp(1) using sp(3)
    by (auto simp: results_ok_def results_view_def fun_eq_iff map_add_def split: option.splits)
qed

lemma dropResult_spec:
  assumes ok: "results_ok rs" and i: "sourceIndex src rs = Some i" and rs': "rs' = take i rs @ drop (i + 1) rs"
  shows "results_ok rs' \<and> results_view rs' = (results_view rs)(src := None)"
proof -
  obtain xs r ys where sp: "rs = xs @ r # ys" "length xs = i" "rr_source r = src"
    "src \<notin> rr_source ` set xs" "src \<notin> rr_source ` set ys"
    using index_split [OF ok i] .
  then have rs'': "rs' = xs @ ys" using rs' by simp
  show ?thesis
    using ok view_None [OF sp(4)] view_None [OF sp(5)] unfolding rs'' sp(1) using sp(3)
    by (auto simp: results_ok_def results_view_def fun_eq_iff map_add_def split: option.splits)
qed

text \<open>
  The reports of the API server are \<open>rep\<close>. Reads tell the truth, also about a missing report, and
  a write that succeeds has its effect.
\<close>

fun report_after :: "call \<Rightarrow> kerr option \<Rightarrow> (nsname \<Rightarrow> SubscriptionReport option) \<Rightarrow> nsname \<Rightarrow> SubscriptionReport option" where
  "report_after (ReportCreate r) None m = m(rp_key r \<mapsto> r)"
| "report_after (ReportUpdate r) None m = m(rp_key r \<mapsto> r)"
| "report_after c e m = m"

definition report_api :: "'w kube \<Rightarrow> ('w \<Rightarrow> nsname \<Rightarrow> SubscriptionReport option) \<Rightarrow> bool" where
  "report_api k rep \<longleftrightarrow>
     (\<forall>w key r. remoteReport k w key = Inr r \<longrightarrow> rep w key = Some r \<and> rp_key r = key)
     \<and> (\<forall>w key e. remoteReport k w key = Inl e \<longrightarrow> IsNotFound e \<longrightarrow> rep w key = None)
     \<and> (\<forall>w c. rep (fst (exec k w c)) = report_after c (snd (exec k w c)) (rep w))"

lemma report_apiD:
  assumes "report_api k rep"
  shows report_read: "remoteReport k w key = Inr r \<Longrightarrow> rep w key = Some r \<and> rp_key r = key"
    and report_missing: "remoteReport k w key = Inl e \<Longrightarrow> IsNotFound e \<Longrightarrow> rep w key = None"
    and report_exec: "rep (fst (exec k w c)) = report_after c (snd (exec k w c)) (rep w)"
  using assms by (auto simp: report_api_def simp del: split_paired_All)

definition report_results :: "SubscriptionReport option \<Rightarrow> SubscriptionReportResult list" where
  "report_results r = (case r of None \<Rightarrow> [] | Some x \<Rightarrow> rp_results x)"

lemma report_results_simps [simp]: "report_results None = []" "report_results (Some r) = rp_results r"
  by (simp_all add: report_results_def)

text \<open>Reading the report of a cluster, creating it first if need be, changes no result.\<close>

lemma getClusterAppsubReport_spec:
  assumes api: "report_api k rep" and get: "getClusterAppsubReport k ns create w = (w', Inr r)"
  shows "rp_key r = (ns, ns) \<and> rep w' (ns, ns) = Some r \<and> report_results (rep w (ns, ns)) = rp_results r
    \<and> (\<forall>key. key \<noteq> (ns, ns) \<longrightarrow> rep w' key = rep w key)"
proof (cases "remoteReport k w (ns, ns)")
  case (Inr x)
  with get report_read [OF api Inr] show ?thesis by (simp add: getClusterAppsubReport_def)
next
  case (Inl e)
  with get have nf: "IsNotFound e" and ex: "snd (exec k w (ReportCreate (newClusterReport ns))) = None"
    and w': "w' = fst (exec k w (ReportCreate (newClusterReport ns)))" and r: "r = newClusterReport ns"
    by (auto simp: getClusterAppsubReport_def case_prod_beta split: if_splits option.splits)
  from report_missing [OF api Inl nf] report_exec [OF api, of w "ReportCreate (newClusterReport ns)"] ex
  show ?thesis by (simp add: w' r rp_key_def newClusterReport_def)
qed

definition report_changes ::
  "('w \<Rightarrow> nsname \<Rightarrow> SubscriptionReport option) \<Rightarrow> string \<Rightarrow> 'w \<Rightarrow> 'w \<Rightarrow> string \<Rightarrow> string option \<Rightarrow> bool" where
  "report_changes rep ns w w' src res \<longleftrightarrow> results_ok (report_results (rep w' (ns, ns)))
     \<and> results_view (report_results (rep w' (ns, ns))) = (results_view (report_results (rep w (ns, ns))))(src := res)
     \<and> (\<forall>key. key \<noteq> (ns, ns) \<longrightarrow> rep w' key = rep w key)"

lemma putReportResult_spec:
  assumes api: "report_api k rep" and ok: "results_ok (report_results (rep w (ns, ns)))"
    and put: "putReportResult k ns src deployFailed w = (w1, None)"
  shows "report_changes rep ns w w1 src (Some (if deployFailed then ''failed'' else ''deployed''))"
proof -
  let ?res = "if deployFailed then ''failed'' else ''deployed''"
  from put obtain w' r where get: "getClusterAppsubReport k ns True w = (w', Inr r)"
    by (cases "getClusterAppsubReport k ns True w") (auto simp: putReportResult_def split: sum.splits)
  note sp = getClusterAppsubReport_spec [OF api get]
  define rs where "rs = (case setResult src ?res (now k w') (rp_results r) of None \<Rightarrow> rp_results r | Some x \<Rightarrow> x)"
  have "rep w1 = (rep w')((ns, ns) \<mapsto> r\<lparr>rp_results := rs\<rparr>)"
  proof (cases "setResult src ?res (now k w') (rp_results r)")
    case None
    with put have "w1 = w'" "rs = rp_results r" by (simp_all add: putReportResult_def get rs_def)
    with sp show ?thesis by auto
  next
    case (Some x)
    with put have "exec k w' (ReportUpdate (r\<lparr>rp_results := rs\<rparr>)) = (w1, None)" by (simp add: putReportResult_def get rs_def)
    with report_exec [OF api, of w' "ReportUpdate (r\<lparr>rp_results := rs\<rparr>)"] sp show ?thesis by (simp add: rp_key_def)
  qed
  then have "report_results (rep w1 (ns, ns)) = rs" "\<And>key. key \<noteq> (ns, ns) \<Longrightarrow> rep w1 key = rep w key"
    using sp by auto
  with setResult_spec [OF _ rs_def] ok sp show ?thesis by (simp add: report_changes_def)
qed

lemma dropReportResult_spec:
  assumes api: "report_api k rep" and ok: "results_ok (report_results (rep w (ns, ns)))"
    and drop: "dropReportResult k ns src w = (w1, None)"
  shows "report_changes rep ns w w1 src None"
proof (cases "getClusterAppsubReport k ns False w")
  case (Pair w' res)
  show ?thesis
  proof (cases res)
    case (Inl e)
    with Pair have "remoteReport k w (ns, ns) = Inl e" "w' = w"
      by (auto simp: getClusterAppsubReport_def split: sum.splits if_splits)
    moreover from this drop Pair Inl have "IsNotFound e" "w1 = w"
      by (auto simp: dropReportResult_def split: if_splits)
    ultimately show ?thesis
      using report_missing [OF api] by (simp add: report_changes_def results_ok_def results_view_def)
  next
    case (Inr r)
    note sp = getClusterAppsubReport_spec [OF api Pair [unfolded Inr]]
    show ?thesis
    proof (cases "sourceIndex src (rp_results r)")
      case None
      with drop Pair Inr have "w1 = w'" by (simp add: dropReportResult_def)
      with sp ok None show ?thesis
        by (auto simp: report_changes_def sourceIndex_None view_None)
    next
      case (Some i)
      define rs where "rs = take i (rp_results r) @ drop (i + 1) (rp_results r)"
      from drop Pair Inr Some have "exec k w' (ReportUpdate (r\<lparr>rp_results := rs\<rparr>)) = (w1, None)"
        by (simp add: dropReportResult_def rs_def)
      with report_exec [OF api, of w' "ReportUpdate (r\<lparr>rp_results := rs\<rparr>)"] sp
      have "rep w1 = (rep w')((ns, ns) \<mapsto> r\<lparr>rp_results := rs\<rparr>)" by (simp add: rp_key_def)
      with sp dropResult_spec [OF _ Some rs_def] ok show ?thesis by (simp add: report_changes_def)
    qed
  qed
qed

text \<open>
  Recording the result of a subscription in the report of a cluster sets the result of that
  subscription and of no other, in no other report, and keeps one entry per subscription;
  removing it takes the result away again and leaves everything else as it was.
\<close>

theorem cluster_report_results:
  assumes api: "report_api k rep" and ok: "results_ok (report_results (rep w (ns, ns)))"
    and put: "putReportResult k ns src deployFailed w = (w1, None)"
    and drop: "dropReportResult k ns src w1 = (w2, None)"
  shows "report_changes rep ns w w1 src (Some (if deployFailed then ''failed'' else ''deployed''))
    \<and> report_changes rep ns w w2 src None"
  using putReportResult_spec [OF api ok put] dropReportResult_spec [OF api _ drop]
  by (auto simp: report_changes_def)

definition mem_rep :: "mem \<Rightarrow> nsname \<Rightarrow> SubscriptionReport option" where
  "mem_rep w key = find (\<lambda>r. rp_key r = key) (m_reports w)"

lemma mem_exec_report: "mem_rep (fst (mem_exec w c)) = report_after c (snd (mem_exec w c)) (mem_rep w)"
  by (cases c; rule ext) (simp_all add: mem_rep_def find_putBy split: option.split)

lemma mem_report_api: "report_api mem_kube mem_rep"
proof -
  have "remoteReport mem_kube w key = orMissing (mem_rep w key)" for w key by (simp add: mem_kube_def mem_rep_def)
  moreover have "mem_rep w key = Some r \<Longrightarrow> rp_key r = key" for w key r using find_prop by (fastforce simp: mem_rep_def)
  ultimately show ?thesis
    by (auto simp: report_api_def mem_kube_sel mem_exec_report orMissing_def split: option.splits)
qed

theorem cluster_report_results_witness:
  "report_changes mem_rep ''cluster1'' mem0 (fst (putReportResult mem_kube ''cluster1'' ''ns/app'' True mem0)) ''ns/app'' (Some ''failed'')"
proof -
  have 1: "results_ok (report_results (mem_rep mem0 (''cluster1'', ''cluster1'')))" by code_simp
  have 2: "snd (putReportResult mem_kube ''cluster1'' ''ns/app'' True mem0) = None" by code_simp
  have 3: "snd (dropReportResult mem_kube ''cluster1'' ''ns/app'' (fst (putReportResult mem_kube ''cluster1'' ''ns/app'' True mem0))) = None"
    by code_simp
  have pair: "p = (fst p, None)" if "snd p = None" for p :: "mem \<times> kerr option" using that by (cases p) simp
  from cluster_report_results [OF mem_report_api 1 pair [OF 2] pair [OF 3]] show ?thesis by simp
qed


section \<open>Resources that are not deleted\<close>

lemma legacyUnits_plain:
  "legacyUnits chn m = Inr us \<Longrightarrow> u \<in> set us \<Longrightarrow> pu_apiVersion u = '''' \<and> pu_phase u = ''''"
proof (induction m arbitrary: us)
  case (Cons x m)
  then show ?case
    by (cases x) (auto simp: legacyUnit_def Let_def map_filter_def rbind_Inr_iff split: option.splits)
qed simp

lemma legacy_invalid:
  "getResourcesByLegacySubStatus a = Inr us \<Longrightarrow> u \<in> set us \<Longrightarrow>
     DeleteSingleSubscribedResource k h u w = (w, Some (OtherError ''invalid apiversion''))"
  using legacyUnits_plain
  by (force simp: getResourcesByLegacySubStatus_def DeleteSingleSubscribedResource_def ParseAPIVersion_def split: option.splits)

lemma purgeLegacy_fails:
  assumes "\<And>u. u \<in> set ps \<Longrightarrow> DeleteSingleSubscribedResource k h u w = (w, Some e)"
  shows "fst (purgeLegacy k h us ps w) = w
    \<and> (\<exists>fs. snd (purgeLegacy k h us ps w) = us @ fs \<and> length fs = length ps
         \<and> list_all (\<lambda>u. du_phase u = PackageDeployFailed \<and> du_message u = err_msg e) fs)"
  using assms
proof (induction ps arbitrary: us)
  case (Cons p ps)
  have del: "DeleteSingleSubscribedResource k h p w = (w, Some e)" using Cons.prems by simp
  define u' where "u' = failedDeploy (blankUnit\<lparr>du_apiVersion := versionOfKind us (pu_kind p), du_kind := pu_kind p,
    du_name := pu_name p, du_namespace := pu_namespace p\<rparr>) e"
  have step: "purgeLegacy k h us (p # ps) w = purgeLegacy k h (us @ [u']) ps w"
    by (simp add: deleteUnit_def del u'_def Let_def)
  from Cons.IH [of "us @ [u']"] Cons.prems obtain fs where "fst (purgeLegacy k h us (p # ps) w) = w"
    "snd (purgeLegacy k h us (p # ps) w) = us @ u' # fs" "length fs = length ps"
    "list_all (\<lambda>u. du_phase u = PackageDeployFailed \<and> du_message u = err_msg e) fs"
    unfolding step by auto
  then show ?case by (intro conjI exI [of _ "u' # fs"]) (auto simp: u'_def failedDeploy_def)
qed simp

text \<open>
  A resource that is known only from the legacy status of a subscription is never deleted. The
  purge looks up an API version for it, but deletes it without one, so that every such resource is
  reported as failed with an invalid API version and the cluster is left as it was.
\<close>

theorem legacy_resources_stay:
  assumes "getResourcesByLegacySubStatus (Some appsub) = Inr legacy"
  shows "fst (purgeLegacy k hostSub us legacy w) = w
    \<and> (\<exists>fs. snd (purgeLegacy k hostSub us legacy w) = us @ fs \<and> length fs = length legacy
         \<and> list_all (\<lambda>u. du_phase u = PackageDeployFailed \<and> du_message u = ''invalid apiversion'') fs)"
  using purgeLegacy_fails [OF legacy_invalid [OF assms]] by simp

definition legacy_sub :: Subscription where
  "legacy_sub = host_sub\<lparr>sub_status := (sub_status host_sub)\<lparr>st_statuses :=
     Some [(''/'', Some (Some [(''git-ConfigMap-settings'', None)]))]\<rparr>\<rparr>"

theorem legacy_resources_stay_witness:
  "\<exists>legacy. length legacy = 1 \<and> fst (purgeLegacy mem_kube (''ns'', ''app'') [] legacy mem0) = mem0
     \<and> snd (purgeLegacy mem_kube (''ns'', ''app'') [] legacy mem0) \<noteq> []"
proof -
  define legacy where "legacy = (case getResourcesByLegacySubStatus (Some legacy_sub) of Inl p \<Rightarrow> [] | Inr us \<Rightarrow> us)"
  have len: "length legacy = 1" unfolding legacy_def by code_simp
  then have "getResourcesByLegacySubStatus (Some legacy_sub) = Inr legacy" by (auto simp: legacy_def split: sum.splits)
  from legacy_resources_stay [OF this, of mem_kube "(''ns'', ''app'')" "[]" mem0] len show ?thesis
    by (intro exI [of _ legacy]) auto
qed

lemma deleteReport_keeps_status:
  "status_api k st \<Longrightarrow> st (fst (deleteAppsubReportResult k ns n rns sa w)) = st w"
  by (auto simp: deleteAppsubReportResult_def report_keeps_status split: sum.splits)

text \<open>
  Deleting the status of a subscription that can still be read removes the stored status
  whatever the units say: failures to delete resources are recorded nowhere.
\<close>

theorem delete_forgets_failures:
  assumes api: "status_api k st" and act: "cs_action cs = ''DELETE''" and helm: "\<not> onlyHelmRelease (cs_packages cs)"
    and n: "n = statusName s cs (isLocalCluster (ks_hub s) (ks_standalone s) (cs_cluster cs) (snd (cs_appsub cs))) False"
    and found: "localStatus k w (fst (cs_appsub cs), n) = Inr p"
    and sub: "localSub k w (sub_namespace a, sub_name a) = Inr a'"
    and run: "SyncAppsubClusterStatus k s (Some a) cs None None w = (w', Done)"
  shows "st w' (fst (cs_appsub cs), n) = None"
proof -
  have "\<not> shouldSkip cs b q" for b q using helm by (auto simp: shouldSkip_def split: list.splits)
  then have "deleteStatus k s cs n p w = (w', Done)"
    using run act found sub
    by (auto simp: SyncAppsubClusterStatus_def syncDelete_def deleteFailures_def Let_def simp flip: n)
  then show ?thesis
    using status_read_key [OF api found] deleteReport_keeps_status [OF api] status_exec [OF api, of w "StatusDelete p"]
    by (auto simp: deleteStatus_def Let_def case_prod_beta split: option.splits)
qed

definition del_cs :: SubscriptionClusterStatus where
  "del_cs = \<lparr>cs_cluster = ''cluster1'', cs_appsub = (''ns'', ''app''), cs_action = ''DELETE'',
     cs_packages = [failedDeploy (blankUnit\<lparr>du_name := ''settings''\<rparr>) (OtherError ''no matches for kind'')]\<rparr>"

definition mem1 :: mem where
  "mem1 = mem0\<lparr>m_statuses := [buildAppSubStatus ''app'' ''ns'' ''app'' ''ns'' ''cluster1'' [] False '''' 0]\<rparr>"

theorem delete_forgets_failures_witness:
  "mem_st (fst (SyncAppsubClusterStatus mem_kube sync0 (Some host_sub) del_cs None None mem1)) (''ns'', ''app'') = None"
proof -
  have 1: "cs_action del_cs = ''DELETE''" "\<not> onlyHelmRelease (cs_packages del_cs)" by code_simp+
  have 2: "''app'' = statusName sync0 del_cs (isLocalCluster (ks_hub sync0) (ks_standalone sync0) (cs_cluster del_cs) (snd (cs_appsub del_cs))) False"
    by code_simp
  have 3: "localStatus mem_kube mem1 (fst (cs_appsub del_cs), ''app'') = Inr (buildAppSubStatus ''app'' ''ns'' ''app'' ''ns'' ''cluster1'' [] False '''' 0)"
    by code_simp
  have 4: "localSub mem_kube mem1 (sub_namespace host_sub, sub_name host_sub) = Inr host_sub" by code_simp
  have 5: "snd (SyncAppsubClusterStatus mem_kube sync0 (Some host_sub) del_cs None None mem1) = Done" by code_simp
  have "fst (cs_appsub del_cs) = ''ns''" by code_simp
  then show ?thesis
    using delete_forgets_failures [OF mem_status_api 1 2 3 4] 5 by (metis prod.collapse)
qed

section \<open>Pauses between cleanups\<close>

text \<open>
  The pause after the n-th round of cleanup is ten seconds doubled n times, but never more than
  an hour, and the doubling never leaves the range of a duration.
\<close>

theorem cleanupWait_capped: "cleanupWait n = min (10 * 2 ^ n) 3600 * 1000000000"
proof (induction n)
  case 0
  then show ?case by simp
next
  case (Suc n)
  have "dur_wrap (m * 1000000000 * 2) = m * 1000000000 * 2" if "0 \<le> m" "m \<le> 3600" for m
    using that by (intro dur_wrap_id) simp_all
  from this [of "min (10 * 2 ^ n) 3600"]
  have "dur_wrap (min (10 * 2 ^ n) 3600 * 1000000000 * 2) = min (10 * 2 ^ n) 3600 * 1000000000 * 2" by simp
  with Suc show ?case by (auto simp: nextWait_def minute_ns_def Let_def min_def)
qed
end
