(* ===== verification/GitRepo.thy ===== *)
theory GitRepo
  imports SubscriptionUtils
begin

text \<open>
  Git repositories (\<open>pkg/utils/gitrepo.go\<close>): splitting YAML files into resources, credentials of a
  channel, choosing between the primary and the secondary channel, checking out a commit, the
  confinement of paths and the sorting of the files of a repository. The git client, the YAML
  decoder, TLS and SSH set-up and the file system are arguments.
\<close>

section \<open>Strings and paths\<close>

text \<open>\<open>strings.Index\<close>, \<open>Split\<close> and \<open>SplitAfter\<close> for a separator that is not empty.\<close>

fun index_str :: "string \<Rightarrow> string \<Rightarrow> nat option" where
  "index_str sep s = (if HasPrefix s sep then Some 0 else case s of [] \<Rightarrow> None | c # cs \<Rightarrow> map_option Suc (index_str sep cs))"

function split_str :: "string \<Rightarrow> string \<Rightarrow> string list" where
  "split_str sep s =
     (if sep = [] then [s]
      else case index_str sep s of None \<Rightarrow> [s] | Some i \<Rightarrow> take i s # split_str sep (drop (i + length sep) s))"
  by pat_completeness auto

declare index_str.simps [simp del]

lemma index_str_le: "index_str sep s = Some i \<Longrightarrow> i + length sep \<le> length s"
proof (induction s arbitrary: i)
  case Nil
  then show ?case by (subst (asm) index_str.simps) (auto simp: HasPrefix_def split: if_splits)
next
  case (Cons c cs)
  show ?case
  proof (cases "HasPrefix (c # cs) sep")
    case True
    then have "length sep \<le> length (c # cs)" unfolding HasPrefix_def by (metis length_take min.cobounded1)
    moreover have "i = 0" using Cons.prems True by (subst (asm) index_str.simps) simp
    ultimately show ?thesis by simp
  next
    case False
    then obtain j where "index_str sep cs = Some j" "i = Suc j"
      using Cons.prems by (subst (asm) index_str.simps) auto
    with Cons.IH show ?thesis by fastforce
  qed
qed

termination split_str
  by (relation "measure (length \<circ> snd)") (auto dest!: index_str_le simp flip: length_greater_0_conv)

declare split_str.simps [simp del]

definition split_after :: "string \<Rightarrow> string \<Rightarrow> string list" where
  "split_after sep s = (let ps = split_str sep s in map (\<lambda>p. p @ sep) (butlast ps) @ [last ps])"

definition trim_set :: "string \<Rightarrow> string \<Rightarrow> string" where
  "trim_set cs s = rev (dropWhile (\<lambda>c. c \<in> set cs) (rev (dropWhile (\<lambda>c. c \<in> set cs) s)))"

text \<open>\<open>filepath.Clean\<close> and \<open>filepath.Join\<close> on a system with \<open>/\<close> as the separator, and \<open>filepath.Ext\<close>.\<close>

definition clean_step :: "bool \<Rightarrow> string \<Rightarrow> string list \<Rightarrow> string list" where
  "clean_step rooted c st =
     (if c = '''' \<or> c = ''.'' then st
      else if c = ''..'' then (case st of [] \<Rightarrow> if rooted then [] else [''..''] | t # ts \<Rightarrow> if t = ''..'' then ''..'' # st else ts)
      else c # st)"

definition clean_comps :: "string \<Rightarrow> string list" where
  "clean_comps p = rev (fold (clean_step (HasPrefix p ''/'')) (go_split (CHR ''/'') p) [])"

definition Clean :: "string \<Rightarrow> string" where
  "Clean p =
     (if p = '''' then ''.''
      else if HasPrefix p ''/'' then CHR ''/'' # go_join (CHR ''/'') (clean_comps p)
      else if clean_comps p = [] then ''.'' else go_join (CHR ''/'') (clean_comps p))"

definition path_join :: "string \<Rightarrow> string \<Rightarrow> string" where
  "path_join a b = (if a \<noteq> '''' then Clean (a @ ''/'' @ b) else if b \<noteq> '''' then Clean b else '''')"

definition path_ext :: "string \<Rightarrow> string" where
  "path_ext p = (let r = takeWhile (\<lambda>c. c \<noteq> CHR ''/'') (rev p)
     in if CHR ''.'' \<in> set r then CHR ''.'' # rev (takeWhile (\<lambda>c. c \<noteq> CHR ''.'') r) else '''')"

text \<open>\<open>filepath.Base\<close> and \<open>filepath.Dir\<close>.\<close>

definition path_base :: "string \<Rightarrow> string" where
  "path_base p =
     (if p = '''' then ''.''
      else (let q = rev (dropWhile (\<lambda>c. c = CHR ''/'') (rev p));
                b = rev (takeWhile (\<lambda>c. c \<noteq> CHR ''/'') (rev q))
            in if b = '''' then ''/'' else b))"

definition path_dir :: "string \<Rightarrow> string" where
  "path_dir p = Clean (rev (dropWhile (\<lambda>c. c \<noteq> CHR ''/'') (rev p)))"

definition IsPathWithinRoot :: "string \<Rightarrow> string \<Rightarrow> bool" where
  "IsPathWithinRoot root candidate =
     (let root' = Clean root; candidate' = Clean candidate
      in candidate' = root' \<or> HasPrefix candidate' (root' @ ''/''))"

definition GetLocalGitFolder :: "string \<Rightarrow> Subscription \<Rightarrow> string" where
  "GetLocalGitFolder tempDir s = path_join (path_join tempDir (sub_namespace s)) (sub_name s)"

section \<open>YAML files\<close>

definition newline :: char where "newline = CHR 0x0A"
definition tab :: char where "tab = CHR 0x09"

definition ParseYAML :: "string \<Rightarrow> string list" where
  "ParseYAML content =
     (let fix = (\<lambda>line. (if HasPrefix line ''---'' then trim_set '' '' line else line) @ [newline]);
          newContent = concat (map fix (go_split newline content))
      in split_str ([newline] @ ''---'' @ [newline]) newContent)"

text \<open>\<open>yaml\<close> decodes the API version and the kind of an item.\<close>

definition KubeResourceParser ::
  "(string \<Rightarrow> string + string \<times> string) \<Rightarrow> string \<Rightarrow> (string \<times> string \<Rightarrow> bool) \<Rightarrow> string list" where
  "KubeResourceParser yaml file cond =
     filter (\<lambda>item. case yaml item of Inl e \<Rightarrow> False | Inr t \<Rightarrow> \<not> cond t)
       (map (trim_set [tab, CHR '' '', newline]) (ParseYAML file))"

definition ParseKubeResoures :: "(string \<Rightarrow> string + string \<times> string) \<Rightarrow> string \<Rightarrow> string list" where
  "ParseKubeResoures yaml file = KubeResourceParser yaml file (\<lambda>(api, kind). api = '''' \<or> kind = '''')"

section \<open>Channels and branches\<close>

definition AnnotationGitBranch :: string where "AnnotationGitBranch = group @ ''/git-branch''"
definition AnnotationGithubBranch :: string where "AnnotationGithubBranch = group @ ''/github-branch''"

definition GetSubscriptionBranchRef :: "string \<Rightarrow> string" where
  "GetSubscriptionBranchRef b =
     (if b \<noteq> '''' then (if \<not> HasPrefix b ''refs/heads/'' then ''refs/heads/'' @ b else b) else '''')"

definition GetSubscriptionBranch :: "Subscription \<Rightarrow> string" where
  "GetSubscriptionBranch s =
     (let b = anno (sub_annotations s) AnnotationGitBranch
      in GetSubscriptionBranchRef (if b = '''' then anno (sub_annotations s) AnnotationGithubBranch else b))"

definition IsGitChannel :: "string \<Rightarrow> bool" where
  "IsGitChannel chType \<longleftrightarrow> EqualFold chType ''GitHub'' \<or> EqualFold chType ''Git''"

record Credentials =
  cr_user :: string
  cr_token :: string
  cr_sshKey :: string
  cr_passphrase :: string
  cr_clientKey :: string
  cr_clientCert :: string

text \<open>
  The data of a secret is a map of byte strings; \<open>yamlStr\<close> decodes one as a string and
  \<open>trim\<close> is \<open>bytes.TrimSpace\<close>.
\<close>

definition ParseChannelSecret ::
  "(string \<Rightarrow> string + string) \<Rightarrow> (string \<Rightarrow> string) \<Rightarrow> strmap \<Rightarrow> string + Credentials" where
  "ParseChannelSecret yamlStr trim d =
     (case yamlStr (gm_str d ''user'') of
        Inl e \<Rightarrow> Inl e
      | Inr username \<Rightarrow>
          (case yamlStr (gm_str d ''accessToken'') of
             Inl e \<Rightarrow> Inl e
           | Inr accessToken \<Rightarrow>
               (let c = \<lparr>cr_user = username, cr_token = accessToken, cr_sshKey = trim (gm_str d ''sshKey''),
                         cr_passphrase = trim (gm_str d ''passphrase''), cr_clientKey = trim (gm_str d ''clientKey''),
                         cr_clientCert = trim (gm_str d ''clientCert'')\<rparr>
                in if (cr_clientKey c = '''' \<and> cr_clientCert c \<noteq> '''') \<or> (cr_clientKey c \<noteq> '''' \<and> cr_clientCert c = '''')
                   then Inl ''for mTLS connection to Git, both clientKey (private key) and clientCert (certificate) are required in the channel secret''
                   else if cr_sshKey c = '''' \<and> cr_clientKey c = '''' \<and> (username = '''' \<or> accessToken = '''')
                   then Inl ''sshKey (and optionally passphrase) or user and accressToken need to be specified in the channel secret''
                   else Inr c)))"

definition noCredentials :: Credentials where
  "noCredentials = \<lparr>cr_user = '''', cr_token = '''', cr_sshKey = '''', cr_passphrase = '''', cr_clientKey = '''', cr_clientCert = ''''\<rparr>"

definition GetChannelSecret ::
  "(nsname \<Rightarrow> kerr + strmap) \<Rightarrow> (string \<Rightarrow> string + string) \<Rightarrow> (string \<Rightarrow> string) \<Rightarrow> Channel \<Rightarrow> string + Credentials" where
  "GetChannelSecret get yamlStr trim chn =
     (case ch_secretRef chn of
        None \<Rightarrow> Inr noCredentials
      | Some ref \<Rightarrow>
          (let secns = (if fst ref = '''' then ch_namespace chn else fst ref)
           in case get (secns, snd ref) of
                Inl e \<Rightarrow> Inl (err_msg e)
              | Inr d \<Rightarrow> ParseChannelSecret yamlStr trim d))"

definition GetChannelConfigMap :: "(nsname \<Rightarrow> kerr + 'c) \<Rightarrow> Channel \<Rightarrow> 'c option" where
  "GetChannelConfigMap get chn =
     (case ch_configMapRef chn of
        None \<Rightarrow> None
      | Some ref \<Rightarrow> (case get (ch_namespace chn, snd ref) of Inl e \<Rightarrow> None | Inr m \<Rightarrow> Some m))"


section \<open>Cloning\<close>

record ChannelConnectionCfg =
  cc_url :: string
  cc_credentials :: Credentials
  cc_insecure :: bool
  cc_caCerts :: string

record GitCloneOption =
  go_commit :: string
  go_tag :: string
  go_branch :: string
  go_destDir :: string
  go_depth :: int
  go_primary :: ChannelConnectionCfg
  go_secondary :: "ChannelConnectionCfg option"

record 'a CloneOptions =
  co_url :: string
  co_ref :: string
  co_auth :: 'a
  co_depth :: int

text \<open>
  The set-up of a connection: the error of making the destination directory, the authentication
  over HTTP and SSH, and the error of fetching the host keys into a file.
\<close>

record 'a conn_env =
  ce_mkdir :: "string \<Rightarrow> string option"
  ce_http :: "ChannelConnectionCfg \<Rightarrow> string + 'a"
  ce_knownHosts :: "string \<Rightarrow> string \<Rightarrow> string option"
  ce_ssh :: "ChannelConnectionCfg \<Rightarrow> string \<Rightarrow> string + 'a"

definition cloneDepth :: "GitCloneOption \<Rightarrow> int" where
  "cloneDepth o' = (if go_commit o' \<noteq> '''' \<or> go_tag o' \<noteq> '''' then (if go_depth o' > 1 then go_depth o' else 20) else 1)"

definition connectWith :: "'a conn_env \<Rightarrow> GitCloneOption \<Rightarrow> ChannelConnectionCfg \<Rightarrow> string + 'a CloneOptions" where
  "connectWith e o' c =
     (case ce_mkdir e (go_destDir o') of
        Some er \<Rightarrow> Inl er
      | None \<Rightarrow>
          (if HasPrefix (cc_url c) ''file://'' then Inl (''channel URL scheme file:// is not permitted: '' @ cc_url c)
           else
             (case (if HasPrefix (cc_url c) ''http'' then ce_http e c
                    else
                      (let knownhosts = path_join (go_destDir o') ''known_hosts''
                       in case (if \<not> cc_insecure c then ce_knownHosts e (cc_url c) knownhosts else None) of
                            Some er \<Rightarrow> Inl er
                          | None \<Rightarrow> ce_ssh e c knownhosts)) of
                Inl er \<Rightarrow> Inl er
              | Inr auth \<Rightarrow> Inr \<lparr>co_url = cc_url c, co_ref = go_branch o', co_auth = auth, co_depth = cloneDepth o'\<rparr>)))"

definition getConnectionOptions ::
  "'a conn_env \<Rightarrow> GitCloneOption \<Rightarrow> bool \<Rightarrow> string + 'a CloneOptions option" where
  "getConnectionOptions e o' primary =
     (if primary then rbind (connectWith e o' (go_primary o')) (\<lambda>x. Inr (Some x))
      else case go_secondary o' of
             None \<Rightarrow> Inr None
           | Some c \<Rightarrow> rbind (connectWith e o' c) (\<lambda>x. Inr (Some x)))"

text \<open>The git client: clone, head, revisions, work tree and commits of a repository.\<close>

record ('a, 'r, 'h) git_env =
  ge_clone :: "string \<Rightarrow> 'a CloneOptions \<Rightarrow> string + 'r"
  ge_head :: "'r \<Rightarrow> string + 'h"
  ge_resolve :: "'r \<Rightarrow> string \<Rightarrow> string + string"
  ge_worktree :: "'r \<Rightarrow> string option"
  ge_checkout :: "'r \<Rightarrow> string \<Rightarrow> string option"
  ge_commit :: "'r \<Rightarrow> 'h \<Rightarrow> string + string"

definition checkoutCommit :: "('a, 'r, 'h) git_env \<Rightarrow> 'r \<Rightarrow> string \<Rightarrow> string + string" where
  "checkoutCommit g repo target =
     (case ge_worktree g repo of
        Some e \<Rightarrow> Inl e
      | None \<Rightarrow>
          (case ge_checkout g repo target of
             Some e \<Rightarrow> Inl (''failed to checkout commit '' @ target @ '' err: '' @ e)
           | None \<Rightarrow> Inr target))"

definition selectCommit :: "('a, 'r, 'h) git_env \<Rightarrow> GitCloneOption \<Rightarrow> 'r \<Rightarrow> string + string" where
  "selectCommit g o' repo =
     (case ge_head g repo of
        Inl e \<Rightarrow> Inl (''failed to get git repo head, err: '' @ e)
      | Inr ref \<Rightarrow>
          (case (if go_tag o' \<noteq> '''' \<and> go_commit o' = '''' then
                   (case ge_resolve g repo (''refs/tags/'' @ go_tag o') of
                      Inl e \<Rightarrow> Inl (''failed to resolve revision tag '' @ go_tag o' @ '' err: '' @ e)
                    | Inr h \<Rightarrow> Inr h)
                 else Inr (go_commit o')) of
             Inl e \<Rightarrow> Inl e
           | Inr target \<Rightarrow>
               (if target \<noteq> '''' then checkoutCommit g repo target
                else case ge_commit g repo ref of
                       Inl e \<Rightarrow> Inl (''failed to get the repo'' @ [CHR 0x27] @ ''s latest commit hash, err: '' @ e)
                     | Inr c \<Rightarrow> Inr c)))"

definition CloneGitRepo :: "'a conn_env \<Rightarrow> ('a, 'r, 'h) git_env \<Rightarrow> GitCloneOption \<Rightarrow> string + string" where
  "CloneGitRepo e g o' =
     (let first = getConnectionOptions e o' True;
          second = getConnectionOptions e o' False;
          secondary = (case second of Inr x \<Rightarrow> x | Inl er \<Rightarrow> None)
      in case first of
           Inr (Some options) \<Rightarrow>
             (case ge_clone g (go_destDir o') options of
                Inr repo \<Rightarrow> selectCommit g o' repo
              | Inl er \<Rightarrow>
                  (case secondary of
                     None \<Rightarrow> Inl (''Failed to clone git: '' @ co_url options @ '' err: '' @ er)
                   | Some so \<Rightarrow>
                       (case ge_clone g (go_destDir o') so of
                          Inr repo \<Rightarrow> selectCommit g o' repo
                        | Inl er' \<Rightarrow> Inl (''Failed to clone git: '' @ co_url so @ '' branch: '' @ go_branch o' @ '' err: '' @ er'))))
         | _ \<Rightarrow>
             (case second of
                Inl er \<Rightarrow> Inl er
              | Inr None \<Rightarrow> Inl ''failed to build secondary git connection options''
              | Inr (Some so) \<Rightarrow>
                  (case ge_clone g (go_destDir o') so of
                     Inr repo \<Rightarrow> selectCommit g o' repo
                   | Inl er \<Rightarrow> Inl (''Failed to clone git: '' @ co_url so @ '' branch: '' @ go_branch o' @ '' err: '' @ er))))"

definition getOwnerAndRepo :: "string \<Rightarrow> string + string list" where
  "getOwnerAndRepo url =
     (if length url = 0 then Inr []
      else (let l1 = split_str ''//'' url;
                l2 = TrimSuffix (if length l1 = 1 then l1 ! 0 else l1 ! 1) ''.git'';
                l3 = go_split (CHR ''/'') l2;
                n = length l3
            in if n < 2 then Inl ''invalid git url l2'' else Inr [l3 ! (n - 2), l3 ! (n - 1)]))"

section \<open>Sorting the files of a repository\<close>

definition SkipHooksOnManaged :: "string \<Rightarrow> string \<Rightarrow> bool" where
  "SkipHooksOnManaged resourcePath curPath \<longleftrightarrow>
     HasPrefix curPath (resourcePath @ ''/prehook'') \<or> HasPrefix curPath (resourcePath @ ''/posthook'')"

record SortedFiles =
  sf_charts :: strmap
  sf_kustomize :: strmap
  sf_crds :: "string list"
  sf_rbac :: "string list"
  sf_others :: "string list"
  sf_chartDir :: string
  sf_kustomizeDir :: string

text \<open>The repository: which files exist, their content, and the decoder of a resource.\<close>

record repo_env =
  re_exists :: "string \<Rightarrow> bool"
  re_read :: "string \<Rightarrow> string + string"
  re_yaml :: "string \<Rightarrow> string + string \<times> string"

definition isRbacKind :: "string \<Rightarrow> bool" where
  "isRbacKind k \<longleftrightarrow> EqualFold k ''serviceaccount'' \<or> EqualFold k ''clusterrole'' \<or> EqualFold k ''role''
     \<or> EqualFold k ''clusterrolebinding'' \<or> EqualFold k ''rolebinding''"

definition isYaml :: "string \<Rightarrow> bool" where
  "isYaml path \<longleftrightarrow> EqualFold (path_ext path) ''.yml'' \<or> EqualFold (path_ext path) ''.yaml''"

definition sortKubeResource :: "repo_env \<Rightarrow> SortedFiles \<Rightarrow> string \<Rightarrow> string + SortedFiles" where
  "sortKubeResource e f path =
     (if isYaml path then
        (case re_read e path of
           Inl er \<Rightarrow> Inl er
         | Inr file \<Rightarrow>
             (case ParseKubeResoures (re_yaml e) file of
                [] \<Rightarrow> Inr f
              | [r] \<Rightarrow>
                  (case re_yaml e r of
                     Inl er \<Rightarrow> Inr f
                   | Inr (api, kind) \<Rightarrow>
                       (if api \<noteq> '''' \<and> kind \<noteq> '''' then
                          (if EqualFold kind ''customresourcedefinition'' then Inr (f\<lparr>sf_crds := sf_crds f @ [path]\<rparr>)
                           else if EqualFold kind ''namespace'' then Inr (f\<lparr>sf_crds := sf_crds f @ [path]\<rparr>)
                           else if isRbacKind kind then Inr (f\<lparr>sf_rbac := sf_rbac f @ [path]\<rparr>)
                           else Inr (f\<lparr>sf_others := sf_others f @ [path]\<rparr>))
                        else Inr f))
              | r # r' # rs \<Rightarrow> Inr (f\<lparr>sf_others := sf_others f @ [path]\<rparr>)))
      else Inr f)"

definition sortDir :: "repo_env \<Rightarrow> SortedFiles \<Rightarrow> string \<Rightarrow> SortedFiles" where
  "sortDir e f path =
     (if re_exists e (path @ ''/Chart.yaml'') then
        (if \<not> HasPrefix path (sf_chartDir f)
         then f\<lparr>sf_charts := gm_put (path @ ''/'') (path @ ''/'') (sf_charts f), sf_chartDir := path @ ''/''\<rparr> else f)
      else if re_exists e (path @ ''/kustomization.yaml'') \<or> re_exists e (path @ ''/kustomization.yml'') then
        (if \<not> HasPrefix path (sf_kustomizeDir f)
         then f\<lparr>sf_kustomize := gm_put (path @ ''/'') (path @ ''/'') (sf_kustomize f), sf_kustomizeDir := path @ ''/''\<rparr> else f)
      else f)"

definition relativePath :: "string \<Rightarrow> string \<Rightarrow> string" where
  "relativePath repoRoot path =
     (let ps = split_after (repoRoot @ ''/'') path in if length ps > 1 then ps ! 1 else path)"

text \<open>
  \<open>filepath.Walk\<close> is the list of the paths it visits, each with an error or with whether it is a
  directory; \<open>ignored\<close> is the pattern file of the repository and \<open>skip\<close> the paths to skip.
\<close>

definition visitPath ::
  "repo_env \<Rightarrow> (string \<Rightarrow> bool) \<Rightarrow> (string \<Rightarrow> bool) \<Rightarrow> string \<Rightarrow> SortedFiles \<Rightarrow> string \<Rightarrow> bool \<Rightarrow> string + SortedFiles" where
  "visitPath e ignored skip repoRoot f path isDir =
     (if \<not> ignored (relativePath repoRoot path) \<and> \<not> skip path then
        (if isDir then Inr (sortDir e f path)
         else if \<not> HasPrefix path (sf_chartDir f) \<and> \<not> HasPrefix path (repoRoot @ ''/.git'')
                 \<and> \<not> HasPrefix path (sf_kustomizeDir f)
         then sortKubeResource e f path
         else Inr f)
      else Inr f)"

fun walkPaths ::
  "repo_env \<Rightarrow> (string \<Rightarrow> bool) \<Rightarrow> (string \<Rightarrow> bool) \<Rightarrow> string \<Rightarrow> SortedFiles \<Rightarrow> (string \<times> (string + bool)) list
    \<Rightarrow> string + SortedFiles" where
  "walkPaths e ignored skip repoRoot f [] = Inr f"
| "walkPaths e ignored skip repoRoot f ((path, info) # ps) =
     (case info of
        Inl er \<Rightarrow> Inl er
      | Inr isDir \<Rightarrow> rbind (visitPath e ignored skip repoRoot f path isDir) (\<lambda>f'. walkPaths e ignored skip repoRoot f' ps))"

definition noFiles :: SortedFiles where
  "noFiles = \<lparr>sf_charts = [], sf_kustomize = [], sf_crds = [], sf_rbac = [], sf_others = [],
     sf_chartDir = ''NONE'', sf_kustomizeDir = ''NONE''\<rparr>"

definition SortResources ::
  "repo_env \<Rightarrow> (string \<Rightarrow> bool) \<Rightarrow> (string \<Rightarrow> string \<Rightarrow> bool) option \<Rightarrow> string \<Rightarrow> string
    \<Rightarrow> (string \<times> (string + bool)) list \<Rightarrow> string + SortedFiles" where
  "SortResources e ignored skip repoRoot resourcePath visited =
     walkPaths e ignored (case skip of None \<Rightarrow> \<lambda>p. False | Some s \<Rightarrow> s resourcePath) repoRoot noFiles visited"
end
