(* ===== verification/GitRepoFacts.thy ===== *)
theory GitRepoFacts
  imports GitRepo
begin

text \<open>
  Facts about git repositories: paths that pass the check stay below the root, files are sorted by
  the kind of their resource, and the secondary channel stands in for the primary one.
\<close>

section \<open>Paths\<close>

lemma go_split_append_sep: "go_split c (s @ c # t) = go_split c s @ go_split c t"
proof (induction s)
  case (Cons x xs)
  then show ?case by (auto split: list.splits)
qed simp

lemma HasPrefix_iff: "HasPrefix s t \<longleftrightarrow> (\<exists>u. s = t @ u)"
  by (metis HasPrefix_def append_eq_conv_conj)

definition comp_ok :: "string \<Rightarrow> bool" where
  "comp_ok c \<longleftrightarrow> CHR ''/'' \<notin> set c \<and> c \<noteq> '''' \<and> c \<noteq> ''.''"

lemma clean_step_ok:
  assumes c: "CHR ''/'' \<notin> set c" and st: "\<forall>d \<in> set st. comp_ok d"
  shows "\<forall>d \<in> set (clean_step r c st). comp_ok d"
proof -
  have up: "comp_ok ''..''" by (simp add: comp_ok_def)
  consider "c = '''' \<or> c = ''.''" | "c = ''..''" | "comp_ok c" "c \<noteq> ''..''" using c by (auto simp: comp_ok_def)
  then show ?thesis
  proof cases
    case 2
    with st up show ?thesis by (cases st) (simp_all add: clean_step_def)
  next
    case 3
    then have "clean_step r c st = c # st" by (simp add: clean_step_def comp_ok_def)
    with 3 st show ?thesis by simp
  qed (use st in \<open>auto simp: clean_step_def\<close>)
qed

lemma fold_clean_step:
  assumes "\<forall>c \<in> set cs. CHR ''/'' \<notin> set c" "\<forall>d \<in> set st. comp_ok d"
  shows "\<forall>d \<in> set (fold (clean_step r) cs st). comp_ok d"
  using assms
proof (induction cs arbitrary: st)
  case (Cons c cs)
  have "\<forall>d \<in> set (clean_step r c st). comp_ok d" using Cons.prems by (intro clean_step_ok) simp_all
  with Cons show ?case by simp
qed simp

lemma fold_clean_rooted: "''..'' \<notin> set st \<Longrightarrow> ''..'' \<notin> set (fold (clean_step True) cs st)"
proof (induction cs arbitrary: st)
  case (Cons c cs)
  have "''..'' \<notin> set (clean_step True c st)"
    using Cons.prems by (auto simp: clean_step_def split: list.splits)
  with Cons.IH show ?case by simp
qed simp

lemma clean_comps_ok: "c \<in> set (clean_comps p) \<Longrightarrow> comp_ok c"
  using fold_clean_step [of "go_split (CHR ''/'') p" "[]"] go_split_no_sep by (auto simp: clean_comps_def)

lemma clean_comps_rooted: "HasPrefix p ''/'' \<Longrightarrow> ''..'' \<notin> set (clean_comps p)"
  by (simp add: clean_comps_def fold_clean_rooted)

lemma split_clean: "clean_comps p \<noteq> [] \<Longrightarrow> go_split (CHR ''/'') (go_join (CHR ''/'') (clean_comps p)) = clean_comps p"
  by (intro go_split_join) (auto dest: clean_comps_ok simp: comp_ok_def)

text \<open>
  C29: below an absolute root other than the root of the file system, the check accepts an absolute
  path exactly when the components of the root, after cleaning, are a prefix of the components of
  the path; no component of an absolute path climbs up. A sibling whose name starts like
  the root is not accepted.
\<close>

theorem IsPathWithinRoot_prefix:
  assumes root: "HasPrefix root ''/''" "clean_comps root \<noteq> []" and cand: "HasPrefix candidate ''/''"
  shows "(IsPathWithinRoot root candidate \<longleftrightarrow> prefix (clean_comps root) (clean_comps candidate))
    \<and> ''..'' \<notin> set (clean_comps candidate)"
proof -
  let ?j = "go_join (CHR ''/'')"
  let ?r = "clean_comps root" and ?c = "clean_comps candidate"
  have clean: "Clean root = CHR ''/'' # ?j ?r" "Clean candidate = CHR ''/'' # ?j ?c"
    using root cand by (auto simp: Clean_def HasPrefix_def)
  have "IsPathWithinRoot root candidate \<longleftrightarrow> ?j ?c = ?j ?r \<or> (\<exists>t. ?j ?c = ?j ?r @ CHR ''/'' # t)"
    by (simp add: IsPathWithinRoot_def clean HasPrefix_iff)
  also have "\<dots> \<longleftrightarrow> prefix ?r ?c"
  proof
    assume "?j ?c = ?j ?r \<or> (\<exists>t. ?j ?c = ?j ?r @ CHR ''/'' # t)"
    moreover have ne: "?c \<noteq> []" if "?j ?c = ?j ?r @ s" for s
    proof
      assume "?c = []"
      with that have "?j ?r = []" by simp
      with split_clean [OF root(2)] have "?r = [[]]" by simp
      then show False using clean_comps_ok [of "[]" root] by (simp add: comp_ok_def)
    qed
    ultimately show "prefix ?r ?c"
    proof (elim disjE exE)
      assume eq: "?j ?c = ?j ?r"
      with ne [of "[]"] have "?c \<noteq> []" by simp
      with eq have "?c = ?r" using split_clean [of candidate] split_clean [OF root(2)] by metis
      then show ?thesis by simp
    next
      fix t assume eq: "?j ?c = ?j ?r @ CHR ''/'' # t"
      with ne have "?c = go_split (CHR ''/'') (?j ?r @ CHR ''/'' # t)" using split_clean [of candidate] by metis
      then have "?c = ?r @ go_split (CHR ''/'') t" by (simp only: go_split_append_sep split_clean [OF root(2)])
      then show ?thesis unfolding prefix_def ..
    qed
  next
    assume "prefix ?r ?c"
    then obtain s where s: "?c = ?r @ s" by (auto simp: prefix_def)
    have "?j (xs @ y # ys) = ?j xs @ CHR ''/'' # ?j (y # ys)" if "xs \<noteq> []" for xs y ys
      using that by (induction xs rule: list_nonempty_induct) (auto simp: neq_Nil_conv)
    with s root(2) show "?j ?c = ?j ?r \<or> (\<exists>t. ?j ?c = ?j ?r @ CHR ''/'' # t)"
      by (cases s) auto
  qed
  finally show ?thesis using clean_comps_rooted [OF cand] by blast
qed

theorem IsPathWithinRoot_prefix_witness:
  "\<not> IsPathWithinRoot ''/tmp/ns/app'' ''/tmp/ns/app-evil/x'' \<and> \<not> IsPathWithinRoot ''/tmp/ns/app'' ''/tmp/ns/app/../other''
   \<and> IsPathWithinRoot ''/tmp/ns/app'' ''/tmp/ns/app//a/./b''"
proof -
  have r: "HasPrefix ''/tmp/ns/app'' ''/''" "clean_comps ''/tmp/ns/app'' \<noteq> []" by code_simp+
  have c: "HasPrefix ''/tmp/ns/app-evil/x'' ''/''" "HasPrefix ''/tmp/ns/app/../other'' ''/''" "HasPrefix ''/tmp/ns/app//a/./b'' ''/''"
    by code_simp+
  have p: "\<not> prefix (clean_comps ''/tmp/ns/app'') (clean_comps ''/tmp/ns/app-evil/x'')"
    "\<not> prefix (clean_comps ''/tmp/ns/app'') (clean_comps ''/tmp/ns/app/../other'')"
    "prefix (clean_comps ''/tmp/ns/app'') (clean_comps ''/tmp/ns/app//a/./b'')"
    by code_simp+
  from IsPathWithinRoot_prefix [OF r c(1)] IsPathWithinRoot_prefix [OF r c(2)] IsPathWithinRoot_prefix [OF r c(3)] p
  show ?thesis by blast
qed


section \<open>Sorting files\<close>

datatype fclass = CrdFile | RbacFile | OtherFile

definition kindClass :: "string \<Rightarrow> fclass" where
  "kindClass kind = (if EqualFold kind ''customresourcedefinition'' \<or> EqualFold kind ''namespace'' then CrdFile
     else if isRbacKind kind then RbacFile else OtherFile)"

text \<open>The class of a file: that of its only resource, or the last one when it has several.\<close>

definition fileClass :: "repo_env \<Rightarrow> string \<Rightarrow> fclass option" where
  "fileClass e path =
     (if isYaml path then
        (case re_read e path of
           Inl er \<Rightarrow> None
         | Inr file \<Rightarrow>
             (case ParseKubeResoures (re_yaml e) file of
                [] \<Rightarrow> None
              | [r] \<Rightarrow> (case re_yaml e r of Inl er \<Rightarrow> None | Inr (api, kind) \<Rightarrow> Some (kindClass kind))
              | _ \<Rightarrow> Some OtherFile))
      else None)"

fun filesOf :: "SortedFiles \<Rightarrow> fclass \<Rightarrow> string list" where
  "filesOf f CrdFile = sf_crds f"
| "filesOf f RbacFile = sf_rbac f"
| "filesOf f OtherFile = sf_others f"

lemma parsed_resource: "r \<in> set (ParseKubeResoures yaml file) \<Longrightarrow> \<exists>api kind. yaml r = Inr (api, kind) \<and> api \<noteq> '''' \<and> kind \<noteq> ''''"
  by (auto simp: ParseKubeResoures_def KubeResourceParser_def split: sum.splits)

lemma sortKubeResource_files:
  assumes "sortKubeResource e f p = Inr f'"
  shows "filesOf f' c = filesOf f c @ (if fileClass e p = Some c then [p] else [])"
    and "sf_charts f' = sf_charts f" "sf_kustomize f' = sf_kustomize f"
      "sf_chartDir f' = sf_chartDir f" "sf_kustomizeDir f' = sf_kustomizeDir f"
proof -
  have "filesOf f' c = filesOf f c @ (if fileClass e p = Some c then [p] else []) \<and> sf_charts f' = sf_charts f
     \<and> sf_kustomize f' = sf_kustomize f \<and> sf_chartDir f' = sf_chartDir f \<and> sf_kustomizeDir f' = sf_kustomizeDir f"
    (is "?P f'")
  proof (cases "\<exists>file r. isYaml p \<and> re_read e p = Inr file \<and> ParseKubeResoures (re_yaml e) file = [r]")
    case True
    then obtain ct r where y: "isYaml p" "re_read e p = Inr ct" "ParseKubeResoures (re_yaml e) ct = [r]" by blast
    with parsed_resource [of r "re_yaml e" ct] obtain api kind where k: "re_yaml e r = Inr (api, kind)" "api \<noteq> ''''" "kind \<noteq> ''''"
      by auto
    with y assms show ?thesis
      by (cases c) (auto simp: sortKubeResource_def fileClass_def kindClass_def split: if_splits)
  next
    case False
    then show ?thesis
      using assms by (cases c) (auto simp: sortKubeResource_def fileClass_def split: if_splits sum.splits list.splits)
  qed
  then show "filesOf f' c = filesOf f c @ (if fileClass e p = Some c then [p] else [])"
    "sf_charts f' = sf_charts f" "sf_kustomize f' = sf_kustomize f"
    "sf_chartDir f' = sf_chartDir f" "sf_kustomizeDir f' = sf_kustomizeDir f"
    by simp_all
qed

text \<open>The current directories are the initial marker or a directory that was recorded.\<close>

definition dirs_ok :: "SortedFiles \<Rightarrow> bool" where
  "dirs_ok f \<longleftrightarrow> sf_chartDir f \<in> insert ''NONE'' (dom (map_of (sf_charts f)))
     \<and> sf_kustomizeDir f \<in> insert ''NONE'' (dom (map_of (sf_kustomize f)))"

definition grows :: "SortedFiles \<Rightarrow> SortedFiles \<Rightarrow> bool" where
  "grows f f' \<longleftrightarrow> dom (map_of (sf_charts f)) \<subseteq> dom (map_of (sf_charts f')) \<and> dom (map_of (sf_kustomize f)) \<subseteq> dom (map_of (sf_kustomize f'))
     \<and> (\<forall>c. prefix (filesOf f c) (filesOf f' c))"

lemma grows_trans: "grows f g \<Longrightarrow> grows g h \<Longrightarrow> grows f h"
  unfolding grows_def by (meson prefix_order.order_trans subset_trans)

lemma sortDir_step: "dirs_ok f \<Longrightarrow> dirs_ok (sortDir e f p) \<and> grows f (sortDir e f p) \<and> filesOf (sortDir e f p) c = filesOf f c"
proof -
  assume ok: "dirs_ok f"
  have files: "filesOf (sortDir e f p) d = filesOf f d" for d by (cases d) (auto simp: sortDir_def)
  show ?thesis using ok files by (auto simp: sortDir_def dirs_ok_def grows_def gmap_simps)
qed

definition reaches :: "(string \<Rightarrow> bool) \<Rightarrow> (string \<Rightarrow> bool) \<Rightarrow> string \<Rightarrow> string \<Rightarrow> bool" where
  "reaches ignored skip repoRoot p \<longleftrightarrow> \<not> ignored (relativePath repoRoot p) \<and> \<not> skip p \<and> \<not> HasPrefix p (repoRoot @ ''/.git'')"

lemma visitPath_step:
  assumes ok: "dirs_ok f" and step: "visitPath e ignored skip repoRoot f p isDir = Inr f'"
  shows "dirs_ok f' \<and> grows f f'
    \<and> (filesOf f' c = filesOf f c \<or> filesOf f' c = filesOf f c @ [p] \<and> \<not> isDir \<and> reaches ignored skip repoRoot p \<and> fileClass e p = Some c)
    \<and> (\<not> isDir \<longrightarrow> reaches ignored skip repoRoot p \<longrightarrow> \<not> HasPrefix p (sf_chartDir f) \<longrightarrow> \<not> HasPrefix p (sf_kustomizeDir f)
        \<longrightarrow> fileClass e p = Some c \<longrightarrow> p \<in> set (filesOf f' c))"
proof (cases "\<not> isDir \<and> reaches ignored skip repoRoot p \<and> \<not> HasPrefix p (sf_chartDir f) \<and> \<not> HasPrefix p (sf_kustomizeDir f)")
  case True
  with step have s: "sortKubeResource e f p = Inr f'" by (simp add: visitPath_def reaches_def)
  note fs = sortKubeResource_files [OF s]
  have "dirs_ok f'" "grows f f'" using ok fs by (auto simp: dirs_ok_def grows_def)
  with fs(1) [of c] True show ?thesis by auto
next
  case False
  with step have "f' = sortDir e f p \<and> isDir \<or> f' = f" by (auto simp: visitPath_def reaches_def split: if_splits)
  moreover have "grows f f" by (simp add: grows_def)
  ultimately show ?thesis using sortDir_step [OF ok, of e p c] ok False by metis
qed

lemma walkPaths_spec:
  assumes "dirs_ok f" "walkPaths e ignored skip repoRoot f vs = Inr f'"
  shows "dirs_ok f' \<and> grows f f'
    \<and> (\<forall>p \<in> set (filesOf f' c). p \<in> set (filesOf f c) \<or> (p, Inr False) \<in> set vs \<and> reaches ignored skip repoRoot p \<and> fileClass e p = Some c)
    \<and> (\<forall>p. (p, Inr False) \<in> set vs \<longrightarrow> reaches ignored skip repoRoot p \<longrightarrow> fileClass e p = Some c \<longrightarrow>
         (\<forall>d \<in> insert ''NONE'' (dom (map_of (sf_charts f')) \<union> dom (map_of (sf_kustomize f'))). \<not> HasPrefix p d) \<longrightarrow> p \<in> set (filesOf f' c))"
  using assms
proof (induction vs arbitrary: f)
  case Nil
  then show ?case by (auto simp: grows_def)
next
  case (Cons v vs)
  obtain p info where v: "v = (p, info)" by force
  from Cons.prems v obtain isDir g where i: "info = Inr isDir" and g: "visitPath e ignored skip repoRoot f p isDir = Inr g"
    and rest: "walkPaths e ignored skip repoRoot g vs = Inr f'"
    by (auto simp: rbind_Inr_iff split: sum.splits)
  note st = visitPath_step [OF Cons.prems(1) g, of c]
  then have gok: "dirs_ok g" and fg: "grows f g" by blast+
  note ih = Cons.IH [OF gok rest]
  then have gf': "grows g f'" by blast
  have sub: "set (filesOf g c) \<subseteq> set (filesOf f' c)" using gf' by (simp add: grows_def set_mono_prefix)
  have "p \<in> set (filesOf f' c)"
    if "\<not> isDir" "reaches ignored skip repoRoot p" "fileClass e p = Some c"
      and out: "\<forall>d \<in> insert ''NONE'' (dom (map_of (sf_charts f')) \<union> dom (map_of (sf_kustomize f'))). \<not> HasPrefix p d"
  proof -
    have "sf_chartDir f \<in> insert ''NONE'' (dom (map_of (sf_charts f')))" "sf_kustomizeDir f \<in> insert ''NONE'' (dom (map_of (sf_kustomize f')))"
      using Cons.prems(1) grows_trans [OF fg gf'] by (auto simp: dirs_ok_def grows_def)
    with out have "\<not> HasPrefix p (sf_chartDir f)" "\<not> HasPrefix p (sf_kustomizeDir f)" by blast+
    with st that sub show ?thesis by blast
  qed
  moreover have "\<forall>q \<in> set (filesOf g c). q \<in> set (filesOf f c) \<or> (q, Inr False) \<in> set (v # vs) \<and> reaches ignored skip repoRoot q \<and> fileClass e q = Some c"
    using st v i by auto
  ultimately show ?case
    using ih grows_trans [OF fg gf'] v i by (auto 0 3)
qed

text \<open>
  C32: the files of a repository are sorted by the kind of their resource (custom resources and
  namespaces, access control, everything else). A listed file was visited, is neither ignored nor
  skipped nor part of the git directory, and is in the list of its class; conversely every such
  file outside the charts and the kustomizations is listed.
\<close>

theorem SortResources_complete:
  assumes sorted: "SortResources e ignored skip repoRoot resourcePath visited = Inr f"
    and sk: "sk = (case skip of None \<Rightarrow> \<lambda>p. False | Some s \<Rightarrow> s resourcePath)"
  shows "(p \<in> set (filesOf f c) \<longrightarrow>
      (p, Inr False) \<in> set visited \<and> reaches ignored sk repoRoot p \<and> fileClass e p = Some c)
    \<and> ((p, Inr False) \<in> set visited \<longrightarrow> reaches ignored sk repoRoot p \<longrightarrow> fileClass e p = Some c \<longrightarrow>
        (\<forall>d \<in> insert ''NONE'' (dom (map_of (sf_charts f)) \<union> dom (map_of (sf_kustomize f))). \<not> HasPrefix p d) \<longrightarrow>
        p \<in> set (filesOf f c))"
proof -
  have "dirs_ok noFiles" by (simp add: dirs_ok_def noFiles_def)
  moreover have "filesOf noFiles c = []" by (cases c) (simp_all add: noFiles_def)
  ultimately show ?thesis
    using walkPaths_spec [of noFiles e ignored sk repoRoot visited f c] sorted by (auto simp: SortResources_def sk)
qed

definition repo_ex :: repo_env where
  "repo_ex = \<lparr>re_exists = (\<lambda>p. p = ''/r/chart/Chart.yaml''), re_read = (\<lambda>p. Inr (if p = ''/r/ns.yaml'' then ''Namespace'' else ''Service'')),
     re_yaml = (\<lambda>s. Inr (''v1'', s))\<rparr>"

definition visited_ex :: "(string \<times> (string + bool)) list" where
  "visited_ex = [(''/r'', Inr True), (''/r/chart'', Inr True), (''/r/chart/svc.yaml'', Inr False), (''/r/ns.yaml'', Inr False),
     (''/r/prehook/job.yaml'', Inr False)]"

definition sorted_ex :: SortedFiles where
  "sorted_ex = \<lparr>sf_charts = [(''/r/chart/'', ''/r/chart/'')], sf_kustomize = [], sf_crds = [''/r/ns.yaml''], sf_rbac = [], sf_others = [],
     sf_chartDir = ''/r/chart/'', sf_kustomizeDir = ''NONE''\<rparr>"

theorem SortResources_complete_witness:
  "SortResources repo_ex (\<lambda>p. False) (Some SkipHooksOnManaged) ''/r'' ''/r'' visited_ex = Inr sorted_ex
   \<and> ''/r/ns.yaml'' \<in> set (filesOf sorted_ex CrdFile)"
proof -
  have 1: "SortResources repo_ex (\<lambda>p. False) (Some SkipHooksOnManaged) ''/r'' ''/r'' visited_ex = Inr sorted_ex" by code_simp
  have sk: "SkipHooksOnManaged ''/r'' = (case Some SkipHooksOnManaged of None \<Rightarrow> \<lambda>p. False | Some s \<Rightarrow> s ''/r'')" by simp
  have 2: "(''/r/ns.yaml'', Inr False) \<in> set visited_ex" "reaches (\<lambda>p. False) (SkipHooksOnManaged ''/r'') ''/r'' ''/r/ns.yaml''"
    "fileClass repo_ex ''/r/ns.yaml'' = Some CrdFile"
    by code_simp+
  have dirs: "dom (map_of (sf_charts sorted_ex)) = {''/r/chart/''}" "dom (map_of (sf_kustomize sorted_ex)) = {}"
    by (simp_all add: sorted_ex_def)
  have "\<not> HasPrefix ''/r/ns.yaml'' ''NONE''" "\<not> HasPrefix ''/r/ns.yaml'' ''/r/chart/''" by code_simp+
  then have "\<forall>d \<in> insert ''NONE'' (dom (map_of (sf_charts sorted_ex)) \<union> dom (map_of (sf_kustomize sorted_ex))). \<not> HasPrefix ''/r/ns.yaml'' d"
    unfolding dirs by blast
  with SortResources_complete [OF 1 sk, of "''/r/ns.yaml''" CrdFile] 1 2 show ?thesis by blast
qed

end
