(* ===== verification/ClusterAdmin.thy ===== *)
theory ClusterAdmin
  imports SubscriptionUtils
begin

text \<open>
  Who may deploy cluster-scoped resources: \<open>IsClusterAdmin\<close> and its helpers in
  \<open>pkg/utils/gitrepo.go\<close>. The reads of the hub and of the local cluster are arguments, so is the
  base64 decoder. Trimming a string by an empty cutset, as the source does, changes nothing.
\<close>

section \<open>Reads\<close>

record AppliedResource =
  ap_group :: string
  ap_resource :: string
  ap_namespace :: string
  ap_name :: string

text \<open>
  The mutating webhook and the role bindings are read on the hub, the applied manifest works on
  the cluster the subscription lives on. A read of the webhook answers with its error, if any.
\<close>

record admin_reads =
  ar_webhook :: "string \<Rightarrow> kerr option"
  ar_binding :: "string \<Rightarrow> kerr + ClusterRoleBinding"
  ar_bindings :: "kerr + ClusterRoleBinding list"
  ar_work :: "string \<Rightarrow> kerr + AppliedResource list"
  ar_decode :: "string \<Rightarrow> string"

definition SubscriptionAdmin :: string where
  "SubscriptionAdmin = ''open-cluster-management:subscription-admin''"

definition AcmWebhook :: string where
  "AcmWebhook = ''ocm-mutating-webhook''"

definition AnnotationUserGroup :: string where
  "AnnotationUserGroup = ''open-cluster-management.io/user-group''"

section \<open>Subscription administrators\<close>

definition subjectIsUser :: "string \<Rightarrow> string \<Rightarrow> Subject \<Rightarrow> bool" where
  "subjectIsUser userIdentity userGroups s =
     (if sb_name s = userIdentity \<and> sb_kind s = ''User'' then True
      else if sb_kind s = ''Group'' then list_ex (\<lambda>g. sb_name s = g) (go_split (CHR '','') userGroups)
      else if sb_kind s = ''ServiceAccount'' \<and> sb_namespace s \<noteq> '''' \<and> sb_name s \<noteq> ''''
      then userIdentity = ''system:serviceaccount:'' @ sb_namespace s @ '':'' @ sb_name s
      else False)"

definition checkUserSubAdmin :: "Subject list \<Rightarrow> string \<Rightarrow> string \<Rightarrow> bool" where
  "checkUserSubAdmin subjects userIdentity userGroups = list_ex (subjectIsUser userIdentity userGroups) subjects"

definition matchUserSubAdmin :: "admin_reads \<Rightarrow> string \<Rightarrow> string \<Rightarrow> bool" where
  "matchUserSubAdmin r userIdentity userGroups =
     (case ar_binding r SubscriptionAdmin of
        Inr b \<Rightarrow> checkUserSubAdmin (crb_subjects b) userIdentity userGroups
      | Inl e \<Rightarrow> False)"

fun scanBindings :: "ClusterRoleBinding list \<Rightarrow> string \<Rightarrow> string \<Rightarrow> bool" where
  "scanBindings [] userIdentity userGroups = False"
| "scanBindings (b # bs) userIdentity userGroups =
     (if crb_ref_kind b = ''ClusterRole'' \<and> crb_ref_name b = ''open-cluster-management:subscription-admin'' then
        (if checkUserSubAdmin (crb_subjects b) userIdentity userGroups then True else scanBindings bs userIdentity userGroups)
      else scanBindings bs userIdentity userGroups)"

definition scanUserSubAdmin :: "admin_reads \<Rightarrow> string \<Rightarrow> string \<Rightarrow> bool" where
  "scanUserSubAdmin r userIdentity userGroups =
     (case ar_bindings r of Inr bs \<Rightarrow> scanBindings bs userIdentity userGroups | Inl e \<Rightarrow> False)"

section \<open>Subscriptions delivered by the work agent\<close>

definition isAppliedSub :: "Subscription \<Rightarrow> AppliedResource \<Rightarrow> bool" where
  "isAppliedSub s a \<longleftrightarrow> ap_group a = group \<and> ap_resource a = ''subscriptions'' \<and> ap_namespace a = sub_namespace s
     \<and> ap_name a = sub_name s"

definition isWorkOwner :: "OwnerReference \<Rightarrow> bool" where
  "isWorkOwner ow \<longleftrightarrow> \<not> (or_kind ow \<noteq> ''AppliedManifestWork'' \<or> \<not> HasPrefix (or_apiVersion ow) (''work.open-cluster-management.io'' @ ''/''))"

text \<open>The loop over the owners: the answer so far is whether the state is pending.\<close>

fun scanOwners :: "admin_reads \<Rightarrow> Subscription \<Rightarrow> bool \<Rightarrow> OwnerReference list \<Rightarrow> bool \<times> bool" where
  "scanOwners r s pending [] = (False, pending)"
| "scanOwners r s pending (ow # ows) =
     (if \<not> isWorkOwner ow then scanOwners r s pending ows
      else case ar_work r (or_name ow) of
             Inl e \<Rightarrow> scanOwners r s pending ows
           | Inr applied \<Rightarrow> if list_ex (isAppliedSub s) applied then (True, False) else scanOwners r s True ows)"

definition isSubscriptionFromManifestWork :: "admin_reads \<Rightarrow> Subscription \<Rightarrow> bool \<times> bool" where
  "isSubscriptionFromManifestWork r s = scanOwners r s False (sub_owners s)"

section \<open>The decision\<close>

text \<open>The decision is whether the subscription is elevated and whether that is still pending.\<close>

definition IsClusterAdmin :: "admin_reads \<Rightarrow> Subscription \<Rightarrow> bool \<times> bool" where
  "IsClusterAdmin r s =
     (let annotations = sub_annotations s;
          encodedUserGroup = anno annotations AnnotationUserGroup;
          encodedUserIdentity = anno annotations AnnotationUserIdentity;
          userGroups = (if encodedUserGroup \<noteq> '''' then ar_decode r encodedUserGroup else '''');
          userIdentity = (if encodedUserIdentity \<noteq> '''' then ar_decode r encodedUserIdentity else '''');
          isSubPropagatedFromHub = (anno annotations AnnotationHosting \<noteq> '''');
          isClusterAdminAnnotationTrue = EqualFold (anno annotations AnnotationClusterAdmin) ''true'';
          doesWebhookExist = (ar_webhook r AcmWebhook = None);
          isUserSubAdmin = (if userIdentity \<noteq> '''' \<and> doesWebhookExist
                            then (if matchUserSubAdmin r userIdentity userGroups then True
                                  else scanUserSubAdmin r userIdentity userGroups)
                            else False);
          isHubSubOfHubSub = (isSubPropagatedFromHub \<and> doesWebhookExist \<and> \<not> HasSuffix (sub_name s) ''-local'')
      in if isClusterAdminAnnotationTrue \<and> isSubPropagatedFromHub then
           (if \<not> doesWebhookExist then
              (let (verified, pending) = isSubscriptionFromManifestWork r s
               in if verified then (True, False) else if pending then (False, True) else (False, False))
            else if HasSuffix (sub_name s) ''-local'' then (True, False)
            else if isHubSubOfHubSub then (True, False)
            else (False, False))
         else if isUserSubAdmin then (True, False)
         else (False, False))"


section \<open>What the decision means\<close>

definition claimsAdmin :: "Subscription \<Rightarrow> bool" where
  "claimsAdmin s \<longleftrightarrow> EqualFold (anno (sub_annotations s) AnnotationClusterAdmin) ''true''
     \<and> anno (sub_annotations s) AnnotationHosting \<noteq> ''''"

text \<open>An owner that resolves to a manifest work, and one that lists the subscription as applied.\<close>

definition resolves :: "admin_reads \<Rightarrow> OwnerReference \<Rightarrow> bool" where
  "resolves r ow \<longleftrightarrow> isWorkOwner ow \<and> (\<exists>applied. ar_work r (or_name ow) = Inr applied)"

definition vouches :: "admin_reads \<Rightarrow> Subscription \<Rightarrow> OwnerReference \<Rightarrow> bool" where
  "vouches r s ow \<longleftrightarrow> isWorkOwner ow \<and> (\<exists>applied. ar_work r (or_name ow) = Inr applied \<and> list_ex (isAppliedSub s) applied)"

text \<open>The decoded value of an annotation of the subscription; empty when it is not there.\<close>

definition decoded :: "admin_reads \<Rightarrow> Subscription \<Rightarrow> string \<Rightarrow> string" where
  "decoded r s k = (if anno (sub_annotations s) k \<noteq> '''' then ar_decode r (anno (sub_annotations s) k) else '''')"

definition boundAdmin :: "admin_reads \<Rightarrow> string \<Rightarrow> string \<Rightarrow> bool" where
  "boundAdmin r user groups \<longleftrightarrow>
     (\<exists>b. (ar_binding r SubscriptionAdmin = Inr b
           \<or> (\<exists>bs. ar_bindings r = Inr bs \<and> b \<in> set bs \<and> crb_ref_kind b = ''ClusterRole'' \<and> crb_ref_name b = SubscriptionAdmin))
          \<and> list_ex (subjectIsUser user groups) (crb_subjects b))"

lemma scanBindings_iff:
  "scanBindings bs u g \<longleftrightarrow> (\<exists>b \<in> set bs. crb_ref_kind b = ''ClusterRole'' \<and> crb_ref_name b = SubscriptionAdmin
     \<and> checkUserSubAdmin (crb_subjects b) u g)"
  by (induction bs) (auto simp: SubscriptionAdmin_def)

lemma boundAdmin_iff: "boundAdmin r u g \<longleftrightarrow> matchUserSubAdmin r u g \<or> scanUserSubAdmin r u g"
  by (auto simp: boundAdmin_def matchUserSubAdmin_def scanUserSubAdmin_def scanBindings_iff checkUserSubAdmin_def
      split: sum.splits)

lemma scanOwners_spec:
  "fst (scanOwners r s p ows) \<longleftrightarrow> list_ex (vouches r s) ows"
  "\<not> list_ex (vouches r s) ows \<Longrightarrow> snd (scanOwners r s p ows) \<longleftrightarrow> p \<or> list_ex (resolves r) ows"
  by (induction ows arbitrary: p) (auto simp: vouches_def resolves_def split: sum.splits)

text \<open>
  C9: a subscription that claims the elevation and names a hosting subscription is elevated on the
  hub, and on any other cluster exactly when an applied manifest work among its owners lists it;
  while such a work exists without listing it, the decision is pending. Every other subscription
  is elevated exactly when its user is bound to the role of subscription administrators and the
  webhook that records users is in place. A subscription is never both elevated and pending.
\<close>

theorem IsClusterAdmin_iff:
  "IsClusterAdmin r s =
     (if claimsAdmin s then
        (if ar_webhook r AcmWebhook = None then (True, False)
         else (list_ex (vouches r s) (sub_owners s),
               \<not> list_ex (vouches r s) (sub_owners s) \<and> list_ex (resolves r) (sub_owners s)))
      else (ar_webhook r AcmWebhook = None \<and> decoded r s AnnotationUserIdentity \<noteq> ''''
              \<and> boundAdmin r (decoded r s AnnotationUserIdentity) (decoded r s AnnotationUserGroup), False))"
proof (cases "claimsAdmin s")
  case True
  then show ?thesis
    using scanOwners_spec [where r = r and s = s and ows = "sub_owners s"]
    by (auto simp: IsClusterAdmin_def claimsAdmin_def isSubscriptionFromManifestWork_def Let_def case_prod_beta)
next
  case False
  then show ?thesis
    by (auto simp: IsClusterAdmin_def claimsAdmin_def boundAdmin_iff decoded_def Let_def)
qed

end
