(* ===== verification/References.thy ===== *)
theory References
  imports SubscriptionUtils
begin

text \<open>
  Secrets and config maps that a subscription refers to (\<open>pkg/utils/reference.go\<close>): they are copied
  into the namespace of the subscription and marked by a label with its name. The API server is an
  argument, so are \<open>same\<close> (\<open>reflect.DeepEqual\<close> of an untyped and a typed object) and \<open>conv\<close>, the
  conversion of the typed object to its content.
\<close>

section \<open>Operations\<close>

record 'w ref_client =
  rc_list :: "'w \<Rightarrow> string \<Rightarrow> (string \<times> string) option \<Rightarrow> kerr + Unstructured list"
  rc_create :: "'w \<Rightarrow> Unstructured \<Rightarrow> 'w \<times> kerr option"
  rc_update :: "'w \<Rightarrow> Unstructured \<Rightarrow> 'w \<times> kerr option"
  rc_delete :: "'w \<Rightarrow> Unstructured \<Rightarrow> 'w \<times> kerr option"

definition SercertReferredMarker :: string where
  "SercertReferredMarker = ''IsReferredBySub-''"

definition isObjectOwnedBySub :: "Unstructured \<Rightarrow> string \<Rightarrow> bool" where
  "isObjectOwnedBySub obj subname = list_ex (\<lambda>ow. or_name ow = subname) (u_owners obj)"

definition addObjectOwnedBySub :: "Unstructured \<Rightarrow> Subscription \<Rightarrow> OwnerReference list" where
  "addObjectOwnedBySub obj s =
     (if isObjectOwnedBySub obj (sub_name s) then u_owners obj
      else u_owners obj @ [\<lparr>or_apiVersion = ''v1'', or_kind = ''Subscription'', or_name = sub_name s, or_uid = sub_uid s\<rparr>])"

definition deleteSubFromObjectOwnersByName :: "Unstructured \<Rightarrow> string \<Rightarrow> OwnerReference list" where
  "deleteSubFromObjectOwnersByName obj subname =
     (if \<not> isObjectOwnedBySub obj subname then u_owners obj
      else filter (\<lambda>ow. or_name ow \<noteq> subname) (u_owners obj))"

definition isEqualObjectsDataOwnersLabels ::
  "(Unstructured \<Rightarrow> kerr + (string \<times> json) list) \<Rightarrow> Unstructured \<Rightarrow> Unstructured \<Rightarrow> bool" where
  "isEqualObjectsDataOwnersLabels conv existing refer =
     (if u_owners existing \<noteq> u_owners refer then False
      else if \<not> gm_equal_nil (u_labels existing) (u_labels refer) then False
      else case conv refer of
             Inl e \<Rightarrow> False
           | Inr c \<Rightarrow> if map_of (u_body existing) ''data'' \<noteq> map_of c ''data'' then False else True)"

definition labelsOf :: "Unstructured \<Rightarrow> strmap" where
  "labelsOf u = (case u_labels u of None \<Rightarrow> [] | Some l \<Rightarrow> l)"

text \<open>The object that is written for the referred one, over an existing object or as a new one.\<close>

definition referredOver :: "Subscription \<Rightarrow> Unstructured \<Rightarrow> Unstructured \<Rightarrow> Unstructured" where
  "referredOver s u refObj = refObj\<lparr>u_labels := Some (gm_put (SercertReferredMarker @ sub_name s) ''true'' (labelsOf u)),
     u_owners := addObjectOwnedBySub u s, u_namespace := sub_namespace s, u_resourceVersion := '''', u_uid := ''''\<rparr>"

definition referredNew :: "Subscription \<Rightarrow> Unstructured \<Rightarrow> Unstructured" where
  "referredNew s refObj =
     (let r = refObj\<lparr>u_labels := Some (gm_put (SercertReferredMarker @ sub_name s) ''true'' (labelsOf refObj)),
                     u_namespace := sub_namespace s, u_resourceVersion := '''', u_uid := ''''\<rparr>
      in r\<lparr>u_owners := addObjectOwnedBySub r s\<rparr>)"

definition deployOne ::
  "'w ref_client \<Rightarrow> (Unstructured \<Rightarrow> Unstructured \<Rightarrow> bool) \<Rightarrow> (Unstructured \<Rightarrow> kerr + (string \<times> json) list)
    \<Rightarrow> Subscription \<Rightarrow> Unstructured \<Rightarrow> Unstructured \<Rightarrow> 'w \<Rightarrow> 'w \<times> kerr option" where
  "deployOne c same conv s refObj u w =
     (let lb = labelsOf u; referLabel = SercertReferredMarker @ sub_name s
      in if u_name u = u_name refObj then
           (let n = (if \<not> same u refObj then referredOver s u refObj
                     else u\<lparr>u_labels := Some (gm_put referLabel ''true'' lb), u_owners := addObjectOwnedBySub u s\<rparr>)
            in if \<not> isEqualObjectsDataOwnersLabels conv u n then rc_update c w n else (w, None))
         else if gm_str lb referLabel = ''true'' then
           (if length (u_owners u) > 1
            then rc_update c w (u\<lparr>u_labels := Some (gm_del referLabel lb), u_owners := deleteSubFromObjectOwnersByName u (sub_name s)\<rparr>)
            else rc_delete c w u)
         else (w, None))"

fun deployLoop ::
  "'w ref_client \<Rightarrow> (Unstructured \<Rightarrow> Unstructured \<Rightarrow> bool) \<Rightarrow> (Unstructured \<Rightarrow> kerr + (string \<times> json) list)
    \<Rightarrow> Subscription \<Rightarrow> Unstructured \<Rightarrow> Unstructured list \<Rightarrow> 'w \<Rightarrow> 'w \<times> kerr option" where
  "deployLoop c same conv s refObj [] w = (w, None)"
| "deployLoop c same conv s refObj (u # us) w =
     (case deployOne c same conv s refObj u w of
        (w', Some e) \<Rightarrow> (w', Some e)
      | (w', None) \<Rightarrow> deployLoop c same conv s refObj us w')"

definition ListAndDeployReferredObject ::
  "'w ref_client \<Rightarrow> (Unstructured \<Rightarrow> Unstructured \<Rightarrow> bool) \<Rightarrow> (Unstructured \<Rightarrow> kerr + (string \<times> json) list)
    \<Rightarrow> Subscription \<Rightarrow> Unstructured \<Rightarrow> 'w \<Rightarrow> 'w \<times> kerr option" where
  "ListAndDeployReferredObject c same conv s refObj w =
     (case (case rc_list c w (sub_namespace s) None of Inl e \<Rightarrow> if \<not> IsNotFound e then Inl e else Inr [] | Inr us \<Rightarrow> Inr us) of
        Inl e \<Rightarrow> (w, Some e)
      | Inr us \<Rightarrow>
          (case deployLoop c same conv s refObj us w of
             (w', Some e) \<Rightarrow> (w', Some e)
           | (w', None) \<Rightarrow>
               (if \<not> list_ex (\<lambda>u. u_name u = u_name refObj) us
                then (fst (rc_create c w' (referredNew s refObj)), None)
                else (w', None))))"

text \<open>Objects with one owner are left to garbage collection; a failed update ends the loop without an error.\<close>

fun releaseLoop :: "'w ref_client \<Rightarrow> string \<Rightarrow> Unstructured list \<Rightarrow> 'w \<Rightarrow> 'w" where
  "releaseLoop c subname [] w = w"
| "releaseLoop c subname (u # us) w =
     (if length (u_owners u) = 1 then releaseLoop c subname us w
      else case rc_update c w (u\<lparr>u_labels := map_option (gm_del (SercertReferredMarker @ subname)) (u_labels u),
                                 u_owners := deleteSubFromObjectOwnersByName u subname\<rparr>) of
             (w', Some e) \<Rightarrow> w'
           | (w', None) \<Rightarrow> releaseLoop c subname us w')"

definition DeleteReferredObjects :: "'w ref_client \<Rightarrow> nsname \<Rightarrow> 'w \<Rightarrow> 'w \<times> kerr option" where
  "DeleteReferredObjects c rq w =
     (case rc_list c w (fst rq) (Some (SercertReferredMarker @ snd rq, ''true'')) of
        Inl e \<Rightarrow> (w, Some e)
      | Inr us \<Rightarrow> (releaseLoop c (snd rq) us w, None))"

section \<open>What the code relies on\<close>

text \<open>
  \<open>obs w\<close> are the objects of the namespace by name, each with a label map that has its keys once. A
  list without a selector is all of them, a successful write has its effect, a failed one has none.
\<close>

definition ref_api :: "'w ref_client \<Rightarrow> string \<Rightarrow> ('w \<Rightarrow> string \<Rightarrow> Unstructured option) \<Rightarrow> bool" where
  "ref_api c ns obs \<longleftrightarrow>
     (\<forall>w n u. obs w n = Some u \<longrightarrow> wf_gm (labelsOf u)) \<and>
     (\<forall>w us. rc_list c w ns None = Inr us \<longrightarrow> distinct (map u_name us) \<and> map_of (map (\<lambda>u. (u_name u, u)) us) = obs w)
     \<and> (\<forall>w e. rc_list c w ns None = Inl e \<longrightarrow> IsNotFound e \<longrightarrow> obs w = Map.empty)
     \<and> (\<forall>w u. obs (fst (rc_create c w u)) = (if snd (rc_create c w u) = None then (obs w)(u_name u \<mapsto> u) else obs w))
     \<and> (\<forall>w u. obs (fst (rc_update c w u)) = (if snd (rc_update c w u) = None then (obs w)(u_name u \<mapsto> u) else obs w))
     \<and> (\<forall>w u. obs (fst (rc_delete c w u)) = (if snd (rc_delete c w u) = None then (obs w)(u_name u := None) else obs w))"

definition marked :: "Subscription \<Rightarrow> Unstructured \<Rightarrow> bool" where
  "marked s u \<longleftrightarrow> gm_str (labelsOf u) (SercertReferredMarker @ sub_name s) = ''true''"


lemma ref_apiD:
  assumes "ref_api c ns obs"
  shows ref_wf: "obs w n = Some u \<Longrightarrow> wf_gm (labelsOf u)"
    and ref_list: "rc_list c w ns None = Inr us \<Longrightarrow> distinct (map u_name us) \<and> map_of (map (\<lambda>u. (u_name u, u)) us) = obs w"
    and ref_none: "rc_list c w ns None = Inl e \<Longrightarrow> IsNotFound e \<Longrightarrow> obs w = Map.empty"
    and ref_create: "obs (fst (rc_create c w u)) = (if snd (rc_create c w u) = None then (obs w)(u_name u \<mapsto> u) else obs w)"
    and ref_update: "rc_update c w u = (w', None) \<Longrightarrow> obs w' = (obs w)(u_name u \<mapsto> u)"
    and ref_delete: "rc_delete c w u = (w', None) \<Longrightarrow> obs w' = (obs w)(u_name u := None)"
  using assms unfolding ref_api_def by (simp_all, (metis fst_conv snd_conv)+)

section \<open>The effect of one run\<close>

definition overwritten :: "(Unstructured \<Rightarrow> Unstructured \<Rightarrow> bool) \<Rightarrow> Subscription \<Rightarrow> Unstructured \<Rightarrow> Unstructured \<Rightarrow> Unstructured" where
  "overwritten same s refObj u =
     (if \<not> same u refObj then referredOver s u refObj
      else u\<lparr>u_labels := Some (gm_put (SercertReferredMarker @ sub_name s) ''true'' (labelsOf u)), u_owners := addObjectOwnedBySub u s\<rparr>)"

definition deployed ::
  "(Unstructured \<Rightarrow> Unstructured \<Rightarrow> bool) \<Rightarrow> (Unstructured \<Rightarrow> kerr + (string \<times> json) list) \<Rightarrow> Subscription \<Rightarrow> Unstructured
    \<Rightarrow> Unstructured \<Rightarrow> Unstructured option" where
  "deployed same conv s refObj u =
     (if u_name u = u_name refObj then
        Some (if \<not> isEqualObjectsDataOwnersLabels conv u (overwritten same s refObj u) then overwritten same s refObj u else u)
      else if marked s u then
        (if length (u_owners u) > 1
         then Some (u\<lparr>u_labels := Some (gm_del (SercertReferredMarker @ sub_name s) (labelsOf u)),
                      u_owners := deleteSubFromObjectOwnersByName u (sub_name s)\<rparr>)
         else None)
      else Some u)"

lemma overwritten_name: "u_name u = u_name refObj \<Longrightarrow> u_name (overwritten same s refObj u) = u_name u"
  by (simp add: overwritten_def referredOver_def)

lemma overwritten_marked: "marked s (overwritten same s refObj u)"
  by (simp add: overwritten_def referredOver_def marked_def labelsOf_def gm_str_put)

lemma owned_add: "list_ex (\<lambda>ow. or_name ow = sub_name s) (addObjectOwnedBySub u s)"
  by (auto simp: addObjectOwnedBySub_def isObjectOwnedBySub_def)

lemma overwritten_owned: "isObjectOwnedBySub (overwritten same s refObj u) (sub_name s)"
  using owned_add [of s u] by (simp add: overwritten_def referredOver_def isObjectOwnedBySub_def)

lemma deployOne_obs:
  assumes api: "ref_api c ns obs" and at: "obs w (u_name u) = Some u" and run: "deployOne c same conv s refObj u w = (w', None)"
  shows "obs w' = (obs w)(u_name u := deployed same conv s refObj u)"
proof -
  have keep: "obs w = (obs w)(u_name u := Some u)" using at by (simp add: fun_upd_idem)
  consider (ref) "u_name u = u_name refObj" | (mark) "u_name u \<noteq> u_name refObj" "marked s u" | (other) "u_name u \<noteq> u_name refObj" "\<not> marked s u"
    by blast
  then show ?thesis
  proof cases
    case ref
    then have "deployOne c same conv s refObj u w =
        (if \<not> isEqualObjectsDataOwnersLabels conv u (overwritten same s refObj u) then rc_update c w (overwritten same s refObj u) else (w, None))"
      by (simp only: deployOne_def overwritten_def Let_def simp_thms if_True)
    with run ref_update [OF api] overwritten_name [OF ref] keep ref show ?thesis
      by (auto simp: deployed_def split: if_splits)
  next
    case mark
    with run ref_update [OF api] ref_delete [OF api] show ?thesis
      by (auto simp: deployOne_def deployed_def marked_def Let_def split: if_splits)
  next
    case other
    with run keep show ?thesis by (simp add: deployOne_def deployed_def marked_def Let_def)
  qed
qed

lemma deployLoop_obs:
  assumes api: "ref_api c ns obs"
  shows "\<lbrakk>deployLoop c same conv s refObj us w = (w', None); distinct (map u_name us); \<forall>u \<in> set us. obs w (u_name u) = Some u\<rbrakk> \<Longrightarrow>
    obs w' n = (case map_of (map (\<lambda>u. (u_name u, u)) us) n of None \<Rightarrow> obs w n | Some u \<Rightarrow> deployed same conv s refObj u)"
proof (induction us arbitrary: w)
  case (Cons u us)
  then obtain v where one: "deployOne c same conv s refObj u w = (v, None)" and rest: "deployLoop c same conv s refObj us v = (w', None)"
    by (auto split: prod.splits option.splits)
  have v: "obs v = (obs w)(u_name u := deployed same conv s refObj u)"
    using deployOne_obs [OF api _ one] Cons.prems by simp
  have fresh: "map_of (map (\<lambda>u. (u_name u, u)) us) (u_name u) = None"
    using Cons.prems(2) by (auto simp: map_of_eq_None_iff)
  have "obs v (u_name x) = Some x" if x: "x \<in> set us" for x
  proof -
    have "u_name u \<notin> u_name ` set us" using Cons.prems(2) by simp
    then have "u_name x \<noteq> u_name u" using x by (metis image_eqI)
    then show ?thesis using x Cons.prems(3) by (simp add: v)
  qed
  moreover have "distinct (map u_name us)" using Cons.prems(2) by simp
  ultimately have "obs w' n = (case map_of (map (\<lambda>u. (u_name u, u)) us) n of None \<Rightarrow> obs v n | Some u \<Rightarrow> deployed same conv s refObj u)"
    by (intro Cons.IH [OF rest]) simp_all
  then show ?case by (cases "n = u_name u") (simp_all add: fresh v split: option.split)
qed simp

lemma named_iff: "list_ex (\<lambda>u. u_name u = n) us \<longleftrightarrow> map_of (map (\<lambda>u. (u_name u, u)) us) n \<noteq> None"
  by (induction us) auto

lemma distinct_map_keys: "distinct (map f xs) \<Longrightarrow> distinct (map fst (map (\<lambda>x. (f x, x)) xs))"
  by (simp add: comp_def)

lemma marked_equal:
  assumes "wf_gm (labelsOf u)" "isEqualObjectsDataOwnersLabels conv u (overwritten same s refObj u)"
  shows "marked s u \<and> isObjectOwnedBySub u (sub_name s)"
proof -
  let ?o = "overwritten same s refObj u"
  have eq: "u_owners u = u_owners ?o" "gm_equal_nil (u_labels u) (u_labels ?o)"
    using assms(2) by (auto simp: isEqualObjectsDataOwnersLabels_def split: if_splits)
  have lab: "u_labels ?o = Some (gm_put (SercertReferredMarker @ sub_name s) ''true'' (labelsOf u))"
    by (simp add: overwritten_def referredOver_def)
  then obtain l where l: "u_labels u = Some l" "gm_equal l (gm_put (SercertReferredMarker @ sub_name s) ''true'' (labelsOf u))"
    using eq(2) by (cases "u_labels u") auto
  have "wf_gm l" using assms(1) l(1) by (simp add: labelsOf_def)
  with l have "map_of l = map_of (gm_put (SercertReferredMarker @ sub_name s) ''true'' (labelsOf u))"
    by (simp add: gm_equal_iff gm.wf_put labelsOf_def)
  then have "map_of l (SercertReferredMarker @ sub_name s) = Some ''true''"
    using fun_cong [of "map_of l" _ "SercertReferredMarker @ sub_name s"] by (metis gm.look_put_same)
  then have "marked s u" by (simp add: marked_def labelsOf_def l(1) gm_str_def)
  then show ?thesis using eq(1) overwritten_owned [of same s refObj u] by (simp add: isObjectOwnedBySub_def)
qed

lemma deployed_spec:
  assumes "wf_gm (labelsOf u)"
  shows "u_name u \<noteq> u_name refObj \<Longrightarrow> deployed same conv s refObj u = Some v \<Longrightarrow> \<not> marked s v"
    and "u_name u \<noteq> u_name refObj \<Longrightarrow> \<not> marked s u \<Longrightarrow> deployed same conv s refObj u = Some u"
    and "u_name u = u_name refObj \<Longrightarrow> \<exists>v. deployed same conv s refObj u = Some v \<and> marked s v \<and> isObjectOwnedBySub v (sub_name s)"
  using assms marked_equal overwritten_marked overwritten_owned
  by (auto simp: deployed_def marked_def labelsOf_def gm_str_del split: if_splits)



text \<open>A namespace in memory: a list of objects with different names and proper label maps.\<close>

definition ns_ok :: "Unstructured list \<Rightarrow> bool" where
  "ns_ok us \<longleftrightarrow> distinct (map u_name us) \<and> list_all (\<lambda>u. wf_gm (labelsOf u)) us"

definition ns_put :: "Unstructured list \<Rightarrow> Unstructured \<Rightarrow> Unstructured list \<times> kerr option" where
  "ns_put us u = (let us' = u # filter (\<lambda>x. u_name x \<noteq> u_name u) us
     in if ns_ok us \<and> ns_ok us' then (us', None) else (us, Some (OtherError ''invalid'')))"

definition ns_del :: "Unstructured list \<Rightarrow> Unstructured \<Rightarrow> Unstructured list \<times> kerr option" where
  "ns_del us u = (if ns_ok us then (filter (\<lambda>x. u_name x \<noteq> u_name u) us, None) else (us, Some (OtherError ''invalid'')))"

definition ns_client :: "Unstructured list ref_client" where
  "ns_client = \<lparr>rc_list = (\<lambda>us ns sel. if ns_ok us then Inr us else Inl (OtherError ''invalid'')),
     rc_create = ns_put, rc_update = ns_put, rc_delete = ns_del\<rparr>"

definition ns_obs :: "Unstructured list \<Rightarrow> string \<Rightarrow> Unstructured option" where
  "ns_obs us = (if ns_ok us then map_of (map (\<lambda>u. (u_name u, u)) us) else Map.empty)"

lemma names_filter:
  "map_of (map (\<lambda>u. (u_name u, u)) (filter (\<lambda>x. u_name x \<noteq> n) us)) = (map_of (map (\<lambda>u. (u_name u, u)) us))(n := None)"
  by (induction us) (auto simp: fun_eq_iff)

lemma ns_ok_filter: "ns_ok us \<Longrightarrow> ns_ok (filter P us)"
  by (auto simp: ns_ok_def list_all_iff distinct_map_filter)

lemma ns_client_api: "ref_api ns_client ns ns_obs"
proof -
  have put: "ns_obs (fst (ns_put us u)) = (if snd (ns_put us u) = None then (ns_obs us)(u_name u \<mapsto> u) else ns_obs us)" for us u
    by (auto simp: ns_put_def ns_obs_def Let_def names_filter)
  have del: "ns_obs (fst (ns_del us u)) = (if snd (ns_del us u) = None then (ns_obs us)(u_name u := None) else ns_obs us)" for us u
    by (auto simp: ns_del_def ns_obs_def names_filter ns_ok_filter)
  have wf: "ns_obs us n = Some u \<Longrightarrow> wf_gm (labelsOf u)" for us n u
    by (auto simp: ns_obs_def ns_ok_def list_all_iff dest!: map_of_SomeD split: if_splits)
  have sel: "rc_list ns_client us n l = (if ns_ok us then Inr us else Inl (OtherError ''invalid''))"
    "rc_create ns_client = ns_put" "rc_update ns_client = ns_put" "rc_delete ns_client = ns_del" for us n l
    by (simp_all add: ns_client_def)
  show ?thesis
    unfolding ref_api_def
  proof (intro conjI allI impI)
    fix w us assume "rc_list ns_client w ns None = Inr us"
    then show "distinct (map u_name us)" "map_of (map (\<lambda>u. (u_name u, u)) us) = ns_obs w"
      by (auto simp: sel ns_obs_def ns_ok_def split: if_splits)
  next
    fix w e assume "rc_list ns_client w ns None = Inl e" "IsNotFound e"
    then show "ns_obs w = Map.empty" by (auto simp: sel split: if_splits)
  qed (use wf in \<open>simp_all only: sel put del\<close>)
qed

definition secret_ex :: "string \<Rightarrow> strmap option \<Rightarrow> Unstructured" where
  "secret_ex n l = \<lparr>u_apiVersion = ''v1'', u_kind = ''Secret'', u_name = n, u_namespace = ''ns'', u_resourceVersion = ''7'', u_uid = ''9'',
     u_labels = l, u_annotations = None, u_owners = [], u_body = [(''data'', JStr n)]\<rparr>"

definition app_ex :: Subscription where
  "app_ex = \<lparr>sub_name = ''app'', sub_namespace = ''ns'', sub_labels = None, sub_annotations = None,
     sub_finalizers = None, sub_deleted = None, sub_uid = ''u1'', sub_owners = [],
     sub_spec = \<lparr>sp_channel = ''chn/git'', sp_secondary = '''', sp_package = '''', sp_packageFilter = None, sp_packageOverrides = None,
       sp_overrides = None, sp_timewindow = None, sp_hooksecret = None, sp_allow = [], sp_deny = [], sp_watchHelm = False\<rparr>,
     sub_status = \<lparr>st_phase = '''', st_message = '''', st_reason = '''', st_time = 0, st_prehook = '''', st_posthook = '''', st_statuses = None\<rparr>\<rparr>"

definition ns_ex :: "Unstructured list" where
  "ns_ex = [secret_ex ''old'' (Some [(''IsReferredBySub-app'', ''true'')]), secret_ex ''new'' None, secret_ex ''free'' None]"

definition ns_after :: "Unstructured list" where
  "ns_after = fst (ListAndDeployReferredObject ns_client (\<lambda>a b. False) (\<lambda>u. Inr (u_body u)) app_ex (secret_ex ''new'' None) ns_ex)"

end
