(* ===== verification/HelmCharts.thy ===== *)
theory HelmCharts
  imports GitRepo
begin

text \<open>
  Helm charts of a subscription (\<open>pkg/utils/helmrepo.go\<close>): the index of the charts of a repository,
  the choice of a version by name, keywords, digest and version, and the release resource that
  deploys a chart. The Helm index (loading chart files, adding, sorting and looking up versions),
  semantic versions, URL parsing, marshalling and the API reads are arguments.
\<close>

section \<open>Data\<close>

definition AnnotationGitPath :: string where "AnnotationGitPath = group @ ''/git-path''"

text \<open>A version of a chart with its metadata; the entries of an index always carry metadata.\<close>

record ChartVersion =
  cv_version :: string
  cv_keywords :: "string list"
  cv_digest :: string
  cv_urls :: "string list"

type_synonym IndexFile = "(string, ChartVersion list) gmap"

datatype ReleaseSource = GitSource "string list" string string | HelmRepoSource "string list"

record AltSource =
  al_source :: ReleaseSource
  al_secretRef :: "nsname option"
  al_configMapRef :: "nsname option"
  al_insecure :: bool

record HelmReleaseRepo =
  hr_source :: ReleaseSource
  hr_altSource :: "AltSource option"
  hr_chartName :: string
  hr_version :: string
  hr_digest :: string
  hr_secretRef :: "nsname option"
  hr_configMapRef :: "nsname option"
  hr_insecure :: bool
  hr_watch :: bool

text \<open>\<open>hl_rest\<close> is the status and the metadata that the code hands on.\<close>

record HelmRelease =
  hl_apiVersion :: string
  hl_kind :: string
  hl_name :: string
  hl_namespace :: string
  hl_labels :: "strmap option"
  hl_annotations :: "strmap option"
  hl_owners :: "OwnerReference list"
  hl_repo :: HelmReleaseRepo
  hl_spec :: "json option"
  hl_rest :: json

text \<open>
  \<open>he_parse\<close> is \<open>url.Parse\<close> with the scheme and the host, \<open>he_short\<close> the short name of a branch,
  \<open>he_version\<close> and \<open>he_constraint\<close> parse semantic versions, \<open>he_sort\<close> sorts the versions of a chart,
  \<open>he_get\<close> is \<open>IndexFile.Get\<close>, \<open>he_load\<close> reads a chart file, \<open>he_add\<close> is \<open>IndexFile.MustAdd\<close>.
  \<open>he_toU\<close>, \<open>he_intoU\<close> and \<open>he_json\<close> marshal a release, unmarshal over one, and convert it.
\<close>

record ('v, 'm) helm_env =
  he_parse :: "string \<Rightarrow> kerr + string \<times> string"
  he_short :: "string \<Rightarrow> string"
  he_version :: "string \<Rightarrow> 'v option"
  he_constraint :: "string \<Rightarrow> ('v \<Rightarrow> bool) option"
  he_sort :: "ChartVersion list \<Rightarrow> ChartVersion list"
  he_get :: "IndexFile \<Rightarrow> string \<Rightarrow> string \<Rightarrow> kerr + ChartVersion"
  he_load :: "string \<Rightarrow> kerr + 'm"
  he_add :: "IndexFile \<Rightarrow> 'm \<Rightarrow> string \<Rightarrow> string \<Rightarrow> string \<Rightarrow> IndexFile"
  he_sel :: "LabelSelector option \<Rightarrow> (strmap \<Rightarrow> bool) option"
  he_sha :: "string \<Rightarrow> string"
  he_toU :: "HelmRelease \<Rightarrow> kerr + Unstructured"
  he_setNested :: "Unstructured \<Rightarrow> string list \<Rightarrow> json \<Rightarrow> Unstructured option"
  he_intoU :: "Unstructured \<Rightarrow> HelmRelease \<Rightarrow> kerr + HelmRelease"
  he_json :: "HelmRelease \<Rightarrow> kerr + Unstructured"

section \<open>Filtering an index\<close>

definition sortEntries :: "('v, 'm) helm_env \<Rightarrow> IndexFile \<Rightarrow> IndexFile" where
  "sortEntries e idx = map (\<lambda>(k, vs). (k, he_sort e vs)) idx"

definition removeNoMatchingName :: "Subscription \<Rightarrow> IndexFile \<Rightarrow> IndexFile" where
  "removeNoMatchingName s idx =
     (if sp_package (sub_spec s) \<noteq> '''' then filter (\<lambda>(k, vs). k = sp_package (sub_spec s)) idx else idx)"

definition checkKeywords :: "('v, 'm) helm_env \<Rightarrow> Subscription \<Rightarrow> ChartVersion \<Rightarrow> bool" where
  "checkKeywords e s cv =
     KeywordsChecker (he_sel e) (case sp_packageFilter (sub_spec s) of None \<Rightarrow> None | Some f \<Rightarrow> pf_labelSelector f) (cv_keywords cv)"

definition checkDigest :: "Subscription \<Rightarrow> ChartVersion \<Rightarrow> bool" where
  "checkDigest s cv =
     (case sp_packageFilter (sub_spec s) of
        None \<Rightarrow> True
      | Some f \<Rightarrow>
          (case pf_annotations f of
             None \<Rightarrow> True
           | Some a \<Rightarrow> (case map_of a ''digest'' of None \<Rightarrow> True | Some d \<Rightarrow> d = cv_digest cv)))"

definition checkVersion :: "('v, 'm) helm_env \<Rightarrow> Subscription \<Rightarrow> ChartVersion \<Rightarrow> bool" where
  "checkVersion e s cv =
     (case sp_packageFilter (sub_spec s) of
        None \<Rightarrow> True
      | Some f \<Rightarrow>
          (if pf_version f \<noteq> '''' then
             (case he_version e (cv_version cv) of
                None \<Rightarrow> False
              | Some v \<Rightarrow> (case he_constraint e (pf_version f) of None \<Rightarrow> False | Some c \<Rightarrow> c v))
           else True))"

definition filterOnVersion :: "('v, 'm) helm_env \<Rightarrow> Subscription \<Rightarrow> IndexFile \<Rightarrow> IndexFile" where
  "filterOnVersion e s idx =
     filter (\<lambda>(k, vs). length vs > 0)
       (map (\<lambda>(k, vs). (k, filter (\<lambda>cv. checkKeywords e s cv \<and> checkDigest s cv \<and> checkVersion e s cv) vs)) idx)"

text \<open>\<open>todo\<close> are the entries the loop has yet to visit, \<open>idx\<close> the index it changes.\<close>

fun latestLoop :: "('v, 'm) helm_env \<Rightarrow> IndexFile \<Rightarrow> IndexFile \<Rightarrow> kerr + IndexFile" where
  "latestLoop e idx [] = Inr idx"
| "latestLoop e idx ((k, vs) # todo) =
     (if length vs = 1 then latestLoop e idx todo
      else case he_get e idx k ''>=0.0.0'' of
             Inl er \<Rightarrow> Inl er
           | Inr cv \<Rightarrow> latestLoop e (gm_put k [cv] idx) todo)"

definition takeLatestVersion :: "('v, 'm) helm_env \<Rightarrow> IndexFile \<Rightarrow> kerr + IndexFile" where
  "takeLatestVersion e idx = (let sorted = sortEntries e idx in latestLoop e sorted sorted)"

definition FilterCharts :: "('v, 'm) helm_env \<Rightarrow> Subscription \<Rightarrow> IndexFile \<Rightarrow> kerr + IndexFile" where
  "FilterCharts e s idx = takeLatestVersion e (filterOnVersion e s (removeNoMatchingName s idx))"

section \<open>The index of a git repository\<close>

fun addCharts :: "('v, 'm) helm_env \<Rightarrow> string \<Rightarrow> string list \<Rightarrow> IndexFile \<Rightarrow> kerr + IndexFile" where
  "addCharts e repoRoot [] idx = Inr idx"
| "addCharts e repoRoot (d # ds) idx =
     (let chartDir = TrimSuffix d ''/'';
          chartFolderName = path_base chartDir;
          chartBaseDir = TrimPrefix (path_dir chartDir @ ''/'') (repoRoot @ ''/'')
      in case he_load e (path_join chartDir ''Chart.yaml'') of
           Inl er \<Rightarrow> Inl er
         | Inr md \<Rightarrow> addCharts e repoRoot ds
                        (he_add e idx md chartFolderName chartBaseDir ''generated-by-multicloud-operators-subscription''))"

definition GenerateHelmIndexFile ::
  "('v, 'm) helm_env \<Rightarrow> Subscription \<Rightarrow> string \<Rightarrow> strmap \<Rightarrow> kerr + IndexFile" where
  "GenerateHelmIndexFile e s repoRoot chartDirs =
     (case addCharts e repoRoot (map fst chartDirs) [] of
        Inl er \<Rightarrow> Inl er
      | Inr idx \<Rightarrow> FilterCharts e s (sortEntries e idx))"

section \<open>The release of a chart\<close>

definition IsURL :: "('v, 'm) helm_env \<Rightarrow> string \<Rightarrow> bool" where
  "IsURL e str = (case he_parse e str of Inl er \<Rightarrow> False | Inr (scheme, host) \<Rightarrow> scheme \<noteq> '''' \<and> host \<noteq> '''')"

definition generateGitChartPath :: "strmap option \<Rightarrow> string" where
  "generateGitChartPath annotations = anno annotations AnnotationGitPath"

definition validURLs :: "('v, 'm) helm_env \<Rightarrow> Channel \<Rightarrow> string list \<Rightarrow> string list" where
  "validURLs e chn urls =
     concat (map (\<lambda>url. if IsURL e url then [url]
                         else if IsURL e (ch_pathname chn @ ''/'' @ url) then [ch_pathname chn @ ''/'' @ url] else []) urls)"

definition createSource ::
  "('v, 'm) helm_env \<Rightarrow> Channel \<Rightarrow> ChartVersion list \<Rightarrow> Subscription \<Rightarrow> string \<Rightarrow> ReleaseSource goval" where
  "createSource e chn cvs s packageName =
     (if IsGitChannel (ch_type chn) then
        Ret (GitSource [ch_pathname chn] (generateGitChartPath (sub_annotations s)) (he_short e (GetSubscriptionBranch s)))
      else case cvs of
             [] \<Rightarrow> Crash IndexOutOfRange
           | cv # _ \<Rightarrow>
               (let urls = validURLs e chn (cv_urls cv)
                in if length urls = 0 then Fail (OtherError (''no valid URLs are found for package: '' @ packageName))
                   else Ret (HelmRepoSource urls)))"

text \<open>The references of a channel are read in the namespace of the channel.\<close>

definition inChannel :: "Channel \<Rightarrow> nsname option \<Rightarrow> nsname option" where
  "inChannel chn ref = map_option (\<lambda>(ns, n). (ch_namespace chn, n)) ref"

definition createAltSource ::
  "('v, 'm) helm_env \<Rightarrow> Channel \<Rightarrow> ChartVersion list \<Rightarrow> Subscription \<Rightarrow> string \<Rightarrow> AltSource goval" where
  "createAltSource e chn cvs s packageName =
     gbind (createSource e chn cvs s packageName)
       (\<lambda>src. Ret \<lparr>al_source = src, al_secretRef = None, al_configMapRef = None, al_insecure = False\<rparr>)"

definition secondarySource ::
  "('v, 'm) helm_env \<Rightarrow> Channel option \<Rightarrow> ChartVersion list \<Rightarrow> Subscription \<Rightarrow> string \<Rightarrow> AltSource option goval" where
  "secondarySource e secondary cvs s packageName =
     (case secondary of
        None \<Rightarrow> Ret None
      | Some c \<Rightarrow>
          gbind (createAltSource e c cvs s packageName)
            (\<lambda>a. Ret (Some (a\<lparr>al_secretRef := inChannel c (ch_secretRef c), al_configMapRef := inChannel c (ch_configMapRef c),
                               al_insecure := ch_insecure c\<rparr>))))"

definition releaseRepo ::
  "ReleaseSource \<Rightarrow> AltSource option \<Rightarrow> Channel \<Rightarrow> string \<Rightarrow> ChartVersion list \<Rightarrow> Subscription \<Rightarrow> HelmReleaseRepo" where
  "releaseRepo source altSource chn packageName cvs s =
     \<lparr>hr_source = source, hr_altSource = altSource, hr_chartName = packageName,
      hr_version = (case cvs of [] \<Rightarrow> '''' | cv # _ \<Rightarrow> cv_version cv), hr_digest = (case cvs of [] \<Rightarrow> '''' | cv # _ \<Rightarrow> cv_digest cv),
      hr_secretRef = inChannel chn (ch_secretRef chn), hr_configMapRef = inChannel chn (ch_configMapRef chn),
      hr_insecure = ch_insecure chn, hr_watch = sp_watchHelm (sub_spec s)\<rparr>"

definition newRelease :: "string \<Rightarrow> Subscription \<Rightarrow> HelmReleaseRepo \<Rightarrow> HelmRelease" where
  "newRelease releaseCRName s repo =
     \<lparr>hl_apiVersion = ''apps.open-cluster-management.io/v1'', hl_kind = ''HelmRelease'', hl_name = releaseCRName,
      hl_namespace = sub_namespace s, hl_labels = None, hl_annotations = None,
      hl_owners = [\<lparr>or_apiVersion = ''apps.open-cluster-management.io/v1'', or_kind = ''Subscription'', or_name = sub_name s,
                    or_uid = sub_uid s\<rparr>],
      hl_repo = repo, hl_spec = None, hl_rest = JNull\<rparr>"

definition CreateOrUpdateHelmChart ::
  "('v, 'm) helm_env \<Rightarrow> (nsname \<Rightarrow> kerr + HelmRelease) \<Rightarrow> string \<Rightarrow> string \<Rightarrow> ChartVersion list \<Rightarrow> Channel
    \<Rightarrow> Channel option \<Rightarrow> Subscription \<Rightarrow> HelmRelease goval" where
  "CreateOrUpdateHelmChart e get packageName releaseCRName cvs chn secondary s =
     gbind (createSource e chn cvs s packageName) (\<lambda>source.
     gbind (secondarySource e secondary cvs s packageName) (\<lambda>altSource.
       (let repo = releaseRepo source altSource chn packageName cvs s
        in case get (sub_namespace s, releaseCRName) of
             Inl er \<Rightarrow> (if IsNotFound er then Ret (newRelease releaseCRName s repo) else Fail er)
           | Inr h \<Rightarrow> Ret (h\<lparr>hl_apiVersion := ''apps.open-cluster-management.io/v1'', hl_kind := ''HelmRelease'',
                             hl_spec := None, hl_repo := repo\<rparr>))))"

definition GetPackageAlias :: "Subscription \<Rightarrow> string \<Rightarrow> string" where
  "GetPackageAlias s packageName =
     (case find (\<lambda>ov. ov_name ov = packageName \<and> ov_alias ov \<noteq> '''') (unnil (sp_packageOverrides (sub_spec s))) of
        None \<Rightarrow> '''' | Some ov \<Rightarrow> ov_alias ov)"

definition getShortSubUID :: "string \<Rightarrow> string" where
  "getShortSubUID uid = (if length uid \<ge> 5 then take 5 uid else uid)"

definition PkgToReleaseCRName :: "(string \<Rightarrow> string) \<Rightarrow> Subscription \<Rightarrow> string \<Rightarrow> string" where
  "PkgToReleaseCRName sha s packageName =
     (let alias = GetPackageAlias s packageName;
          base = (if alias = '''' then packageName @ (if sub_uid s \<noteq> '''' then ''-'' @ getShortSubUID (sub_uid s) else '''') else alias)
      in GetReleaseName sha base)"

definition getOverrides :: "string \<Rightarrow> Subscription \<Rightarrow> ClusterOverride list option" where
  "getOverrides packageName s =
     map_option ov_overrides (find (\<lambda>ov. ov_name ov = packageName) (unnil (sp_packageOverrides (sub_spec s))))"

text \<open>
  Decoding the marshalled release into the template cannot fail: an error is logged only, and the
  template is what was decoded so far.
\<close>

definition Override :: "('v, 'm) helm_env \<Rightarrow> HelmRelease \<Rightarrow> Subscription \<Rightarrow> kerr + HelmRelease" where
  "Override e h s =
     (case he_toU e h of
        Inl er \<Rightarrow> Inl er
      | Inr template \<Rightarrow>
          (case OverrideTemplate (he_setNested e) template (getOverrides (hr_chartName (hl_repo h)) s) of
             Inl er \<Rightarrow> Inl (OtherError er)
           | Inr t \<Rightarrow> he_intoU e t h))"

text \<open>\<open>strings.Replace\<close> of all occurrences.\<close>

fun join_str :: "string \<Rightarrow> string list \<Rightarrow> string" where
  "join_str sep [] = ''''"
| "join_str sep [s] = s"
| "join_str sep (s # t # ss) = s @ sep @ join_str sep (t # ss)"

definition replace_all :: "string \<Rightarrow> string \<Rightarrow> string \<Rightarrow> string" where
  "replace_all s old new = join_str new (split_str old s)"

fun localURLs :: "('v, 'm) helm_env \<Rightarrow> string \<Rightarrow> string list \<Rightarrow> kerr + string list" where
  "localURLs e repoURL [] = Inr []"
| "localURLs e repoURL (u # us) =
     (case he_parse e u of
        Inl er \<Rightarrow> Inl er
      | Inr (scheme, host) \<Rightarrow>
          (let repoURL' = (if scheme = ''local'' then TrimSuffix repoURL ''/'' @ ''/'' else repoURL);
               u' = (if scheme = ''local'' then replace_all u ''local://'' repoURL' else u)
           in rbind (localURLs e repoURL' us) (\<lambda>us'. Inr (u' # us'))))"

definition chartVersionsFor ::
  "('v, 'm) helm_env \<Rightarrow> string \<Rightarrow> Channel option \<Rightarrow> ChartVersion list \<Rightarrow> ChartVersion list goval" where
  "chartVersionsFor e repoURL chn cvs =
     (if (case chn of None \<Rightarrow> True | Some c \<Rightarrow> \<not> IsGitChannel (ch_type c)) then
        (case cvs of
           [] \<Rightarrow> Crash IndexOutOfRange
         | cv # rest \<Rightarrow> gbind (lift_err (localURLs e repoURL (cv_urls cv))) (\<lambda>us. Ret (cv\<lparr>cv_urls := us\<rparr> # rest)))
      else Ret cvs)"

definition emptySpec :: json where "emptySpec = JObj [('''', JStr '''')]"

definition buildRelease ::
  "('v, 'm) helm_env \<Rightarrow> (nsname \<Rightarrow> kerr + HelmRelease) \<Rightarrow> string \<Rightarrow> string \<Rightarrow> ChartVersion list \<Rightarrow> Channel option
    \<Rightarrow> Channel option \<Rightarrow> Subscription \<Rightarrow> bool \<Rightarrow> HelmRelease goval" where
  "buildRelease e get repoURL packageName chartVersions channel secondary s clusterAdmin =
     (let releaseCRName = PkgToReleaseCRName (he_sha e) s packageName
      in gbind (chartVersionsFor e repoURL channel chartVersions) (\<lambda>cvs.
         (case channel of
            None \<Rightarrow> Crash NilDereference
          | Some chn \<Rightarrow>
              gbind (CreateOrUpdateHelmChart e get packageName releaseCRName cvs chn secondary s) (\<lambda>h0.
              gbind (lift_err (Override e h0 s)) (\<lambda>h1.
                (let h2 = (if hl_spec h1 = None then h1\<lparr>hl_spec := Some emptySpec\<rparr> else h1);
                     h3 = (case AddPartOfLabel s (hl_labels h2) of None \<Rightarrow> h2 | Some l \<Rightarrow> h2\<lparr>hl_labels := Some l\<rparr>)
                 in Ret (if clusterAdmin
                         then h3\<lparr>hl_annotations := Some (gm_put AnnotationClusterAdmin ''true'' (unnil (hl_annotations h3)))\<rparr>
                         else h3)))))))"

definition CreateHelmCRManifest ::
  "('v, 'm) helm_env \<Rightarrow> (nsname \<Rightarrow> kerr + HelmRelease) \<Rightarrow> string \<Rightarrow> string \<Rightarrow> ChartVersion list \<Rightarrow> Channel option
    \<Rightarrow> Channel option \<Rightarrow> Subscription \<Rightarrow> bool \<Rightarrow> Unstructured goval" where
  "CreateHelmCRManifest e get repoURL packageName chartVersions channel secondary s clusterAdmin =
     gbind (buildRelease e get repoURL packageName chartVersions channel secondary s clusterAdmin) (\<lambda>h. lift_err (he_json e h))"

end
