(* ===== verification/Kustomize.thy ===== *)
theory Kustomize
  imports KubeCluster GitRepoFacts
begin

text \<open>
  Kustomizations (\<open>pkg/utils/kustomize.go\<close>): overriding a kustomization file, telling the
  kustomizations of an object bucket from its other files, and building one from the bucket. The
  file system, the bucket, kustomize itself and YAML are arguments.
\<close>

section \<open>Environment\<close>

text \<open>
  \<open>ke_map\<close> decodes YAML into a Go map, which stays nil for an empty document, and \<open>ke_bytes\<close> encodes
  one; \<open>ke_show\<close> prints a value and \<open>ke_convErr\<close> is the error for an override that is no object.
  \<open>ke_get\<close> and \<open>ke_list\<close> read the bucket.
\<close>

record 'w kust_env =
  ke_exists :: "'w \<Rightarrow> string \<Rightarrow> bool"
  ke_statErr :: "string \<Rightarrow> kerr"
  ke_read :: "'w \<Rightarrow> string \<Rightarrow> kerr + string"
  ke_write :: "'w \<Rightarrow> string \<Rightarrow> string \<Rightarrow> 'w \<times> kerr option"
  ke_mkdir :: "'w \<Rightarrow> string \<Rightarrow> 'w \<times> kerr option"
  ke_tempDir :: "'w \<Rightarrow> 'w \<times> (kerr + string)"
  ke_removeAll :: "'w \<Rightarrow> string \<Rightarrow> 'w"
  ke_map :: "string \<Rightarrow> kerr + (string, json) gmap option"
  ke_bytes :: "(string, json) gmap option \<Rightarrow> kerr + string"
  ke_show :: "json \<Rightarrow> string"
  ke_convErr :: kerr
  ke_build :: "'w \<Rightarrow> string \<Rightarrow> kerr + string"
  ke_object :: "string \<Rightarrow> kerr + Unstructured"
  ke_config :: "string \<Rightarrow> kerr + string list \<times> string list"
  ke_get :: "'w \<Rightarrow> string \<Rightarrow> kerr + string"
  ke_list :: "'w \<Rightarrow> string \<Rightarrow> kerr + string list"

section \<open>Overriding a kustomization\<close>

definition CheckPackageOverride :: "Overrides \<Rightarrow> bool" where
  "CheckPackageOverride ov \<longleftrightarrow> \<not> length (ov_overrides ov) < 1"

text \<open>Writing to a nil map panics, unless there is nothing to write.\<close>

definition mergeKustomization :: "'w kust_env \<Rightarrow> string \<Rightarrow> (string, json) gmap option \<Rightarrow> 'w \<Rightarrow> 'w \<times> outcome" where
  "mergeKustomization e path override w =
     (case ke_read e w path of
        Inl er \<Rightarrow> (w, Err er)
      | Inr bs \<Rightarrow>
          (case ke_map e bs of
             Inl er \<Rightarrow> (w, Err er)
           | Inr master \<Rightarrow>
               (if unnil override \<noteq> [] \<and> master = None then (w, Panic NilMap)
                else (let merged = (if unnil override = [] then master
                                    else Some (fold (\<lambda>(k, v). gm_put k v) (unnil override) (unnil master)))
                      in case ke_bytes e merged of
                           Inl er \<Rightarrow> (w, Err er)
                         | Inr out \<Rightarrow> (let (w', er) = ke_write e w path out in (w', returned er))))))"

definition overrideValue :: "'w kust_env \<Rightarrow> json \<Rightarrow> kerr + (string, json) gmap option" where
  "overrideValue e v =
     (case v of
        JStr str \<Rightarrow> ke_map e str
      | JObj m \<Rightarrow> Inr (Some m)
      | _ \<Rightarrow> Inl (OtherError (''the value is not of type map[string]interface{}, Kustomize PackageOverride value: '' @ ke_show e v)))"

definition OverrideKustomize :: "'w kust_env \<Rightarrow> ClusterOverride \<Rightarrow> string \<Rightarrow> 'w \<Rightarrow> 'w \<times> outcome" where
  "OverrideKustomize e pov kustomizeDir w =
     (case pov of
        None \<Rightarrow> (w, Err (ke_convErr e))
      | Some ovuobj \<Rightarrow>
          (case map_of ovuobj ''value'' of
             None \<Rightarrow> (w, Done)
           | Some v \<Rightarrow>
               (if v = JNull then (w, Done)
                else case overrideValue e v of
                       Inl er \<Rightarrow> (w, Err er)
                     | Inr override \<Rightarrow>
                         (let yamlFile = path_join kustomizeDir ''kustomization.yaml'';
                              ymlFile = path_join kustomizeDir ''kustomization.yml''
                          in if ke_exists e w yamlFile then mergeKustomization e yamlFile override w
                             else if ke_exists e w ymlFile then mergeKustomization e ymlFile override w
                             else (w, Err (ke_statErr e ymlFile))))))"

fun VerifyAndOverrideKustomize :: "'w kust_env \<Rightarrow> Overrides list \<Rightarrow> string \<Rightarrow> string \<Rightarrow> 'w \<Rightarrow> 'w \<times> outcome" where
  "VerifyAndOverrideKustomize e [] relPath kustomizeDir w = (w, Done)"
| "VerifyAndOverrideKustomize e (ov # ovs) relPath kustomizeDir w =
     (let ovKustomizeDir = hd (split_str ''kustomization'' (ov_name ov))
      in if \<not> EqualFold ovKustomizeDir relPath \<and> \<not> EqualFold ovKustomizeDir ''''
         then VerifyAndOverrideKustomize e ovs relPath kustomizeDir w
         else if \<not> CheckPackageOverride ov then VerifyAndOverrideKustomize e ovs relPath kustomizeDir w
         else case OverrideKustomize e (hd (ov_overrides ov)) kustomizeDir w of
                (w', Done) \<Rightarrow> VerifyAndOverrideKustomize e ovs relPath kustomizeDir w'
              | (w', o') \<Rightarrow> (w', o'))"

section \<open>Files of an object bucket\<close>

definition isKustomization :: "string \<Rightarrow> bool" where
  "isKustomization key \<longleftrightarrow> HasSuffix key ''/kustomization.yaml'' \<or> HasSuffix key ''/kustomization.yml''
     \<or> key = ''kustomization.yaml'' \<or> key = ''kustomization.yml''"

definition kustomizationDir :: "string \<Rightarrow> string" where
  "kustomizationDir key = (let dir = path_dir key in if dir \<noteq> ''.'' then dir else '''')"

definition inKustomizeDir :: "string \<Rightarrow> string \<Rightarrow> bool" where
  "inKustomizeDir kustomizeDir key =
     (if kustomizeDir = '''' then path_dir key = ''.'' \<or> path_dir key = '''' else HasPrefix key (kustomizeDir @ ''/''))"

definition CategorizeObjectsForKustomization :: "string list \<Rightarrow> (string, bool) gmap \<times> string list" where
  "CategorizeObjectsForKustomization keys =
     (let dirs = fold (\<lambda>key d. if isKustomization key then gm_put (kustomizationDir key) True d else d) keys []
      in (dirs, filter (\<lambda>key. \<not> list_ex (\<lambda>(d, b). inKustomizeDir d key) dirs) keys))"

section \<open>Building a kustomization of a bucket\<close>

definition DownloadObjectToFile :: "'w kust_env \<Rightarrow> string \<Rightarrow> string \<Rightarrow> 'w \<Rightarrow> 'w \<times> kerr option" where
  "DownloadObjectToFile e key filePath w =
     (case ke_mkdir e w (path_dir filePath) of
        (w', Some er) \<Rightarrow> (w', Some (OtherError (''failed to create directory '' @ path_dir filePath @ '': '' @ err_msg er)))
      | (w', None) \<Rightarrow>
          (case ke_get e w' key of
             Inl er \<Rightarrow> (w', Some (OtherError (''failed to get object '' @ key @ '': '' @ err_msg er)))
           | Inr content \<Rightarrow>
               (case ke_write e w' filePath content of
                  (w'', Some er) \<Rightarrow> (w'', Some (OtherError (''failed to write file '' @ filePath @ '': '' @ err_msg er)))
                | (w'', None) \<Rightarrow> (w'', None))))"

text \<open>The files of a kustomization: the keys below it, or those without a directory at the root.\<close>

definition relativeKey :: "string \<Rightarrow> string \<Rightarrow> string option" where
  "relativeKey kustomizeDir key =
     (if kustomizeDir = '''' then (if path_dir key = ''.'' \<or> path_dir key = '''' then Some key else None)
      else if HasPrefix key (kustomizeDir @ ''/'') then Some (TrimPrefix key (kustomizeDir @ ''/'')) else None)"

fun downloadAll ::
  "'w kust_env \<Rightarrow> string \<Rightarrow> string \<Rightarrow> string list \<Rightarrow> string list \<Rightarrow> 'w \<Rightarrow> 'w \<times> (kerr + string list)" where
  "downloadAll e kustomizeDir kustomizePath [] got w = (w, Inr got)"
| "downloadAll e kustomizeDir kustomizePath (key # ks) got w =
     (case relativeKey kustomizeDir key of
        None \<Rightarrow> downloadAll e kustomizeDir kustomizePath ks got w
      | Some rel \<Rightarrow>
          (case DownloadObjectToFile e key (path_join kustomizePath rel) w of
             (w', Some er) \<Rightarrow> (w', Inl (OtherError (''failed to download '' @ key @ '': '' @ err_msg er)))
           | (w', None) \<Rightarrow> downloadAll e kustomizeDir kustomizePath ks (key # got) w'))"

text \<open>\<open>got\<close> are the keys that were downloaded; the boolean says whether one belongs to the path.\<close>

fun downloadResourcePath ::
  "'w kust_env \<Rightarrow> string \<Rightarrow> string \<Rightarrow> string list \<Rightarrow> bool \<Rightarrow> string list \<Rightarrow> 'w \<Rightarrow> 'w \<times> string list \<times> kerr option" where
  "downloadResourcePath e resourcePath tempDir [] downloaded got w =
     (w, got, if \<not> downloaded then Some (OtherError (''no files found for resource path: '' @ resourcePath)) else None)"
| "downloadResourcePath e resourcePath tempDir (key # ks) downloaded got w =
     (if HasPrefix key (resourcePath @ ''/'') \<or> key = resourcePath then
        (if key \<in> set got then downloadResourcePath e resourcePath tempDir ks True got w
         else case DownloadObjectToFile e key (path_join tempDir key) w of
                (w', Some er) \<Rightarrow> (w', got, Some (OtherError (''failed to download '' @ key @ '': '' @ err_msg er)))
              | (w', None) \<Rightarrow> downloadResourcePath e resourcePath tempDir ks True (key # got) w')
      else downloadResourcePath e resourcePath tempDir ks downloaded got w)"

fun downloadListed ::
  "'w kust_env \<Rightarrow> string \<Rightarrow> string \<Rightarrow> string list \<Rightarrow> bool \<Rightarrow> string list \<Rightarrow> 'w \<Rightarrow> 'w \<times> string list \<times> kerr option" where
  "downloadListed e resourcePath tempDir [] downloaded got w =
     (w, got, if \<not> downloaded then Some (OtherError (''no new files downloaded for resource path: '' @ resourcePath)) else None)"
| "downloadListed e resourcePath tempDir (key # ks) downloaded got w =
     (if key \<in> set got then downloadListed e resourcePath tempDir ks downloaded got w
      else case DownloadObjectToFile e key (path_join tempDir key) w of
             (w', Some er) \<Rightarrow> (w', got, Some (OtherError (''failed to download '' @ key @ '': '' @ err_msg er)))
           | (w', None) \<Rightarrow> downloadListed e resourcePath tempDir ks True (key # got) w')"

definition downloadResourcePathDirect ::
  "'w kust_env \<Rightarrow> string \<Rightarrow> string \<Rightarrow> string list \<Rightarrow> 'w \<Rightarrow> 'w \<times> string list \<times> kerr option" where
  "downloadResourcePathDirect e resourcePath tempDir got w =
     (case ke_list e w resourcePath of
        Inl er \<Rightarrow> (w, got, Some (OtherError (''failed to list objects with prefix '' @ resourcePath @ '': '' @ err_msg er)))
      | Inr keys \<Rightarrow>
          (if length keys = 0 then (w, got, Some (OtherError (''no files found for resource path: '' @ resourcePath)))
           else downloadListed e resourcePath tempDir keys False got w))"

definition resolveResource :: "string \<Rightarrow> string \<Rightarrow> string" where
  "resolveResource kustomizeDir resource = (if kustomizeDir = '''' then resource else Clean (path_join kustomizeDir resource))"

fun downloadResources ::
  "'w kust_env \<Rightarrow> string \<Rightarrow> string list \<Rightarrow> string \<Rightarrow> string list \<Rightarrow> string list \<Rightarrow> 'w \<Rightarrow> 'w \<times> string list" where
  "downloadResources e kustomizeDir allKeys tempDir [] got w = (w, got)"
| "downloadResources e kustomizeDir allKeys tempDir (r # rs) got w =
     (if r = '''' then downloadResources e kustomizeDir allKeys tempDir rs got w
      else (let path = resolveResource kustomizeDir r
            in case downloadResourcePath e path tempDir allKeys False got w of
                 (w', got', None) \<Rightarrow> downloadResources e kustomizeDir allKeys tempDir rs got' w'
               | (w', got', Some er) \<Rightarrow>
                   (let (w'', got'', er') = downloadResourcePathDirect e path tempDir got' w'
                    in downloadResources e kustomizeDir allKeys tempDir rs got'' w'')))"

definition downloadReferencedResources ::
  "'w kust_env \<Rightarrow> string \<Rightarrow> string \<Rightarrow> string list \<Rightarrow> string \<Rightarrow> string list \<Rightarrow> 'w \<Rightarrow> 'w \<times> string list \<times> kerr option" where
  "downloadReferencedResources e kustomizationFile kustomizeDir allKeys tempDir got w =
     (case ke_read e w kustomizationFile of
        Inl er \<Rightarrow> (w, got, Some (OtherError (''failed to read kustomization file: '' @ err_msg er)))
      | Inr content \<Rightarrow>
          (case ke_config e content of
             Inl er \<Rightarrow> (w, got, Some (OtherError (''failed to parse kustomization file: '' @ err_msg er)))
           | Inr (resources, bases) \<Rightarrow>
               (let (w', got') = downloadResources e kustomizeDir allKeys tempDir (resources @ bases) got w
                in (w', got', None))))"

definition kustomizedResources :: "'w kust_env \<Rightarrow> string \<Rightarrow> Unstructured list" where
  "kustomizedResources e out =
     concat (map (\<lambda>y. let file = trim_set [tab, CHR '' '', newline] y
                      in if length file = 0 then []
                         else case ke_object e file of
                                Inl er \<Rightarrow> []
                              | Inr t \<Rightarrow> if u_apiVersion t = '''' \<or> u_kind t = '''' then [] else [t]) (ParseYAML out))"

text \<open>The steps after the download, on the directory \<open>kustomizePath\<close>.\<close>

definition buildKustomization ::
  "'w kust_env \<Rightarrow> string \<Rightarrow> string list \<Rightarrow> Overrides list option \<Rightarrow> string \<Rightarrow> string \<Rightarrow> string list \<Rightarrow> 'w
    \<Rightarrow> 'w \<times> Unstructured list goval" where
  "buildKustomization e kustomizeDir allKeys packageOverrides tempDir kustomizePath got w =
     (let yamlFile = path_join kustomizePath ''kustomization.yaml'';
          ymlFile = path_join kustomizePath ''kustomization.yml'';
          kustomizationFile = (if ke_exists e w yamlFile then yamlFile else ymlFile)
      in if \<not> ke_exists e w kustomizationFile
         then (w, Fail (OtherError (''no kustomization.yaml or kustomization.yml found in '' @ kustomizePath)))
         else (let (w1, got1, er1) = downloadReferencedResources e kustomizationFile kustomizeDir allKeys tempDir got w
               in case (case packageOverrides of
                          None \<Rightarrow> (w1, Done)
                        | Some ovs \<Rightarrow> VerifyAndOverrideKustomize e ovs (if kustomizeDir = '''' then ''.'' else kustomizeDir) kustomizePath w1) of
                    (w2, Panic p) \<Rightarrow> (w2, Crash p)
                  | (w2, Err er) \<Rightarrow> (w2, Fail (OtherError (''failed to override kustomization: '' @ err_msg er)))
                  | (w2, Done) \<Rightarrow>
                      (case ke_build e w2 kustomizePath of
                         Inl er \<Rightarrow> (w2, Fail (OtherError (''failed to run kustomize build: '' @ err_msg er)))
                       | Inr out \<Rightarrow> (w2, Ret (kustomizedResources e out)))))"

definition ProcessKustomization ::
  "'w kust_env \<Rightarrow> string \<Rightarrow> string list \<Rightarrow> Overrides list option \<Rightarrow> 'w \<Rightarrow> 'w \<times> Unstructured list goval" where
  "ProcessKustomization e kustomizeDir allKeys packageOverrides w =
     (case ke_tempDir e w of
        (w0, Inl er) \<Rightarrow> (w0, Fail (OtherError (''failed to create temp directory: '' @ err_msg er)))
      | (w0, Inr tempDir) \<Rightarrow>
          (let kustomizePath = (if kustomizeDir = '''' then tempDir else path_join tempDir kustomizeDir);
               (w1, er1) = (if kustomizeDir = '''' then (w0, None) else ke_mkdir e w0 kustomizePath);
               (w2, r) = (case er1 of
                            Some er \<Rightarrow> (w1, Fail (OtherError (''failed to create kustomization directory: '' @ err_msg er)))
                          | None \<Rightarrow>
                              (case downloadAll e kustomizeDir kustomizePath allKeys [] w1 of
                                 (w', Inl er) \<Rightarrow> (w', Fail er)
                               | (w', Inr got) \<Rightarrow> buildKustomization e kustomizeDir allKeys packageOverrides tempDir kustomizePath got w'))
           in (ke_removeAll e w2 tempDir, r)))"

end
