(* ===== verification/Subscriber.thy ===== *)
theory Subscriber
  imports Synchronizer References HelmCharts Kustomize ClusterAdmin
begin

text \<open>
  What the subscribers of all channel types share: the item they are handed
  (\<open>SubscriberItem\<close> of \<open>pkg/apis/apps/v1/subscription_types.go\<close>), the part of the synchronizer they
  call (the interface \<open>SyncSource\<close> of each subscriber package) with its laws as a locale, and the
  refresh of the secrets and config maps of a channel at the start of a round.
\<close>

section \<open>Items\<close>

definition AnnotationWebhookEnabled :: string where "AnnotationWebhookEnabled = group @ ''/webhook-enabled''"
definition AnnotationGithubPath :: string where "AnnotationGithubPath = group @ ''/github-path''"
definition AnnotationGitCloneDepth :: string where "AnnotationGitCloneDepth = group @ ''/git-clone-depth''"
definition AnnotationManualReconcileTime :: string where "AnnotationManualReconcileTime = group @ ''/manual-refresh-time''"
definition AnnotationCurrentNamespaceScoped :: string where
  "AnnotationCurrentNamespaceScoped = group @ ''/current-namespace-scoped''"

text \<open>A secret or a config map: the object and its data.\<close>

record RefObject =
  ro_object :: Unstructured
  ro_data :: strmap

record AppSubscriberItem =
  ai_subscription :: Subscription
  ai_subConfigMap :: "RefObject option"
  ai_channel :: "Channel option"
  ai_secret :: "RefObject option"
  ai_configMap :: "RefObject option"
  ai_secondary :: "Channel option"
  ai_secondarySecret :: "RefObject option"
  ai_secondaryConfigMap :: "RefObject option"

section \<open>The synchronizer as the subscribers see it\<close>

record 'w SyncSource =
  ss_namespaced :: "'w \<Rightarrow> Unstructured \<Rightarrow> bool"
  ss_process :: "Subscription \<Rightarrow> ResourceUnit list \<Rightarrow> kindlist \<Rightarrow> kindlist \<Rightarrow> bool \<Rightarrow> bool \<Rightarrow> 'w \<Rightarrow> 'w \<times> outcome"
  ss_purge :: "Subscription \<Rightarrow> 'w \<Rightarrow> 'w \<times> outcome"
  ss_overall :: "Subscription \<Rightarrow> bool \<Rightarrow> string \<Rightarrow> 'w \<Rightarrow> 'w \<times> outcome"

definition kubeSyncSource :: "'w kube \<Rightarrow> KubeSynchronizer \<Rightarrow> 'w SyncSource" where
  "kubeSyncSource k s = \<lparr>ss_namespaced = IsResourceNamespaced k, ss_process = ProcessSubResources k s,
     ss_purge = PurgeAllSubscribedResources k s, ss_overall = UpdateAppsubOverallStatus k s\<rparr>"

text \<open>
  What the subscribers rely on: handing over no resources removes everything, and whether an
  object is namespaced depends on its kind only.
\<close>

locale sync_source =
  fixes ss :: "'w SyncSource"
  assumes process_none: "ss_process ss s [] allow deny admin strict w = ss_purge ss s w"
    and namespaced_kind: "gvk u = gvk v \<Longrightarrow> ss_namespaced ss w u = ss_namespaced ss w v"

interpretation kube: sync_source "kubeSyncSource k s" for k s
  by unfold_locales (simp_all add: kubeSyncSource_def ProcessSubResources_def IsResourceNamespaced_def)

section \<open>References of a channel\<close>

text \<open>
  The reads of secrets and config maps on the hub and on the cluster, and the client that deploys
  them on the cluster.
\<close>

record 'w ref_env =
  rf_remoteSecret :: "'w \<Rightarrow> nsname \<Rightarrow> kerr + RefObject"
  rf_remoteConfigMap :: "'w \<Rightarrow> nsname \<Rightarrow> kerr + RefObject"
  rf_localSecret :: "'w \<Rightarrow> nsname \<Rightarrow> kerr + RefObject"
  rf_localConfigMap :: "'w \<Rightarrow> nsname \<Rightarrow> kerr + RefObject"
  rf_secrets :: "'w ref_client"
  rf_configMaps :: "'w ref_client"
  rf_same :: "Unstructured \<Rightarrow> Unstructured \<Rightarrow> bool"
  rf_conv :: "Unstructured \<Rightarrow> kerr + (string \<times> json) list"

text \<open>
  A reference that cannot be deployed is logged with the name of the one held in memory (\<open>old\<close>);
  when there is none, taking its name panics.
\<close>

definition deployReference ::
  "'w ref_env \<Rightarrow> 'w ref_client \<Rightarrow> Subscription \<Rightarrow> RefObject option \<Rightarrow> RefObject option \<Rightarrow> 'w \<Rightarrow> 'w \<times> gopanic option" where
  "deployReference e c s old fetched w =
     (case fetched of
        None \<Rightarrow> (w, None)
      | Some r \<Rightarrow>
          (case ListAndDeployReferredObject c (rf_same e) (rf_conv e) s (ro_object r) w of
             (w', None) \<Rightarrow> (w', None)
           | (w', Some er) \<Rightarrow> (w', if old = None then Some NilDereference else None)))"

definition orOld :: "'a option \<Rightarrow> 'a option \<Rightarrow> 'a option" where
  "orOld new old = (case new of None \<Rightarrow> old | Some x \<Rightarrow> Some x)"

definition refreshReferences ::
  "'w ref_env \<Rightarrow> Subscription \<Rightarrow> Channel \<Rightarrow> RefObject option \<Rightarrow> RefObject option \<Rightarrow> 'w
    \<Rightarrow> 'w \<times> (gopanic + RefObject option \<times> RefObject option)" where
  "refreshReferences e s chn secret configMap w =
     (let (sec, cm) = FetchChannelReferences (rf_remoteSecret e w) (rf_remoteConfigMap e w) chn
      in case deployReference e (rf_secrets e) s secret sec w of
           (w1, Some p) \<Rightarrow> (w1, Inl p)
         | (w1, None) \<Rightarrow>
             (case deployReference e (rf_configMaps e) s configMap cm w1 of
                (w2, Some p) \<Rightarrow> (w2, Inl p)
              | (w2, None) \<Rightarrow>
                  (let (sec', cm') = FetchChannelReferences (rf_localSecret e w2) (rf_localConfigMap e w2) chn
                   in (w2, Inr (orOld sec' secret, orOld cm' configMap)))))"

text \<open>The references of the primary and then of the secondary channel.\<close>

definition refreshItem ::
  "'w ref_env \<Rightarrow> AppSubscriberItem \<Rightarrow> 'w \<Rightarrow> 'w \<times> (gopanic + AppSubscriberItem)" where
  "refreshItem e it w =
     (case (case ai_channel it of
              None \<Rightarrow> (w, Inr (ai_secret it, ai_configMap it))
            | Some chn \<Rightarrow> refreshReferences e (ai_subscription it) chn (ai_secret it) (ai_configMap it) w) of
        (w1, Inl p) \<Rightarrow> (w1, Inl p)
      | (w1, Inr (sec, cm)) \<Rightarrow>
          (case (case ai_secondary it of
                   None \<Rightarrow> (w1, Inr (ai_secondarySecret it, ai_secondaryConfigMap it))
                 | Some chn \<Rightarrow> refreshReferences e (ai_subscription it) chn (ai_secondarySecret it) (ai_secondaryConfigMap it) w1) of
             (w2, Inl p) \<Rightarrow> (w2, Inl p)
           | (w2, Inr (sec2, cm2)) \<Rightarrow>
               (w2, Inr (it\<lparr>ai_secret := sec, ai_configMap := cm, ai_secondarySecret := sec2, ai_secondaryConfigMap := cm2\<rparr>))))"

section \<open>Choosing resources\<close>

definition LabelChecker :: "(LabelSelector option \<Rightarrow> (strmap \<Rightarrow> bool) option) \<Rightarrow> LabelSelector option \<Rightarrow> strmap \<Rightarrow> bool" where
  "LabelChecker sel ls dplls = (case sel ls of None \<Rightarrow> False | Some matches \<Rightarrow> matches dplls)"

text \<open>\<open>strconv.Atoi\<close>: an optional sign and decimal digits, within 64 bits.\<close>

definition isDigit :: "char \<Rightarrow> bool" where
  "isDigit c \<longleftrightarrow> 48 \<le> (of_char c :: nat) \<and> (of_char c :: nat) \<le> 57"

definition go_atoi :: "string \<Rightarrow> int option" where
  "go_atoi s =
     (let neg = HasPrefix s ''-''; ds = (if neg \<or> HasPrefix s ''+'' then tl s else s);
          n = foldl (\<lambda>a c. 10 * a + (int (of_char c) - 48)) 0 ds; v = (if neg then - n else n)
      in if ds = '''' \<or> \<not> list_all isDigit ds \<or> v < - (2 ^ 63) \<or> v \<ge> 2 ^ 63 then None else Some v)"

end
