(* ===== verification/GitSubscriber.thy ===== *)
theory GitSubscriber
  imports Subscriber
begin

text \<open>
  The Git subscriber (\<open>pkg/subscriber/git/git_subscriber.go\<close>, \<open>git_subscriber_item.go\<close>): it clones the
  repository of a subscription, turns its files, kustomizations and charts into resources and
  hands them to the synchronizer. One definition per operation; the polling goroutine is the
  field \<open>si_loop\<close>, and one turn of it the definition \<open>pollOnce\<close>. The world is the API servers and the
  file system; git, YAML, kustomize, Helm and the clock are arguments.
\<close>

section \<open>Data\<close>

text \<open>The type \<open>kubeResource\<close>: type and metadata of a resource.\<close>

record kubeResource =
  kr_apiVersion :: string
  kr_kind :: string
  kr_name :: string
  kr_labels :: "strmap option"
  kr_annotations :: "strmap option"

definition helmGvk :: GVK where
  "helmGvk = ((group, ''v1''), ''HelmRelease'')"

text \<open>
  \<open>si_started\<close> says that the stop channel exists. \<open>si_loop\<close> is the running goroutine with its period,
  retry interval and retries.
\<close>

record SubscriberItem =
  si_item :: AppSubscriberItem
  si_crds :: "string list"
  si_rbac :: "string list"
  si_others :: "string list"
  si_repoRoot :: string
  si_commitID :: string
  si_reconcileRate :: string
  si_desiredCommit :: string
  si_desiredTag :: string
  si_syncTime :: string
  si_started :: bool
  si_loop :: "(duration \<times> duration \<times> nat) option"
  si_count :: int
  si_charts :: strmap
  si_kustomize :: strmap
  si_resources :: "ResourceUnit list"
  si_index :: IndexFile
  si_webhook :: bool
  si_successful :: bool
  si_clusterAdmin :: bool
  si_currentNs :: bool
  si_userID :: string
  si_userGroup :: string

abbreviation si_sub :: "SubscriberItem \<Rightarrow> Subscription" where
  "si_sub it \<equiv> ai_subscription (si_item it)"

text \<open>
  \<open>gs_cloned\<close> is the world after a clone. \<open>gs_walk\<close> are the paths \<open>filepath.Walk\<close> visits, \<open>gs_ignored\<close> the
  patterns of the ignore file. \<open>gs_typed\<close> and \<open>gs_object\<close> decode a document, \<open>gs_yaml\<close> encodes an object.
\<close>

record ('w, 'a, 'r, 'h, 'v, 'm) git_sub_env =
  gs_sync :: "'w SyncSource"
  gs_subs :: "'w sub_client"
  gs_refs :: "'w ref_env"
  gs_now :: "'w \<Rightarrow> int"
  gs_clock :: "'w \<Rightarrow> gotime \<times> int"
  gs_tz :: tzdb
  gs_sleep :: "duration \<Rightarrow> 'w \<Rightarrow> 'w"
  gs_localConfigMap :: "'w \<Rightarrow> nsname \<Rightarrow> kerr + RefObject"
  gs_emptyConfigMap :: RefObject
  gs_tempDir :: string
  gs_conn :: "'w \<Rightarrow> 'a conn_env"
  gs_git :: "'w \<Rightarrow> ('a, 'r, 'h) git_env"
  gs_cloned :: "'w \<Rightarrow> GitCloneOption \<Rightarrow> 'w"
  gs_yamlStr :: "string \<Rightarrow> string + string"
  gs_trim :: "string \<Rightarrow> string"
  gs_repo :: "'w \<Rightarrow> repo_env"
  gs_walk :: "'w \<Rightarrow> string \<Rightarrow> (string \<times> (string + bool)) list"
  gs_ignored :: "'w \<Rightarrow> string \<Rightarrow> string \<Rightarrow> bool"
  gs_typed :: "string \<Rightarrow> kerr + kubeResource"
  gs_object :: "string \<Rightarrow> kerr + Unstructured"
  gs_yaml :: "Unstructured \<Rightarrow> kerr + string"
  gs_setNested :: "Unstructured \<Rightarrow> string list \<Rightarrow> json \<Rightarrow> Unstructured option"
  gs_sel :: "LabelSelector option \<Rightarrow> (strmap \<Rightarrow> bool) option"
  gs_kust :: "'w kust_env"
  gs_helm :: "('v, 'm) helm_env"
  gs_release :: "'w \<Rightarrow> nsname \<Rightarrow> kerr + HelmRelease"

section \<open>One resource\<close>

text \<open>The annotation filter of the package filter: every pair has to be on the resource.\<close>

definition annotationsMatch :: "strmap \<Rightarrow> strmap option \<Rightarrow> bool" where
  "annotationsMatch wanted rscanno \<longleftrightarrow> list_all (\<lambda>(k, v). anno rscanno k = v) wanted"

definition checkFilters ::
  "(LabelSelector option \<Rightarrow> (strmap \<Rightarrow> bool) option) \<Rightarrow> Subscription \<Rightarrow> Unstructured \<Rightarrow> string" where
  "checkFilters sel s rsc =
     (let pkg = sp_package (sub_spec s)
      in if pkg \<noteq> '''' \<and> pkg \<noteq> u_name rsc then ''Name does not match, skiping:'' @ pkg @ ''|'' @ u_name rsc
         else case sp_packageFilter (sub_spec s) of
                None \<Rightarrow> ''''
              | Some f \<Rightarrow>
                  (if \<not> LabelChecker sel (pf_labelSelector f) (unnil (u_labels rsc))
                   then ''Failed to pass label check on resource '' @ u_name rsc
                   else case pf_annotations f of
                          None \<Rightarrow> ''''
                        | Some a \<Rightarrow> if annotationsMatch a (u_annotations rsc) then ''''
                                    else ''Failed to pass annotation check to manifest '' @ u_name rsc))"

text \<open>The namespace of a resource, and the annotation of a child subscription.\<close>

definition placeResource :: "SubscriberItem \<Rightarrow> bool \<Rightarrow> Unstructured \<Rightarrow> Unstructured" where
  "placeResource it namespaced rsc =
     (let home = sub_namespace (si_sub it)
      in if \<not> namespaced then rsc
         else if si_clusterAdmin it then
           (let r = (if u_namespace rsc \<noteq> '''' then (if si_currentNs it then rsc\<lparr>u_namespace := home\<rparr> else rsc)
                     else rsc\<lparr>u_namespace := home\<rparr>)
            in if EqualFold (fst (fst (gvk r))) ''apps.open-cluster-management.io'' \<and> EqualFold (snd (gvk r)) ''Subscription''
               then r\<lparr>u_annotations := Some (gm_put AnnotationClusterAdmin ''true'' (unnil (u_annotations r)))\<rparr> else r)
         else rsc\<lparr>u_namespace := home\<rparr>)"

text \<open>The annotations a resource takes over from the subscription.\<close>

definition annotateResource :: "Subscription \<Rightarrow> Unstructured \<Rightarrow> Unstructured" where
  "annotateResource s rsc =
     (case sub_annotations s of
        None \<Rightarrow> rsc
      | Some sa \<Rightarrow>
          (let a0 = unnil (u_annotations rsc);
               a1 = (if EqualFold (gm_str sa AnnotationClusterAdmin) ''true'' then gm_put AnnotationClusterAdmin ''true'' a0 else a0);
               a2 = (if gm_str a1 AnnotationResourceReconcileOption = '''' then
                       gm_put AnnotationResourceReconcileOption
                         (if gm_str sa AnnotationResourceReconcileOption \<noteq> '''' then gm_str sa AnnotationResourceReconcileOption
                          else MergeReconcile) a1
                     else a1)
           in rsc\<lparr>u_annotations := Some a2\<rparr>))"

text \<open>
  A resource, or nothing when a filter rejects it. When an override fails, \<open>rsc\<close> is nil, and the
  error message that asks for its name panics; the rest of that branch is never reached.
\<close>

definition subscribeResource ::
  "('w, 'a, 'r, 'h, 'v, 'm) git_sub_env \<Rightarrow> SubscriberItem \<Rightarrow> 'w \<Rightarrow> string \<Rightarrow> (Unstructured \<times> GVK) option goval" where
  "subscribeResource e it w file =
     gbind (lift_err (gs_object e file)) (\<lambda>rsc0.
     gbind (lift_err (gs_typed e file)) (\<lambda>t.
       (let rsc1 = (case kr_labels t of None \<Rightarrow> rsc0 | Some l \<Rightarrow> rsc0\<lparr>u_labels := Some l\<rparr>);
            rsc2 = (case kr_annotations t of None \<Rightarrow> rsc1 | Some a \<Rightarrow> rsc1\<lparr>u_annotations := Some a\<rparr>);
            validgvk = gvk rsc2;
            rsc3 = placeResource it (ss_namespaced (gs_sync e) w rsc2) rsc2
        in if sp_packageFilter (sub_spec (si_sub it)) \<noteq> None \<and> checkFilters (gs_sel e) (si_sub it) rsc3 \<noteq> '''' then Ret None
           else case (case sp_packageOverrides (sub_spec (si_sub it)) of
                        None \<Rightarrow> Inr rsc3
                      | Some ovs \<Rightarrow> OverrideResourceBySubscription (gs_setNested e) rsc3 (u_name rsc3) (si_sub it)) of
                  Inl er \<Rightarrow> Crash NilDereference
                | Inr rsc4 \<Rightarrow> Ret (Some (SetPartOfLabel (si_sub it) (annotateResource (si_sub it) rsc4), validgvk)))))"

text \<open>An error is logged and the resource skipped.\<close>

definition subscribeResourceFile ::
  "('w, 'a, 'r, 'h, 'v, 'm) git_sub_env \<Rightarrow> 'w \<Rightarrow> SubscriberItem \<Rightarrow> string \<Rightarrow> gopanic + SubscriberItem" where
  "subscribeResourceFile e w it file =
     (case subscribeResource e it w file of
        Crash p \<Rightarrow> Inl p
      | Fail er \<Rightarrow> Inr it
      | Ret None \<Rightarrow> Inr it
      | Ret (Some (rsc, g)) \<Rightarrow> Inr (it\<lparr>si_resources := si_resources it @ [\<lparr>ru_resource = rsc, ru_gvk = g\<rparr>]\<rparr>))"

section \<open>Files\<close>

definition injectUser :: "SubscriberItem \<Rightarrow> Unstructured \<Rightarrow> Unstructured" where
  "injectUser it o' = o'\<lparr>u_annotations := Some (gm_put AnnotationUserGroup (si_userGroup it)
     (gm_put AnnotationUserIdentity (si_userID it) (unnil (u_annotations o'))))\<rparr>"

text \<open>One document of a file; a child subscription carries the user of its parent.\<close>

definition subscribeDocument ::
  "('w, 'a, 'r, 'h, 'v, 'm) git_sub_env \<Rightarrow> 'w \<Rightarrow> SubscriberItem \<Rightarrow> string \<Rightarrow> SubscriberItem goval" where
  "subscribeDocument e w it resource =
     (case gs_typed e resource of
        Inl er \<Rightarrow> Ret it
      | Inr t \<Rightarrow>
          (case (if kr_kind t = ''Subscription'' then
                   (case gs_object e resource of
                      Inl er \<Rightarrow> Inl (Some er)
                    | Inr o' \<Rightarrow> (case gs_yaml e (injectUser it o') of Inl er \<Rightarrow> Inl None | Inr y \<Rightarrow> Inr y))
                 else Inr resource) of
             Inl (Some er) \<Rightarrow> Fail er
           | Inl None \<Rightarrow> Ret it
           | Inr y \<Rightarrow> (case subscribeResourceFile e w it y of Inl p \<Rightarrow> Crash p | Inr it' \<Rightarrow> Ret it')))"

text \<open>The item and how the loop ended; resources found before an error stay in the item.\<close>

fun subscribeDocuments ::
  "('w, 'a, 'r, 'h, 'v, 'm) git_sub_env \<Rightarrow> 'w \<Rightarrow> SubscriberItem \<Rightarrow> string list \<Rightarrow> SubscriberItem \<times> outcome" where
  "subscribeDocuments e w it [] = (it, Done)"
| "subscribeDocuments e w it (r # rs) =
     (case subscribeDocument e w it r of
        Crash p \<Rightarrow> (it, Panic p)
      | Fail er \<Rightarrow> (it, Err er)
      | Ret it' \<Rightarrow> subscribeDocuments e w it' rs)"

fun subscribeResources ::
  "('w, 'a, 'r, 'h, 'v, 'm) git_sub_env \<Rightarrow> 'w \<Rightarrow> SubscriberItem \<Rightarrow> string list \<Rightarrow> SubscriberItem \<times> outcome" where
  "subscribeResources e w it [] = (it, Done)"
| "subscribeResources e w it (f # fs) =
     (case re_read (gs_repo e w) f of
        Inl er \<Rightarrow> (it, Err (OtherError er))
      | Inr content \<Rightarrow>
          (case subscribeDocuments e w it (ParseKubeResoures (re_yaml (gs_repo e w)) content) of
             (it', Done) \<Rightarrow> subscribeResources e w it' fs
           | (it', o') \<Rightarrow> (it', o')))"

section \<open>Kustomizations and charts\<close>

text \<open>The error of this check is logged only.\<close>

definition checkSubscriptionAnnotation :: "kubeResource \<Rightarrow> string option" where
  "checkSubscriptionAnnotation r =
     (if EqualFold (kr_apiVersion r) (group @ ''/v1'') \<and> EqualFold (kr_kind r) ''Subscription''
         \<and> EqualFold (anno (kr_annotations r) AnnotationClusterAdmin) ''true''
      then Some (''contains '' @ AnnotationClusterAdmin @ '' = true annotation.'') else None)"

fun kustomizedDocuments ::
  "('w, 'a, 'r, 'h, 'v, 'm) git_sub_env \<Rightarrow> 'w \<Rightarrow> SubscriberItem \<Rightarrow> string list \<Rightarrow> gopanic + SubscriberItem" where
  "kustomizedDocuments e w it [] = Inr it"
| "kustomizedDocuments e w it (r # rs) =
     (let resourceFile = trim_set [tab, CHR '' '', newline] r
      in case gs_typed e resourceFile of
           Inl er \<Rightarrow> kustomizedDocuments e w it rs
         | Inr t \<Rightarrow>
             (if kr_apiVersion t = '''' \<or> kr_kind t = '''' then kustomizedDocuments e w it rs
              else rbind (subscribeResourceFile e w it resourceFile) (\<lambda>it'. kustomizedDocuments e w it' rs)))"

fun subscribeKustomizations ::
  "('w, 'a, 'r, 'h, 'v, 'm) git_sub_env \<Rightarrow> string list \<Rightarrow> SubscriberItem \<Rightarrow> 'w \<Rightarrow> 'w \<times> SubscriberItem \<times> outcome" where
  "subscribeKustomizations e [] it w = (w, it, Done)"
| "subscribeKustomizations e (dir # dirs) it w =
     (case VerifyAndOverrideKustomize (gs_kust e) (unnil (sp_packageOverrides (sub_spec (si_sub it))))
             (relativePath (si_repoRoot it) dir) dir w of
        (w1, Panic p) \<Rightarrow> (w1, it, Panic p)
      | (w1, Err er) \<Rightarrow> (w1, it\<lparr>si_resources := []\<rparr>, Err er)
      | (w1, Done) \<Rightarrow>
          (case ke_build (gs_kust e) w1 dir of
             Inl er \<Rightarrow> (w1, it\<lparr>si_resources := []\<rparr>, Err er)
           | Inr out \<Rightarrow>
               (case kustomizedDocuments e w1 it (ParseYAML out) of
                  Inl p \<Rightarrow> (w1, it, Panic p)
                | Inr it' \<Rightarrow> subscribeKustomizations e dirs it' w1)))"

fun subscribeHelmCharts ::
  "('w, 'a, 'r, 'h, 'v, 'm) git_sub_env \<Rightarrow> 'w \<Rightarrow> SubscriberItem \<Rightarrow> IndexFile \<Rightarrow> SubscriberItem \<times> outcome" where
  "subscribeHelmCharts e w it [] = (it, Done)"
| "subscribeHelmCharts e w it ((packageName, chartVersions) # idx) =
     (case CreateHelmCRManifest (gs_helm e) (gs_release e w) '''' packageName chartVersions (ai_channel (si_item it))
             (ai_secondary (si_item it)) (si_sub it) (si_clusterAdmin it) of
        Crash p \<Rightarrow> (it, Panic p)
      | Fail er \<Rightarrow> (it, Err er)
      | Ret cr \<Rightarrow> subscribeHelmCharts e w
                    (it\<lparr>si_resources := si_resources it @ [\<lparr>ru_resource = cr, ru_gvk = helmGvk\<rparr>]\<rparr>) idx)"

section \<open>Cloning and sorting\<close>

definition getChannelConnectionConfig ::
  "(string \<Rightarrow> string + string) \<Rightarrow> (string \<Rightarrow> string) \<Rightarrow> RefObject option \<Rightarrow> RefObject option \<Rightarrow> string + Credentials \<times> string" where
  "getChannelConnectionConfig yamlStr trim secret configMap =
     rbind (case secret of None \<Rightarrow> Inr noCredentials | Some s \<Rightarrow> ParseChannelSecret yamlStr trim (ro_data s))
       (\<lambda>c. Inr (c, case configMap of None \<Rightarrow> '''' | Some m \<Rightarrow> gm_str (ro_data m) ''caCerts''))"

definition channelConnection :: "Channel \<Rightarrow> Credentials \<times> string \<Rightarrow> ChannelConnectionCfg" where
  "channelConnection chn c =
     \<lparr>cc_url = ch_pathname chn, cc_credentials = fst c, cc_insecure = ch_insecure chn, cc_caCerts = snd c\<rparr>"

definition cloneDepthOf :: "Subscription \<Rightarrow> int" where
  "cloneDepthOf s =
     (if anno (sub_annotations s) AnnotationGitCloneDepth \<noteq> ''''
      then (case go_atoi (anno (sub_annotations s) AnnotationGitCloneDepth) of None \<Rightarrow> 1 | Some n \<Rightarrow> n) else 1)"

definition connectionOf ::
  "('w, 'a, 'r, 'h, 'v, 'm) git_sub_env \<Rightarrow> RefObject option \<Rightarrow> RefObject option \<Rightarrow> (Credentials \<times> string) goval" where
  "connectionOf e secret configMap =
     lift_err (map_sum OtherError id (getChannelConnectionConfig (gs_yamlStr e) (gs_trim e) secret configMap))"

definition cloneOptions ::
  "('w, 'a, 'r, 'h, 'v, 'm) git_sub_env \<Rightarrow> SubscriberItem \<Rightarrow> GitCloneOption goval" where
  "cloneOptions e it =
     (let i = si_item it
      in gbind (connectionOf e (ai_secret i) (ai_configMap i)) (\<lambda>c.
         (case ai_channel i of
            None \<Rightarrow> Crash NilDereference
          | Some chn \<Rightarrow>
              gbind (case ai_secondary i of
                       None \<Rightarrow> Ret None
                     | Some chn2 \<Rightarrow> gbind (connectionOf e (ai_secondarySecret i) (ai_secondaryConfigMap i))
                                       (\<lambda>c2. Ret (Some (channelConnection chn2 c2)))) (\<lambda>secondary.
                Ret \<lparr>go_commit = si_desiredCommit it, go_tag = si_desiredTag it, go_branch = GetSubscriptionBranch (si_sub it),
                     go_destDir = si_repoRoot it, go_depth = cloneDepthOf (si_sub it),
                     go_primary = channelConnection chn c, go_secondary = secondary\<rparr>))))"

definition cloneGitRepo ::
  "('w, 'a, 'r, 'h, 'v, 'm) git_sub_env \<Rightarrow> SubscriberItem \<Rightarrow> 'w \<Rightarrow> 'w \<times> SubscriberItem \<times> string goval" where
  "cloneGitRepo e it w =
     (let it' = it\<lparr>si_repoRoot := GetLocalGitFolder (gs_tempDir e) (si_sub it)\<rparr>
      in case cloneOptions e it' of
           Ret opts \<Rightarrow> (gs_cloned e w opts, it', lift_err (map_sum OtherError id (CloneGitRepo (gs_conn e w) (gs_git e w) opts)))
         | Fail er \<Rightarrow> (w, it', Fail er)
         | Crash p \<Rightarrow> (w, it', Crash p))"

text \<open>The config map the package filter refers to; it is empty when it cannot be read.\<close>

definition filterConfigMap ::
  "('w, 'a, 'r, 'h, 'v, 'm) git_sub_env \<Rightarrow> SubscriberItem \<Rightarrow> 'w \<Rightarrow> RefObject option" where
  "filterConfigMap e it w =
     (case sp_packageFilter (sub_spec (si_sub it)) of
        None \<Rightarrow> ai_subConfigMap (si_item it)
      | Some f \<Rightarrow>
          (case pf_filterRef f of
             None \<Rightarrow> ai_subConfigMap (si_item it)
           | Some n \<Rightarrow> (case gs_localConfigMap e w (sub_namespace (si_sub it), n) of
                           Inl er \<Rightarrow> Some (gs_emptyConfigMap e) | Inr m \<Rightarrow> Some m)))"

definition resourcePath :: "SubscriberItem \<Rightarrow> string" where
  "resourcePath it =
     (let a = sub_annotations (si_sub it)
      in if anno a AnnotationGithubPath \<noteq> '''' then path_join (si_repoRoot it) (anno a AnnotationGithubPath)
         else if anno a AnnotationGitPath \<noteq> '''' then path_join (si_repoRoot it) (anno a AnnotationGitPath)
         else case ai_subConfigMap (si_item it) of
                None \<Rightarrow> si_repoRoot it
              | Some m \<Rightarrow> path_join (si_repoRoot it) (gm_str (ro_data m) ''path''))"

text \<open>The paths are printed in double quotes; escapes of special characters are left out.\<close>

definition escapesMsg :: "string \<Rightarrow> string \<Rightarrow> string" where
  "escapesMsg path root =
     (let q = (\<lambda>s. CHR 0x22 # s @ [CHR 0x22]) in ''git-path '' @ q path @ '' escapes the repository root '' @ q root)"

definition sortClonedGitRepo ::
  "('w, 'a, 'r, 'h, 'v, 'm) git_sub_env \<Rightarrow> SubscriberItem \<Rightarrow> 'w \<Rightarrow> SubscriberItem \<times> outcome" where
  "sortClonedGitRepo e it0 w =
     (let it = it0\<lparr>si_item := (si_item it0)\<lparr>ai_subConfigMap := filterConfigMap e it0 w\<rparr>\<rparr>; path = resourcePath it
      in if \<not> IsPathWithinRoot (si_repoRoot it) path then (it, Err (OtherError (escapesMsg path (si_repoRoot it))))
         else case SortResources (gs_repo e w) (gs_ignored e w path) (Some SkipHooksOnManaged) (si_repoRoot it) path (gs_walk e w path) of
                Inl er \<Rightarrow> (it, Err (OtherError er))
              | Inr f \<Rightarrow>
                  (let it1 = it\<lparr>si_charts := sf_charts f, si_kustomize := sf_kustomize f, si_crds := sf_crds f, si_rbac := sf_rbac f,
                                si_others := sf_others f\<rparr>
                   in case GenerateHelmIndexFile (gs_helm e) (si_sub it) (si_repoRoot it) (sf_charts f) of
                        Inl er \<Rightarrow> (it1, Err er)
                      | Inr idx \<Rightarrow> (it1\<lparr>si_index := idx\<rparr>, Done)))"

section \<open>One round\<close>

definition addMsg :: "string \<Rightarrow> string \<Rightarrow> string" where
  "addMsg msg er = (if length msg > 0 then msg @ '', '' else msg) @ er"

text \<open>
  Collecting one kind of resource: an error is added to the message and marks the item, a panic
  ends the round. The world does not change.
\<close>

definition collect :: "(SubscriberItem \<Rightarrow> SubscriberItem \<times> outcome) \<Rightarrow> gopanic + SubscriberItem \<times> string
    \<Rightarrow> gopanic + SubscriberItem \<times> string" where
  "collect step r =
     rbind r (\<lambda>(it, msg). (case step it of
        (it', Done) \<Rightarrow> Inr (it', msg)
      | (it', Err er) \<Rightarrow> Inr (it'\<lparr>si_successful := False\<rparr>, addMsg msg (err_msg er))
      | (it', Panic p) \<Rightarrow> Inl p))"

definition collectKustomizations ::
  "('w, 'a, 'r, 'h, 'v, 'm) git_sub_env \<Rightarrow> SubscriberItem \<Rightarrow> string \<Rightarrow> 'w \<Rightarrow> 'w \<times> (gopanic + SubscriberItem \<times> string)" where
  "collectKustomizations e it msg w =
     (case subscribeKustomizations e (map snd (si_kustomize it)) it w of
        (w', it', Done) \<Rightarrow> (w', Inr (it', msg))
      | (w', it', Panic p) \<Rightarrow> (w', Inl p)
      | (w', it', Err er) \<Rightarrow>
          (let msg' = ''failed to apply klustomization: '' @ err_msg er @ (if length msg > 0 then '', '' else '''') @ msg
           in case ss_overall (gs_sync e) (si_sub it') True msg' w' of
                (w'', Panic p) \<Rightarrow> (w'', Inl p)
              | (w'', _) \<Rightarrow> (w'', Inr (it'\<lparr>si_successful := False\<rparr>, msg'))))"

text \<open>All resources of the repository in the item, with the message of what went wrong.\<close>

definition collectResources ::
  "('w, 'a, 'r, 'h, 'v, 'm) git_sub_env \<Rightarrow> SubscriberItem \<Rightarrow> 'w \<Rightarrow> 'w \<times> (gopanic + SubscriberItem \<times> string)" where
  "collectResources e it w =
     (case collect (\<lambda>i. subscribeResources e w i (si_others i))
            (collect (\<lambda>i. subscribeResources e w i (si_rbac i))
              (collect (\<lambda>i. subscribeResources e w i (si_crds i)) (Inr (it, '''')))) of
        Inl p \<Rightarrow> (w, Inl p)
      | Inr (it1, msg1) \<Rightarrow>
          (case collectKustomizations e it1 msg1 w of
             (w', Inl p) \<Rightarrow> (w', Inl p)
           | (w', Inr (it2, msg2)) \<Rightarrow> (w', collect (\<lambda>i. subscribeHelmCharts e w' i (si_index i)) (Inr (it2, msg2)))))"

text \<open>
  The last part of a round: nothing is handed over when there are no resources; the message is
  cut after 2000 characters.
\<close>

definition deployResources ::
  "('w, 'a, 'r, 'h, 'v, 'm) git_sub_env \<Rightarrow> string \<Rightarrow> SubscriberItem \<Rightarrow> string \<Rightarrow> 'w \<Rightarrow> 'w \<times> SubscriberItem \<times> outcome" where
  "deployResources e commitID it msg w =
     (if length (si_resources it) = 0 \<and> \<not> si_successful it then (w, it, Err (OtherError (take 2000 msg)))
      else (let (allowlist, denyList) = GetAllowDenyLists (si_sub it)
            in case ss_process (gs_sync e) (si_sub it) (si_resources it) allowlist denyList (si_clusterAdmin it) True w of
                 (w', Done) \<Rightarrow>
                   (w', it\<lparr>si_commitID := commitID, si_resources := [], si_charts := [], si_kustomize := [], si_crds := [],
                           si_rbac := [], si_others := [], si_index := [], si_successful := True\<rparr>, Done)
               | (w', o') \<Rightarrow> (w', it\<lparr>si_successful := False\<rparr>, o')))"

text \<open>Whether the commit has to be deployed, and the counter of rounds.\<close>

definition countRound :: "SubscriberItem \<Rightarrow> string \<Rightarrow> SubscriberItem \<times> bool" where
  "countRound it commitID =
     (if EqualFold (si_reconcileRate it) ''medium'' then
        (let it' = it\<lparr>si_count := si_count it + 1\<rparr>
         in if si_commitID it' = '''' then (it', True)
            else if si_count it' < 6 then (it', \<not> (commitID = si_commitID it' \<and> si_successful it'))
            else (it'\<lparr>si_count := 0\<rparr>, True))
      else (it, True))"

text \<open>
  A round up to the hand-over: it has ended with the item and an outcome, or it is ready with
  the commit, the item with its resources and the message.
\<close>

definition prepareRound ::
  "('w, 'a, 'r, 'h, 'v, 'm) git_sub_env \<Rightarrow> SubscriberItem \<Rightarrow> 'w
    \<Rightarrow> 'w \<times> (SubscriberItem \<times> outcome + string \<times> SubscriberItem \<times> string)" where
  "prepareRound e it00 w00 =
     (let it0 = it00\<lparr>si_successful := False\<rparr>;
          w0 = UpdateLastUpdateTime (gs_now e w00) (gs_subs e) (sub_namespace (si_sub it0), sub_name (si_sub it0)) w00
      in if si_webhook it0 \<and> si_successful it0 then (w0, Inl (it0, Done))
         else case refreshItem (gs_refs e) (si_item it0) w0 of
                (w1, Inl p) \<Rightarrow> (w1, Inl (it0, Panic p))
              | (w1, Inr item) \<Rightarrow>
                  (case cloneGitRepo e (it0\<lparr>si_item := item\<rparr>) w1 of
                     (w2, it2, Crash p) \<Rightarrow> (w2, Inl (it2, Panic p))
                   | (w2, it2, Fail er) \<Rightarrow>
                       (w2, Inl (it2\<lparr>si_successful := False\<rparr>, if ai_channel item = None then Panic NilDereference else Err er))
                   | (w2, it2, Ret commitID) \<Rightarrow>
                       (case countRound it2 commitID of
                          (it3, False) \<Rightarrow> (w2, Inl (it3, Done))
                        | (it3, True) \<Rightarrow>
                            (case sortClonedGitRepo e (it3\<lparr>si_resources := []\<rparr>) w2 of
                               (it4, Panic p) \<Rightarrow> (w2, Inl (it4, Panic p))
                             | (it4, Err er) \<Rightarrow> (w2, Inl (it4\<lparr>si_successful := False\<rparr>, Err er))
                             | (it4, Done) \<Rightarrow>
                                 (case collectResources e it4 w2 of
                                    (w5, Inl p) \<Rightarrow> (w5, Inl (it4, Panic p))
                                  | (w5, Inr (it5, msg)) \<Rightarrow> (w5, Inr (commitID, it5, msg)))))))"

definition doSubscription ::
  "('w, 'a, 'r, 'h, 'v, 'm) git_sub_env \<Rightarrow> SubscriberItem \<Rightarrow> 'w \<Rightarrow> 'w \<times> SubscriberItem \<times> outcome" where
  "doSubscription e it w =
     (case prepareRound e it w of
        (w', Inl (it', o')) \<Rightarrow> (w', it', o')
      | (w', Inr (commitID, it', msg)) \<Rightarrow> deployResources e commitID it' msg w')"

section \<open>Rounds and the polling loop\<close>

definition reportRound :: "('w, 'a, 'r, 'h, 'v, 'm) git_sub_env \<Rightarrow> SubscriberItem \<Rightarrow> outcome \<Rightarrow> 'w \<Rightarrow> 'w" where
  "reportRound e it o' w =
     (let key = (sub_namespace (si_sub it), sub_name (si_sub it))
      in case o' of
           Err er \<Rightarrow> UpdateSubscriptionStatus (gs_subs e) key SubscriptionFailed (err_msg er) w
         | Done \<Rightarrow> UpdateSubscriptionStatus (gs_subs e) key SubscriptionSubscribed '''' w
         | Panic p \<Rightarrow> w)"

text \<open>\<open>retries\<close> is the number of retries that are left.\<close>

primrec doSubscriptionWithRetries ::
  "('w, 'a, 'r, 'h, 'v, 'm) git_sub_env \<Rightarrow> duration \<Rightarrow> nat \<Rightarrow> SubscriberItem \<Rightarrow> 'w \<Rightarrow> 'w \<times> SubscriberItem \<times> gopanic option" where
  "doSubscriptionWithRetries e retryInterval 0 it w =
     (case doSubscription e it w of
        (w', it', Panic p) \<Rightarrow> (w', it', Some p)
      | (w', it', o') \<Rightarrow> (reportRound e it' o' w', it', None))"
| "doSubscriptionWithRetries e retryInterval (Suc retries) it w =
     (case doSubscription e it w of
        (w', it', Panic p) \<Rightarrow> (w', it', Some p)
      | (w', it', o') \<Rightarrow>
          (if \<not> si_successful it'
           then doSubscriptionWithRetries e retryInterval retries it' (gs_sleep e retryInterval (reportRound e it' o' w'))
           else (reportRound e it' o' w', it', None)))"

text \<open>One turn of the polling goroutine.\<close>

definition pollOnce ::
  "('w, 'a, 'r, 'h, 'v, 'm) git_sub_env \<Rightarrow> duration \<Rightarrow> nat \<Rightarrow> SubscriberItem \<Rightarrow> 'w \<Rightarrow> 'w \<times> SubscriberItem \<times> gopanic option" where
  "pollOnce e retryInterval retries it w =
     (case (case sp_timewindow (sub_spec (si_sub it)) of
              None \<Rightarrow> Inr False
            | Some tw \<Rightarrow> rbind (NextStartPoint (gs_tz e) (fst (gs_clock e w)) (Some tw) (snd (gs_clock e w))) (\<lambda>d. Inr (d > 0))) of
        Inl p \<Rightarrow> (w, it, Some p)
      | Inr blocked \<Rightarrow>
          (if blocked then (w, it, None)
           else if GetPauseLabel (si_sub it) then (w, it, None)
           else doSubscriptionWithRetries e retryInterval retries it w))"

definition Stop :: "SubscriberItem \<Rightarrow> SubscriberItem" where
  "Stop it = (if si_started it then it\<lparr>si_started := False, si_loop := None\<rparr> else it)"

definition Start ::
  "('w, 'a, 'r, 'h, 'v, 'm) git_sub_env \<Rightarrow> bool \<Rightarrow> SubscriberItem \<Rightarrow> 'w \<Rightarrow> 'w \<times> SubscriberItem \<times> gopanic option" where
  "Start e restart it w =
     (if si_started it \<and> \<not> restart then (w, it, None)
      else (let it' = (if si_started it then Stop it else it)\<lparr>si_count := 0, si_started := True\<rparr>;
                (loopPeriod, retryInterval, retries) = GetReconcileInterval (si_reconcileRate it') ''Git''
            in if EqualFold (si_reconcileRate it') ''off'' then doSubscriptionWithRetries e retryInterval retries it' w
               else (w, it'\<lparr>si_loop := Some (loopPeriod, retryInterval, retries)\<rparr>, None)))"

section \<open>The subscriber\<close>

definition newItem :: "AppSubscriberItem \<Rightarrow> SubscriberItem" where
  "newItem i = \<lparr>si_item = i, si_crds = [], si_rbac = [], si_others = [], si_repoRoot = '''', si_commitID = '''', si_reconcileRate = '''',
     si_desiredCommit = '''', si_desiredTag = '''', si_syncTime = '''', si_started = False, si_loop = None, si_count = 0, si_charts = [],
     si_kustomize = [], si_resources = [], si_index = [], si_webhook = False, si_successful = False, si_clusterAdmin = False,
     si_currentNs = False, si_userID = '''', si_userGroup = ''''\<rparr>"

text \<open>The fields that are read from the annotations of the subscription and the channel.\<close>

definition readAnnotations :: "strmap option \<Rightarrow> SubscriberItem \<Rightarrow> SubscriberItem" where
  "readAnnotations chnAnnotations it =
     (let a = sub_annotations (si_sub it)
      in it\<lparr>si_reconcileRate := (if EqualFold (anno a AnnotationResourceReconcileLevel) ''off'' then ''off''
                                 else GetReconcileRate chnAnnotations a),
            si_clusterAdmin := EqualFold (anno a AnnotationClusterAdmin) ''true'',
            si_currentNs := EqualFold (anno a AnnotationCurrentNamespaceScoped) ''true'',
            si_desiredCommit := anno a AnnotationGitTargetCommit, si_desiredTag := anno a AnnotationGitTag,
            si_syncTime := anno a AnnotationManualReconcileTime, si_userID := anno a AnnotationUserIdentity,
            si_userGroup := anno a AnnotationUserGroup\<rparr>)"

definition needsRestart :: "SubscriberItem \<Rightarrow> SubscriberItem \<Rightarrow> bool" where
  "needsRestart old it \<longleftrightarrow>
     (EqualFold (si_reconcileRate old) (si_reconcileRate it) \<and> EqualFold (si_reconcileRate it) ''off'')
     \<or> (si_reconcileRate old \<noteq> '''' \<and> \<not> EqualFold (si_reconcileRate old) (si_reconcileRate it))
     \<or> \<not> EqualFold (si_desiredCommit old) (si_desiredCommit it)
     \<or> \<not> EqualFold (si_desiredTag old) (si_desiredTag it)
     \<or> \<not> EqualFold (si_syncTime old) (si_syncTime it)"

definition webhook_interval :: duration where "webhook_interval = 180 * minute_ns"

definition SubscribeItem ::
  "('w, 'a, 'r, 'h, 'v, 'm) git_sub_env \<Rightarrow> AppSubscriberItem \<Rightarrow> (nsname, SubscriberItem) gmap \<Rightarrow> 'w
    \<Rightarrow> 'w \<times> (nsname, SubscriberItem) gmap \<times> gopanic option" where
  "SubscribeItem e subitem items w =
     (let key = (sub_namespace (ai_subscription subitem), sub_name (ai_subscription subitem));
          old = (case map_of items key of None \<Rightarrow> newItem subitem | Some it \<Rightarrow> it\<lparr>si_item := subitem\<rparr>)
      in case ai_channel subitem of
           None \<Rightarrow> (w, gm_put key old items, Some NilDereference)
         | Some chn \<Rightarrow>
             (let it = readAnnotations (ch_annotations chn) old
              in if EqualFold (anno (ch_annotations chn) AnnotationWebhookEnabled) ''true'' then
                   (let (w', it', p) = doSubscriptionWithRetries e webhook_interval 10 (it\<lparr>si_webhook := True, si_successful := False\<rparr>) w
                    in (w', gm_put key it' items, p))
                 else (let it1 = it\<lparr>si_webhook := False\<rparr>;
                           it2 = (if \<not> EqualFold (si_syncTime old) (si_syncTime it1) then it1\<lparr>si_commitID := ''''\<rparr> else it1);
                           (w', it', p) = Start e (needsRestart old it2) it2 w
                       in (w', gm_put key it' items, p))))"

definition UnsubscribeItem ::
  "('w, 'a, 'r, 'h, 'v, 'm) git_sub_env \<Rightarrow> nsname \<Rightarrow> (nsname, SubscriberItem) gmap \<Rightarrow> 'w
    \<Rightarrow> 'w \<times> (nsname, SubscriberItem) gmap \<times> outcome" where
  "UnsubscribeItem e key items w =
     (case map_of items key of
        None \<Rightarrow> (w, items, Done)
      | Some it \<Rightarrow> (let (w', o') = ss_purge (gs_sync e) (si_sub (Stop it)) w in (w', gm_del key items, o')))"

end
