(* ===== verification/GitSubscriberFacts.thy ===== *)
theory GitSubscriberFacts
  imports GitSubscriber
begin

text \<open>
  What a round of the Git subscriber does: which fields of the item it changes, what it hands to
  the synchronizer, in which namespaces resources end up, and how the polling loop follows the
  reconcile rate of the subscription.
\<close>

section \<open>What a round changes\<close>

text \<open>Collecting resources changes the list of resources only.\<close>

definition grown :: "SubscriberItem \<Rightarrow> SubscriberItem \<Rightarrow> bool" where
  "grown it it' \<longleftrightarrow> (\<exists>rs. it' = it\<lparr>si_resources := rs\<rparr>)"

lemma grown_refl [simp, intro]: "grown it it"
  unfolding grown_def by (rule exI [of _ "si_resources it"]) simp

lemma grown_update [simp, intro]: "grown it (it\<lparr>si_resources := rs\<rparr>)"
  by (auto simp: grown_def)

lemma grown_trans: "grown a b \<Longrightarrow> grown b c \<Longrightarrow> grown a c"
  by (auto simp: grown_def)

lemma grown_fields:
  "grown it it' \<Longrightarrow> si_item it' = si_item it \<and> si_successful it' = si_successful it \<and> si_clusterAdmin it' = si_clusterAdmin it
    \<and> si_commitID it' = si_commitID it \<and> si_loop it' = si_loop it \<and> si_started it' = si_started it
    \<and> si_reconcileRate it' = si_reconcileRate it \<and> si_kustomize it' = si_kustomize it \<and> si_index it' = si_index it
    \<and> si_repoRoot it' = si_repoRoot it"
  by (auto simp: grown_def)

lemma grown_file: "subscribeResourceFile e w it f = Inr it' \<Longrightarrow> grown it it'"
  by (auto simp: subscribeResourceFile_def split: goval.splits option.splits)

lemma grown_document: "subscribeDocument e w it r = Ret it' \<Longrightarrow> grown it it'"
  by (auto simp: subscribeDocument_def split: sum.splits if_splits option.splits dest: grown_file)

lemma grown_documents: "subscribeDocuments e w it rs = (it', o') \<Longrightarrow> grown it it'"
  by (induction rs arbitrary: it) (auto split: goval.splits dest: grown_document intro: grown_trans)

lemma grown_resources: "subscribeResources e w it fs = (it', o') \<Longrightarrow> grown it it'"
  by (induction fs arbitrary: it)
    (auto split: sum.splits prod.splits outcome.splits dest: grown_documents intro: grown_trans)

lemma grown_kustomized: "kustomizedDocuments e w it rs = Inr it' \<Longrightarrow> grown it it'"
  by (induction rs arbitrary: it)
    (auto simp: Let_def rbind_Inr_iff split: sum.splits if_splits dest: grown_file intro: grown_trans)

lemma grown_kustomizations: "subscribeKustomizations e dirs it w = (w', it', o') \<Longrightarrow> grown it it'"
  by (induction dirs arbitrary: it w)
    (auto split: prod.splits outcome.splits sum.splits dest!: grown_kustomized intro: grown_trans)

lemma grown_charts: "subscribeHelmCharts e w it idx = (it', o') \<Longrightarrow> grown it it'"
proof (induction idx arbitrary: it)
  case (Cons p idx)
  then show ?case by (cases p) (auto split: goval.splits dest!: Cons.IH intro: grown_trans [OF grown_update])
qed simp

lemma grown_collect:
  assumes "collect step (Inr (it, msg)) = Inr (it', msg')" "\<not> si_successful it" "\<And>i i' o'. step i = (i', o') \<Longrightarrow> grown i i'"
  shows "grown it it'"
proof -
  obtain i o' where s: "step it = (i, o')" by force
  with assms(3) have g: "grown it i" by blast
  with assms(2) have "i\<lparr>si_successful := False\<rparr> = i" by (auto simp: grown_def)
  with assms(1) s g show ?thesis by (auto simp: collect_def split: outcome.splits)
qed

lemma grown_collectKustomizations:
  assumes "collectKustomizations e it msg w = (w', Inr (it', msg'))" "\<not> si_successful it"
  shows "grown it it'"
proof -
  obtain w1 i o' where s: "subscribeKustomizations e (map snd (si_kustomize it)) it w = (w1, i, o')"
    by (metis prod_cases3)
  then have g: "grown it i" by (rule grown_kustomizations)
  with assms(2) have "i\<lparr>si_successful := False\<rparr> = i" by (auto simp: grown_def)
  with assms(1) s g show ?thesis by (auto simp: collectKustomizations_def Let_def split: outcome.splits prod.splits)
qed

lemma collect_Inr: "collect step r = Inr x \<Longrightarrow> \<exists>it msg. r = Inr (it, msg)"
  by (cases r) (auto simp: collect_def)

lemma grown_collect_resources:
  "collect (\<lambda>i. subscribeResources e w i (sel i)) (Inr (i, m)) = Inr (j, n) \<Longrightarrow> \<not> si_successful i \<Longrightarrow> grown i j \<and> \<not> si_successful j"
  using grown_collect [of "\<lambda>i. subscribeResources e w i (sel i)" i m j n] grown_resources grown_fields by metis

lemma collectResources_steps:
  assumes "collectResources e it w = (w', Inr (it', msg))"
  obtains i1 m1 i2 m2 i3 m3 i4 m4 where
    "collect (\<lambda>i. subscribeResources e w i (si_crds i)) (Inr (it, '''')) = Inr (i1, m1)"
    "collect (\<lambda>i. subscribeResources e w i (si_rbac i)) (Inr (i1, m1)) = Inr (i2, m2)"
    "collect (\<lambda>i. subscribeResources e w i (si_others i)) (Inr (i2, m2)) = Inr (i3, m3)"
    "collectKustomizations e i3 m3 w = (w', Inr (i4, m4))"
    "collect (\<lambda>i. subscribeHelmCharts e w' i (si_index i)) (Inr (i4, m4)) = Inr (it', msg)"
proof -
  let ?r = "\<lambda>sel i. subscribeResources e w i (sel i)"
  let ?c1 = "collect (?r si_crds) (Inr (it, ''''))"
  let ?c2 = "collect (?r si_rbac) ?c1"
  from assms obtain i3 m3 i4 m4 where c3: "collect (?r si_others) ?c2 = Inr (i3, m3)"
    and c4: "collectKustomizations e i3 m3 w = (w', Inr (i4, m4))"
    and c5: "collect (\<lambda>i. subscribeHelmCharts e w' i (si_index i)) (Inr (i4, m4)) = Inr (it', msg)"
    by (auto simp: collectResources_def split: sum.splits prod.splits)
  from c3 obtain i2 m2 where c2: "?c2 = Inr (i2, m2)" by (metis collect_Inr)
  from c2 obtain i1 m1 where c1: "?c1 = Inr (i1, m1)" by (metis collect_Inr)
  from c1 c2 [unfolded c1] c3 [unfolded c2] c4 c5 show thesis by (rule that)
qed

lemma grown_collectResources:
  assumes "collectResources e it w = (w', Inr (it', msg))" "\<not> si_successful it"
  shows "grown it it'"
  using assms(1)
proof (cases rule: collectResources_steps)
  case (1 i1 m1 i2 m2 i3 m3 i4 m4)
  note g1 = grown_collect_resources [OF 1(1) assms(2)]
  note g2 = grown_collect_resources [OF 1(2) conjunct2 [OF g1]]
  note g3 = grown_collect_resources [OF 1(3) conjunct2 [OF g2]]
  from 1(4) conjunct2 [OF g3] have g4: "grown i3 i4" by (rule grown_collectKustomizations)
  then have u4: "\<not> si_successful i4" using g3 grown_fields by blast
  from 1(5) u4 have "grown i4 it'" by (rule grown_collect) (rule grown_charts)
  with g1 g2 g3 g4 show ?thesis by (blast intro: grown_trans)
qed

text \<open>The fields a round leaves alone until it succeeds.\<close>

definition held :: "SubscriberItem \<Rightarrow> SubscriberItem \<Rightarrow> bool" where
  "held it it' \<longleftrightarrow> si_sub it' = si_sub it \<and> ai_channel (si_item it') = ai_channel (si_item it) \<and> si_loop it' = si_loop it
     \<and> si_started it' = si_started it \<and> si_reconcileRate it' = si_reconcileRate it \<and> si_clusterAdmin it' = si_clusterAdmin it"

lemma held_refl [simp]: "held it it"
  by (simp add: held_def)

lemma held_trans: "held a b \<Longrightarrow> held b c \<Longrightarrow> held a c"
  by (simp add: held_def)

lemma grown_held: "grown a b \<Longrightarrow> held a b"
  using grown_fields by (auto simp: held_def)

lemma refreshReferences_sub:
  "refreshItem r i w = (w', Inr i') \<Longrightarrow> ai_subscription i' = ai_subscription i \<and> ai_channel i' = ai_channel i"
  by (auto simp: refreshItem_def split: prod.splits sum.splits)

lemma clone_item: "cloneGitRepo e it w = (w', it', r) \<Longrightarrow> it' = it\<lparr>si_repoRoot := GetLocalGitFolder (gs_tempDir e) (si_sub it)\<rparr>"
  by (auto simp: cloneGitRepo_def Let_def split: goval.splits)

lemma countRound_always: "\<not> si_successful it \<Longrightarrow> \<exists>n. countRound it c = (it\<lparr>si_count := n\<rparr>, True)"
proof -
  have self: "it = it\<lparr>si_count := si_count it\<rparr>" by simp
  assume "\<not> si_successful it"
  then show ?thesis by (auto simp: countRound_def Let_def intro: self)
qed

lemma sort_item:
  assumes "sortClonedGitRepo e it w = (it', o')"
  shows "held it it' \<and> si_successful it' = si_successful it \<and> si_commitID it' = si_commitID it
    \<and> si_resources it' = si_resources it \<and> (\<forall>p. o' \<noteq> Panic p)"
  using assms by (auto simp: sortClonedGitRepo_def held_def Let_def split: if_splits sum.splits)

text \<open>The round from the clone on, which has produced the commit \<open>c\<close> or a failure.\<close>

lemma sorted_round:
  assumes "held it it3" "\<not> si_successful it3" "si_commitID it3 = si_commitID it" "sortClonedGitRepo e it3 w = (it4, so)"
  shows "held it it4 \<and> \<not> si_successful it4 \<and> si_commitID it4 = si_commitID it"
  using assms sort_item [OF assms(4)] held_trans by metis

lemma prepareRound_item:
  assumes run: "prepareRound e it w = (w', r)"
  shows "case r of
      Inl (it', o') \<Rightarrow> held it it' \<and> \<not> si_successful it' \<and> si_commitID it' = si_commitID it \<and> o' \<noteq> Done
    | Inr (c, it', msg) \<Rightarrow> held it it' \<and> \<not> si_successful it' \<and> si_commitID it' = si_commitID it
        \<and> (\<exists>it4 w4. \<not> si_successful it4 \<and> held it it4 \<and> si_resources it4 = [] \<and> collectResources e it4 w4 = (w', Inr (it', msg)))"
proof -
  let ?it0 = "it\<lparr>si_successful := False\<rparr>"
  let ?w0 = "UpdateLastUpdateTime (gs_now e w) (gs_subs e) (sub_namespace (si_sub it), sub_name (si_sub it)) w"
  obtain w1 r1 where r: "refreshItem (gs_refs e) (si_item it) ?w0 = (w1, r1)" by force
  show ?thesis
  proof (cases r1)
    case (Inl p)
    with run r show ?thesis by (auto simp: prepareRound_def held_def)
  next
    case (Inr item)
    let ?it1 = "?it0\<lparr>si_item := item\<rparr>"
    obtain w2 it2 c where c: "cloneGitRepo e ?it1 w1 = (w2, it2, c)" by (metis prod_cases3)
    have h2: "held it it2" "\<not> si_successful it2" "si_commitID it2 = si_commitID it"
      using refreshReferences_sub [of "gs_refs e" "si_item it" ?w0 w1 item] r Inr clone_item [OF c] by (simp_all add: held_def)
    show ?thesis
    proof (cases c)
      case (Ret commitID)
      obtain n where n: "countRound it2 commitID = (it2\<lparr>si_count := n\<rparr>, True)" using countRound_always [OF h2(2)] by blast
      let ?it3 = "it2\<lparr>si_count := n, si_resources := []\<rparr>"
      obtain it4 so where so: "sortClonedGitRepo e ?it3 w2 = (it4, so)" by force
      have h4: "held it it4 \<and> \<not> si_successful it4 \<and> si_commitID it4 = si_commitID it"
        by (rule sorted_round [OF _ _ _ so]) (use h2 in \<open>auto simp: held_def\<close>)
      have eq: "prepareRound e it w = (case so of
          Panic p \<Rightarrow> (w2, Inl (it4, Panic p)) | Err er \<Rightarrow> (w2, Inl (it4\<lparr>si_successful := False\<rparr>, Err er))
        | Done \<Rightarrow> (case collectResources e it4 w2 of (w5, Inl p) \<Rightarrow> (w5, Inl (it4, Panic p))
                  | (w5, Inr (it5, msg)) \<Rightarrow> (w5, Inr (commitID, it5, msg))))"
        using r Inr c Ret n so by (simp add: prepareRound_def split: outcome.split)
      have "held it it5 \<and> \<not> si_successful it5 \<and> si_commitID it5 = si_commitID it"
        if "collectResources e it4 w2 = (w5, Inr (it5, msg))" for w5 it5 msg
        using grown_collectResources [OF that] h4 grown_fields [of it4 it5] by (auto simp: held_def)
      with run eq h4 sort_item [OF so] show ?thesis
        by (auto simp: held_def split: outcome.splits prod.splits sum.splits)
    next
      case (Fail er)
      with run r Inr c h2 show ?thesis by (auto simp: prepareRound_def held_def split: if_splits)
    next
      case (Crash p)
      with run r Inr c h2 show ?thesis by (auto simp: prepareRound_def)
    qed
  qed
qed


section \<open>No resources, no purge\<close>

text \<open>Up to the hand-over, a round asks the synchronizer about scopes and the overall status only.\<close>

lemma sync_fields:
  "gs_sync (e\<lparr>gs_sync := ss\<rparr>) = ss"
  "gs_subs (e\<lparr>gs_sync := ss\<rparr>) = gs_subs e"
  "gs_refs (e\<lparr>gs_sync := ss\<rparr>) = gs_refs e"
  "gs_now (e\<lparr>gs_sync := ss\<rparr>) = gs_now e"
  "gs_sleep (e\<lparr>gs_sync := ss\<rparr>) = gs_sleep e"
  "gs_localConfigMap (e\<lparr>gs_sync := ss\<rparr>) = gs_localConfigMap e"
  "gs_emptyConfigMap (e\<lparr>gs_sync := ss\<rparr>) = gs_emptyConfigMap e"
  "gs_tempDir (e\<lparr>gs_sync := ss\<rparr>) = gs_tempDir e"
  "gs_conn (e\<lparr>gs_sync := ss\<rparr>) = gs_conn e"
  "gs_git (e\<lparr>gs_sync := ss\<rparr>) = gs_git e"
  "gs_cloned (e\<lparr>gs_sync := ss\<rparr>) = gs_cloned e"
  "gs_yamlStr (e\<lparr>gs_sync := ss\<rparr>) = gs_yamlStr e"
  "gs_trim (e\<lparr>gs_sync := ss\<rparr>) = gs_trim e"
  "gs_repo (e\<lparr>gs_sync := ss\<rparr>) = gs_repo e"
  "gs_walk (e\<lparr>gs_sync := ss\<rparr>) = gs_walk e"
  "gs_ignored (e\<lparr>gs_sync := ss\<rparr>) = gs_ignored e"
  "gs_typed (e\<lparr>gs_sync := ss\<rparr>) = gs_typed e"
  "gs_object (e\<lparr>gs_sync := ss\<rparr>) = gs_object e"
  "gs_yaml (e\<lparr>gs_sync := ss\<rparr>) = gs_yaml e"
  "gs_setNested (e\<lparr>gs_sync := ss\<rparr>) = gs_setNested e"
  "gs_sel (e\<lparr>gs_sync := ss\<rparr>) = gs_sel e"
  "gs_kust (e\<lparr>gs_sync := ss\<rparr>) = gs_kust e"
  "gs_helm (e\<lparr>gs_sync := ss\<rparr>) = gs_helm e"
  "gs_release (e\<lparr>gs_sync := ss\<rparr>) = gs_release e"
  by simp_all

locale sync_variant =
  fixes e :: "('w, 'a, 'r, 'h, 'v, 'm) git_sub_env" and ss :: "'w SyncSource"
  assumes same_namespaced: "ss_namespaced ss = ss_namespaced (gs_sync e)"
    and same_overall: "ss_overall ss = ss_overall (gs_sync e)"
begin

lemma resource_variant: "subscribeResource (e\<lparr>gs_sync := ss\<rparr>) it w f = subscribeResource e it w f"
  unfolding subscribeResource_def sync_fields same_namespaced ..

lemma file_variant: "subscribeResourceFile (e\<lparr>gs_sync := ss\<rparr>) w it f = subscribeResourceFile e w it f"
  unfolding subscribeResourceFile_def resource_variant ..

lemma document_variant: "subscribeDocument (e\<lparr>gs_sync := ss\<rparr>) w it r = subscribeDocument e w it r"
  unfolding subscribeDocument_def sync_fields file_variant ..

lemma documents_variant: "subscribeDocuments (e\<lparr>gs_sync := ss\<rparr>) w it rs = subscribeDocuments e w it rs"
  by (induction rs arbitrary: it) (simp_all add: document_variant split: goval.split)

lemma resources_variant: "subscribeResources (e\<lparr>gs_sync := ss\<rparr>) w it fs = subscribeResources e w it fs"
  by (induction fs arbitrary: it) (simp_all add: documents_variant split: sum.split prod.split outcome.split)

lemma kustomized_variant: "kustomizedDocuments (e\<lparr>gs_sync := ss\<rparr>) w it rs = kustomizedDocuments e w it rs"
proof (induction rs arbitrary: it)
  case (Cons r rs)
  show ?case unfolding kustomizedDocuments.simps sync_fields file_variant Cons.IH ..
qed simp

lemma kustomizations_variant: "subscribeKustomizations (e\<lparr>gs_sync := ss\<rparr>) dirs it w = subscribeKustomizations e dirs it w"
  by (induction dirs arbitrary: it w) (simp_all add: kustomized_variant split: prod.split outcome.split sum.split)

lemma charts_variant: "subscribeHelmCharts (e\<lparr>gs_sync := ss\<rparr>) w it idx = subscribeHelmCharts e w it idx"
  by (induction idx arbitrary: it) (auto split: goval.split)

lemma collect_variant: "collectResources (e\<lparr>gs_sync := ss\<rparr>) it w = collectResources e it w"
  unfolding collectResources_def collectKustomizations_def sync_fields resources_variant kustomizations_variant charts_variant
    same_overall ..

lemma clone_variant: "cloneGitRepo (e\<lparr>gs_sync := ss\<rparr>) it w = cloneGitRepo e it w"
  unfolding cloneGitRepo_def cloneOptions_def connectionOf_def sync_fields ..

lemma sort_variant: "sortClonedGitRepo (e\<lparr>gs_sync := ss\<rparr>) it w = sortClonedGitRepo e it w"
  unfolding sortClonedGitRepo_def filterConfigMap_def sync_fields ..

text \<open>Two synchronizers that agree on every list of resources that is not empty give the same round.\<close>

lemma prepare_variant: "prepareRound (e\<lparr>gs_sync := ss\<rparr>) it w = prepareRound e it w"
  unfolding prepareRound_def sync_fields clone_variant sort_variant collect_variant ..

lemma round_variant:
  assumes agree: "\<And>s rs al dl ad st w. rs \<noteq> [] \<Longrightarrow> ss_process ss s rs al dl ad st w = ss_process (gs_sync e) s rs al dl ad st w"
  shows "doSubscription (e\<lparr>gs_sync := ss\<rparr>) it w = doSubscription e it w"
proof -
  have deploy: "deployResources (e\<lparr>gs_sync := ss\<rparr>) c i m w' = deployResources e c i m w'" if "\<not> si_successful i" for c i m w'
    using that agree by (simp add: deployResources_def)
  obtain w1 r where p: "prepareRound e it w = (w1, r)" by force
  from prepareRound_item [OF p] show ?thesis
    by (auto simp: doSubscription_def prepare_variant p deploy split: sum.splits)
qed

end

interpretation handover: sync_variant e "(gs_sync e)\<lparr>ss_process := process\<rparr>" for e process
  by unfold_locales simp_all

text \<open>
  C11: a round never hands an empty list of resources to the synchronizer, which would remove
  everything the subscription deployed: whatever the synchronizer did with an empty list
  (\<open>purge\<close>), the round would be the same.
\<close>

theorem no_spurious_purge:
  "doSubscription (e\<lparr>gs_sync := (gs_sync e)\<lparr>ss_process := (\<lambda>s rs al dl ad st w.
       if rs = [] then purge s w else ss_process (gs_sync e) s rs al dl ad st w)\<rparr>\<rparr>) it w = doSubscription e it w"
  by (rule handover.round_variant) simp

section \<open>What is handed over\<close>

definition units :: "(ResourceUnit \<Rightarrow> bool) \<Rightarrow> SubscriberItem \<Rightarrow> bool" where
  "units P it \<longleftrightarrow> list_all P (si_resources it)"

text \<open>\<open>accepts e it0 P\<close>: every resource that is subscribed to for an item like \<open>it0\<close> has the property.\<close>

definition accepts :: "('w, 'a, 'r, 'h, 'v, 'm) git_sub_env \<Rightarrow> SubscriberItem \<Rightarrow> (ResourceUnit \<Rightarrow> bool) \<Rightarrow> bool" where
  "accepts e it0 P \<longleftrightarrow> (\<forall>it w f r g. grown it0 it \<longrightarrow> subscribeResource e it w f = Ret (Some (r, g)) \<longrightarrow> P \<lparr>ru_resource = r, ru_gvk = g\<rparr>)"

lemma units_file:
  "accepts e it0 P \<Longrightarrow> grown it0 it \<Longrightarrow> units P it \<Longrightarrow> subscribeResourceFile e w it f = Inr it' \<Longrightarrow> units P it'"
  by (auto simp: subscribeResourceFile_def accepts_def units_def split: goval.splits option.splits)

lemma units_document:
  "accepts e it0 P \<Longrightarrow> grown it0 it \<Longrightarrow> units P it \<Longrightarrow> subscribeDocument e w it r = Ret it' \<Longrightarrow> units P it'"
  by (auto simp: subscribeDocument_def split: sum.splits if_splits option.splits dest: units_file)

lemma units_documents:
  "accepts e it0 P \<Longrightarrow> grown it0 it \<Longrightarrow> units P it \<Longrightarrow> subscribeDocuments e w it rs = (it', o') \<Longrightarrow> units P it'"
proof (induction rs arbitrary: it)
  case (Cons r rs)
  then show ?case
    by (auto split: goval.splits) (metis grown_document grown_trans units_document)
qed simp

lemma units_resources:
  "accepts e it0 P \<Longrightarrow> grown it0 it \<Longrightarrow> units P it \<Longrightarrow> subscribeResources e w it fs = (it', o') \<Longrightarrow> units P it'"
proof (induction fs arbitrary: it)
  case (Cons f fs)
  then show ?case
    by (auto split: sum.splits prod.splits outcome.splits) (metis grown_documents grown_trans units_documents)+
qed simp

lemma units_kustomized:
  "accepts e it0 P \<Longrightarrow> grown it0 it \<Longrightarrow> units P it \<Longrightarrow> kustomizedDocuments e w it rs = Inr it' \<Longrightarrow> units P it'"
proof (induction rs arbitrary: it)
  case (Cons r rs)
  then show ?case
    by (auto simp: Let_def rbind_Inr_iff split: sum.splits if_splits) (metis grown_file grown_trans units_file)
qed simp

lemma units_kustomizations:
  "accepts e it0 P \<Longrightarrow> grown it0 it \<Longrightarrow> units P it \<Longrightarrow> subscribeKustomizations e dirs it w = (w', it', o') \<Longrightarrow> units P it'"
proof (induction dirs arbitrary: it w)
  case (Cons d dirs)
  then show ?case
    by (auto simp: units_def [of P "_\<lparr>si_resources := []\<rparr>"] split: prod.splits outcome.splits sum.splits)
      (metis grown_kustomized grown_trans units_kustomized)
qed simp

lemma units_charts:
  assumes "\<And>u. ru_gvk u = helmGvk \<Longrightarrow> P u"
  shows "units P it \<Longrightarrow> subscribeHelmCharts e w it idx = (it', o') \<Longrightarrow> units P it'"
proof (induction idx arbitrary: it)
  case (Cons p idx)
  have "units P (it\<lparr>si_resources := si_resources it @ [\<lparr>ru_resource = cr, ru_gvk = helmGvk\<rparr>]\<rparr>)" for cr
    using Cons.prems(1) assms by (simp add: units_def)
  with Cons show ?case by (cases p) (auto split: goval.splits)
qed simp

lemma units_successful [simp]: "units P (it\<lparr>si_successful := b\<rparr>) = units P it"
  by (simp add: units_def)

lemma units_collect:
  assumes "collect step (Inr (it, msg)) = Inr (it', msg')" "units P it" "\<And>i' o'. step it = (i', o') \<Longrightarrow> units P i'"
  shows "units P it'"
  using assms by (auto simp: collect_def split: prod.splits outcome.splits)

lemma units_collectKustomizations:
  assumes "accepts e it0 P" "grown it0 it" "units P it" "collectKustomizations e it msg w = (w', Inr (it', msg'))"
  shows "units P it'"
proof -
  obtain w1 i o' where s: "subscribeKustomizations e (map snd (si_kustomize it)) it w = (w1, i, o')" by (metis prod_cases3)
  from units_kustomizations [OF assms(1-3) s] have "units P i" .
  with assms(4) s show ?thesis by (auto simp: collectKustomizations_def Let_def split: outcome.splits prod.splits)
qed

lemma units_collectResources:
  assumes acc: "accepts e it P" and charts: "\<And>u. ru_gvk u = helmGvk \<Longrightarrow> P u"
    and start: "units P it" "\<not> si_successful it" and run: "collectResources e it w = (w', Inr (it', msg))"
  shows "units P it'"
  using run
proof (cases rule: collectResources_steps)
  case (1 i1 m1 i2 m2 i3 m3 i4 m4)
  have step: "units P j \<and> grown it j \<and> \<not> si_successful j"
    if "collect (\<lambda>i. subscribeResources e w i (sel i)) (Inr (i, m)) = Inr (j, n)" "units P i \<and> grown it i \<and> \<not> si_successful i" for sel i m j n
  proof -
    have "units P j" by (rule units_collect [OF that(1)]) (use that(2) units_resources [OF acc] in blast)+
    with grown_collect_resources [OF that(1)] that(2) show ?thesis using grown_trans by blast
  qed
  have "units P i3 \<and> grown it i3 \<and> \<not> si_successful i3"
    using step [OF 1(3) step [OF 1(2) step [OF 1(1)]]] start by simp
  then have i4: "units P i4" using units_collectKustomizations [OF acc _ _ 1(4)] by blast
  show ?thesis by (rule units_collect [OF 1(5) i4]) (rule units_charts [OF charts i4])
qed

lemma kustomization_fails:
  assumes "dir \<in> set dirs" "\<forall>v. \<exists>er. ke_build (gs_kust e) v dir = Inl er" "subscribeKustomizations e dirs it w = (w', it', o')"
  shows "o' \<noteq> Done \<and> ((\<exists>er. o' = Err er) \<longrightarrow> si_resources it' = [])"
  using assms
proof (induction dirs arbitrary: it w)
  case (Cons d dirs)
  then have "\<And>v x. ke_build (gs_kust e) v dir = Inr x \<Longrightarrow> False" by (metis Inr_not_Inl)
  with Cons show ?case by (cases "d = dir") (auto split: prod.splits outcome.splits sum.splits)
qed simp

lemma collectKustomizations_fails:
  assumes "dir \<in> set (map snd (si_kustomize it))" "\<forall>v. \<exists>er. ke_build (gs_kust e) v dir = Inl er"
    "collectKustomizations e it msg w = (w', Inr (it', msg'))"
  shows "si_resources it' = []"
proof -
  obtain v i o' where s: "subscribeKustomizations e (map snd (si_kustomize it)) it w = (v, i, o')" by (metis prod_cases3)
  from kustomization_fails [OF assms(1,2) s] assms(3) s show ?thesis
    by (cases o') (auto simp: collectKustomizations_def Let_def split: prod.splits outcome.splits)
qed

text \<open>
  C37: when a kustomization of the repository cannot be built, the resources that were collected
  before are dropped, but the charts that follow are still collected: only releases of charts are
  left to be handed over, and the synchronizer then removes everything else that the subscription
  deployed before.
\<close>

theorem failed_kustomization_leaves_charts:
  assumes dir: "(k, dir) \<in> set (si_kustomize it)" "\<forall>v. \<exists>er. ke_build (gs_kust e) v dir = Inl er"
    and start: "\<not> si_successful it" and run: "collectResources e it w = (w', Inr (it', msg))"
  shows "\<forall>u \<in> set (si_resources it'). ru_gvk u = helmGvk"
  using run
proof (cases rule: collectResources_steps)
  case (1 i1 m1 i2 m2 i3 m3 i4 m4)
  note g1 = grown_collect_resources [OF 1(1) start]
  note g2 = grown_collect_resources [OF 1(2) conjunct2 [OF g1]]
  note g3 = grown_collect_resources [OF 1(3) conjunct2 [OF g2]]
  from g1 g2 g3 have "si_kustomize i3 = si_kustomize it" using grown_fields by metis
  with dir(1) have "dir \<in> set (map snd (si_kustomize i3))" by force
  then have "si_resources i4 = []" by (rule collectKustomizations_fails [OF _ dir(2) 1(4)])
  then have only: "units (\<lambda>u. ru_gvk u = helmGvk) i4" by (simp add: units_def)
  have "units (\<lambda>u. ru_gvk u = helmGvk) it'"
    by (rule units_collect [OF 1(5) only]) (rule units_charts [OF _ only])
  then show ?thesis by (simp add: units_def list_all_iff)
qed

section \<open>Namespaces\<close>

lemma gvk_place: "gvk (placeResource it b r) = gvk r"
  by (simp add: placeResource_def gvk_def Let_def)

lemma gvk_annotate: "gvk (annotateResource s r) = gvk r" "u_namespace (annotateResource s r) = u_namespace r"
  by (simp_all add: annotateResource_def gvk_def Let_def split: option.split)

lemma gvk_partOf: "gvk (SetPartOfLabel s r) = gvk r" "u_namespace (SetPartOfLabel s r) = u_namespace r"
  by (simp_all add: SetPartOfLabel_def gvk_def split: option.split)

lemma place_home: "\<not> si_clusterAdmin it \<Longrightarrow> b \<Longrightarrow> u_namespace (placeResource it b r) = sub_namespace (si_sub it)"
  by (simp add: placeResource_def Let_def)

context sync_source
begin

lemma subscribed_home:
  assumes "gs_sync e = ss" "subscribeResource e it w f = Ret (Some (r, g))" "\<not> si_clusterAdmin it"
    "sp_packageOverrides (sub_spec (si_sub it)) = None" "ss_namespaced ss w r"
  shows "u_namespace r = sub_namespace (si_sub it)"
proof -
  from assms(2,4) obtain r0 where r: "r = SetPartOfLabel (si_sub it) (annotateResource (si_sub it)
      (placeResource it (ss_namespaced (gs_sync e) w r0) r0))"
    by (auto simp: subscribeResource_def gbind_Ret_iff Let_def split: if_splits)
  then have "gvk r = gvk r0" by (simp only: gvk_partOf gvk_annotate gvk_place)
  with assms(1,5) namespaced_kind have "ss_namespaced (gs_sync e) w r0" by metis
  then show ?thesis unfolding r gvk_partOf gvk_annotate by (rule place_home [OF assms(3)])
qed

end


section \<open>The polling loop\<close>

lemma deploy_held: "deployResources e c it msg w = (w', it', o') \<Longrightarrow> held it it'"
  by (auto simp: deployResources_def held_def split: if_splits prod.splits outcome.splits)

lemma doSubscription_held:
  assumes "doSubscription e it w = (w', it', o')"
  shows "held it it'"
proof -
  obtain w1 r where p: "prepareRound e it w = (w1, r)" by force
  from prepareRound_item [OF p] assms p show ?thesis
    by (auto simp: doSubscription_def split: sum.splits dest!: deploy_held intro: held_trans)
qed

lemma retries_held: "doSubscriptionWithRetries e ri n it w = (w', it', p) \<Longrightarrow> held it it'"
proof (induction n arbitrary: it w)
  case 0
  then show ?case by (auto split: prod.splits outcome.splits dest: doSubscription_held)
next
  case (Suc n)
  then show ?case
    by (auto split: prod.splits outcome.splits if_splits dest: doSubscription_held intro: held_trans)
qed

lemma pollOnce_held: "pollOnce e ri n it w = (w', it', p) \<Longrightarrow> held it it'"
  by (auto simp: pollOnce_def split: sum.splits if_splits option.splits dest: retries_held)

definition rates :: "string set" where "rates = {''off'', ''low'', ''medium'', ''high''}"

lemma rates_fold: "a \<in> rates \<Longrightarrow> b \<in> rates \<Longrightarrow> EqualFold a b \<longleftrightarrow> a = b"
proof -
  have "go_lower ''off'' = ''off''" "go_lower ''low'' = ''low''" "go_lower ''medium'' = ''medium''" "go_lower ''high'' = ''high''" by code_simp+
  then have "go_lower a = a" if "a \<in> rates" for a using that unfolding rates_def by blast
  then show "a \<in> rates \<Longrightarrow> b \<in> rates \<Longrightarrow> EqualFold a b \<longleftrightarrow> a = b" unfolding EqualFold_def by metis
qed

lemma rates_in: "GetReconcileRate c a \<in> rates" "''off'' \<in> rates" "'''' \<notin> rates"
  by (auto simp: GetReconcileRate_def rates_def Let_def)

text \<open>A subscribed item is polled at the interval of its rate, or not at all when the rate is off.\<close>

definition polled :: "SubscriberItem \<Rightarrow> bool" where
  "polled it \<longleftrightarrow> si_started it \<and> si_reconcileRate it \<in> rates
     \<and> si_loop it = (if si_reconcileRate it = ''off'' then None else Some (GetReconcileInterval (si_reconcileRate it) ''Git''))"

lemma held_polled: "held it it' \<Longrightarrow> polled it \<Longrightarrow> polled it'"
  by (simp add: held_def polled_def)

lemma Start_polled:
  assumes run: "Start e restart it w = (w', it', p)" and rate: "si_reconcileRate it \<in> rates"
    and idle: "\<not> si_started it \<Longrightarrow> si_loop it = None" and keep: "si_started it \<Longrightarrow> \<not> restart \<Longrightarrow> polled it"
  shows "polled it'"
proof (cases "si_started it \<and> \<not> restart")
  case True
  with run keep show ?thesis by (auto simp: Start_def)
next
  case False
  let ?it = "(if si_started it then Stop it else it)\<lparr>si_count := 0, si_started := True\<rparr>"
  have l: "si_loop ?it = None" "si_reconcileRate ?it = si_reconcileRate it" using idle by (auto simp: Stop_def)
  show ?thesis
  proof (cases "si_reconcileRate it = ''off''")
    case True
    with l have "polled ?it" by (simp add: polled_def rates_in)
    moreover obtain per ri n where "GetReconcileInterval (si_reconcileRate it) ''Git'' = (per, ri, n)" by (metis prod_cases3)
    then have "doSubscriptionWithRetries e ri n ?it w = (w', it', p)"
      using run False l True by (simp add: Start_def Let_def split: if_splits)
    from retries_held [OF this] have "held ?it it'" .
    ultimately show ?thesis using held_polled by metis
  next
    case ne: False
    with rate have "\<not> EqualFold (si_reconcileRate it) ''off''" using rates_fold rates_in by blast
    with run False l ne rate show ?thesis by (auto simp: Start_def Let_def polled_def split: prod.splits)
  qed
qed

text \<open>
  The life of the subscriber: items are subscribed on channels that are polled, unsubscribed, and
  the goroutine of an item takes a turn. A panic ends the process.
\<close>

definition pollsChannel :: "AppSubscriberItem \<Rightarrow> bool" where
  "pollsChannel i \<longleftrightarrow> (case ai_channel i of None \<Rightarrow> False
     | Some chn \<Rightarrow> \<not> EqualFold (anno (ch_annotations chn) AnnotationWebhookEnabled) ''true'')"

inductive git_step ::
  "('w, 'a, 'r, 'h, 'v, 'm) git_sub_env \<Rightarrow> 'w \<times> (nsname, SubscriberItem) gmap \<Rightarrow> 'w \<times> (nsname, SubscriberItem) gmap \<Rightarrow> bool"
  for e where
  subscribe: "\<lbrakk>pollsChannel i; SubscribeItem e i items w = (w', items', None)\<rbrakk> \<Longrightarrow> git_step e (w, items) (w', items')"
| unsubscribe: "UnsubscribeItem e key items w = (w', items', o') \<Longrightarrow> git_step e (w, items) (w', items')"
| poll: "\<lbrakk>map_of items key = Some it; si_loop it = Some (per, ri, n); pollOnce e ri n it w = (w', it', None)\<rbrakk>
    \<Longrightarrow> git_step e (w, items) (w', gm_put key it' items)"

inductive git_reach :: "('w, 'a, 'r, 'h, 'v, 'm) git_sub_env \<Rightarrow> 'w \<times> (nsname, SubscriberItem) gmap \<Rightarrow> bool" for e where
  init: "git_reach e (w, [])"
| step: "\<lbrakk>git_reach e s; git_step e s s'\<rbrakk> \<Longrightarrow> git_reach e s'"

definition all_polled :: "(nsname, SubscriberItem) gmap \<Rightarrow> bool" where
  "all_polled items \<longleftrightarrow> wf_gm items \<and> (\<forall>key it. map_of items key = Some it \<longrightarrow> polled it)"

lemma all_polled_put: "all_polled items \<Longrightarrow> polled it \<Longrightarrow> all_polled (gm_put key it items)"
  by (auto simp: all_polled_def gm.look_put gm.wf_put)

lemma all_polled_del: "all_polled items \<Longrightarrow> all_polled (gm_del key items)"
  by (auto simp: all_polled_def gm.look_del gm.wf_del split: if_splits)

lemma readAnnotations_fields:
  "si_loop (readAnnotations a it) = si_loop it" "si_started (readAnnotations a it) = si_started it"
  "si_reconcileRate (readAnnotations a it) \<in> rates"
  by (auto simp: readAnnotations_def Let_def rates_in)

lemma unchanged_rate: "\<not> needsRestart old it \<Longrightarrow> si_reconcileRate old \<in> rates \<Longrightarrow> si_reconcileRate it \<in> rates \<Longrightarrow>
    si_reconcileRate it = si_reconcileRate old \<and> si_reconcileRate it \<noteq> ''off''"
  using rates_fold rates_in by (metis needsRestart_def EqualFold_refl)

lemma SubscribeItem_polled:
  assumes inv: "all_polled items" and chn: "pollsChannel i" and run: "SubscribeItem e i items w = (w', items', None)"
  shows "all_polled items'"
proof -
  let ?key = "(sub_namespace (ai_subscription i), sub_name (ai_subscription i))"
  define old where "old = (case map_of items ?key of None \<Rightarrow> newItem i | Some it \<Rightarrow> it\<lparr>si_item := i\<rparr>)"
  from chn obtain c where c: "ai_channel i = Some c" "\<not> EqualFold (anno (ch_annotations c) AnnotationWebhookEnabled) ''true''"
    by (auto simp: pollsChannel_def split: option.splits)
  define it1 where "it1 = (readAnnotations (ch_annotations c) old)\<lparr>si_webhook := False\<rparr>"
  define it2 where "it2 = (if \<not> EqualFold (si_syncTime old) (si_syncTime it1) then it1\<lparr>si_commitID := ''''\<rparr> else it1)"
  have "SubscribeItem e i items w = (let (w', it', p) = Start e (needsRestart old it2) it2 w in (w', gm_put ?key it' items, p))"
    unfolding SubscribeItem_def Let_def c option.case old_def [symmetric] it1_def [symmetric] it2_def [symmetric]
    using c(2) by simp
  with run obtain v it' p where st: "Start e (needsRestart old it2) it2 w = (v, it', p)" and items': "items' = gm_put ?key it' items"
    by (auto split: prod.splits)
  have f: "si_loop it2 = si_loop old" "si_started it2 = si_started old" "si_reconcileRate it2 \<in> rates"
    by (simp_all add: it2_def it1_def readAnnotations_fields)
  have old: "si_started old \<longrightarrow> polled old" "\<not> si_started old \<longrightarrow> si_loop old = None"
    using inv by (auto simp: old_def all_polled_def newItem_def polled_def rates_in split: option.splits)
  have "polled it'"
  proof (rule Start_polled [OF st f(3)])
    show "si_loop it2 = None" if "\<not> si_started it2" using that old f by simp
    show "polled it2" if "si_started it2" "\<not> needsRestart old it2"
      using unchanged_rate [OF that(2) _ f(3)] old(1) that(1) f by (auto simp: polled_def)
  qed
  with inv items' show ?thesis by (simp add: all_polled_put)
qed

lemma git_step_polled: "git_step e s s' \<Longrightarrow> all_polled (snd s) \<Longrightarrow> all_polled (snd s')"
proof (induction rule: git_step.induct)
  case (subscribe i items w w' items')
  then show ?case using SubscribeItem_polled by fastforce
next
  case (unsubscribe key items w w' items' o')
  then show ?case by (auto simp: UnsubscribeItem_def all_polled_del split: option.splits prod.splits)
next
  case (poll items key it per ri n w w' it')
  then have "polled it" by (simp add: all_polled_def del: split_paired_All)
  then have "polled it'" by (rule held_polled [OF pollOnce_held [OF poll.hyps(3)]])
  with poll.prems show ?case by (simp add: all_polled_put)
qed

text \<open>
  In every state that is reached by subscribing, unsubscribing and polling on channels without
  webhook, each subscribed item has a goroutine that runs at the interval of the current reconcile
  rate of the item, with the retries of that rate, and none when the rate is off.
\<close>

theorem polling_follows_rate:
  assumes "git_reach e (w, items)" "map_of items key = Some it"
  shows "si_loop it = (if si_reconcileRate it = ''off'' then None else Some (GetReconcileInterval (si_reconcileRate it) ''Git''))
    \<and> si_started it \<and> si_reconcileRate it \<in> {''off'', ''low'', ''medium'', ''high''}"
proof -
  have "all_polled (snd s)" if "git_reach e s" for s
    using that by (induction rule: git_reach.induct) (auto simp: all_polled_def wf_gm_def dest: git_step_polled)
  from this [OF assms(1)] assms(2) have "polled it" by (simp add: all_polled_def del: split_paired_All)
  then show ?thesis by (simp add: polled_def rates_def)
qed

text \<open>
  On a channel with webhook an item keeps the goroutine it had, at its old interval: the rate is
  updated without a restart, so that the next subscription does not see a change either.
\<close>

lemma webhook_keeps_polling:
  assumes "map_of items (sub_namespace (ai_subscription i), sub_name (ai_subscription i)) = Some it" "ai_channel i = Some c"
    "EqualFold (anno (ch_annotations c) AnnotationWebhookEnabled) ''true''" "SubscribeItem e i items w = (w', items', p)"
  shows "\<exists>it'. map_of items' (sub_namespace (ai_subscription i), sub_name (ai_subscription i)) = Some it' \<and> si_loop it' = si_loop it
    \<and> si_reconcileRate it' = si_reconcileRate (readAnnotations (ch_annotations c) (it\<lparr>si_item := i\<rparr>))"
proof -
  let ?it = "(readAnnotations (ch_annotations c) (it\<lparr>si_item := i\<rparr>))\<lparr>si_webhook := True, si_successful := False\<rparr>"
  obtain v it' q where r: "doSubscriptionWithRetries e webhook_interval 10 ?it w = (v, it', q)" by (metis prod_cases3)
  from assms r have "items' = gm_put (sub_namespace (ai_subscription i), sub_name (ai_subscription i)) it' items"
    by (simp add: SubscribeItem_def Let_def)
  with retries_held [OF r] show ?thesis by (simp add: gm.look_put held_def readAnnotations_fields)
qed

end
