(* ===== verification/KustomizeFacts.thy ===== *)
theory KustomizeFacts
  imports Kustomize
begin

text \<open>
  Which files of a bucket belong to a kustomization, and what an override of a kustomization does
  to the files of the repository.
\<close>

section \<open>Files of a bucket\<close>

lemma dom_categorized:
  "dom (map_of (fold (\<lambda>key d. if isKustomization key then gm_put (kustomizationDir key) True d else d) keys m))
    = dom (map_of m) \<union> kustomizationDir ` {key \<in> set keys. isKustomization key}"
  by (induction keys arbitrary: m) (auto simp: gm.look_put)

lemma fold_clean_app_empty: "fold (clean_step r) (cs @ ['''']) st = fold (clean_step r) cs st"
  by (simp add: clean_step_def)

lemma Clean_slash:
  assumes "d \<noteq> ''''"
  shows "Clean (d @ ''/'') = Clean d"
proof -
  have "HasPrefix (d @ ''/'') ''/'' = HasPrefix d ''/''" using assms by (cases d) (auto simp: HasPrefix_def)
  moreover have "go_split (CHR ''/'') (d @ ''/'') = go_split (CHR ''/'') d @ ['''']"
    using go_split_append_sep [of "CHR ''/''" d "''''"] by simp
  ultimately have "clean_comps (d @ ''/'') = clean_comps d"
    unfolding clean_comps_def by (simp only: fold_clean_app_empty)
  with \<open>HasPrefix (d @ ''/'') ''/'' = HasPrefix d ''/''\<close> assms show ?thesis by (simp add: Clean_def)
qed

lemma path_dir_file:
  assumes "d \<noteq> ''''" "CHR ''/'' \<notin> set f"
  shows "path_dir (d @ ''/'' @ f) = Clean d"
proof -
  have "dropWhile (\<lambda>c. c \<noteq> CHR ''/'') (rev f @ CHR ''/'' # rev d) = CHR ''/'' # rev d"
    using assms(2) by (subst dropWhile_append2) auto
  then show ?thesis using Clean_slash [OF assms(1)] by (simp add: path_dir_def)
qed

lemma isKustomization_below: "isKustomization (d @ ''/kustomization.yaml'')" "isKustomization (d @ ''/kustomization.yml'')"
  unfolding isKustomization_def using HasSuffix_append by blast+

lemma dir_contains:
  assumes "Clean d = d" "d \<noteq> ''.''" "CHR ''/'' \<notin> set f"
  shows "kustomizationDir (d @ CHR ''/'' # f) = d" "inKustomizeDir d (d @ CHR ''/'' # f)"
proof -
  have "d \<noteq> ''''" using assms(1) by (auto simp: Clean_def)
  then show "kustomizationDir (d @ CHR ''/'' # f) = d" using assms path_dir_file [of d f] by (simp add: kustomizationDir_def)
  have "HasPrefix (d @ CHR ''/'' # f) (d @ ''/'')" by (simp add: HasPrefix_def)
  then show "inKustomizeDir d (d @ CHR ''/'' # f)" using \<open>d \<noteq> ''''\<close> by (simp add: inKustomizeDir_def)
qed

lemma not_regular:
  assumes "\<forall>key \<in> set keys. isKustomization key \<longrightarrow> kustomizationDir key \<in> D"
    "Clean d = d" "d \<noteq> ''.''" "CHR ''/'' \<notin> set f" "isKustomization (d @ CHR ''/'' # f)"
  shows "d @ CHR ''/'' # f \<notin> set (filter (\<lambda>key. \<forall>d \<in> D. \<not> inKustomizeDir d key) keys)"
  using assms(1,5) dir_contains [OF assms(2-4)] by (simp, metis)

text \<open>
  The directories found are those of the kustomization files among the keys, and the regular
  files are the keys outside all of them, in order; a kustomization file below a directory whose
  path is clean is never a regular file.
\<close>

theorem kustomization_files:
  assumes cat: "CategorizeObjectsForKustomization keys = (dirs, regular)"
  shows "dom (map_of dirs) = kustomizationDir ` {key \<in> set keys. isKustomization key}
    \<and> regular = filter (\<lambda>key. \<forall>d \<in> dom (map_of dirs). \<not> inKustomizeDir d key) keys
    \<and> (\<forall>d. Clean d = d \<and> d \<noteq> ''.'' \<longrightarrow> d @ ''/kustomization.yaml'' \<notin> set regular \<and> d @ ''/kustomization.yml'' \<notin> set regular)"
proof (intro conjI)
  have d: "dirs = fold (\<lambda>key d. if isKustomization key then gm_put (kustomizationDir key) True d else d) keys []"
    and r: "regular = filter (\<lambda>key. \<not> list_ex (\<lambda>(d, b). inKustomizeDir d key) dirs) keys"
    using cat by (auto simp: CategorizeObjectsForKustomization_def Let_def)
  show dom: "dom (map_of dirs) = kustomizationDir ` {key \<in> set keys. isKustomization key}"
    unfolding d by (simp add: dom_categorized)
  have "list_ex (\<lambda>(d, b). inKustomizeDir d key) dirs \<longleftrightarrow> (\<exists>d \<in> dom (map_of dirs). inKustomizeDir d key)" for key
    unfolding dom_map_of_conv_image_fst list_ex_iff case_prod_beta by blast
  then show reg: "regular = filter (\<lambda>key. \<forall>d \<in> dom (map_of dirs). \<not> inKustomizeDir d key) keys"
    unfolding r by (intro filter_cong) simp_all
  have D: "\<forall>key \<in> set keys. isKustomization key \<longrightarrow> kustomizationDir key \<in> dom (map_of dirs)" unfolding dom by blast
  have f: "CHR ''/'' \<notin> set ''kustomization.yaml''" "CHR ''/'' \<notin> set ''kustomization.yml''" by code_simp+
  show "\<forall>d. Clean d = d \<and> d \<noteq> ''.'' \<longrightarrow> d @ ''/kustomization.yaml'' \<notin> set regular \<and> d @ ''/kustomization.yml'' \<notin> set regular"
    unfolding reg using not_regular [OF D _ _ f(1)] not_regular [OF D _ _ f(2)] isKustomization_below by blast
qed

definition bucket_ex :: "string list" where
  "bucket_ex = [''app/kustomization.yaml'', ''app/deploy.yaml'', ''apps/svc.yaml'', ''readme.yaml'']"

theorem kustomization_files_witness:
  "CategorizeObjectsForKustomization bucket_ex = ([(''app'', True)], [''apps/svc.yaml'', ''readme.yaml''])
   \<and> ''app'' @ ''/kustomization.yaml'' \<notin> set [''apps/svc.yaml'', ''readme.yaml'']"
proof -
  have 1: "CategorizeObjectsForKustomization bucket_ex = ([(''app'', True)], [''apps/svc.yaml'', ''readme.yaml''])" by code_simp
  have 2: "Clean ''app'' = ''app''" "''app'' \<noteq> ''.''" by code_simp+
  from kustomization_files [OF 1] have "\<forall>d. Clean d = d \<and> d \<noteq> ''.'' \<longrightarrow> d @ ''/kustomization.yaml'' \<notin> set [''apps/svc.yaml'', ''readme.yaml'']"
    by blast
  with 1 2 show ?thesis by blast
qed

text \<open>
  The keys of a bucket are not confined: a key below a kustomization can name a file outside the
  temporary directory it is downloaded to.
\<close>

lemma download_escapes:
  "relativeKey ''app'' ''app/../../../etc/cron.d/job'' = Some ''../../../etc/cron.d/job''
   \<and> path_join (path_join ''/tmp/objectbucket-kustomize-1'' ''app'') ''../../../etc/cron.d/job'' = ''/etc/cron.d/job''
   \<and> \<not> IsPathWithinRoot ''/tmp/objectbucket-kustomize-1'' ''/etc/cron.d/job''"
  by code_simp

section \<open>Overriding a kustomization\<close>

text \<open>What is relied on: a write changes its file only, and a map reads back as it was written.\<close>

definition kust_api :: "'w kust_env \<Rightarrow> bool" where
  "kust_api e \<longleftrightarrow> (\<forall>w p c q. q \<noteq> p \<longrightarrow> ke_read e (fst (ke_write e w p c)) q = ke_read e w q)
     \<and> (\<forall>w p c. snd (ke_write e w p c) = None \<longrightarrow> ke_read e (fst (ke_write e w p c)) p = Inr c)
     \<and> (\<forall>m b. ke_bytes e m = Inr b \<longrightarrow> ke_map e b = Inr m)"

definition kustomizeFiles :: "string \<Rightarrow> string set" where
  "kustomizeFiles dir = {path_join dir ''kustomization.yaml'', path_join dir ''kustomization.yml''}"

lemma mergeKustomization_frame:
  "kust_api e \<Longrightarrow> q \<noteq> p \<Longrightarrow> ke_read e (fst (mergeKustomization e p ov w)) q = ke_read e w q"
  by (auto simp: mergeKustomization_def kust_api_def Let_def case_prod_beta split: sum.splits)

lemma OverrideKustomize_frame:
  "kust_api e \<Longrightarrow> q \<notin> kustomizeFiles dir \<Longrightarrow> ke_read e (fst (OverrideKustomize e pov dir w)) q = ke_read e w q"
  by (auto simp: OverrideKustomize_def kustomizeFiles_def mergeKustomization_frame Let_def split: option.splits sum.splits)

lemma VerifyAndOverrideKustomize_frame:
  "kust_api e \<Longrightarrow> q \<notin> kustomizeFiles dir \<Longrightarrow> ke_read e (fst (VerifyAndOverrideKustomize e ovs rel dir w)) q = ke_read e w q"
proof (induction ovs arbitrary: w)
  case (Cons ov ovs)
  then show ?case
    using OverrideKustomize_frame [of e q dir "hd (ov_overrides ov)" w]
    by (auto simp: Let_def case_prod_beta split: prod.splits outcome.splits)
qed simp

lemma mergeKustomization_merges:
  assumes api: "kust_api e" and run: "mergeKustomization e p ov w = (w', Done)" and wf: "wf_gm (unnil ov)"
  shows "\<exists>bs master out merged. ke_read e w p = Inr bs \<and> ke_map e bs = Inr master
    \<and> ke_read e w' p = Inr out \<and> ke_map e out = Inr merged
    \<and> map_of (unnil merged) = map_of (unnil master) ++ map_of (unnil ov)"
proof -
  from run obtain bs master where r: "ke_read e w p = Inr bs" "ke_map e bs = Inr master"
    by (auto simp: mergeKustomization_def split: sum.splits)
  define merged where "merged = (if unnil ov = [] then master else Some (fold (\<lambda>(k, v). gm_put k v) (unnil ov) (unnil master)))"
  from run r obtain out where out: "ke_bytes e merged = Inr out" "ke_write e w p out = (w', None)"
    by (auto simp: mergeKustomization_def merged_def Let_def case_prod_beta split: sum.splits if_splits option.splits
        elim: returned.elims) (metis outcome.distinct(1) prod.collapse returned.elims)+
  have "map_of (fold (\<lambda>(k, v). gm_put k v) xs m) = map_of m ++ map_of xs" if "wf_gm xs" for xs :: "(string, json) gmap" and m
    using that
    by (induction xs arbitrary: m) (auto simp: wf_gm_def gm.look_put fun_eq_iff map_add_def map_of_eq_None_iff image_iff split: option.splits)
  then have "map_of (unnil merged) = map_of (unnil master) ++ map_of (unnil ov)" using wf by (simp add: merged_def)
  moreover have "ke_read e w' p = Inr out" "ke_map e out = Inr merged"
    using api out unfolding kust_api_def by (metis fst_conv snd_conv)+
  ultimately show ?thesis using r by blast
qed

text \<open>
  An override with an object as its value that succeeds has merged the object into one of the
  two kustomization files of the directory, key by key over what the file said before, and has
  left every other file as it was. \<open>kust_api\<close> is what is relied on of the file system and of YAML.
\<close>

theorem OverrideKustomize_merges:
  assumes api: "kust_api e" and ov: "map_of ov ''value'' = Some (JObj m)" "wf_gm m"
    and run: "OverrideKustomize e (Some ov) dir w = (w', Done)"
  shows "\<exists>p \<in> kustomizeFiles dir. (\<forall>q. q \<noteq> p \<longrightarrow> ke_read e w' q = ke_read e w q)
    \<and> (\<exists>bs master out merged. ke_read e w p = Inr bs \<and> ke_map e bs = Inr master
        \<and> ke_read e w' p = Inr out \<and> ke_map e out = Inr merged
        \<and> map_of (unnil merged) = map_of (unnil master) ++ map_of m)"
proof -
  from run ov obtain p where p: "p \<in> kustomizeFiles dir" "mergeKustomization e p (Some m) w = (w', Done)"
    by (auto simp: OverrideKustomize_def overrideValue_def kustomizeFiles_def Let_def split: if_splits)
  from mergeKustomization_merges [OF api p(2)] mergeKustomization_frame [OF api, of _ p "Some m" w] p ov(2)
  show ?thesis by (intro bexI [OF _ p(1)]) simp
qed

text \<open>An example: the files are a map of contents, and YAML is spelled out for three maps.\<close>

type_synonym disk = "(string, string) gmap"

definition encode_ex :: "(string, json) gmap option \<Rightarrow> kerr + string" where
  "encode_ex m = (if m = Some [] then Inr ''{}''
     else if m = Some [(''a'', JBool True)] then Inr ''a: true''
     else if m = Some [(''a'', JBool False)] then Inr ''a: false'' else Inl (OtherError ''''))"

definition decode_ex :: "string \<Rightarrow> kerr + (string, json) gmap option" where
  "decode_ex s = (if s = ''{}'' then Inr (Some []) else if s = ''a: true'' then Inr (Some [(''a'', JBool True)])
     else if s = ''a: false'' then Inr (Some [(''a'', JBool False)]) else Inl (OtherError ''''))"

definition kust_ex :: "disk kust_env" where
  "kust_ex = \<lparr>ke_exists = (\<lambda>w p. map_of w p \<noteq> None), ke_statErr = NotFound,
     ke_read = (\<lambda>w p. case map_of w p of None \<Rightarrow> Inl (NotFound p) | Some c \<Rightarrow> Inr c),
     ke_write = (\<lambda>w p c. (gm_put p c w, None)), ke_mkdir = (\<lambda>w p. (w, None)), ke_tempDir = (\<lambda>w. (w, Inr ''/tmp/k'')),
     ke_removeAll = (\<lambda>w p. w), ke_map = decode_ex, ke_bytes = encode_ex, ke_show = (\<lambda>j. ''''), ke_convErr = OtherError '''',
     ke_build = (\<lambda>w p. Inr ''''), ke_object = (\<lambda>s. Inl (OtherError '''')), ke_config = (\<lambda>s. Inr ([], [])),
     ke_get = (\<lambda>w k. Inl (NotFound k)), ke_list = (\<lambda>w k. Inr [])\<rparr>"

lemma kust_ex_api: "kust_api kust_ex"
proof -
  have "decode_ex b = Inr m" if "encode_ex m = Inr b" for m b
    using that by (auto simp: encode_ex_def decode_ex_def split: if_splits)
  then show ?thesis by (simp add: kust_api_def kust_ex_def gm.look_put)
qed

definition disk_ex :: disk where
  "disk_ex = [(''/r/k/kustomization.yml'', ''a: true''), (''/r/k/x.yaml'', ''x'')]"

definition disk_ex' :: disk where
  "disk_ex' = [(''/r/k/kustomization.yml'', ''a: false''), (''/r/k/x.yaml'', ''x'')]"

theorem OverrideKustomize_merges_witness:
  "OverrideKustomize kust_ex (Some [(''value'', JObj [(''a'', JBool False)])]) ''/r/k/'' disk_ex = (disk_ex', Done)
   \<and> (\<exists>p \<in> kustomizeFiles ''/r/k/''. \<exists>out merged. ke_read kust_ex disk_ex' p = Inr out \<and> ke_map kust_ex out = Inr merged)"
proof -
  have 1: "OverrideKustomize kust_ex (Some [(''value'', JObj [(''a'', JBool False)])]) ''/r/k/'' disk_ex = (disk_ex', Done)"
    by code_simp
  have 2: "map_of [(''value'', JObj [(''a'', JBool False)])] ''value'' = Some (JObj [(''a'', JBool False)])"
    "wf_gm [(''a'', JBool False)]" by code_simp+
  from OverrideKustomize_merges [OF kust_ex_api 2 1] 1 show ?thesis by blast
qed

end
