(* ===== verification/HelmChartsFacts.thy ===== *)
theory HelmChartsFacts
  imports HelmCharts
begin

text \<open>
  What the filter of the chart index keeps, and what the release resource of a chart says.
\<close>

section \<open>What the filter keeps\<close>

text \<open>
  What is relied on of the Helm index: sorting keeps the versions, and a lookup returns a version of
  the chart such that no other version \<open>u\<close> of it is a release newer than it (\<open>newer u v\<close>).
\<close>

definition index_api :: "('v, 'm) helm_env \<Rightarrow> (ChartVersion \<Rightarrow> ChartVersion \<Rightarrow> bool) \<Rightarrow> bool" where
  "index_api e newer \<longleftrightarrow> (\<forall>vs. mset (he_sort e vs) = mset vs)
     \<and> (\<forall>idx k c v. he_get e idx k c = Inr v \<longrightarrow>
          (\<exists>vs. map_of idx k = Some vs \<and> v \<in> set vs \<and> (\<forall>u \<in> set vs. \<not> newer u v)))"

definition accepted :: "('v, 'm) helm_env \<Rightarrow> Subscription \<Rightarrow> string \<Rightarrow> ChartVersion \<Rightarrow> bool" where
  "accepted e s k v \<longleftrightarrow> (sp_package (sub_spec s) = '''' \<or> k = sp_package (sub_spec s))
     \<and> checkKeywords e s v \<and> checkDigest s v \<and> checkVersion e s v"

text \<open>The version that is kept of the versions \<open>vs\<close>.\<close>

definition keeps :: "(ChartVersion \<Rightarrow> ChartVersion \<Rightarrow> bool) \<Rightarrow> ChartVersion list \<Rightarrow> ChartVersion list option \<Rightarrow> bool" where
  "keeps newer vs r \<longleftrightarrow> (\<exists>v. r = Some [v] \<and> v \<in> set vs \<and> (\<forall>u \<in> set vs. u = v \<or> \<not> newer u v))"

lemma latestLoop_keeps:
  assumes api: "index_api e newer" and "latestLoop e idx todo = Inr out" "distinct (map fst todo)"
    "\<forall>(k, vs) \<in> set todo. map_of idx k = Some vs"
  shows "(\<forall>(k, vs) \<in> set todo. keeps newer vs (map_of out k)) \<and> (\<forall>k. k \<notin> fst ` set todo \<longrightarrow> map_of out k = map_of idx k)"
  using assms(2-)
proof (induction todo arbitrary: idx)
  case Nil
  then show ?case by simp
next
  case (Cons t todo)
  obtain k vs where t: "t = (k, vs)" by force
  have notin: "k \<notin> fst ` set todo" using Cons.prems(2) t by (simp add: image_iff)
  show ?case
  proof (cases "length vs = 1")
    case True
    then obtain v where "vs = [v]" by (cases vs) auto
    then have "keeps newer vs (Some vs)" by (simp add: keeps_def)
    with Cons True t notin show ?thesis by fastforce
  next
    case False
    with Cons.prems(1) t obtain v where g: "he_get e idx k ''>=0.0.0'' = Inr v"
      and l: "latestLoop e (gm_put k [v] idx) todo = Inr out"
      by (auto split: sum.splits)
    from api g have "v \<in> set vs" "\<forall>u \<in> set vs. \<not> newer u v"
      using Cons.prems(3) t unfolding index_api_def by fastforce+
    then have "keeps newer vs (Some [v])" by (auto simp: keeps_def)
    moreover have "\<forall>(k', vs') \<in> set todo. map_of (gm_put k [v] idx) k' = Some vs'"
      using Cons.prems(3) notin t by (force simp: gm.look_put)
    with Cons.IH [OF l] Cons.prems(2) t
    have "(\<forall>(k, vs) \<in> set todo. keeps newer vs (map_of out k)) \<and> (\<forall>k'. k' \<notin> fst ` set todo \<longrightarrow> map_of out k' = map_of (gm_put k [v] idx) k')"
      by simp
    ultimately show ?thesis using notin t by (auto simp: gm.look_put)
  qed
qed

lemma map_of_sortEntries: "map_of (sortEntries e idx) k = map_option (he_sort e) (map_of idx k)"
  by (simp add: sortEntries_def map_of_map)

lemma keys_sortEntries: "map fst (sortEntries e idx) = map fst idx"
  by (induction idx) (auto simp: sortEntries_def)

lemma map_of_filter_val:
  "wf_gm m \<Longrightarrow> map_of (filter (\<lambda>(k, v). P v) m) k = (case map_of m k of None \<Rightarrow> None | Some v \<Rightarrow> if P v then Some v else None)"
  by (induction m) (auto simp: wf_gm_def map_of_eq_None_iff image_iff split: option.splits)

lemma map_of_filter_name: "map_of (filter (\<lambda>(k, v). k = p) m) k = (if k = p then map_of m k else None)"
  by (induction m) auto

lemma wf_filter: "wf_gm m \<Longrightarrow> wf_gm (filter P m)"
  by (simp add: wf_gm_def distinct_map_filter)

lemma wf_removeNoMatchingName: "wf_gm idx \<Longrightarrow> wf_gm (removeNoMatchingName s idx)"
  by (simp add: removeNoMatchingName_def wf_filter)

lemma map_of_removeNoMatchingName:
  "map_of (removeNoMatchingName s idx) k =
     (if sp_package (sub_spec s) = '''' \<or> k = sp_package (sub_spec s) then map_of idx k else None)"
  by (simp add: removeNoMatchingName_def map_of_filter_name)

lemma wf_map_val: "wf_gm m \<Longrightarrow> wf_gm (map (\<lambda>(k, v). (k, f v)) m)"
  by (simp add: wf_gm_def comp_def case_prod_beta)

lemma wf_filterOnVersion: "wf_gm idx \<Longrightarrow> wf_gm (filterOnVersion e s idx)"
  by (simp add: filterOnVersion_def wf_filter wf_map_val)

lemma map_of_filterOnVersion:
  "wf_gm idx \<Longrightarrow> map_of (filterOnVersion e s idx) k =
     (case map_of idx k of None \<Rightarrow> None
      | Some vs \<Rightarrow> (let ws = filter (\<lambda>v. checkKeywords e s v \<and> checkDigest s v \<and> checkVersion e s v) vs
                  in if length ws > 0 then Some ws else None))"
  by (simp add: filterOnVersion_def map_of_filter_val wf_map_val map_of_map Let_def split: option.split)

lemma map_of_accepted:
  assumes "wf_gm idx"
  shows "map_of (filterOnVersion e s (removeNoMatchingName s idx)) k =
    (case map_of idx k of None \<Rightarrow> None
     | Some vs \<Rightarrow> (let ws = filter (accepted e s k) vs in if ws = [] then None else Some ws))"
proof (cases "sp_package (sub_spec s) = '''' \<or> k = sp_package (sub_spec s)")
  case True
  then have "accepted e s k = (\<lambda>v. checkKeywords e s v \<and> checkDigest s v \<and> checkVersion e s v)"
    by (intro ext) (simp add: accepted_def)
  with True assms show ?thesis
    by (simp add: map_of_filterOnVersion wf_removeNoMatchingName map_of_removeNoMatchingName Let_def split: option.split)
next
  case False
  then have "accepted e s k = (\<lambda>v. False)" by (intro ext) (simp add: accepted_def)
  with False assms show ?thesis
    by (simp add: map_of_filterOnVersion wf_removeNoMatchingName map_of_removeNoMatchingName split: option.split)
qed

text \<open>
  Of each chart of the index, the filter keeps exactly one version when one is accepted by name,
  keywords, digest and version, and that version is not older than another accepted release; a
  chart without an accepted version is dropped. \<open>index_api\<close> is what is relied on of the Helm
  library.
\<close>

theorem FilterCharts_latest:
  assumes api: "index_api e newer" and wf: "wf_gm idx" and out: "FilterCharts e s idx = Inr out"
  shows "case map_of out k of
      None \<Rightarrow> (\<forall>vs. map_of idx k = Some vs \<longrightarrow> (\<forall>v \<in> set vs. \<not> accepted e s k v))
    | Some ws \<Rightarrow> (\<exists>vs v. map_of idx k = Some vs \<and> ws = [v] \<and> v \<in> set vs \<and> accepted e s k v
        \<and> (\<forall>u \<in> set vs. accepted e s k u \<longrightarrow> u = v \<or> \<not> newer u v))"
proof -
  let ?f = "filterOnVersion e s (removeNoMatchingName s idx)"
  let ?s = "sortEntries e ?f"
  have wfs: "distinct (map fst ?s)"
    using wf_filterOnVersion [OF wf_removeNoMatchingName [OF wf]] by (simp add: keys_sortEntries wf_gm_def)
  have set_sort: "set (he_sort e vs) = set vs" for vs
    using api unfolding index_api_def by (metis set_mset_mset)
  have loop: "latestLoop e ?s ?s = Inr out"
    using out by (simp add: FilterCharts_def takeLatestVersion_def Let_def)
  have "\<forall>(k, vs) \<in> set ?s. map_of ?s k = Some vs" using wfs by auto
  from latestLoop_keeps [OF api loop wfs this]
  have kept: "map_of ?s k = Some vs \<Longrightarrow> keeps newer vs (map_of out k)"
    and rest: "map_of ?s k = None \<Longrightarrow> map_of out k = None" for vs
    by (fastforce dest: map_of_SomeD, metis map_of_eq_None_iff)
  show ?thesis
  proof (cases "map_of ?f k")
    case None
    then have "map_of out k = None" by (intro rest) (simp add: map_of_sortEntries)
    with None show ?thesis
      by (auto simp: map_of_accepted [OF wf] filter_empty_conv Let_def split: option.splits if_splits)
  next
    case (Some ws)
    then obtain vs where vs: "map_of idx k = Some vs" "ws = filter (accepted e s k) vs"
      by (auto simp: map_of_accepted [OF wf] Let_def split: option.splits if_splits)
    from Some kept [of "he_sort e ws"] have "keeps newer (he_sort e ws) (map_of out k)" by (simp add: map_of_sortEntries)
    with vs show ?thesis by (auto simp: keeps_def set_sort)
  qed
qed

text \<open>A Helm library for examples: a longer version string is a newer version.\<close>

definition longer :: "ChartVersion \<Rightarrow> ChartVersion \<Rightarrow> bool" where
  "longer u v \<longleftrightarrow> length (cv_version u) > length (cv_version v)"

fun longest :: "ChartVersion \<Rightarrow> ChartVersion list \<Rightarrow> ChartVersion" where
  "longest v [] = v"
| "longest v (u # us) = longest (if longer u v then u else v) us"

definition helm_ex :: "(string, string) helm_env" where
  "helm_ex = \<lparr>he_parse = (\<lambda>u. Inr (''https'', u)), he_short = (\<lambda>b. b), he_version = Some,
     he_constraint = (\<lambda>c. Some (\<lambda>v. v \<noteq> c)), he_sort = (\<lambda>vs. vs),
     he_get = (\<lambda>idx k c. case map_of idx k of Some (v # vs) \<Rightarrow> Inr (longest v vs) | _ \<Rightarrow> Inl (NotFound ''chart'')),
     he_load = (\<lambda>p. Inr p), he_add = (\<lambda>idx m f b d. gm_put m [] idx), he_sel = (\<lambda>l. Some (\<lambda>m. True)), he_sha = (\<lambda>s. s),
     he_toU = (\<lambda>h. Inr \<lparr>u_apiVersion = hl_apiVersion h, u_kind = hl_kind h, u_name = hl_name h, u_namespace = hl_namespace h,
                         u_resourceVersion = '''', u_uid = '''', u_labels = hl_labels h, u_annotations = hl_annotations h,
                         u_owners = hl_owners h, u_body = []\<rparr>),
     he_setNested = (\<lambda>u p j. None),
     he_intoU = (\<lambda>u h. Inr (h\<lparr>hl_name := u_name u, hl_namespace := u_namespace u, hl_labels := u_labels u,
                              hl_annotations := u_annotations u, hl_owners := u_owners u\<rparr>)),
     he_json = (\<lambda>h. Inl (OtherError ''''))\<rparr>"

lemma longest_in: "longest v us \<in> insert v (set us)"
proof (induction us arbitrary: v)
  case (Cons u us)
  from Cons.IH [of u] Cons.IH [of v] show ?case by (cases "longer u v") (simp_all, blast)
qed simp

lemma longest_max: "u \<in> insert v (set us) \<Longrightarrow> \<not> longer u (longest v us)"
proof (induction us arbitrary: v u)
  case Nil
  then show ?case by (simp add: longer_def)
next
  case (Cons a us)
  show ?case
  proof (cases "u = v \<or> u = a")
    case True
    have "\<not> longer (if longer a v then a else v) (longest (if longer a v then a else v) us)" by (rule Cons.IH) simp
    moreover have "length (cv_version u) \<le> length (cv_version (if longer a v then a else v))"
      using True by (auto simp: longer_def)
    ultimately show ?thesis by (simp add: longer_def)
  next
    case False
    with Cons show ?thesis by simp
  qed
qed

lemma helm_ex_api: "index_api helm_ex longer"
proof -
  have "\<exists>ws. map_of idx k = Some ws \<and> x \<in> set ws \<and> (\<forall>u \<in> set ws. \<not> longer u x)"
    if "he_get helm_ex idx k c = Inr x" for idx k c x
  proof -
    from that obtain v vs where "map_of idx k = Some (v # vs)" "x = longest v vs"
      by (auto simp: helm_ex_def split: option.splits list.splits)
    then show ?thesis using longest_in [of v vs] longest_max [of _ v vs] by auto
  qed
  moreover have "he_sort helm_ex vs = vs" for vs by (simp add: helm_ex_def)
  ultimately show ?thesis unfolding index_api_def by metis
qed

definition chart_ex :: "string \<Rightarrow> ChartVersion" where
  "chart_ex v = \<lparr>cv_version = v, cv_keywords = [], cv_digest = '''', cv_urls = [''https://charts/a'']\<rparr>"

definition helm_sub :: Subscription where
  "helm_sub = \<lparr>sub_name = ''app'', sub_namespace = ''ns'', sub_labels = None, sub_annotations = None, sub_finalizers = None,
     sub_deleted = None, sub_uid = ''0123456'', sub_owners = [],
     sub_spec = \<lparr>sp_channel = '''', sp_secondary = '''', sp_package = ''nginx'',
       sp_packageFilter = Some \<lparr>pf_labelSelector = None, pf_annotations = None, pf_version = ''1.10.0'', pf_filterRef = None\<rparr>,
       sp_packageOverrides = None, sp_overrides = None, sp_timewindow = None, sp_hooksecret = None, sp_allow = [], sp_deny = [],
       sp_watchHelm = False\<rparr>,
     sub_status = \<lparr>st_phase = '''', st_message = '''', st_reason = '''', st_time = 0, st_prehook = '''', st_posthook = '''', st_statuses = None\<rparr>\<rparr>"

definition index_ex :: IndexFile where
  "index_ex = [(''redis'', [chart_ex ''7'']), (''nginx'', [chart_ex ''1.1'', chart_ex ''1.10.0'', chart_ex ''1.2.3''])]"

theorem FilterCharts_latest_witness:
  "FilterCharts helm_ex helm_sub index_ex = Inr [(''nginx'', [chart_ex ''1.2.3''])]
   \<and> accepted helm_ex helm_sub ''nginx'' (chart_ex ''1.2.3'')"
proof -
  have 1: "FilterCharts helm_ex helm_sub index_ex = Inr [(''nginx'', [chart_ex ''1.2.3''])]" by code_simp
  have 2: "wf_gm index_ex" by code_simp
  from FilterCharts_latest [OF helm_ex_api 2 1, of "''nginx''"] 1 show ?thesis by auto
qed

section \<open>The release of a chart\<close>

text \<open>
  What is relied on of the marshalling and of the stored releases: a release that was marshalled
  without a change reads back as it is, and a read returns the release of that name.
\<close>

definition release_api :: "('v, 'm) helm_env \<Rightarrow> (nsname \<Rightarrow> kerr + HelmRelease) \<Rightarrow> bool" where
  "release_api e get \<longleftrightarrow> (\<forall>h u. he_toU e h = Inr u \<longrightarrow> he_intoU e u h = Inr h)
     \<and> (\<forall>ns n h. get (ns, n) = Inr h \<longrightarrow> hl_namespace h = ns \<and> hl_name h = n)"

lemma createSource_no_crash: "cvs \<noteq> [] \<Longrightarrow> createSource e chn cvs s p \<noteq> Crash q"
  by (auto simp: createSource_def Let_def split: list.splits)

lemma secondarySource_no_crash: "cvs \<noteq> [] \<Longrightarrow> secondarySource e sec cvs s p \<noteq> Crash q"
  by (auto simp: secondarySource_def createAltSource_def gbind_Crash_iff createSource_no_crash split: option.splits)

lemma chartVersionsFor_cases:
  assumes "cvs \<noteq> []"
  shows "chartVersionsFor e r chn cvs \<noteq> Crash q"
    and "chartVersionsFor e r chn cvs = Ret ws \<Longrightarrow> ws \<noteq> [] \<and> cv_version (hd ws) = cv_version (hd cvs) \<and> cv_digest (hd ws) = cv_digest (hd cvs)"
  using assms by (auto simp: chartVersionsFor_def gbind_Crash_iff gbind_Ret_iff neq_Nil_conv split: if_splits option.splits)

lemma CreateOrUpdateHelmChart_no_crash: "cvs \<noteq> [] \<Longrightarrow> CreateOrUpdateHelmChart e get p n cvs chn sec s \<noteq> Crash q"
  by (auto simp: CreateOrUpdateHelmChart_def gbind_Crash_iff createSource_no_crash secondarySource_no_crash Let_def split: sum.splits if_splits)

lemma CreateOrUpdateHelmChart_release:
  assumes "release_api e get" "CreateOrUpdateHelmChart e get p n cvs chn sec s = Ret h"
  obtains src alt where "hl_name h = n" "hl_namespace h = sub_namespace s" "hl_spec h = None"
    "hl_repo h = releaseRepo src alt chn p cvs s" "createSource e chn cvs s p = Ret src"
proof (cases "get (sub_namespace s, n)")
  case (Inl er)
  with assms(2) that show ?thesis
    by (auto simp: CreateOrUpdateHelmChart_def gbind_Ret_iff Let_def newRelease_def split: if_splits)
next
  case (Inr h')
  with assms that show ?thesis by (auto simp: CreateOrUpdateHelmChart_def gbind_Ret_iff Let_def release_api_def)
qed

lemma Override_none: "release_api e get \<Longrightarrow> getOverrides (hr_chartName (hl_repo h)) s = None \<Longrightarrow> Override e h s = Inr h' \<Longrightarrow> h' = h"
  by (auto simp: Override_def OverrideTemplate_def release_api_def split: sum.splits)

lemma release_name_short: "length (GetReleaseName sha base) \<le> maxNameLength"
  by (simp add: GetReleaseName_def maxNameLength_def maxGeneratedNameLength_def randomLength_def min_def)

text \<open>
  With a channel and at least one version of the chart, building the release never panics; a
  release that is built without package overrides has the name derived from the package (at
  most 31 bytes), lives in the namespace of the subscription, points to the chart version that was
  chosen and reads its secret and config map in the namespace of the channel only.
\<close>

theorem release_of_chart:
  assumes api: "release_api e get" and vs: "chartVersions \<noteq> []" and none: "getOverrides packageName s = None"
  shows "buildRelease e get url packageName chartVersions (Some chn) secondary s admin \<noteq> Crash q
    \<and> (buildRelease e get url packageName chartVersions (Some chn) secondary s admin = Ret h \<longrightarrow>
        hl_name h = PkgToReleaseCRName (he_sha e) s packageName \<and> length (hl_name h) \<le> 31
        \<and> hl_namespace h = sub_namespace s \<and> hl_spec h \<noteq> None
        \<and> hr_chartName (hl_repo h) = packageName \<and> hr_version (hl_repo h) = cv_version (hd chartVersions)
        \<and> (\<forall>ref. hr_secretRef (hl_repo h) = Some ref \<or> hr_configMapRef (hl_repo h) = Some ref \<longrightarrow> fst ref = ch_namespace chn)
        \<and> (admin \<longrightarrow> anno (hl_annotations h) AnnotationClusterAdmin = ''true''))"
proof
  show "buildRelease e get url packageName chartVersions (Some chn) secondary s admin \<noteq> Crash q"
    by (auto simp: buildRelease_def gbind_Crash_iff Let_def chartVersionsFor_cases [OF vs] CreateOrUpdateHelmChart_no_crash
        dest!: chartVersionsFor_cases(2) [OF vs])
  show "buildRelease e get url packageName chartVersions (Some chn) secondary s admin = Ret h \<longrightarrow>
        hl_name h = PkgToReleaseCRName (he_sha e) s packageName \<and> length (hl_name h) \<le> 31
        \<and> hl_namespace h = sub_namespace s \<and> hl_spec h \<noteq> None
        \<and> hr_chartName (hl_repo h) = packageName \<and> hr_version (hl_repo h) = cv_version (hd chartVersions)
        \<and> (\<forall>ref. hr_secretRef (hl_repo h) = Some ref \<or> hr_configMapRef (hl_repo h) = Some ref \<longrightarrow> fst ref = ch_namespace chn)
        \<and> (admin \<longrightarrow> anno (hl_annotations h) AnnotationClusterAdmin = ''true'')"
  proof
    let ?n = "PkgToReleaseCRName (he_sha e) s packageName"
    assume "buildRelease e get url packageName chartVersions (Some chn) secondary s admin = Ret h"
    then obtain cvs h0 h1 where cvs: "chartVersionsFor e url (Some chn) chartVersions = Ret cvs"
      and h0: "CreateOrUpdateHelmChart e get packageName ?n cvs chn secondary s = Ret h0"
      and h1: "Override e h0 s = Inr h1"
      and h: "h = (let h2 = (if hl_spec h1 = None then h1\<lparr>hl_spec := Some emptySpec\<rparr> else h1);
                       h3 = (case AddPartOfLabel s (hl_labels h2) of None \<Rightarrow> h2 | Some l \<Rightarrow> h2\<lparr>hl_labels := Some l\<rparr>)
                   in if admin then h3\<lparr>hl_annotations := Some (gm_put AnnotationClusterAdmin ''true'' (unnil (hl_annotations h3)))\<rparr> else h3)"
      by (auto simp: buildRelease_def gbind_Ret_iff Let_def)
    from CreateOrUpdateHelmChart_release [OF api h0] obtain src alt where
      r: "hl_name h0 = ?n" "hl_namespace h0 = sub_namespace s" "hl_repo h0 = releaseRepo src alt chn packageName cvs s" by metis
    have "h1 = h0" by (rule Override_none [OF api _ h1]) (simp add: r releaseRepo_def none)
    with r h have "hl_name h = ?n" "hl_namespace h = sub_namespace s" "hl_repo h = releaseRepo src alt chn packageName cvs s"
      "hl_spec h \<noteq> None" "admin \<longrightarrow> anno (hl_annotations h) AnnotationClusterAdmin = ''true''"
      by (simp_all add: Let_def anno_def gm_str_put split: option.split)
    moreover have "length ?n \<le> 31"
      using release_name_short by (simp add: PkgToReleaseCRName_def Let_def maxNameLength_def)
    ultimately show "hl_name h = ?n \<and> length (hl_name h) \<le> 31 \<and> hl_namespace h = sub_namespace s \<and> hl_spec h \<noteq> None
      \<and> hr_chartName (hl_repo h) = packageName \<and> hr_version (hl_repo h) = cv_version (hd chartVersions)
      \<and> (\<forall>ref. hr_secretRef (hl_repo h) = Some ref \<or> hr_configMapRef (hl_repo h) = Some ref \<longrightarrow> fst ref = ch_namespace chn)
      \<and> (admin \<longrightarrow> anno (hl_annotations h) AnnotationClusterAdmin = ''true'')"
      using chartVersionsFor_cases(2) [OF vs cvs]
      by (auto simp: releaseRepo_def inChannel_def neq_Nil_conv)
  qed
qed

definition helm_chn :: Channel where
  "helm_chn = \<lparr>ch_name = ''repo'', ch_namespace = ''chns'', ch_annotations = None, ch_type = ''HelmRepo'', ch_pathname = ''https://charts'',
     ch_secretRef = Some (''other'', ''creds''), ch_configMapRef = None, ch_insecure = False\<rparr>"

definition no_release :: "nsname \<Rightarrow> kerr + HelmRelease" where
  "no_release k = Inl (NotFound '''')"

lemma helm_ex_release: "release_api helm_ex no_release"
  by (auto simp: release_api_def helm_ex_def no_release_def)

definition release_ex :: HelmRelease where
  "release_ex = \<lparr>hl_apiVersion = ''apps.open-cluster-management.io/v1'', hl_kind = ''HelmRelease'', hl_name = ''nginx-01234'',
      hl_namespace = ''ns'', hl_labels = None, hl_annotations = Some [(AnnotationClusterAdmin, ''true'')],
      hl_owners = [\<lparr>or_apiVersion = ''apps.open-cluster-management.io/v1'', or_kind = ''Subscription'', or_name = ''app'', or_uid = ''0123456''\<rparr>],
      hl_repo = \<lparr>hr_source = HelmRepoSource [''https://charts/a''], hr_altSource = None, hr_chartName = ''nginx'', hr_version = ''1.2.3'',
        hr_digest = '''', hr_secretRef = Some (''chns'', ''creds''), hr_configMapRef = None, hr_insecure = False, hr_watch = False\<rparr>,
      hl_spec = Some emptySpec, hl_rest = JNull\<rparr>"

theorem release_of_chart_witness:
  "buildRelease helm_ex no_release '''' ''nginx'' [chart_ex ''1.2.3''] (Some helm_chn) None helm_sub True = Ret release_ex
   \<and> length (hl_name release_ex) \<le> 31 \<and> fst (''chns'', ''creds'') = ch_namespace helm_chn"
proof -
  have 1: "buildRelease helm_ex no_release '''' ''nginx'' [chart_ex ''1.2.3''] (Some helm_chn) None helm_sub True = Ret release_ex"
    by code_simp
  have 2: "getOverrides ''nginx'' helm_sub = None" "[chart_ex ''1.2.3''] \<noteq> []" by code_simp+
  have 3: "hr_secretRef (hl_repo release_ex) = Some (''chns'', ''creds'')" by code_simp
  from release_of_chart [OF helm_ex_release 2(2) 2(1), of "''''" helm_chn None True] 1 3 show ?thesis by blast
qed

end
