(* ===== verification/GitExamples.thy ===== *)
theory GitExamples
  imports GitSubscriberFacts KustomizeFacts HelmChartsFacts MemCluster
begin

text \<open>
  A small Git server, file system and cluster on which rounds of the Git subscriber are evaluated.
\<close>

type_synonym tape = "ResourceUnit list"

text \<open>The tape records what the synchronizer was handed; every kind but namespaces is namespaced.\<close>

definition tape_sync :: "tape SyncSource" where
  "tape_sync = \<lparr>ss_namespaced = (\<lambda>w u. u_kind u \<noteq> ''Namespace''),
     ss_process = (\<lambda>s rs al dl ad st w. (w @ rs, Done)), ss_purge = (\<lambda>s w. (w, Done)), ss_overall = (\<lambda>s b m w. (w, Done))\<rparr>"

definition no_refs :: "'w ref_env" where
  "no_refs = \<lparr>rf_remoteSecret = (\<lambda>w k. Inl (NotFound '''')), rf_remoteConfigMap = (\<lambda>w k. Inl (NotFound '''')),
     rf_localSecret = (\<lambda>w k. Inl (NotFound '''')), rf_localConfigMap = (\<lambda>w k. Inl (NotFound '''')),
     rf_secrets = \<lparr>rc_list = (\<lambda>w n l. Inr []), rc_create = (\<lambda>w u. (w, None)), rc_update = (\<lambda>w u. (w, None)), rc_delete = (\<lambda>w u. (w, None))\<rparr>,
     rf_configMaps = \<lparr>rc_list = (\<lambda>w n l. Inr []), rc_create = (\<lambda>w u. (w, None)), rc_update = (\<lambda>w u. (w, None)), rc_delete = (\<lambda>w u. (w, None))\<rparr>,
     rf_same = (\<lambda>a b. False), rf_conv = (\<lambda>u. Inr [])\<rparr>"

definition obj_ex :: "string \<Rightarrow> Unstructured" where
  "obj_ex kind = \<lparr>u_apiVersion = ''v1'', u_kind = kind, u_name = ''x'', u_namespace = ''elsewhere'', u_resourceVersion = '''', u_uid = '''',
     u_labels = None, u_annotations = None, u_owners = [], u_body = []\<rparr>"

text \<open>A document is the kind of its object. A field path sets the namespace of an object.\<close>

definition git_ex :: "'w SyncSource \<Rightarrow> string \<Rightarrow> string list \<Rightarrow> 'w kust_env \<Rightarrow> ('w, unit, unit, unit, string, string) git_sub_env" where
  "git_ex sync doc files kust = \<lparr>gs_sync = sync, gs_subs = \<lparr>sub_get = (\<lambda>w k. Inl (NotFound '''')), sub_update_status = (\<lambda>w s. (w, None))\<rparr>,
     gs_refs = no_refs, gs_now = (\<lambda>w. 0), gs_clock = (\<lambda>w. (\<lparr>t_abs = 0, t_wall = 0\<rparr>, 0)), gs_tz = (\<lambda>l. None), gs_sleep = (\<lambda>d w. w),
     gs_localConfigMap = (\<lambda>w k. Inl (NotFound '''')), gs_emptyConfigMap = \<lparr>ro_object = obj_ex ''ConfigMap'', ro_data = []\<rparr>,
     gs_tempDir = ''/tmp'',
     gs_conn = (\<lambda>w. \<lparr>ce_mkdir = (\<lambda>d. None), ce_http = (\<lambda>c. Inr ()), ce_knownHosts = (\<lambda>u f. None), ce_ssh = (\<lambda>c f. Inr ())\<rparr>),
     gs_git = (\<lambda>w. \<lparr>ge_clone = (\<lambda>d o'. Inr ()), ge_head = (\<lambda>r. Inr ()), ge_resolve = (\<lambda>r t. Inr t), ge_worktree = (\<lambda>r. None),
                    ge_checkout = (\<lambda>r c. None), ge_commit = (\<lambda>r h. Inr ''c0ffee'')\<rparr>),
     gs_cloned = (\<lambda>w o'. w), gs_yamlStr = Inr, gs_trim = (\<lambda>s. s),
     gs_repo = (\<lambda>w. \<lparr>re_exists = (\<lambda>p. p = ''/tmp/ns/app/k/kustomization.yaml''), re_read = (\<lambda>p. Inr doc), re_yaml = (\<lambda>s. Inr (''v1'', s))\<rparr>),
     gs_walk = (\<lambda>w p. (p, Inr True) # map (\<lambda>f. (f, Inr (f = ''/tmp/ns/app/k''))) files), gs_ignored = (\<lambda>w p f. False),
     gs_typed = (\<lambda>s. Inr \<lparr>kr_apiVersion = ''v1'', kr_kind = s, kr_name = ''x'', kr_labels = None, kr_annotations = None\<rparr>),
     gs_object = (\<lambda>s. Inr (obj_ex s)), gs_yaml = (\<lambda>u. Inr (u_kind u)),
     gs_setNested = (\<lambda>u p j. if p = [''metadata'', ''namespace''] then (case j of JStr n \<Rightarrow> Some (u\<lparr>u_namespace := n\<rparr>) | _ \<Rightarrow> None) else None),
     gs_sel = (\<lambda>l. Some (\<lambda>m. True)), gs_kust = kust, gs_helm = helm_ex\<lparr>he_json := he_toU helm_ex\<rparr>, gs_release = (\<lambda>w k. Inl (NotFound ''''))\<rparr>"

definition kust_fail :: "'w kust_env" where
  "kust_fail = \<lparr>ke_exists = (\<lambda>w p. True), ke_statErr = NotFound, ke_read = (\<lambda>w p. Inr ''''), ke_write = (\<lambda>w p c. (w, None)),
     ke_mkdir = (\<lambda>w p. (w, None)), ke_tempDir = (\<lambda>w. (w, Inr '''')), ke_removeAll = (\<lambda>w p. w), ke_map = (\<lambda>s. Inr None),
     ke_bytes = (\<lambda>m. Inr ''''), ke_show = (\<lambda>j. ''''), ke_convErr = OtherError '''', ke_build = (\<lambda>w d. Inl (OtherError ''broken'')),
     ke_object = (\<lambda>s. Inl (OtherError '''')), ke_config = (\<lambda>s. Inr ([], [])), ke_get = (\<lambda>w k. Inl (NotFound '''')), ke_list = (\<lambda>w k. Inr [])\<rparr>"

definition git_chn :: Channel where
  "git_chn = \<lparr>ch_name = ''repo'', ch_namespace = ''chns'', ch_annotations = None, ch_type = ''Git'', ch_pathname = ''https://git/repo'',
     ch_secretRef = None, ch_configMapRef = None, ch_insecure = False\<rparr>"

definition git_sub :: "Overrides list option \<Rightarrow> Subscription" where
  "git_sub ovs = \<lparr>sub_name = ''app'', sub_namespace = ''ns'', sub_labels = None, sub_annotations = None, sub_finalizers = None,
     sub_deleted = None, sub_uid = ''0123456'', sub_owners = [],
     sub_spec = \<lparr>sp_channel = '''', sp_secondary = '''', sp_package = '''', sp_packageFilter = None,
       sp_packageOverrides = ovs, sp_overrides = None, sp_timewindow = None, sp_hooksecret = None, sp_allow = [], sp_deny = [],
       sp_watchHelm = False\<rparr>,
     sub_status = \<lparr>st_phase = '''', st_message = '''', st_reason = '''', st_time = 0, st_prehook = '''', st_posthook = '''', st_statuses = None\<rparr>\<rparr>"

definition git_item :: "Overrides list option \<Rightarrow> AppSubscriberItem" where
  "git_item ovs = \<lparr>ai_subscription = git_sub ovs, ai_subConfigMap = None, ai_channel = Some git_chn, ai_secret = None, ai_configMap = None,
     ai_secondary = None, ai_secondarySecret = None, ai_secondaryConfigMap = None\<rparr>"

definition handed :: ResourceUnit where
  "handed = \<lparr>ru_resource = (obj_ex ''Service'')\<lparr>u_namespace := ''ns''\<rparr>, ru_gvk = (('''', ''v1''), ''Service'')\<rparr>"

definition after_round :: SubscriberItem where
  "after_round = (newItem (git_item None))\<lparr>si_repoRoot := ''/tmp/ns/app'', si_commitID := ''c0ffee'', si_successful := True\<rparr>"


text \<open>A repository with a service, a kustomization that cannot be built and a chart.\<close>

definition mixed_item :: SubscriberItem where
  "mixed_item = (newItem (git_item None))\<lparr>si_repoRoot := ''/tmp/ns/app'', si_others := [''/tmp/ns/app/svc.yaml''],
     si_kustomize := [(''/tmp/ns/app/k/'', ''/tmp/ns/app/k'')], si_index := [(''nginx'', [chart_ex ''1.2.3''])]\<rparr>"

definition only_chart :: SubscriberItem where
  "only_chart = mixed_item\<lparr>si_resources := [\<lparr>ru_resource = \<lparr>u_apiVersion = ''apps.open-cluster-management.io/v1'',
     u_kind = ''HelmRelease'', u_name = ''nginx-01234'', u_namespace = ''ns'', u_resourceVersion = '''', u_uid = '''', u_labels = None,
     u_annotations = None, u_owners = [\<lparr>or_apiVersion = ''apps.open-cluster-management.io/v1'', or_kind = ''Subscription'', or_name = ''app'', or_uid = ''0123456''\<rparr>], u_body = []\<rparr>, ru_gvk = helmGvk\<rparr>]\<rparr>"

theorem failed_kustomization_leaves_charts_witness:
  "collectResources (git_ex tape_sync ''Service'' [] kust_fail) mixed_item [] =
     ([], Inr (only_chart, ''failed to apply klustomization: broken''))
   \<and> list_all (\<lambda>u. ru_gvk u = helmGvk) (si_resources only_chart)"
proof -
  have 1: "collectResources (git_ex tape_sync ''Service'' [] kust_fail) mixed_item [] =
     ([], Inr (only_chart, ''failed to apply klustomization: broken''))" by code_simp
  have 2: "(''/tmp/ns/app/k/'', ''/tmp/ns/app/k'') \<in> set (si_kustomize mixed_item)" "\<not> si_successful mixed_item"
    by (simp_all add: mixed_item_def newItem_def)
  have 3: "\<forall>v. \<exists>er. ke_build (gs_kust (git_ex tape_sync ''Service'' [] kust_fail)) v ''/tmp/ns/app/k'' = Inl er"
    by (simp add: git_ex_def kust_fail_def)
  from failed_kustomization_leaves_charts [OF 2(1) 3 2(2) 1] 1 show ?thesis by (simp add: list_all_iff)
qed

text \<open>A tenant's config map that names another namespace, on the cluster in memory.\<close>

definition tenant_item :: SubscriberItem where
  "tenant_item = (newItem (git_item None))\<lparr>si_repoRoot := ''/tmp/ns/app'', si_others := [''/tmp/ns/app/cm.yaml''],
     si_resources := [\<lparr>ru_resource = (obj_ex ''ConfigMap'')\<lparr>u_namespace := ''ns''\<rparr>, ru_gvk = (('''', ''v1''), ''ConfigMap'')\<rparr>]\<rparr>"


text \<open>
  A package override of the namespace is applied after the namespace of the subscription was
  forced on the resource, so that a subscription without privileges deploys to another one.
\<close>

definition moving :: "Overrides list" where
  "moving = [\<lparr>ov_alias = '''', ov_name = ''x'',
     ov_overrides = [Some [(''path'', JStr ''metadata.namespace''), (''value'', JStr ''kube-system'')]]\<rparr>]"

lemma override_leaves_namespace:
  "subscribeResource (git_ex tape_sync ''Service'' [] kust_fail) (newItem (git_item (Some moving))) [] ''Service''
     = Ret (Some ((obj_ex ''Service'')\<lparr>u_namespace := ''kube-system''\<rparr>, ('''', ''v1''), ''Service''))"
  "\<not> si_clusterAdmin (newItem (git_item (Some moving)))"
  by code_simp+

text \<open>The first subscription of an item starts its goroutine.\<close>

definition polled_item :: SubscriberItem where
  "polled_item = (newItem (git_item None))\<lparr>si_reconcileRate := ''medium'', si_started := True,
     si_loop := Some (180000000000, 90000000000, 1)\<rparr>"

theorem polling_follows_rate_witness:
  "git_reach (git_ex tape_sync ''Service'' [] kust_fail) ([], [((''ns'', ''app''), polled_item)])
   \<and> si_loop polled_item = Some (GetReconcileInterval ''medium'' ''Git'')"
proof -
  let ?e = "git_ex tape_sync ''Service'' [] kust_fail"
  have 1: "SubscribeItem ?e (git_item None) [] [] = ([], [((''ns'', ''app''), polled_item)], None)" by code_simp
  have 2: "pollsChannel (git_item None)" "si_reconcileRate polled_item = ''medium''" by code_simp+
  from git_reach.step [OF git_reach.init git_step.subscribe [OF 2(1) 1]]
  have 3: "git_reach ?e ([], [((''ns'', ''app''), polled_item)])" .
  with polling_follows_rate [OF 3, of "(''ns'', ''app'')" polled_item] 2(2) show ?thesis by simp
qed

end
