(* ===== verification/Propagation.thy ===== *)
theory Propagation
  imports Subscriber PlacementDecision
begin

text \<open>
  How the hub controller sends a subscription to the clusters
  (\<open>pkg/controller/mcmhub/placement.go\<close>, \<open>propagate_manifestwork.go\<close>, \<open>pkg/utils/policyreport.go\<close>):
  the clusters of its placement, the manifest work for each of them, and the removal of works for
  clusters that are no longer selected. The API of the hub, JSON and the clock are arguments. A map
  of works that is nil reads, deletes and iterates like an empty one, so both are the empty list.
\<close>

section \<open>Data\<close>

definition AnnotationWebhookEventCount :: string where "AnnotationWebhookEventCount = group @ ''/webhook-event-count''"
definition AnnotationBucketPath :: string where "AnnotationBucketPath = group @ ''/bucket-path''"

record ManageClusters =
  mg_cluster :: string
  mg_local :: bool

record PlacementRef =
  pref_kind :: string
  pref_apiVersion :: string
  pref_name :: string
  pref_namespace :: string

text \<open>The list of clusters is told from an empty one by the controller.\<close>

record Placement =
  pl_clusters :: "string list option"
  pl_selector :: "LabelSelector option"
  pl_ref :: "PlacementRef option"
  pl_local :: "bool option"

definition pl_generic :: "Placement \<Rightarrow> GenericPlacementFields" where
  "pl_generic p = \<lparr>gp_clusters = (case pl_clusters p of None \<Rightarrow> [] | Some cls \<Rightarrow> cls), gp_selector = pl_selector p\<rparr>"

text \<open>A subscription of the hub, with its generation; its placement is a field of its specification.\<close>

record HubSub =
  hs_sub :: Subscription
  hs_placement :: "Placement option"
  hs_generation :: int

text \<open>\<open>mw_orphan\<close> is the namespace that the delete option keeps.\<close>

record ManifestWork =
  mw_name :: string
  mw_namespace :: string
  mw_labels :: "strmap option"
  mw_manifests :: "string list"
  mw_orphan :: "string option"
  mw_rest :: json

definition mw_key :: "ManifestWork \<Rightarrow> nsname" where
  "mw_key x = (mw_namespace x, mw_name x)"

definition newWork :: ManifestWork where
  "newWork = \<lparr>mw_name = '''', mw_namespace = '''', mw_labels = None, mw_manifests = [], mw_orphan = None, mw_rest = JNull\<rparr>"

section \<open>The hub\<close>

text \<open>
  \<open>wk_list\<close> lists the works whose hosting label has a value, \<open>wk_page\<close> one page of that list from a
  continuation token (empty at the start) with the token of the next page (empty at the end).
\<close>

record 'w work_client =
  wk_list :: "'w \<Rightarrow> string \<Rightarrow> kerr + ManifestWork list"
  wk_page :: "'w \<Rightarrow> string \<Rightarrow> string \<Rightarrow> kerr + ManifestWork list \<times> string"
  wk_create :: "'w \<Rightarrow> ManifestWork \<Rightarrow> 'w \<times> kerr option"
  wk_update :: "'w \<Rightarrow> ManifestWork \<Rightarrow> 'w \<times> kerr option"
  wk_delete :: "'w \<Rightarrow> ManifestWork \<Rightarrow> 'w \<times> kerr option"

record 'w report_client =
  rpc_get :: "'w \<Rightarrow> nsname \<Rightarrow> kerr + SubscriptionReport"
  rpc_create :: "'w \<Rightarrow> SubscriptionReport \<Rightarrow> 'w \<times> kerr option"
  rpc_update :: "'w \<Rightarrow> SubscriptionReport \<Rightarrow> 'w \<times> kerr option"

record 'w status_client =
  stc_list :: "'w \<Rightarrow> string \<Rightarrow> string \<Rightarrow> kerr + AppSubStatus list"
  stc_delete :: "'w \<Rightarrow> AppSubStatus \<Rightarrow> 'w \<times> kerr option"

text \<open>
  \<open>pe_requirement\<close> and \<open>pe_selector\<close> are the errors of building a label selector from a value,
  \<open>pe_decisions w ns label name\<close> lists placement decisions, \<open>pe_emptyU\<close> is an object without content.
\<close>

record 'w propagation_env =
  pe_hub :: "'w \<Rightarrow> hub_client"
  pe_cluster :: "'w \<Rightarrow> string \<Rightarrow> kerr + ManagedCluster"
  pe_requirement :: "string \<Rightarrow> string \<Rightarrow> kerr option"
  pe_selector :: "string \<Rightarrow> kerr option"
  pe_decisions :: "'w \<Rightarrow> string \<Rightarrow> string \<Rightarrow> string \<Rightarrow> kerr + PDObject list"
  pe_showRef :: "PlacementRef \<Rightarrow> string"
  pe_admin :: "'w \<Rightarrow> admin_reads"
  pe_configMap :: "'w \<Rightarrow> nsname \<Rightarrow> kerr + strmap"
  pe_works :: "'w work_client"
  pe_reports :: "'w report_client"
  pe_statuses :: "'w status_client"
  pe_event :: "Subscription \<Rightarrow> string \<Rightarrow> string \<Rightarrow> kerr option \<Rightarrow> 'w \<Rightarrow> 'w"
  pe_now :: "'w \<Rightarrow> int"
  pe_marshalNs :: "string \<Rightarrow> strmap \<Rightarrow> kerr + string"
  pe_marshalSub :: "HubSub \<Rightarrow> kerr + string"
  pe_marshal :: "Unstructured \<Rightarrow> kerr + string"
  pe_unmarshal :: "string \<Rightarrow> kerr + Unstructured"
  pe_emptyU :: Unstructured
  pe_semEq :: "(string \<times> json) list \<Rightarrow> (string \<times> json) list \<Rightarrow> bool"

section \<open>Clusters of a placement\<close>

definition placementLabel :: string where
  "placementLabel = ''cluster.open-cluster-management.io/placement''"

definition isLocalClusterByLabels :: "strmap option \<Rightarrow> bool" where
  "isLocalClusterByLabels labels = (case labels of None \<Rightarrow> False | Some l \<Rightarrow> if EqualFold (gm_str l ''local-cluster'') ''true'' then True else False)"

definition isLocalClusterNamed :: "'w propagation_env \<Rightarrow> 'w \<Rightarrow> string \<Rightarrow> bool" where
  "isLocalClusterNamed e w clusterName =
     (case pe_cluster e w clusterName of
        Inl er \<Rightarrow> False
      | Inr cl \<Rightarrow> if EqualFold (gm_str (unnil (mc_labels cl)) ''local-cluster'') ''true'' then True else False)"

definition getDecisionsFromPlacementRef ::
  "'w propagation_env \<Rightarrow> 'w \<Rightarrow> PlacementRef \<Rightarrow> string \<Rightarrow> kerr + string list" where
  "getDecisionsFromPlacementRef e w pref ns =
     (let lab = (if EqualFold (pref_kind pref) ''Placement'' then placementLabel else placementRuleLabel)
      in case pe_requirement e lab (pref_name pref) of
           Some er \<Rightarrow> Inl er
         | None \<Rightarrow>
             rbind (pe_decisions e w ns lab (pref_name pref))
               (\<lambda>ds. Inr (concat (map (\<lambda>d. map cd_cluster (pd_decisions d)) ds))))"

definition supportedRef :: "PlacementRef \<Rightarrow> bool" where
  "supportedRef pref \<longleftrightarrow>
     \<not> ((length (pref_kind pref) > 0 \<and> pref_kind pref \<noteq> ''PlacementRule'' \<and> pref_kind pref \<noteq> ''Placement'')
        \<or> (length (pref_apiVersion pref) > 0 \<and> pref_apiVersion pref \<noteq> ''apps.open-cluster-management.io/v1''
            \<and> pref_apiVersion pref \<noteq> ''cluster.open-cluster-management.io/v1alpha1''
            \<and> pref_apiVersion pref \<noteq> ''cluster.open-cluster-management.io/v1beta1''))"

definition getClustersFromPlacementRef ::
  "'w propagation_env \<Rightarrow> 'w \<Rightarrow> Subscription \<Rightarrow> PlacementRef \<Rightarrow> kerr + ManageClusters list" where
  "getClustersFromPlacementRef e w sub pref =
     (if \<not> supportedRef pref then Inl (OtherError (''unsupported placement reference: '' @ pe_showRef e pref))
      else rbind (getDecisionsFromPlacementRef e w pref (sub_namespace sub))
             (\<lambda>names. Inr (map (\<lambda>n. \<lparr>mg_cluster = n, mg_local = isLocalClusterNamed e w n\<rparr>) names)))"

text \<open>The order of the clusters from the generic fields is the iteration order of the map.\<close>

definition getClustersByPlacement :: "'w propagation_env \<Rightarrow> 'w \<Rightarrow> HubSub \<Rightarrow> kerr + ManageClusters list" where
  "getClustersByPlacement e w inst =
     (case hs_placement inst of
        None \<Rightarrow> Inr []
      | Some p \<Rightarrow>
          (case pl_ref p of
             Some pref \<Rightarrow> getClustersFromPlacementRef e w (hs_sub inst) pref
           | None \<Rightarrow>
               rbind (PlaceByGenericPlacmentFields (pe_hub e w) (pl_generic p))
                 (\<lambda>clmap. Inr (map (\<lambda>(k, cl). \<lparr>mg_cluster = mc_name cl, mg_local = isLocalClusterByLabels (mc_labels cl)\<rparr>) clmap))))"

section \<open>The subscription that is sent\<close>

text \<open>The annotation is dropped unless the subscription was itself sent from a hub.\<close>

definition AddClusterAdminAnnotation :: "admin_reads \<Rightarrow> Subscription \<Rightarrow> Subscription \<times> bool" where
  "AddClusterAdminAnnotation r sub =
     (let s1 = (if anno (sub_annotations sub) AnnotationHosting = ''''
                then sub\<lparr>sub_annotations := anno_del AnnotationClusterAdmin (sub_annotations sub)\<rparr> else sub)
      in if fst (IsClusterAdmin r s1)
         then (s1\<lparr>sub_annotations := map_option (gm_put AnnotationClusterAdmin ''true'') (sub_annotations s1)\<rparr>, True)
         else (s1, False))"

text \<open>An annotation that is set is taken over, under its own key or another one.\<close>

definition carryTo :: "string \<Rightarrow> string \<Rightarrow> strmap option \<Rightarrow> strmap \<Rightarrow> strmap" where
  "carryTo target k a m = (if anno a k \<noteq> '''' then gm_put target (anno a k) m else m)"

definition carry :: "string \<Rightarrow> strmap option \<Rightarrow> strmap \<Rightarrow> strmap" where
  "carry k a m = carryTo k k a m"

definition carryEither :: "string \<Rightarrow> string \<Rightarrow> strmap option \<Rightarrow> strmap \<Rightarrow> strmap" where
  "carryEither k k2 a m = (if anno a k \<noteq> '''' then carry k a m else carryTo k k2 a m)"

text \<open>The path and the branch of the config map of the package filter.\<close>

definition fromConfigMap :: "'w propagation_env \<Rightarrow> 'w \<Rightarrow> Subscription \<Rightarrow> strmap \<Rightarrow> strmap" where
  "fromConfigMap e w sub m =
     (case sp_packageFilter (sub_spec sub) of
        None \<Rightarrow> m
      | Some f \<Rightarrow>
          (case pf_filterRef f of
             None \<Rightarrow> m
           | Some n \<Rightarrow>
               (case pe_configMap e w (sub_namespace sub, n) of
                  Inl er \<Rightarrow> m
                | Inr d \<Rightarrow>
                    (let m1 = (if gm_str d ''path'' \<noteq> '''' then gm_put AnnotationGitPath (gm_str d ''path'') m else m)
                     in if gm_str d ''branch'' \<noteq> '''' then gm_put AnnotationGitBranch (gm_str d ''branch'') m1 else m1))))"

text \<open>
  The annotations of the subscription are one map that both calls of \<open>AddClusterAdminAnnotation\<close>
  change; the second call is made only when the annotation is set.
\<close>

definition updateSubAnnotations ::
  "'w propagation_env \<Rightarrow> 'w \<Rightarrow> Subscription \<Rightarrow> nsname \<Rightarrow> Subscription \<times> strmap" where
  "updateSubAnnotations e w sub hosting =
     (let s1 = fst (AddClusterAdminAnnotation (pe_admin e w) sub);
          a = sub_annotations s1;
          m1 = gm_put AnnotationHosting (nsname_string hosting)
                 (gm_put AnnotationUserGroup (anno a AnnotationUserGroup)
                   (gm_put AnnotationUserIdentity (anno a AnnotationUserIdentity) []));
          m2 = carry AnnotationBucketPath a (carryEither AnnotationGitPath AnnotationGithubPath a
                 (carryEither AnnotationGitBranch AnnotationGithubBranch a (carry AnnotationWebhookEventCount a m1)));
          again = (anno a AnnotationClusterAdmin \<noteq> '''');
          (s2, isAdmin) = (if again then AddClusterAdminAnnotation (pe_admin e w) s1 else (s1, False));
          b = sub_annotations s2;
          m3 = (if again \<and> isAdmin then gm_put AnnotationClusterAdmin (anno b AnnotationClusterAdmin) m2 else m2);
          m4 = carry AnnotationManualReconcileTime b (carry AnnotationResourceReconcileLevel b (carry AnnotationGitCloneDepth b
                 (carry AnnotationGitTag b (carry AnnotationGitTargetCommit b (carry AnnotationResourceReconcileOption b
                   (carry AnnotationCurrentNamespaceScoped b m3))))));
          m5 = carry AnnotationClusterAdmin b m4
      in (s2, fromConfigMap e w s2 m5))"

definition emptyStatusOf :: SubscriptionStatus where
  "emptyStatusOf = \<lparr>st_phase = '''', st_message = '''', st_reason = '''', st_time = 0, st_prehook = '''', st_posthook = '''', st_statuses = None\<rparr>"

text \<open>The subscription for the clusters: its specification with a local placement.\<close>

definition subep :: "Subscription \<Rightarrow> strmap \<Rightarrow> HubSub" where
  "subep sub annotations =
     \<lparr>hs_sub = \<lparr>sub_name = sub_name sub, sub_namespace = sub_namespace sub, sub_labels = sub_labels sub, sub_annotations = Some annotations,
        sub_finalizers = None, sub_deleted = None, sub_uid = '''', sub_owners = [], sub_spec = sub_spec sub, sub_status = emptyStatusOf\<rparr>,
      hs_placement = Some \<lparr>pl_clusters = None, pl_selector = None, pl_ref = None, pl_local = Some True\<rparr>,
      hs_generation = 0\<rparr>"

definition prepareManifestWorkAppsub ::
  "'w propagation_env \<Rightarrow> 'w \<Rightarrow> Subscription \<Rightarrow> nsname \<Rightarrow> Subscription \<times> (kerr + string)" where
  "prepareManifestWorkAppsub e w sub hosting =
     (let (sub', annotations) = updateSubAnnotations e w sub hosting in (sub', pe_marshalSub e (subep sub' annotations)))"

definition prepareManifestWorkNS :: "'w propagation_env \<Rightarrow> string \<Rightarrow> nsname \<Rightarrow> kerr + string" where
  "prepareManifestWorkNS e ns hosting = pe_marshalNs e ns [(AnnotationHosting, nsname_string hosting)]"

section \<open>Manifest works\<close>

definition hostingLabel :: "nsname \<Rightarrow> string" where
  "hostingLabel k = take 63 (fst k @ ''.'' @ snd k)"

definition subKey :: "Subscription \<Rightarrow> nsname" where
  "subKey sub = (sub_namespace sub, sub_name sub)"

definition workName :: "nsname \<Rightarrow> string" where
  "workName k = fst k @ ''-'' @ snd k"

definition localManifest :: "'w propagation_env \<Rightarrow> bool \<Rightarrow> string \<Rightarrow> kerr + string" where
  "localManifest e loc manifest =
     (if loc then pe_marshal e (case pe_unmarshal e manifest of
                     Inl er \<Rightarrow> pe_emptyU e | Inr u \<Rightarrow> u\<lparr>u_name := u_name u @ ''-local''\<rparr>)
      else Inr manifest)"

definition setLocalManifestWork ::
  "'w propagation_env \<Rightarrow> string \<Rightarrow> string \<Rightarrow> ManageClusters \<Rightarrow> nsname \<Rightarrow> Subscription \<Rightarrow> ManifestWork \<Rightarrow> kerr + ManifestWork" where
  "setLocalManifestWork e manifestNS manifestAppsub cluster hosting appsub work =
     rbind (localManifest e (mg_local cluster) manifestAppsub)
       (\<lambda>m. Inr (work\<lparr>mw_name := workName (subKey appsub), mw_namespace := mg_cluster cluster,
          mw_labels := Some (gm_put AnnotationHosting (hostingLabel hosting) (unnil (mw_labels work))),
          mw_manifests := [manifestNS, m], mw_orphan := Some (sub_namespace appsub)\<rparr>))"

definition sameWork :: "'w propagation_env \<Rightarrow> ManifestWork \<Rightarrow> ManifestWork \<Rightarrow> bool" where
  "sameWork e old new = CompareManifestWork (pe_semEq e) (\<lambda>m. case pe_unmarshal e m of Inl er \<Rightarrow> None | Inr u \<Rightarrow> Some u)
     (mw_manifests old) (mw_manifests new)"

text \<open>The family and the world; an error loses the family.\<close>

definition createManifestWork ::
  "'w propagation_env \<Rightarrow> string \<Rightarrow> string \<Rightarrow> ManageClusters \<Rightarrow> nsname \<Rightarrow> Subscription \<Rightarrow> (string, ManifestWork) gmap \<Rightarrow> 'w
    \<Rightarrow> 'w \<times> (kerr + (string, ManifestWork) gmap)" where
  "createManifestWork e manifestNS manifestAppsub cluster hosting sub family w =
     (let truekey = mg_cluster cluster @ ''-'' @ sub_namespace sub @ ''-'' @ sub_name sub;
          existing = map_of family truekey;
          original = (case existing of None \<Rightarrow> newWork | Some x \<Rightarrow> x)
      in case setLocalManifestWork e manifestNS manifestAppsub cluster hosting sub original of
           Inl er \<Rightarrow> (w, Inl er)
         | Inr work \<Rightarrow>
             (case (if existing = None then wk_create (pe_works e) w work
                    else if \<not> sameWork e original work then wk_update (pe_works e) w work
                    else (w, None)) of
                (w', Some er) \<Rightarrow> (w', Inl er)
              | (w', None) \<Rightarrow> (w', Inr (gm_del truekey family))))"

section \<open>Reports of failed clusters\<close>

definition hubClusterReport :: "string \<Rightarrow> SubscriptionReport" where
  "hubClusterReport ns = \<lparr>rp_name = ns, rp_namespace = ns, rp_labels = [(group @ ''/cluster'', ''true'')], rp_type = ''Cluster'',
     rp_summary = \<lparr>rs_deployed = '''', rs_inProgress = '''', rs_failed = '''', rs_propagationFailed = '''', rs_clusters = ''''\<rparr>,
     rp_results = [], rp_resources = []\<rparr>"

definition hubGetClusterReport :: "'w report_client \<Rightarrow> string \<Rightarrow> bool \<Rightarrow> 'w \<Rightarrow> 'w \<times> (kerr + SubscriptionReport)" where
  "hubGetClusterReport c ns create w =
     (case rpc_get c w (ns, ns) of
        Inr r \<Rightarrow> (w, Inr r)
      | Inl er \<Rightarrow>
          (if IsNotFound er then
             (if create then (case rpc_create c w (hubClusterReport ns) of
                                (w', Some er') \<Rightarrow> (w', Inl er') | (w', None) \<Rightarrow> (w', Inr (hubClusterReport ns)))
              else (w, Inl er))
           else (w, Inl er)))"

text \<open>The message of the failure is not stored.\<close>

definition CreateFailedAppsubReportResult ::
  "'w propagation_env \<Rightarrow> string \<Rightarrow> nsname \<Rightarrow> string \<Rightarrow> 'w \<Rightarrow> 'w \<times> kerr option" where
  "CreateFailedAppsubReportResult e cluster appsub statusMsg w =
     (case hubGetClusterReport (pe_reports e) cluster True w of
        (w1, Inl er) \<Rightarrow> (w1, Some er)
      | (w1, Inr r) \<Rightarrow>
          (let src = fst appsub @ ''/'' @ snd appsub;
               r' = (if list_ex (\<lambda>x. rr_source x = src) (rp_results r) then r
                     else r\<lparr>rp_results := rp_results r @ [\<lparr>rr_source = src, rr_timestamp = pe_now e w1 div 1000000000,
                                                        rr_result = ''propagationFailed''\<rparr>]\<rparr>)
           in rpc_update (pe_reports e) w1 r'))"

section \<open>Propagation\<close>

text \<open>A cluster that fails is reported; the loop goes on without the family.\<close>

fun propagateClusters ::
  "'w propagation_env \<Rightarrow> string \<Rightarrow> string \<Rightarrow> Subscription \<Rightarrow> ManageClusters list \<Rightarrow> (string, ManifestWork) gmap \<Rightarrow> 'w
    \<Rightarrow> 'w \<times> (string, ManifestWork) gmap" where
  "propagateClusters e mns mapp sub [] family w = (w, family)"
| "propagateClusters e mns mapp sub (cl # cls) family w =
     (case createManifestWork e mns mapp cl (subKey sub) sub family w of
        (w', Inr family') \<Rightarrow> propagateClusters e mns mapp sub cls family' w'
      | (w', Inl er) \<Rightarrow>
          propagateClusters e mns mapp sub cls []
            (fst (CreateFailedAppsubReportResult e (mg_cluster cl) (subKey sub) (err_msg er) w')))"

text \<open>With the subscription, whose annotations are updated on the way.\<close>

definition propagateManifestWorks ::
  "'w propagation_env \<Rightarrow> ManageClusters list \<Rightarrow> Subscription \<Rightarrow> (string, ManifestWork) gmap \<Rightarrow> 'w
    \<Rightarrow> 'w \<times> Subscription \<times> (kerr + (string, ManifestWork) gmap)" where
  "propagateManifestWorks e clusters sub family w =
     (case prepareManifestWorkNS e (sub_namespace sub) (subKey sub) of
        Inl er \<Rightarrow> (w, sub, Inl er)
      | Inr mns \<Rightarrow>
          (case prepareManifestWorkAppsub e w sub (subKey sub) of
             (sub', Inl er) \<Rightarrow> (w, sub', Inl er)
           | (sub', Inr mapp) \<Rightarrow>
               (let (w', family') = propagateClusters e mns mapp sub' clusters family w in (w', sub', Inr family'))))"

definition getManifestWorkFamily :: "'w propagation_env \<Rightarrow> 'w \<Rightarrow> Subscription \<Rightarrow> kerr + ManifestWork list" where
  "getManifestWorkFamily e w sub =
     (case (case wk_list (pe_works e) w (hostingLabel (subKey sub)) of
              Inl er \<Rightarrow> if \<not> IsNotFound er then Inl er else Inr [] | Inr xs \<Rightarrow> Inr xs) of
        Inl er \<Rightarrow> Inl er
      | Inr xs \<Rightarrow> Inr (filter (\<lambda>x. mw_name x = workName (subKey sub)) xs))"

fun deleteStatuses :: "'w status_client \<Rightarrow> AppSubStatus list \<Rightarrow> 'w \<Rightarrow> 'w \<times> kerr option" where
  "deleteStatuses c [] w = (w, None)"
| "deleteStatuses c (p # ps) w =
     (case stc_delete c w p of (w', Some er) \<Rightarrow> (w', Some er) | (w', None) \<Rightarrow> deleteStatuses c ps w')"

definition cleanupAppSubStatus :: "'w propagation_env \<Rightarrow> Subscription \<Rightarrow> string \<Rightarrow> 'w \<Rightarrow> 'w \<times> kerr option" where
  "cleanupAppSubStatus e sub ns w =
     (case pe_selector e (hostingLabel (subKey sub)) of
        Some er \<Rightarrow> (w, Some er)
      | None \<Rightarrow>
          (case stc_list (pe_statuses e) w ns (hostingLabel (subKey sub)) of
             Inl er \<Rightarrow> (w, Some er)
           | Inr ps \<Rightarrow> deleteStatuses (pe_statuses e) ps w))"

text \<open>The result is that of the last deletion; others are logged.\<close>

fun deleteExpired ::
  "'w propagation_env \<Rightarrow> Subscription \<Rightarrow> (string, ManifestWork) gmap \<Rightarrow> kerr option \<Rightarrow> 'w \<Rightarrow> 'w \<times> kerr option" where
  "deleteExpired e sub [] err w = (w, err)"
| "deleteExpired e sub ((k, x) # xs) err w =
     (let (w1, er) = wk_delete (pe_works e) w x;
          w2 = pe_event e sub ''Delete'' (''Delete Expired ManifestWork '' @ nsname_string (mw_key x)) er w1;
          w3 = fst (cleanupAppSubStatus e sub (mw_namespace x) w2)
      in deleteExpired e sub xs er w3)"

definition familyMap :: "ManifestWork list \<Rightarrow> (string, ManifestWork) gmap" where
  "familyMap xs = fold (\<lambda>x. gm_put (mw_namespace x @ ''-'' @ mw_name x) x) xs []"

text \<open>When the family cannot be listed, the works of all clusters count as missing.\<close>

definition PropagateAppSubManifestWork ::
  "'w propagation_env \<Rightarrow> Subscription \<Rightarrow> ManageClusters list \<Rightarrow> 'w \<Rightarrow> 'w \<times> Subscription \<times> kerr option" where
  "PropagateAppSubManifestWork e sub clusters w =
     (let children = (case getManifestWorkFamily e w sub of Inl er \<Rightarrow> [] | Inr xs \<Rightarrow> xs)
      in case propagateManifestWorks e clusters sub (familyMap children) w of
           (w', sub', Inl er) \<Rightarrow> (w', sub', Some er)
         | (w', sub', Inr expired) \<Rightarrow>
             (let (w'', er) = deleteExpired e sub' expired None w' in (w'', sub', er)))"

section \<open>Clean-up\<close>

fun deleteWorks :: "'w work_client \<Rightarrow> ManifestWork list \<Rightarrow> 'w \<Rightarrow> 'w \<times> kerr option" where
  "deleteWorks c [] w = (w, None)"
| "deleteWorks c (x # xs) w =
     (case wk_delete c w x of (w', Some er) \<Rightarrow> (w', Some er) | (w', None) \<Rightarrow> deleteWorks c xs w')"

text \<open>Page after page; whether the loop ends depends on the tokens, so it is a partial function.\<close>

partial_function (option) cleanupPages ::
  "'w work_client \<Rightarrow> string \<Rightarrow> string \<Rightarrow> 'w \<Rightarrow> ('w \<times> kerr option) option" where
  "cleanupPages c lab token w =
     (case wk_page c w lab token of
        Inl er \<Rightarrow> Some (w, Some er)
      | Inr (xs, token') \<Rightarrow>
          (case deleteWorks c xs w of
             (w', Some er) \<Rightarrow> Some (w', Some er)
           | (w', None) \<Rightarrow> (if token' = '''' then Some (w', None) else cleanupPages c lab token' w')))"

declare cleanupPages.simps [code]

definition cleanupManifestWork :: "'w propagation_env \<Rightarrow> nsname \<Rightarrow> 'w \<Rightarrow> ('w \<times> kerr option) option" where
  "cleanupManifestWork e appsub w =
     (case pe_selector e (hostingLabel appsub) of
        Some er \<Rightarrow> Some (w, Some er)
      | None \<Rightarrow> cleanupPages (pe_works e) (hostingLabel appsub) '''' w)"

end
