(* ===== verification/PropagationFacts.thy ===== *)
theory PropagationFacts
  imports Propagation
begin

text \<open>
  Propagation leaves exactly one manifest work per selected cluster, and its clean-up ends. The
  works on the hub are seen through \<open>store\<close>, a map from namespace and name.
\<close>

section \<open>The API of manifest works\<close>

type_synonym 'w store = "'w \<Rightarrow> nsname \<Rightarrow> ManifestWork option"

definition labelled :: "string \<Rightarrow> ManifestWork \<Rightarrow> bool" where
  "labelled l x \<longleftrightarrow> anno (mw_labels x) AnnotationHosting = l"

text \<open>A stored work is the one that was written, with fields of the server.\<close>

definition written :: "nsname \<Rightarrow> ManifestWork \<Rightarrow> (nsname \<Rightarrow> ManifestWork option) \<Rightarrow> (nsname \<Rightarrow> ManifestWork option) \<Rightarrow> bool" where
  "written k x st st' \<longleftrightarrow> (\<exists>r. st' = st(k \<mapsto> x\<lparr>mw_rest := r\<rparr>))"

definition work_api :: "'w propagation_env \<Rightarrow> 'w store \<Rightarrow> bool" where
  "work_api e store \<longleftrightarrow>
     (\<forall>w k x. store w k = Some x \<longrightarrow> mw_key x = k)
   \<and> (\<forall>w l xs. wk_list (pe_works e) w l = Inr xs \<longrightarrow>
        distinct (map mw_key xs) \<and> (\<forall>x. x \<in> set xs \<longleftrightarrow> store w (mw_key x) = Some x \<and> labelled l x))
   \<and> (\<forall>w x w'. wk_create (pe_works e) w x = (w', None) \<longrightarrow> store w (mw_key x) = None \<and> written (mw_key x) x (store w) (store w'))
   \<and> (\<forall>w x w'. wk_update (pe_works e) w x = (w', None) \<longrightarrow> written (mw_key x) x (store w) (store w'))
   \<and> (\<forall>w x w'. wk_delete (pe_works e) w x = (w', None) \<longrightarrow> store w' = (store w)(mw_key x := None))
   \<and> (\<forall>w x w' er. wk_create (pe_works e) w x = (w', Some er) \<or> wk_update (pe_works e) w x = (w', Some er)
        \<or> wk_delete (pe_works e) w x = (w', Some er) \<longrightarrow> store w' = store w)
   \<and> (\<forall>w s a m r. store (pe_event e s a m r w) = store w)
   \<and> (\<forall>w p. store (fst (stc_delete (pe_statuses e) w p)) = store w)
   \<and> (\<forall>w r. store (fst (rpc_create (pe_reports e) w r)) = store w \<and> store (fst (rpc_update (pe_reports e) w r)) = store w)"

text \<open>The server accepts what it can: it lists, creates what is missing and changes what is there.\<close>

definition works_up :: "'w propagation_env \<Rightarrow> 'w store \<Rightarrow> bool" where
  "works_up e store \<longleftrightarrow>
     (\<forall>w l. \<exists>xs. wk_list (pe_works e) w l = Inr xs)
   \<and> (\<forall>w x. store w (mw_key x) = None \<longrightarrow> snd (wk_create (pe_works e) w x) = None)
   \<and> (\<forall>w x. store w (mw_key x) \<noteq> None \<longrightarrow> snd (wk_update (pe_works e) w x) = None \<and> snd (wk_delete (pe_works e) w x) = None)
   \<and> (\<forall>u. \<exists>m. pe_marshal e u = Inr m)"

lemma work_apiD:
  assumes "work_api e store"
  shows api_key: "store w k = Some x \<Longrightarrow> mw_key x = k"
    and api_list: "wk_list (pe_works e) w l = Inr xs \<Longrightarrow>
      distinct (map mw_key xs) \<and> (\<forall>x. x \<in> set xs \<longleftrightarrow> store w (mw_key x) = Some x \<and> labelled l x)"
    and api_create: "wk_create (pe_works e) w x = (w', None) \<Longrightarrow> store w (mw_key x) = None \<and> written (mw_key x) x (store w) (store w')"
    and api_update: "wk_update (pe_works e) w x = (w', None) \<Longrightarrow> written (mw_key x) x (store w) (store w')"
    and api_delete: "wk_delete (pe_works e) w x = (w', None) \<Longrightarrow> store w' = (store w)(mw_key x := None)"
    and api_error: "wk_create (pe_works e) w x = (w', Some er) \<Longrightarrow> store w' = store w"
      "wk_update (pe_works e) w x = (w', Some er) \<Longrightarrow> store w' = store w"
      "wk_delete (pe_works e) w x = (w', Some er) \<Longrightarrow> store w' = store w"
    and api_event: "store (pe_event e s a m r w) = store w"
    and api_status: "store (fst (stc_delete (pe_statuses e) w p)) = store w"
    and api_report: "store (fst (rpc_create (pe_reports e) w rp)) = store w" "store (fst (rpc_update (pe_reports e) w rp)) = store w"
  using assms unfolding work_api_def by metis+

lemma works_upD:
  assumes "works_up e store"
  shows up_list: "\<exists>xs. wk_list (pe_works e) w l = Inr xs"
    and up_create: "store w (mw_key x) = None \<Longrightarrow> snd (wk_create (pe_works e) w x) = None"
    and up_update: "store w (mw_key x) \<noteq> None \<Longrightarrow> snd (wk_update (pe_works e) w x) = None"
    and up_delete: "store w (mw_key x) \<noteq> None \<Longrightarrow> snd (wk_delete (pe_works e) w x) = None"
    and up_marshal: "\<exists>m. pe_marshal e u = Inr m"
  using assms unfolding works_up_def by metis+

section \<open>What does not touch the works\<close>

lemma failed_report_keeps: "work_api e store \<Longrightarrow> store (fst (CreateFailedAppsubReportResult e c k m w)) = store w"
proof -
  assume api: "work_api e store"
  have "store w1 = store w" if "hubGetClusterReport (pe_reports e) c True w = (w1, r)" for w1 r
    using that api_report(1) [OF api] by (auto simp: hubGetClusterReport_def split: sum.splits if_splits prod.splits option.splits) (metis fst_conv)+
  then show ?thesis
    by (auto simp: CreateFailedAppsubReportResult_def Let_def api_report(2) [OF api] split: prod.splits sum.splits)
qed

lemma statuses_keep: "work_api e store \<Longrightarrow> store (fst (deleteStatuses (pe_statuses e) ps w)) = store w"
proof (induction ps arbitrary: w)
  case (Cons p ps)
  then show ?case using api_status [OF Cons.prems, of w p] by (auto split: prod.splits option.splits)
qed simp

lemma cleanup_status_keeps: "work_api e store \<Longrightarrow> store (fst (cleanupAppSubStatus e s ns w)) = store w"
  by (auto simp: cleanupAppSubStatus_def statuses_keep split: option.splits sum.splits)

lemma prepared_key: "prepareManifestWorkAppsub e w sub k = (sub', r) \<Longrightarrow> subKey sub' = subKey sub \<and> sub_spec sub' = sub_spec sub"
  by (auto simp: prepareManifestWorkAppsub_def updateSubAnnotations_def AddClusterAdminAnnotation_def subKey_def Let_def
      split: prod.splits if_splits)

section \<open>One cluster\<close>

text \<open>
  The family holds the works of the subscription that are not yet settled; \<open>dn\<close> are the clusters
  that are.
\<close>

definition fam_ok :: "nsname \<Rightarrow> string set \<Rightarrow> (nsname \<Rightarrow> ManifestWork option) \<Rightarrow> (string, ManifestWork) gmap \<Rightarrow> bool" where
  "fam_ok k dn st family \<longleftrightarrow> wf_gm family \<and> (\<forall>key x. map_of family key = Some x \<longleftrightarrow>
     key = mw_namespace x @ ''-'' @ workName k \<and> mw_name x = workName k \<and> mw_namespace x \<notin> dn
     \<and> st (mw_namespace x, workName k) = Some x \<and> labelled (hostingLabel k) x)"

lemma fam_ok_familyMap:
  assumes api: "work_api e store" and list: "getManifestWorkFamily e w sub = Inr xs" and up: "works_up e store"
  shows "fam_ok (subKey sub) {} (store w) (familyMap xs)"
proof -
  let ?k = "subKey sub"
  obtain ys where ys: "wk_list (pe_works e) w (hostingLabel ?k) = Inr ys" using up_list [OF up] by blast
  with list have xs: "xs = filter (\<lambda>x. mw_name x = workName ?k) ys" by (simp add: getManifestWorkFamily_def)
  note l = api_list [OF api ys]
  let ?f = "\<lambda>x. mw_namespace x @ ''-'' @ mw_name x"
  have "inj_on ?f (set xs)"
  proof (rule inj_onI)
    fix x y assume m: "x \<in> set xs" "y \<in> set xs" and eq: "?f x = ?f y"
    then have "mw_name x = mw_name y" by (simp add: xs)
    with eq have "mw_key x = mw_key y" by (simp add: mw_key_def)
    moreover from m have "x \<in> set ys" "y \<in> set ys" by (simp_all add: xs)
    ultimately show "x = y" using l by (metis option.inject)
  qed
  moreover have "distinct xs" using l by (simp add: xs distinct_map)
  ultimately have d: "distinct (map ?f xs)" by (simp add: distinct_map)
  have look: "map_of (familyMap xs) key = Some x \<longleftrightarrow> x \<in> set xs \<and> key = ?f x" for key x
  proof -
    have "map_of (familyMap xs) = map_of (rev (map (\<lambda>x. (?f x, x)) xs))"
      unfolding familyMap_def by (subst gm.look_fold_put) simp
    moreover have "distinct (map fst (rev (map (\<lambda>x. (?f x, x)) xs)))" using d by (simp add: rev_map [symmetric] o_def)
    ultimately have "map_of (familyMap xs) key = Some x \<longleftrightarrow> (key, x) \<in> (\<lambda>x. (?f x, x)) ` set xs" by (simp add: map_of_eq_Some_iff)
    then show ?thesis by blast
  qed
  have wf: "wf_gm (familyMap xs)" unfolding familyMap_def by (rule gm.wf_fold_put) (simp add: wf_gm_def)
  have mem: "x \<in> set xs \<longleftrightarrow> mw_name x = workName ?k \<and> store w (mw_namespace x, workName ?k) = Some x \<and> labelled (hostingLabel ?k) x" for x
    using l [THEN conjunct2, rule_format, of x] by (cases "mw_name x = workName ?k") (simp_all add: xs mw_key_def)
  show ?thesis unfolding fam_ok_def look mem
  proof (intro conjI allI wf)
    fix key x
    show "((mw_name x = workName ?k \<and> store w (mw_namespace x, workName ?k) = Some x \<and> labelled (hostingLabel ?k) x) \<and> key = ?f x) =
        (key = mw_namespace x @ ''-'' @ workName ?k \<and> mw_name x = workName ?k \<and> mw_namespace x \<notin> {}
         \<and> store w (mw_namespace x, workName ?k) = Some x \<and> labelled (hostingLabel ?k) x)"
      by (cases "mw_name x = workName ?k") auto
  qed
qed

lemma fam_ok_look:
  assumes fam: "fam_ok k dn st family" and new: "c \<notin> dn"
    and at: "\<And>x. st (c, workName k) = Some x \<Longrightarrow> mw_key x = (c, workName k) \<and> labelled (hostingLabel k) x"
  shows "map_of family (c @ ''-'' @ workName k) = st (c, workName k)"
proof (cases "st (c, workName k)")
  case None
  have False if "map_of family (c @ ''-'' @ workName k) = Some x" for x
  proof -
    from that fam have "c @ ''-'' @ workName k = mw_namespace x @ ''-'' @ workName k" "st (mw_namespace x, workName k) = Some x"
      unfolding fam_ok_def by blast+
    with None show False by simp
  qed
  then show ?thesis using None by (metis not_None_eq)
next
  case (Some x)
  with at [OF Some] new fam show ?thesis unfolding fam_ok_def mw_key_def by (metis prod.inject)
qed

lemma fam_ok_del:
  assumes fam: "fam_ok k dn st family" and same: "\<forall>key. key \<noteq> (c, workName k) \<longrightarrow> st' key = st key"
  shows "fam_ok k (insert c dn) st' (gm_del (c @ ''-'' @ workName k) family)"
proof -
  have wf: "wf_gm family" using fam by (simp add: fam_ok_def)
  have "map_of (gm_del (c @ ''-'' @ workName k) family) key = Some x \<longleftrightarrow> key \<noteq> c @ ''-'' @ workName k \<and> map_of family key = Some x" for key x
    by (simp add: gm.look_del [OF wf])
  with fam same gm.wf_del [OF wf] show ?thesis unfolding fam_ok_def by auto
qed

text \<open>The work of a cluster carries the two manifests, or ones the comparison takes for the same.\<close>

definition carries :: "'w propagation_env \<Rightarrow> string \<Rightarrow> string \<Rightarrow> ManageClusters \<Rightarrow> ManifestWork \<Rightarrow> bool" where
  "carries e mns mapp cl x \<longleftrightarrow> (\<exists>m. localManifest e (mg_local cl) mapp = Inr m \<and> (mw_manifests x = [mns, m]
     \<or> sameWork e x (x\<lparr>mw_manifests := [mns, m]\<rparr>)))"

definition settled :: "'w propagation_env \<Rightarrow> nsname \<Rightarrow> string \<Rightarrow> string \<Rightarrow> ManageClusters \<Rightarrow> (nsname \<Rightarrow> ManifestWork option) \<Rightarrow> bool" where
  "settled e k mns mapp cl st \<longleftrightarrow>
     (\<exists>x. st (mg_cluster cl, workName k) = Some x \<and> labelled (hostingLabel k) x \<and> carries e mns mapp cl x)"

lemma create_step:
  assumes api: "work_api e store" and up: "works_up e store" and fam: "fam_ok k dn (store w) family"
    and new: "mg_cluster cl \<notin> dn" and k: "k = subKey sub"
    and own: "\<And>x. store w (mg_cluster cl, workName k) = Some x \<Longrightarrow> labelled (hostingLabel k) x"
    and run: "createManifestWork e mns mapp cl k sub family w = (w', r)"
  shows "\<exists>family'. r = Inr family' \<and> fam_ok k (insert (mg_cluster cl) dn) (store w') family' \<and> settled e k mns mapp cl (store w')
    \<and> (\<forall>key. key \<noteq> (mg_cluster cl, workName k) \<longrightarrow> store w' key = store w key)"
proof -
  let ?c = "mg_cluster cl" and ?n = "workName k"
  have key: "?c @ ''-'' @ sub_namespace sub @ ''-'' @ sub_name sub = ?c @ ''-'' @ ?n" by (simp add: k subKey_def workName_def)
  let ?key = "?c @ ''-'' @ ?n"
  have look: "map_of family ?key = store w (?c, ?n)"
    by (rule fam_ok_look [OF fam new]) (use api_key [OF api] own in blast)
  have "\<exists>m. localManifest e (mg_local cl) mapp = Inr m" unfolding localManifest_def using up_marshal [OF up] by simp
  then obtain m where m: "localManifest e (mg_local cl) mapp = Inr m" ..
  define old where "old = (case store w (?c, ?n) of None \<Rightarrow> newWork | Some x \<Rightarrow> x)"
  define work where "work = old\<lparr>mw_name := ?n, mw_namespace := ?c,
    mw_labels := Some (gm_put AnnotationHosting (hostingLabel k) (unnil (mw_labels old))), mw_manifests := [mns, m],
    mw_orphan := Some (sub_namespace sub)\<rparr>"
  have set: "setLocalManifestWork e mns mapp cl k sub old = Inr work"
    by (simp add: setLocalManifestWork_def m work_def k)
  have wk: "mw_key work = (?c, ?n)" "labelled (hostingLabel k) work" "mw_manifests work = [mns, m]"
    by (simp_all add: work_def mw_key_def labelled_def anno_def gm_str_put)
  have after: "fam_ok k (insert ?c dn) st' (gm_del ?key family)" if "\<forall>key. key \<noteq> (?c, ?n) \<longrightarrow> st' key = store w key" for st'
    by (rule fam_ok_del [OF fam that])
  have step: "createManifestWork e mns mapp cl k sub family w =
      (case (if store w (?c, ?n) = None then wk_create (pe_works e) w work
             else if \<not> sameWork e old work then wk_update (pe_works e) w work else (w, None)) of
         (w', Some er) \<Rightarrow> (w', Inl er) | (w', None) \<Rightarrow> (w', Inr (gm_del ?key family)))"
    unfolding createManifestWork_def Let_def key look old_def [symmetric] set sum.case ..
  have put: "settled e k mns mapp cl (store w') \<and> (\<forall>key. key \<noteq> (?c, ?n) \<longrightarrow> store w' key = store w key)"
    if "written (mw_key work) work (store w) (store w')"
    using that wk m by (auto simp: written_def settled_def carries_def labelled_def)
  show ?thesis
  proof (cases "store w (?c, ?n)")
    case None
    with up_create [OF up, of w work] wk(1) obtain v where v: "wk_create (pe_works e) w work = (v, None)" by (metis prod.collapse)
    have "createManifestWork e mns mapp cl k sub family w = (v, Inr (gm_del ?key family))"
      using None v step by simp
    with run api_create [OF api v] put after show ?thesis by auto
  next
    case (Some x)
    then have old: "old = x" by (simp add: old_def)
    show ?thesis
    proof (cases "sameWork e x work")
      case False
      with up_update [OF up, of w work] wk(1) Some obtain v where v: "wk_update (pe_works e) w work = (v, None)" by (metis option.distinct(1) prod.collapse)
      have "createManifestWork e mns mapp cl k sub family w = (v, Inr (gm_del ?key family))"
        using Some v False old step by simp
      with run api_update [OF api v] put after show ?thesis by auto
    next
      case True
      have "createManifestWork e mns mapp cl k sub family w = (w, Inr (gm_del ?key family))"
        using Some True old step by simp
      moreover have "settled e k mns mapp cl (store w)"
        using Some own True m wk(3) by (auto simp: settled_def carries_def sameWork_def)
      ultimately show ?thesis using run after by auto
    qed
  qed
qed

text \<open>The works that are left in the family, by their keys.\<close>

lemma fam_ok_keys:
  assumes fam: "fam_ok k dn st f" and at: "\<And>key x. st key = Some x \<Longrightarrow> mw_key x = key"
  shows "distinct (map (mw_key \<circ> snd) f)"
    and "(c, n) \<in> (mw_key \<circ> snd) ` set f \<longleftrightarrow> n = workName k \<and> c \<notin> dn \<and> (\<exists>x. st (c, n) = Some x \<and> labelled (hostingLabel k) x)"
proof -
  have d: "distinct (map fst f)" using fam unfolding fam_ok_def wf_gm_def by blast
  then have mem: "(key, x) \<in> set f \<longleftrightarrow> map_of f key = Some x" for key x by simp
  have shape: "(key, x) \<in> set f \<longleftrightarrow> key = mw_namespace x @ ''-'' @ workName k \<and> mw_key x = (mw_namespace x, workName k)
      \<and> mw_namespace x \<notin> dn \<and> st (mw_namespace x, workName k) = Some x \<and> labelled (hostingLabel k) x" for key x
  proof -
    have "map_of f key = Some x \<longleftrightarrow> key = mw_namespace x @ ''-'' @ workName k \<and> mw_name x = workName k
        \<and> mw_namespace x \<notin> dn \<and> st (mw_namespace x, workName k) = Some x \<and> labelled (hostingLabel k) x"
      using fam unfolding fam_ok_def by blast
    then show ?thesis unfolding mem mw_key_def prod.inject by blast
  qed
  have "inj_on (mw_key \<circ> snd) (set f)"
  proof (rule inj_onI)
    fix p q assume p: "p \<in> set f" and q: "q \<in> set f" and eq: "(mw_key \<circ> snd) p = (mw_key \<circ> snd) q"
    obtain a x where "p = (a, x)" by (cases p)
    moreover obtain b y where "q = (b, y)" by (cases q)
    ultimately have xy: "p = (a, x)" "q = (b, y)" .
    from p have x: "a = mw_namespace x @ ''-'' @ workName k" "mw_key x = (mw_namespace x, workName k)" "st (mw_namespace x, workName k) = Some x"
      unfolding xy shape by blast+
    from q have y: "b = mw_namespace y @ ''-'' @ workName k" "mw_key y = (mw_namespace y, workName k)" "st (mw_namespace y, workName k) = Some y"
      unfolding xy shape by blast+
    from eq x(2) y(2) have ns: "mw_namespace x = mw_namespace y" unfolding xy by simp
    with x(3) y(3) have "x = y" by (metis option.inject)
    with x(1) y(1) show "p = q" unfolding xy by simp
  qed
  moreover have "distinct f" using d by (simp add: distinct_map)
  ultimately show "distinct (map (mw_key \<circ> snd) f)" by (simp add: distinct_map)
  show "(c, n) \<in> (mw_key \<circ> snd) ` set f \<longleftrightarrow> n = workName k \<and> c \<notin> dn \<and> (\<exists>x. st (c, n) = Some x \<and> labelled (hostingLabel k) x)"
  proof
    assume "(c, n) \<in> (mw_key \<circ> snd) ` set f"
    then obtain q where "q \<in> set f" "mw_key (snd q) = (c, n)" by (metis comp_apply imageE)
    then obtain key x where m: "(key, x) \<in> set f" "mw_key x = (c, n)" by (metis prod.collapse)
    from m(1) have x: "mw_key x = (mw_namespace x, workName k)" "mw_namespace x \<notin> dn" "st (mw_namespace x, workName k) = Some x" "labelled (hostingLabel k) x"
      unfolding shape by blast+
    with m(2) show "n = workName k \<and> c \<notin> dn \<and> (\<exists>x. st (c, n) = Some x \<and> labelled (hostingLabel k) x)" by simp
  next
    assume a: "n = workName k \<and> c \<notin> dn \<and> (\<exists>x. st (c, n) = Some x \<and> labelled (hostingLabel k) x)"
    then obtain x where x: "st (c, n) = Some x" "labelled (hostingLabel k) x" by blast
    from at [OF x(1)] have ns: "mw_namespace x = c" "mw_name x = n" by (simp_all add: mw_key_def)
    have "(c @ ''-'' @ workName k, x) \<in> set f" unfolding shape using a x ns by (simp add: mw_key_def)
    then have "(mw_key \<circ> snd) (c @ ''-'' @ workName k, x) \<in> (mw_key \<circ> snd) ` set f" by (rule imageI)
    then have "mw_key x \<in> (mw_key \<circ> snd) ` set f" by (simp only: comp_apply snd_conv)
    then show "(c, n) \<in> (mw_key \<circ> snd) ` set f" by (simp only: at [OF x(1)])
  qed
qed

section \<open>All clusters\<close>

lemma propagateClusters_store:
  assumes api: "work_api e store" and up: "works_up e store" and k: "k = subKey sub"
  shows "\<lbrakk>propagateClusters e mns mapp sub cls family w = (w', family'); fam_ok k dn (store w) family; distinct (map mg_cluster cls);
     mg_cluster ` set cls \<inter> dn = {}; \<forall>cl \<in> set cls. \<forall>x. store w (mg_cluster cl, workName k) = Some x \<longrightarrow> labelled (hostingLabel k) x\<rbrakk>
   \<Longrightarrow> fam_ok k (dn \<union> mg_cluster ` set cls) (store w') family' \<and> (\<forall>cl \<in> set cls. settled e k mns mapp cl (store w'))
     \<and> (\<forall>key. key \<notin> (\<lambda>cl. (mg_cluster cl, workName k)) ` set cls \<longrightarrow> store w' key = store w key)"
proof (induction cls arbitrary: dn family w)
  case (Cons cl cls)
  obtain v r where v: "createManifestWork e mns mapp cl k sub family w = (v, r)" by force
  have "mg_cluster cl \<notin> dn" using Cons.prems(4) by auto
  from create_step [OF api up Cons.prems(2) this k _ v] Cons.prems(5)
  obtain f where f: "r = Inr f" "fam_ok k (insert (mg_cluster cl) dn) (store v) f" "settled e k mns mapp cl (store v)"
    "\<forall>key. key \<noteq> (mg_cluster cl, workName k) \<longrightarrow> store v key = store w key" by auto
  have run: "propagateClusters e mns mapp sub cls f v = (w', family')" using Cons.prems(1) v f(1) k by simp
  have ih: "fam_ok k (insert (mg_cluster cl) dn \<union> mg_cluster ` set cls) (store w') family'
      \<and> (\<forall>cl \<in> set cls. settled e k mns mapp cl (store w'))
      \<and> (\<forall>key. key \<notin> (\<lambda>cl. (mg_cluster cl, workName k)) ` set cls \<longrightarrow> store w' key = store v key)"
  proof (rule Cons.IH [OF run f(2)])
    show "distinct (map mg_cluster cls)" "mg_cluster ` set cls \<inter> insert (mg_cluster cl) dn = {}" using Cons.prems(3,4) by auto
    show "\<forall>c \<in> set cls. \<forall>x. store v (mg_cluster c, workName k) = Some x \<longrightarrow> labelled (hostingLabel k) x"
    proof
      fix c assume c: "c \<in> set cls"
      with Cons.prems(3) have "(mg_cluster c, workName k) \<noteq> (mg_cluster cl, workName k)" by (metis distinct.simps(2) image_eqI list.simps(9) list.set_map prod.inject)
      then have "store v (mg_cluster c, workName k) = store w (mg_cluster c, workName k)" using f(4) by blast
      with Cons.prems(5) c show "\<forall>x. store v (mg_cluster c, workName k) = Some x \<longrightarrow> labelled (hostingLabel k) x" by simp
    qed
  qed
  have "(mg_cluster cl, workName k) \<notin> (\<lambda>cl. (mg_cluster cl, workName k)) ` set cls" using Cons.prems(3) by auto
  then have "settled e k mns mapp cl (store w')" using ih f(3) by (simp add: settled_def)
  with ih f(4) show ?case by auto
qed simp

lemma deleteExpired_store:
  assumes api: "work_api e store" and up: "works_up e store"
  shows "\<lbrakk>deleteExpired e sub xs err w = (w', r); distinct (map (mw_key \<circ> snd) xs); \<forall>p \<in> set xs. store w (mw_key (snd p)) \<noteq> None; err = None\<rbrakk>
   \<Longrightarrow> r = None \<and> (\<forall>key. store w' key = (if key \<in> (mw_key \<circ> snd) ` set xs then None else store w key))"
proof (induction xs arbitrary: w err)
  case (Cons p xs)
  obtain n x where p: "p = (n, x)" by force
  with up_delete [OF up, of w x] Cons.prems(3) obtain v where v: "wk_delete (pe_works e) w x = (v, None)" by (metis list.set_intros(1) prod.collapse snd_conv)
  define u where "u = fst (cleanupAppSubStatus e sub (mw_namespace x)
    (pe_event e sub ''Delete'' (''Delete Expired ManifestWork '' @ nsname_string (mw_key x)) None v))"
  have st: "store u = (store w)(mw_key x := None)"
    unfolding u_def cleanup_status_keeps [OF api] api_event [OF api] by (rule api_delete [OF api v])
  have run: "deleteExpired e sub xs None u = (w', r)"
    using Cons.prems(1) unfolding p deleteExpired.simps v Let_def prod.case u_def .
  have "r = None \<and> (\<forall>key. store w' key = (if key \<in> (mw_key \<circ> snd) ` set xs then None else store u key))"
  proof (rule Cons.IH [OF run])
    show "distinct (map (mw_key \<circ> snd) xs)" using Cons.prems(2) by (simp add: o_def)
    have "mw_key (snd q) \<noteq> mw_key x" if "q \<in> set xs" for q using that Cons.prems(2) p by (auto simp: image_iff)
    then show "\<forall>q \<in> set xs. store u (mw_key (snd q)) \<noteq> None" using Cons.prems(3) by (simp add: st)
  qed simp
  with st p show ?case by auto
qed simp

text \<open>
  What propagation promises of the works of a subscription: one for each selected cluster, none of
  them elsewhere, and no other work is touched.
\<close>

definition propagated :: "'w propagation_env \<Rightarrow> nsname \<Rightarrow> string \<Rightarrow> string \<Rightarrow> ManageClusters list
    \<Rightarrow> (nsname \<Rightarrow> ManifestWork option) \<Rightarrow> (nsname \<Rightarrow> ManifestWork option) \<Rightarrow> bool" where
  "propagated e k mns mapp clusters st st' \<longleftrightarrow>
     (\<forall>cl \<in> set clusters. settled e k mns mapp cl st')
   \<and> (\<forall>c x. c \<notin> mg_cluster ` set clusters \<longrightarrow> st (c, workName k) = Some x \<longrightarrow>
        st' (c, workName k) = (if labelled (hostingLabel k) x then None else Some x))
   \<and> (\<forall>c n. n \<noteq> workName k \<or> c \<notin> mg_cluster ` set clusters \<and> st (c, n) = None \<longrightarrow> st' (c, n) = st (c, n))"

lemma propagated_store:
  assumes api: "work_api e store" and up: "works_up e store" and ready: "distinct (map mg_cluster clusters)"
    "\<forall>cl \<in> set clusters. \<forall>x. store w (mg_cluster cl, workName (subKey sub)) = Some x \<longrightarrow> labelled (hostingLabel (subKey sub)) x"
    and mns: "prepareManifestWorkNS e (sub_namespace sub) (subKey sub) = Inr mns"
    and mapp: "prepareManifestWorkAppsub e w sub (subKey sub) = (sub', Inr mapp)"
    and run: "PropagateAppSubManifestWork e sub clusters w = (w', s', r)"
  shows "r = None \<and> s' = sub' \<and> propagated e (subKey sub) mns mapp clusters (store w) (store w')"
proof -
  let ?k = "subKey sub" and ?D = "mg_cluster ` set clusters"
  obtain ys where "wk_list (pe_works e) w (hostingLabel ?k) = Inr ys" using up_list [OF up] by blast
  then obtain xs where xs: "getManifestWorkFamily e w sub = Inr xs" by (simp add: getManifestWorkFamily_def)
  have k: "?k = subKey sub'" using prepared_key [OF mapp] by simp
  obtain v f where v: "propagateClusters e mns mapp sub' clusters (familyMap xs) w = (v, f)" by force
  have p: "fam_ok ?k ({} \<union> ?D) (store v) f \<and> (\<forall>cl \<in> set clusters. settled e ?k mns mapp cl (store v))
     \<and> (\<forall>key. key \<notin> (\<lambda>cl. (mg_cluster cl, workName ?k)) ` set clusters \<longrightarrow> store v key = store w key)"
    by (rule propagateClusters_store [OF api up k v fam_ok_familyMap [OF api xs up]]) (use ready in auto)
  have del: "deleteExpired e sub' f None v = (w', r)" "s' = sub'"
    using run xs mns mapp v by (auto simp: PropagateAppSubManifestWork_def propagateManifestWorks_def split: prod.splits)
  have fam: "fam_ok ?k ?D (store v) f" using p by simp
  have gone: "(c, n) \<in> (mw_key \<circ> snd) ` set f \<longleftrightarrow> n = workName ?k \<and> c \<notin> ?D \<and>
      (\<exists>x. store v (c, n) = Some x \<and> labelled (hostingLabel ?k) x)" for c n
    by (rule fam_ok_keys(2) [OF fam api_key [OF api]])
  have "store v (mw_key (snd q)) \<noteq> None" if "q \<in> set f" for q
  proof -
    from that have "mw_key (snd q) \<in> (mw_key \<circ> snd) ` set f" by simp
    then show ?thesis using gone [of "fst (mw_key (snd q))" "snd (mw_key (snd q))"] by auto
  qed
  then have r: "r = None \<and> (\<forall>key. store w' key = (if key \<in> (mw_key \<circ> snd) ` set f then None else store v key))"
    by (intro deleteExpired_store [OF api up del(1) fam_ok_keys(1) [OF fam api_key [OF api]]]) blast+
  have d: "store w' (c, n) = (if n = workName ?k \<and> c \<notin> ?D \<and> (\<exists>x. store v (c, n) = Some x \<and> labelled (hostingLabel ?k) x)
      then None else store v (c, n))" for c n
    unfolding gone [symmetric] using r by blast
  have frame: "store v (c, n) = store w (c, n)" if "n \<noteq> workName ?k \<or> c \<notin> ?D" for c n
  proof -
    have "(c, n) \<notin> (\<lambda>cl. (mg_cluster cl, workName ?k)) ` set clusters" using that by force
    with p show ?thesis by blast
  qed
  have "settled e ?k mns mapp cl (store w')" if "cl \<in> set clusters" for cl
    using that p d by (simp add: settled_def)
  moreover have "store w' (c, workName ?k) = (if labelled (hostingLabel ?k) x then None else Some x)"
    if "c \<notin> ?D" "store w (c, workName ?k) = Some x" for c x
  proof -
    have "store v (c, workName ?k) = Some x" using that frame by simp
    with that d show ?thesis by simp
  qed
  moreover have "store w' (c, n) = store w (c, n)" if "n \<noteq> workName ?k \<or> c \<notin> ?D \<and> store w (c, n) = None" for c n
  proof -
    have "store v (c, n) = store w (c, n)" using that frame by blast
    with that d show ?thesis by auto
  qed
  ultimately show ?thesis using r del(2) unfolding propagated_def by blast
qed

text \<open>
  C7: when the hub accepts its writes, propagating a subscription to a list of distinct clusters
  succeeds and leaves exactly one work of the subscription for each cluster of the list, with the
  manifests of the namespace and of the subscription (or ones the comparison takes for the same);
  its works for other clusters are deleted, and no other work of the hub changes.
\<close>

theorem propagation_exact:
  assumes "work_api e store" "works_up e store" "distinct (map mg_cluster clusters)"
    "\<forall>cl \<in> set clusters. \<forall>x. store w (mg_cluster cl, workName (subKey sub)) = Some x \<longrightarrow> labelled (hostingLabel (subKey sub)) x"
    "prepareManifestWorkNS e (sub_namespace sub) (subKey sub) = Inr mns"
    "prepareManifestWorkAppsub e w sub (subKey sub) = (sub', Inr mapp)"
    "PropagateAppSubManifestWork e sub clusters w = (w', s', r)"
  shows "r = None \<and> s' = sub' \<and> propagated e (subKey sub) mns mapp clusters (store w) (store w')"
  using assms by (rule propagated_store)

section \<open>A cluster that fails\<close>

lemma create_keeps:
  assumes api: "work_api e store" and run: "createManifestWork e mns mapp cl k sub [] w = (w', r)" and x: "store w key = Some x"
  shows "store w' key = Some x"
proof -
  have *: "store v key = Some x" if "wk_create (pe_works e) w y = (v, er)" for v y er
    using that x api_create [OF api, of w y v] api_error(1) [OF api, of w y v] by (cases er) (auto simp: written_def)
  show ?thesis using run x
    by (auto simp: createManifestWork_def Let_def split: sum.splits prod.splits option.splits dest!: *)
qed

lemma propagate_without_family:
  assumes api: "work_api e store"
  shows "\<lbrakk>propagateClusters e mns mapp sub cls [] w = (w', f); store w key = Some x\<rbrakk> \<Longrightarrow> f = [] \<and> store w' key = Some x"
proof (induction cls arbitrary: w)
  case (Cons cl cls)
  obtain v r where v: "createManifestWork e mns mapp cl (subKey sub) sub [] w = (v, r)" by force
  have x: "store v key = Some x" by (rule create_keeps [OF api v Cons.prems(2)])
  show ?case
  proof (cases r)
    case (Inl er)
    define u where "u = fst (CreateFailedAppsubReportResult e (mg_cluster cl) (subKey sub) (err_msg er) v)"
    have run: "propagateClusters e mns mapp sub cls [] u = (w', f)" using Cons.prems(1) v Inl by (simp add: u_def)
    show ?thesis by (rule Cons.IH [OF run]) (simp add: u_def failed_report_keeps [OF api] x)
  next
    case (Inr f')
    with v have "f' = []" by (auto simp: createManifestWork_def Let_def gm_del_def split: sum.splits prod.splits option.splits)
    with Cons.prems(1) v Inr have run: "propagateClusters e mns mapp sub cls [] v = (w', f)" by simp
    show ?thesis by (rule Cons.IH [OF run x])
  qed
qed simp

text \<open>
  One cluster whose work cannot be written stops the whole propagation without an error: the
  loop goes on with an empty family, so that no work that exists is updated or deleted any more,
  neither for the clusters that follow nor for clusters that are no longer selected.
\<close>

theorem failed_cluster_blocks_rest:
  assumes api: "work_api e store" and fails: "createManifestWork e mns mapp cl (subKey sub) sub family w = (w1, Inl er)"
    and run: "propagateClusters e mns mapp sub (cl # cls) family w = (w', family')" and x: "store w key = Some x"
  shows "family' = [] \<and> store w' key = Some x"
proof -
  have w1: "store w1 = store w"
    using fails api_error [OF api]
    by (auto simp: createManifestWork_def Let_def split: sum.splits prod.splits option.splits if_splits)
  define u where "u = fst (CreateFailedAppsubReportResult e (mg_cluster cl) (subKey sub) (err_msg er) w1)"
  have "propagateClusters e mns mapp sub cls [] u = (w', family')" using run fails by (simp add: u_def)
  then show ?thesis
    by (rule propagate_without_family [OF api]) (simp add: u_def failed_report_keeps [OF api] w1 x)
qed

section \<open>Clean-up\<close>

text \<open>
  Pages of a list: the works of a page have the label and lie after the token, a next token comes
  with a page that is not empty, and no work between the two tokens is left out.
\<close>

definition page_api :: "'w work_client \<Rightarrow> 'w store \<Rightarrow> (string \<Rightarrow> nsname set) \<Rightarrow> bool" where
  "page_api c store after \<longleftrightarrow>
     after '''' = UNIV \<and> (\<forall>w. finite (dom (store w)))
   \<and> (\<forall>w l t xs t'. wk_page c w l t = Inr (xs, t') \<longrightarrow>
        (\<forall>x \<in> set xs. store w (mw_key x) = Some x \<and> labelled l x \<and> mw_key x \<in> after t)
      \<and> (t' \<noteq> '''' \<longrightarrow> xs \<noteq> [] \<and> after t' \<subseteq> after t)
      \<and> (\<forall>k x. store w k = Some x \<longrightarrow> labelled l x \<longrightarrow> k \<in> after t \<longrightarrow> (t' \<noteq> '''' \<and> k \<in> after t') \<or> x \<in> set xs))
   \<and> (\<forall>w x w' r. wk_delete c w x = (w', r) \<longrightarrow> store w' = (if r = None then (store w)(mw_key x := None) else store w))
   \<and> (\<forall>w k x. store w k = Some x \<longrightarrow> mw_key x = k)"

lemma page_apiD:
  assumes "page_api c store after" "wk_page c w l t = Inr (xs, t')"
  shows "\<forall>x \<in> set xs. store w (mw_key x) = Some x \<and> labelled l x \<and> mw_key x \<in> after t"
    "t' \<noteq> '''' \<longrightarrow> xs \<noteq> [] \<and> after t' \<subseteq> after t"
    "\<forall>k x. store w k = Some x \<longrightarrow> labelled l x \<longrightarrow> k \<in> after t \<longrightarrow> (t' \<noteq> '''' \<and> k \<in> after t') \<or> x \<in> set xs"
proof -
  have "\<forall>w l t xs t'. wk_page c w l t = Inr (xs, t') \<longrightarrow>
        (\<forall>x \<in> set xs. store w (mw_key x) = Some x \<and> labelled l x \<and> mw_key x \<in> after t)
      \<and> (t' \<noteq> '''' \<longrightarrow> xs \<noteq> [] \<and> after t' \<subseteq> after t)
      \<and> (\<forall>k x. store w k = Some x \<longrightarrow> labelled l x \<longrightarrow> k \<in> after t \<longrightarrow> (t' \<noteq> '''' \<and> k \<in> after t') \<or> x \<in> set xs)"
    using assms(1) unfolding page_api_def by (elim conjE)
  note * = this [rule_format (no_asm), OF assms(2)]
  from * show "\<forall>x \<in> set xs. store w (mw_key x) = Some x \<and> labelled l x \<and> mw_key x \<in> after t" by (elim conjE)
  from * show "t' \<noteq> '''' \<longrightarrow> xs \<noteq> [] \<and> after t' \<subseteq> after t" by (elim conjE)
  from * show "\<forall>k x. store w k = Some x \<longrightarrow> labelled l x \<longrightarrow> k \<in> after t \<longrightarrow> (t' \<noteq> '''' \<and> k \<in> after t') \<or> x \<in> set xs" by (elim conjE)
qed

lemma deleteWorks_store:
  assumes api: "page_api c store after"
  shows "deleteWorks c xs w = (w', None) \<Longrightarrow> store w' = (\<lambda>k. if k \<in> mw_key ` set xs then None else store w k)"
proof (induction xs arbitrary: w)
  case (Cons x xs)
  obtain v r where v: "wk_delete c w x = (v, r)" by force
  with Cons.prems have r: "r = None" "deleteWorks c xs v = (w', None)" by (auto split: option.splits)
  from v r(1) api have "store v = (store w)(mw_key x := None)" unfolding page_api_def by metis
  then show ?case unfolding Cons.IH [OF r(2)] by (intro ext) simp
qed simp

text \<open>The works that clean-up has still to see.\<close>

definition pending :: "'w store \<Rightarrow> string \<Rightarrow> 'w \<Rightarrow> nsname set" where
  "pending store l w = {k. \<exists>x. store w k = Some x \<and> labelled l x}"

lemma pending_finite: "page_api c store after \<Longrightarrow> finite (pending store l w)"
proof -
  assume api: "page_api c store after"
  have "pending store l w \<subseteq> dom (store w)" unfolding pending_def by blast
  moreover have "finite (dom (store w))" using api unfolding page_api_def by blast
  ultimately show ?thesis by (rule finite_subset)
qed

lemma page_seen:
  assumes api: "page_api c store after"
    and page: "\<forall>x \<in> set xs. store w (mw_key x) = Some x \<and> labelled l x \<and> mw_key x \<in> after t"
      "\<forall>k x. store w k = Some x \<longrightarrow> labelled l x \<longrightarrow> k \<in> after t \<longrightarrow> (t' \<noteq> '''' \<and> k \<in> after t') \<or> x \<in> set xs"
    and st: "st k = (if k \<in> mw_key ` set xs then None else store w k)"
  shows "k \<in> mw_key ` set xs \<longleftrightarrow> k \<in> pending store l w \<and> k \<in> after t \<and> \<not> (t' \<noteq> '''' \<and> k \<in> after t' \<and> st k \<noteq> None)"
proof
  assume "k \<in> mw_key ` set xs"
  with page(1) st show "k \<in> pending store l w \<and> k \<in> after t \<and> \<not> (t' \<noteq> '''' \<and> k \<in> after t' \<and> st k \<noteq> None)"
    unfolding pending_def by auto
next
  assume a: "k \<in> pending store l w \<and> k \<in> after t \<and> \<not> (t' \<noteq> '''' \<and> k \<in> after t' \<and> st k \<noteq> None)"
  then obtain x where x: "store w k = Some x" "labelled l x" unfolding pending_def by blast
  from api x(1) have "mw_key x = k" unfolding page_api_def by blast
  moreover have "(t' \<noteq> '''' \<and> k \<in> after t') \<or> x \<in> set xs" using page(2) x a by blast
  ultimately show "k \<in> mw_key ` set xs" using a st x(1) by (metis image_eqI option.distinct(1))
qed

lemma pending_step:
  assumes "store v = (\<lambda>k. if k \<in> K then None else store w k)"
  shows "k \<in> pending store l v \<longleftrightarrow> k \<notin> K \<and> k \<in> pending store l w"
  using assms unfolding pending_def by auto

text \<open>The effect of a page and of the pages after it.\<close>

lemma pages_compose:
  assumes w': "s' k = (if k \<in> Pv \<and> k \<in> A' then None else sv k)" and v: "sv k = (if k \<in> K then None else s k)"
    and pv: "k \<in> Pv \<longleftrightarrow> k \<notin> K \<and> k \<in> P" and sub: "k \<in> A' \<Longrightarrow> k \<in> A"
    and seen: "k \<in> K \<longleftrightarrow> k \<in> P \<and> k \<in> A \<and> \<not> (further \<and> k \<in> A' \<and> sv k \<noteq> None)"
  shows "s' k = (if k \<in> P \<and> k \<in> A then None else s k)"
proof (cases "k \<in> K")
  case True
  then have "k \<in> P \<and> k \<in> A" using seen by blast
  moreover have "s' k = None" unfolding w' v using True by simp
  ultimately show ?thesis by simp
next
  case False
  then have "k \<in> P \<and> k \<in> A \<longleftrightarrow> k \<in> Pv \<and> k \<in> A'" using seen pv sub by blast
  moreover have "sv k = s k" unfolding v using False by simp
  ultimately show ?thesis unfolding w' by simp
qed

lemma cleanupPages_ends:
  assumes api: "page_api c store after"
  shows "\<exists>w' r. cleanupPages c l t w = Some (w', r) \<and> (r = None \<longrightarrow>
    (\<forall>k. store w' k = (if k \<in> pending store l w \<and> k \<in> after t then None else store w k)))"
proof (induction "card (pending store l w)" arbitrary: t w rule: less_induct)
  case less
  show ?case
  proof (cases "wk_page c w l t")
    case (Inl er)
    then show ?thesis by (simp add: cleanupPages.simps)
  next
    case (Inr p)
    obtain xs t' where pg: "wk_page c w l t = Inr (xs, t')" using Inr by (cases p) auto
    note page = page_apiD [OF api pg]
    obtain v r where v: "deleteWorks c xs w = (v, r)" by force
    show ?thesis
    proof (cases r)
      case (Some er)
      with pg v show ?thesis by (simp add: cleanupPages.simps)
    next
      case None
      have st: "store v = (\<lambda>k. if k \<in> mw_key ` set xs then None else store w k)"
        using deleteWorks_store [OF api] v None by blast
      have seen: "k \<in> mw_key ` set xs \<longleftrightarrow> k \<in> pending store l w \<and> k \<in> after t \<and> \<not> (t' \<noteq> '''' \<and> k \<in> after t' \<and> store v k \<noteq> None)" for k
        by (rule page_seen [OF api page(1,3)]) (simp add: st)
      show ?thesis
      proof (cases "t' = ''''")
        case True
        with pg v None st seen show ?thesis by (simp add: cleanupPages.simps)
      next
        case False
        then obtain x where x: "x \<in> set xs" using page(2) by (cases xs) auto
        with page(1) have px: "mw_key x \<in> pending store l w" unfolding pending_def by blast
        moreover have "mw_key x \<notin> pending store l v" using x st unfolding pending_def by simp
        moreover have "pending store l v \<subseteq> pending store l w" using st unfolding pending_def by (auto split: if_splits)
        ultimately have "card (pending store l v) < card (pending store l w)"
          by (intro psubset_card_mono [OF pending_finite [OF api]]) blast
        from less.hyps [OF this, of t'] obtain w' r where w': "cleanupPages c l t' v = Some (w', r)"
          "r = None \<longrightarrow> (\<forall>k. store w' k = (if k \<in> pending store l v \<and> k \<in> after t' then None else store v k))" by blast
        have "store w' k = (if k \<in> pending store l w \<and> k \<in> after t then None else store w k)" if "r = None" for k
          by (rule pages_compose [OF _ _ pending_step [OF st] _ seen])
            (use w'(2) that st page(2) False in \<open>simp_all del: split_paired_All\<close>, blast)
        with w'(1) pg v None False show ?thesis by (simp add: cleanupPages.simps)
      qed
    qed
  qed
qed

text \<open>
  The loop over the pages of works ends, whatever the works are; when it ends without an error,
  every work with the label of the subscription is gone and no other work is touched. The label is
  the name of the subscription cut after 63 characters, so the works of another subscription with
  the same first characters are gone as well.
\<close>

theorem cleanupManifestWork_ends:
  assumes "page_api (pe_works e) store after"
  shows "\<exists>w' r. cleanupManifestWork e k w = Some (w', r) \<and> (r = None \<longrightarrow>
    (\<forall>key. store w' key = (if key \<in> pending store (hostingLabel k) w then None else store w key)))"
proof (cases "pe_selector e (hostingLabel k)")
  case None
  have "after '''' = UNIV" using assms unfolding page_api_def by blast
  with None cleanupPages_ends [OF assms, of "hostingLabel k" "''''" w] show ?thesis by (simp add: cleanupManifestWork_def)
qed (simp add: cleanupManifestWork_def)

section \<open>Clusters of a placement\<close>

text \<open>
  The clusters of a subscription with a placement reference are the decided clusters of that
  placement or placement rule in the namespace of the subscription itself, in the order of the
  decisions; the namespace of the reference is ignored, and an unsupported kind is an error.
\<close>

theorem clusters_of_reference:
  assumes "hs_placement inst = Some p" "pl_ref p = Some pref" "getClustersByPlacement e w inst = Inr clusters"
  shows "supportedRef pref \<and> (\<exists>ds. pe_decisions e w (sub_namespace (hs_sub inst))
      (if EqualFold (pref_kind pref) ''Placement'' then placementLabel else placementRuleLabel) (pref_name pref) = Inr ds
    \<and> map mg_cluster clusters = concat (map (\<lambda>d. map cd_cluster (pd_decisions d)) ds))"
  using assms
  by (auto simp: getClustersByPlacement_def getClustersFromPlacementRef_def getDecisionsFromPlacementRef_def Let_def rbind_Inr_iff o_def
      split: if_splits option.splits)

end
