(* ===== verification/HubExamples.thy ===== *)
theory HubExamples
  imports PropagationFacts
begin

text \<open>
  A hub in memory: a list of manifest works, the first of a key counting. It satisfies the laws that
  the theorems on propagation rely on, and propagation and clean-up are evaluated on it.
\<close>

section \<open>Works in memory\<close>

type_synonym hub = "ManifestWork list"

fun live :: "hub \<Rightarrow> hub" where
  "live [] = []"
| "live (x # xs) = x # filter (\<lambda>y. mw_key y \<noteq> mw_key x) (live xs)"

definition hub_store :: "hub store" where
  "hub_store w = map_of (map (\<lambda>x. (mw_key x, x)) w)"

fun least :: "string list \<Rightarrow> string" where
  "least [] = ''''"
| "least [a] = a"
| "least (a # b # xs) = min a (least (b # xs))"

definition work_id :: "ManifestWork \<Rightarrow> string" where
  "work_id x = nsname_string (mw_key x)"

text \<open>A page is the least works after the token.\<close>

definition hub_page :: "hub \<Rightarrow> string \<Rightarrow> string \<Rightarrow> kerr + ManifestWork list \<times> string" where
  "hub_page w l t =
     (let ys = filter (\<lambda>x. labelled l x \<and> (t = '''' \<or> t < work_id x)) (live w); m = least (map work_id ys)
      in Inr (filter (\<lambda>x. work_id x = m) ys, if list_ex (\<lambda>x. work_id x \<noteq> m) ys then m else ''''))"

definition hub_works :: "hub work_client" where
  "hub_works = \<lparr>wk_list = (\<lambda>w l. Inr (filter (labelled l) (live w))), wk_page = hub_page,
     wk_create = (\<lambda>w x. if hub_store w (mw_key x) = None then (x # w, None) else (w, Some (OtherError ''already exists''))),
     wk_update = (\<lambda>w x. if hub_store w (mw_key x) = None then (w, Some (NotFound ''not found'')) else (x # w, None)),
     wk_delete = (\<lambda>w x. if hub_store w (mw_key x) = None then (w, Some (NotFound ''not found''))
        else (filter (\<lambda>y. mw_key y \<noteq> mw_key x) w, None))\<rparr>"

lemma hub_store_simps [simp]:
  "hub_store [] = Map.empty" "hub_store (x # w) = (hub_store w)(mw_key x \<mapsto> x)"
  "hub_store (filter (\<lambda>y. mw_key y \<noteq> k) w) = (hub_store w)(k := None)"
proof -
  show "hub_store (filter (\<lambda>y. mw_key y \<noteq> k) w) = (hub_store w)(k := None)"
    by (induction w) (auto simp: hub_store_def fun_eq_iff)
qed (simp_all add: hub_store_def fun_upd_def)

lemma hub_store_key: "hub_store w k = Some x \<Longrightarrow> mw_key x = k"
  by (induction w) (auto split: if_splits)

lemma live_spec: "distinct (map mw_key (live w)) \<and> (\<forall>x. x \<in> set (live w) \<longleftrightarrow> hub_store w (mw_key x) = Some x)"
proof (induction w)
  case (Cons y w)
  then show ?case by (auto simp: distinct_map_filter)
qed simp

lemma least_spec: "xs \<noteq> [] \<Longrightarrow> least xs \<in> set xs \<and> (\<forall>y \<in> set xs. least xs \<le> y)"
  by (induction xs rule: least.induct) (auto simp: min_def)

lemma work_id_ne: "work_id x \<noteq> ''''"
  by (cases "mw_key x") (simp add: work_id_def nsname_string_def)

definition hub_after :: "string \<Rightarrow> nsname set" where
  "hub_after t = {k. t = '''' \<or> t < nsname_string k}"

lemma hub_page_api: "page_api hub_works hub_store hub_after"
proof -
  have page: "(\<forall>x \<in> set xs. hub_store w (mw_key x) = Some x \<and> labelled l x \<and> mw_key x \<in> hub_after t)
      \<and> (t' \<noteq> '''' \<longrightarrow> xs \<noteq> [] \<and> hub_after t' \<subseteq> hub_after t)
      \<and> (\<forall>k x. hub_store w k = Some x \<longrightarrow> labelled l x \<longrightarrow> k \<in> hub_after t \<longrightarrow> (t' \<noteq> '''' \<and> k \<in> hub_after t') \<or> x \<in> set xs)"
    if "hub_page w l t = Inr (xs, t')" for w l t xs t'
  proof -
    define ys where "ys = filter (\<lambda>x. labelled l x \<and> (t = '''' \<or> t < work_id x)) (live w)"
    define m where "m = least (map work_id ys)"
    have r: "xs = filter (\<lambda>x. work_id x = m) ys" "t' = (if list_ex (\<lambda>x. work_id x \<noteq> m) ys then m else '''')"
      using that unfolding hub_page_def Let_def ys_def [symmetric] m_def [symmetric] by auto
    have ys: "x \<in> set ys \<longleftrightarrow> hub_store w (mw_key x) = Some x \<and> labelled l x \<and> mw_key x \<in> hub_after t" for x
      using live_spec [of w] by (auto simp: ys_def hub_after_def work_id_def)
    have low: "m \<in> work_id ` set ys" "\<forall>y \<in> set ys. m \<le> work_id y" if "ys \<noteq> []"
      using least_spec [of "map work_id ys"] that by (auto simp: m_def)
    have "xs \<noteq> [] \<and> hub_after t' \<subseteq> hub_after t" if "t' \<noteq> ''''"
    proof -
      from that r(2) have ne: "ys \<noteq> []" and t': "t' = m" by (auto split: if_splits)
      from low(1) [OF ne] obtain y where y: "y \<in> set ys" "work_id y = m" by auto
      with r(1) have "xs \<noteq> []" by (auto simp: filter_empty_conv)
      moreover have "t = '''' \<or> t < m" using y ys by (auto simp: hub_after_def work_id_def)
      ultimately show ?thesis using t' that by (auto simp: hub_after_def)
    qed
    moreover have "(t' \<noteq> '''' \<and> k \<in> hub_after t') \<or> x \<in> set xs"
      if "hub_store w k = Some x" "labelled l x" "k \<in> hub_after t" for k x
    proof -
      from that hub_store_key [OF that(1)] have x: "x \<in> set ys" "nsname_string k = work_id x" by (auto simp: ys work_id_def)
      then have ne: "ys \<noteq> []" by auto
      have "m \<le> work_id x" using low(2) [OF ne] x(1) by blast
      moreover have "m \<noteq> ''''" using low(1) [OF ne] work_id_ne by (metis imageE)
      ultimately show ?thesis using x r by (auto simp: hub_after_def list_ex_iff)
    qed
    ultimately show ?thesis using ys r(1) by auto
  qed
  have del: "hub_store w' = (if r = None then (hub_store w)(mw_key x := None) else hub_store w)"
    if "wk_delete hub_works w x = (w', r)" for w x w' r
    using that by (auto simp: hub_works_def split: if_splits)
  have "finite (dom (hub_store w))" for w by (simp add: hub_store_def finite_dom_map_of)
  then have fin: "\<forall>w. finite (dom (hub_store w))" by blast
  have eq: "wk_page hub_works = hub_page" by (simp add: hub_works_def)
  have all: "hub_after '''' = UNIV" by (simp add: hub_after_def)
  have p: "\<forall>w l t xs t'. hub_page w l t = Inr (xs, t') \<longrightarrow>
      (\<forall>x \<in> set xs. hub_store w (mw_key x) = Some x \<and> labelled l x \<and> mw_key x \<in> hub_after t)
      \<and> (t' \<noteq> '''' \<longrightarrow> xs \<noteq> [] \<and> hub_after t' \<subseteq> hub_after t)
      \<and> (\<forall>k x. hub_store w k = Some x \<longrightarrow> labelled l x \<longrightarrow> k \<in> hub_after t \<longrightarrow> (t' \<noteq> '''' \<and> k \<in> hub_after t') \<or> x \<in> set xs)"
    using page by blast
  have d: "\<forall>w x w' r. wk_delete hub_works w x = (w', r) \<longrightarrow>
      hub_store w' = (if r = None then (hub_store w)(mw_key x := None) else hub_store w)" using del by blast
  have k: "\<forall>w k x. hub_store w k = Some x \<longrightarrow> mw_key x = k" using hub_store_key by blast
  show ?thesis unfolding page_api_def eq by (intro conjI all fin p d k)
qed

section \<open>A hub with three clusters\<close>

definition no_report :: SubscriptionReport where
  "no_report = hubClusterReport ''c''"

definition hub_ex :: "hub propagation_env" where
  "hub_ex = \<lparr>pe_hub = (\<lambda>w. \<lparr>list_clusters = (\<lambda>s. Inr []), list_bindings = Inr [], get_cluster_role = (\<lambda>n. Inr [])\<rparr>),
     pe_cluster = (\<lambda>w c. Inl (NotFound '''')), pe_requirement = (\<lambda>l v. None), pe_selector = (\<lambda>v. None),
     pe_decisions = (\<lambda>w ns l n. Inr [\<lparr>pd_name = n @ ''-1'', pd_namespace = ns, pd_labels = [(l, n)], pd_owner = [],
        pd_decisions = [\<lparr>cd_cluster = ''c1'', cd_reason = ''''\<rparr>, \<lparr>cd_cluster = ''c2'', cd_reason = ''''\<rparr>]\<rparr>]),
     pe_showRef = pref_name, pe_admin = (\<lambda>w. \<lparr>ar_webhook = (\<lambda>n. None), ar_binding = (\<lambda>n. Inl (NotFound '''')), ar_bindings = Inr [],
        ar_work = (\<lambda>n. Inr []), ar_decode = (\<lambda>s. s)\<rparr>),
     pe_configMap = (\<lambda>w k. Inl (NotFound '''')), pe_works = hub_works,
     pe_reports = \<lparr>rpc_get = (\<lambda>w k. Inr no_report), rpc_create = (\<lambda>w r. (w, None)), rpc_update = (\<lambda>w r. (w, None))\<rparr>,
     pe_statuses = \<lparr>stc_list = (\<lambda>w ns l. Inr []), stc_delete = (\<lambda>w p. (w, None))\<rparr>,
     pe_event = (\<lambda>s a m r w. w), pe_now = (\<lambda>w. 0), pe_marshalNs = (\<lambda>n a. Inr n), pe_marshalSub = (\<lambda>h. Inr (sub_name (hs_sub h))),
     pe_marshal = (\<lambda>u. Inr (u_name u)),
     pe_unmarshal = (\<lambda>s. Inr \<lparr>u_apiVersion = '''', u_kind = '''', u_name = s, u_namespace = '''', u_resourceVersion = '''', u_uid = '''',
        u_labels = None, u_annotations = None, u_owners = [], u_body = []\<rparr>),
     pe_emptyU = \<lparr>u_apiVersion = '''', u_kind = '''', u_name = '''', u_namespace = '''', u_resourceVersion = '''', u_uid = '''',
        u_labels = None, u_annotations = None, u_owners = [], u_body = []\<rparr>,
     pe_semEq = (=)\<rparr>"

lemma hub_ex_api: "work_api hub_ex hub_store"
proof -
  have *: "pe_works hub_ex = hub_works" "pe_event hub_ex = (\<lambda>s a m r w. w)"
    "fst (stc_delete (pe_statuses hub_ex) w p) = w" "fst (rpc_create (pe_reports hub_ex) w rp) = w" "fst (rpc_update (pe_reports hub_ex) w rp) = w"
    for w p rp by (simp_all add: hub_ex_def)
  have "written (mw_key x) x (hub_store w) (hub_store (x # w))" for x w
    unfolding written_def by (rule exI [of _ "mw_rest x"]) simp
  note w = this
  have cr: "\<forall>w x w'. wk_create hub_works w x = (w', None) \<longrightarrow>
      hub_store w (mw_key x) = None \<and> written (mw_key x) x (hub_store w) (hub_store w')"
    using w by (simp add: hub_works_def)
  have up: "\<forall>w x w'. wk_update hub_works w x = (w', None) \<longrightarrow> written (mw_key x) x (hub_store w) (hub_store w')"
    using w by (simp add: hub_works_def)
  have de: "\<forall>w x w'. wk_delete hub_works w x = (w', None) \<longrightarrow> hub_store w' = (hub_store w)(mw_key x := None)"
    by (auto simp: hub_works_def)
  have er: "\<forall>w x w' r. wk_create hub_works w x = (w', Some r) \<or> wk_update hub_works w x = (w', Some r)
      \<or> wk_delete hub_works w x = (w', Some r) \<longrightarrow> hub_store w' = hub_store w"
    by (simp add: hub_works_def)
  have li: "\<forall>w l xs. wk_list hub_works w l = Inr xs \<longrightarrow>
      distinct (map mw_key xs) \<and> (\<forall>x. x \<in> set xs \<longleftrightarrow> hub_store w (mw_key x) = Some x \<and> labelled l x)"
    using live_spec by (auto simp: hub_works_def distinct_map_filter)
  have k: "\<forall>w k x. hub_store w k = Some x \<longrightarrow> mw_key x = k" using hub_store_key by blast
  show ?thesis unfolding work_api_def * by (intro conjI k li cr up de er) simp_all
qed

lemma hub_ex_up: "works_up hub_ex hub_store"
  by (simp add: works_up_def hub_ex_def hub_works_def)

definition work_of :: "string \<Rightarrow> nsname \<Rightarrow> string list \<Rightarrow> ManifestWork" where
  "work_of c k ms = \<lparr>mw_name = workName k, mw_namespace = c, mw_labels = Some [(AnnotationHosting, hostingLabel k)], mw_manifests = ms,
     mw_orphan = Some (fst k), mw_rest = JNull\<rparr>"

definition hub_sub :: Subscription where
  "hub_sub = \<lparr>sub_name = ''app'', sub_namespace = ''ns'', sub_labels = None, sub_annotations = None, sub_finalizers = None,
     sub_deleted = None, sub_uid = '''', sub_owners = [],
     sub_spec = \<lparr>sp_channel = ''chns/repo'', sp_secondary = '''', sp_package = '''', sp_packageFilter = None,
       sp_packageOverrides = None, sp_overrides = None, sp_timewindow = None, sp_hooksecret = None, sp_allow = [], sp_deny = [],
       sp_watchHelm = False\<rparr>,
     sub_status = emptyStatusOf\<rparr>"

text \<open>A work of the subscription on \<open>c1\<close> that is out of date, one on \<open>c3\<close> that is expired, and a foreign one.\<close>

definition hub0 :: hub where
  "hub0 = [work_of ''c1'' (''ns'', ''app'') [''ns'', ''old''], work_of ''c3'' (''ns'', ''app'') [''ns'', ''app''],
     work_of ''c3'' (''ns'', ''other'') [''ns'', ''other'']]"

definition hub1 :: hub where
  "hub1 = [work_of ''c2'' (''ns'', ''app'') [''ns'', ''app-local''], work_of ''c1'' (''ns'', ''app'') [''ns'', ''app''],
     work_of ''c1'' (''ns'', ''app'') [''ns'', ''old''], work_of ''c3'' (''ns'', ''other'') [''ns'', ''other'']]"

definition two_clusters :: "ManageClusters list" where
  "two_clusters = [\<lparr>mg_cluster = ''c1'', mg_local = False\<rparr>, \<lparr>mg_cluster = ''c2'', mg_local = True\<rparr>]"

theorem propagation_exact_witness:
  "PropagateAppSubManifestWork hub_ex hub_sub two_clusters hub0 = (hub1, hub_sub, None)
   \<and> propagated hub_ex (''ns'', ''app'') ''ns'' ''app'' two_clusters (hub_store hub0) (hub_store hub1)"
proof -
  have 1: "PropagateAppSubManifestWork hub_ex hub_sub two_clusters hub0 = (hub1, hub_sub, None)" by code_simp
  have 2: "distinct (map mg_cluster two_clusters)" by (simp add: two_clusters_def)
  have k: "subKey hub_sub = (''ns'', ''app'')" by (simp add: subKey_def hub_sub_def)
  have "hub_store hub0 (''c1'', workName (''ns'', ''app'')) = Some (work_of ''c1'' (''ns'', ''app'') [''ns'', ''old''])"
    "hub_store hub0 (''c2'', workName (''ns'', ''app'')) = None" by code_simp+
  moreover have "labelled (hostingLabel (''ns'', ''app'')) (work_of ''c1'' (''ns'', ''app'') [''ns'', ''old''])" by code_simp
  ultimately have 3: "\<forall>cl \<in> set two_clusters. \<forall>x. hub_store hub0 (mg_cluster cl, workName (subKey hub_sub)) = Some x \<longrightarrow>
      labelled (hostingLabel (subKey hub_sub)) x" unfolding k by (simp add: two_clusters_def)
  have 4: "prepareManifestWorkNS hub_ex (sub_namespace hub_sub) (subKey hub_sub) = Inr ''ns''"
    "prepareManifestWorkAppsub hub_ex hub0 hub_sub (subKey hub_sub) = (hub_sub, Inr ''app'')" by code_simp+
  from propagation_exact [OF hub_ex_api hub_ex_up 2 3 4 1] 1 k show ?thesis by simp
qed

text \<open>The first cluster has a foreign work under the name of the subscription; the second is not updated.\<close>

definition stale :: ManifestWork where
  "stale = work_of ''c1'' (''ns'', ''app'') [''ns'', ''old'']"

definition taken :: ManageClusters where
  "taken = \<lparr>mg_cluster = ''c3'', mg_local = False\<rparr>"

definition hub2 :: hub where
  "hub2 = [stale, (work_of ''c3'' (''ns'', ''app'') [])\<lparr>mw_labels := None\<rparr>]"

theorem failed_cluster_blocks_rest_witness:
  "propagateClusters hub_ex ''ns'' ''app'' hub_sub (taken # two_clusters) (familyMap [stale]) hub2 =
     (work_of ''c2'' (''ns'', ''app'') [''ns'', ''app-local''] # hub2, [])
   \<and> hub_store (work_of ''c2'' (''ns'', ''app'') [''ns'', ''app-local''] # hub2) (mw_key stale) = Some stale"
proof -
  have 1: "createManifestWork hub_ex ''ns'' ''app'' taken (subKey hub_sub) hub_sub (familyMap [stale]) hub2
     = (hub2, Inl (OtherError ''already exists''))" by code_simp
  have 2: "propagateClusters hub_ex ''ns'' ''app'' hub_sub (taken # two_clusters) (familyMap [stale]) hub2 =
     (work_of ''c2'' (''ns'', ''app'') [''ns'', ''app-local''] # hub2, [])" by code_simp
  have 3: "hub_store hub2 (mw_key stale) = Some stale" by code_simp
  from failed_cluster_blocks_rest [OF hub_ex_api 1 2 3] 2 show ?thesis by simp
qed

text \<open>
  Two subscriptions whose names share their first 63 characters: removing one removes the works of
  the other.
\<close>

definition long_name :: "string \<Rightarrow> string" where
  "long_name s = replicate 60 (CHR ''a'') @ s"

definition hub3 :: hub where
  "hub3 = [work_of ''c1'' (''ns'', long_name ''east'') [], work_of ''c1'' (''ns'', long_name ''west'') [], work_of ''c1'' (''ns'', ''app'') []]"

theorem cleanupManifestWork_ends_witness:
  "cleanupManifestWork hub_ex (''ns'', long_name ''east'') hub3 = Some ([work_of ''c1'' (''ns'', ''app'') []], None)
   \<and> hub_store [work_of ''c1'' (''ns'', ''app'') []] (''c1'', workName (''ns'', long_name ''west'')) = None"
proof -
  have 1: "cleanupManifestWork hub_ex (''ns'', long_name ''east'') hub3 = Some ([work_of ''c1'' (''ns'', ''app'') []], None)" by code_simp
  have 2: "page_api (pe_works hub_ex) hub_store hub_after" by (simp add: hub_ex_def hub_page_api)
  have "hub_store hub3 (''c1'', workName (''ns'', long_name ''west'')) = Some (work_of ''c1'' (''ns'', long_name ''west'') [])"
    "labelled (hostingLabel (''ns'', long_name ''east'')) (work_of ''c1'' (''ns'', long_name ''west'') [])" by code_simp+
  then have 3: "(''c1'', workName (''ns'', long_name ''west'')) \<in> pending hub_store (hostingLabel (''ns'', long_name ''east'')) hub3"
    unfolding pending_def by blast
  from cleanupManifestWork_ends [OF 2, of "(''ns'', long_name ''east'')" hub3] obtain w' r where
    4: "cleanupManifestWork hub_ex (''ns'', long_name ''east'') hub3 = Some (w', r)"
    "r = None \<longrightarrow> (\<forall>key. hub_store w' key = (if key \<in> pending hub_store (hostingLabel (''ns'', long_name ''east'')) hub3 then None
       else hub_store hub3 key))" by blast
  from 1 4(1) have "w' = [work_of ''c1'' (''ns'', ''app'') []]" "r = None" by simp_all
  with 1 3 4(2) show ?thesis by (metis (full_types))
qed

definition placed :: HubSub where
  "placed = \<lparr>hs_sub = hub_sub, hs_placement = Some \<lparr>pl_clusters = None, pl_selector = None,
     pl_ref = Some \<lparr>pref_kind = ''Placement'', pref_apiVersion = '''', pref_name = ''p'', pref_namespace = ''elsewhere''\<rparr>, pl_local = None\<rparr>, hs_generation = 1\<rparr>"

theorem clusters_of_reference_witness:
  "getClustersByPlacement hub_ex hub0 placed =
     Inr [\<lparr>mg_cluster = ''c1'', mg_local = False\<rparr>, \<lparr>mg_cluster = ''c2'', mg_local = False\<rparr>]
   \<and> supportedRef \<lparr>pref_kind = ''Placement'', pref_apiVersion = '''', pref_name = ''p'', pref_namespace = ''elsewhere''\<rparr>"
proof -
  have 1: "getClustersByPlacement hub_ex hub0 placed =
     Inr [\<lparr>mg_cluster = ''c1'', mg_local = False\<rparr>, \<lparr>mg_cluster = ''c2'', mg_local = False\<rparr>]" by code_simp
  from clusters_of_reference [OF _ _ 1] 1 show ?thesis by (simp add: placed_def)
qed

end
