(* ===== verification/HubGit.thy ===== *)
theory HubGit
  imports Propagation GitSubscriber
begin

text \<open>
  The Git registry of the hub (\<open>pkg/controller/mcmhub/hub_git.go\<close>): the branches that
  subscriptions use, the watch for new commits and the hook jobs of a repository. A clone, the files
  of the clone, the API of the hub and the decoders are arguments.
\<close>

section \<open>Data\<close>

definition AnnotationGithubCommit :: string where "AnnotationGithubCommit = group @ ''/github-commit''"
definition AnnotationSkipHubValidation :: string where "AnnotationSkipHubValidation = group @ ''/skip-hub-validation''"
definition commitIDSuffix :: string where "commitIDSuffix = ''-new''"
definition AnsibleJobKind :: string where "AnsibleJobKind = ''AnsibleJob''"

text \<open>
  A job: \<open>aj_extraVars\<close> is the raw JSON of its variables, \<open>aj_status\<close> the status of its result;
  \<open>aj_rest\<close> and \<open>aj_statusRest\<close> are the other fields.
\<close>

record AnsibleJob =
  aj_name :: string
  aj_namespace :: string
  aj_annotations :: "strmap option"
  aj_resourceVersion :: string
  aj_created :: int
  aj_owners :: "OwnerReference list"
  aj_secret :: string
  aj_extraVars :: "string option"
  aj_status :: string
  aj_rest :: json
  aj_statusRest :: json

record branchInfo =
  bi_options :: GitCloneOption
  bi_lastCommit :: string
  bi_subs :: "(nsname, unit) gmap"

record RepoRegistery =
  rg_url :: string
  rg_branchs :: "(string, branchInfo) gmap"

record HubGitOps =
  hg_subRecords :: "(nsname, string) gmap"
  hg_repoRecords :: "(string, RepoRegistery) gmap"

text \<open>
  \<open>he_clone\<close> clones into the destination of the options and gives the commit, \<open>he_stat\<close> is the error of a
  path, \<open>he_walk\<close>, \<open>he_ignored\<close> and \<open>he_repo\<close> are the files of a clone, \<open>he_kustomize\<close> builds a directory.
\<close>

record 'w hub_git_env =
  he_channel :: "'w \<Rightarrow> nsname \<Rightarrow> kerr + Channel"
  he_secret :: "'w \<Rightarrow> nsname \<Rightarrow> kerr + strmap"
  he_configMap :: "'w \<Rightarrow> nsname \<Rightarrow> kerr + strmap"
  he_yamlStr :: "string \<Rightarrow> string + string"
  he_trim :: "string \<Rightarrow> string"
  he_folder :: "Subscription \<Rightarrow> string"
  he_clone :: "GitCloneOption \<Rightarrow> 'w \<Rightarrow> 'w \<times> (string + string)"
  he_getSub :: "'w \<Rightarrow> nsname \<Rightarrow> kerr + HubSub"
  he_updateSub :: "'w \<Rightarrow> HubSub \<Rightarrow> 'w \<times> kerr option"
  he_stat :: "'w \<Rightarrow> string \<Rightarrow> kerr option"
  he_repo :: "'w \<Rightarrow> repo_env"
  he_walk :: "'w \<Rightarrow> string \<Rightarrow> (string \<times> (string + bool)) list"
  he_ignored :: "'w \<Rightarrow> string \<Rightarrow> string \<Rightarrow> bool"
  he_kustomize :: "'w \<Rightarrow> string \<Rightarrow> kerr + string"
  he_job :: "string \<Rightarrow> kerr + AnsibleJob"

section \<open>Channels of a subscription\<close>

definition parseGetChannel :: "(nsname \<Rightarrow> kerr + Channel) \<Rightarrow> string \<Rightarrow> kerr + Channel option" where
  "parseGetChannel get channelName =
     (if channelName = '''' then Inr None
      else rbind (get (case go_split (CHR ''/'') channelName of [ns, n] \<Rightarrow> (ns, n) | _ \<Rightarrow> ('''', '''')))
             (\<lambda>c. Inr (Some c)))"

text \<open>An error of the primary channel other than \<open>NotFound\<close> is dropped with the channel.\<close>

definition GetSubscriptionRefChannel ::
  "(nsname \<Rightarrow> kerr + Channel) \<Rightarrow> Subscription \<Rightarrow> kerr + Channel option \<times> Channel option" where
  "GetSubscriptionRefChannel get s =
     rbind (case parseGetChannel get (sp_channel (sub_spec s)) of
              Inl er \<Rightarrow> if IsNotFound er then Inl er else Inr None
            | Inr c \<Rightarrow> Inr c)
       (\<lambda>primary. rbind (parseGetChannel get (sp_secondary (sub_spec s))) (\<lambda>secondary. Inr (primary, secondary)))"

definition isGitChannel :: "Channel \<Rightarrow> bool" where
  "isGitChannel ch = (if EqualFold (ch_type ch) ''Git'' \<or> EqualFold (ch_type ch) ''GitHub'' then True else False)"

section \<open>Branches\<close>

definition getBranchCommitDepthAndTag :: "Subscription \<Rightarrow> string \<times> string \<times> string \<times> string" where
  "getBranchCommitDepthAndTag s =
     (let an = sub_annotations s
      in if unnil an = [] then ('''', '''', '''', '''')
         else (let b = (if anno an AnnotationGitBranch \<noteq> '''' then anno an AnnotationGitBranch else '''');
                   branch = (if anno an AnnotationGithubBranch \<noteq> '''' then anno an AnnotationGithubBranch else b)
               in (branch, anno an AnnotationGitTargetCommit, anno an AnnotationGitTag, anno an AnnotationGitCloneDepth)))"

definition genBranchString :: "Subscription \<Rightarrow> string" where
  "genBranchString s =
     (if unnil (sub_annotations s) = [] then ''''
      else (let (branch, commit, tag, depth) = getBranchCommitDepthAndTag s
            in if commit \<noteq> '''' then commit else if tag \<noteq> '''' then tag
               else if branch \<noteq> '''' then branch else ''nobranchdummy''))"

definition setBranch :: "string \<Rightarrow> Subscription \<Rightarrow> Subscription" where
  "setBranch bName s = s\<lparr>sub_annotations := Some (gm_put AnnotationGitBranch bName (unnil (sub_annotations s)))\<rparr>"

definition genRepoName :: "string \<Rightarrow> string \<Rightarrow> string" where
  "genRepoName subName subNamespace = subName @ subNamespace"

definition shouldSkipHubValidation :: "Subscription \<Rightarrow> bool" where
  "shouldSkipHubValidation s \<longleftrightarrow>
     unnil (sub_annotations s) \<noteq> [] \<and> anno (sub_annotations s) AnnotationSkipHubValidation = ''true''"

definition fakeCommitID :: "string \<Rightarrow> string" where
  "fakeCommitID c = c @ commitIDSuffix"

definition unmaskFakeCommitID :: "string \<Rightarrow> string" where
  "unmaskFakeCommitID c = TrimSuffix c commitIDSuffix"

definition setCommitID :: "string \<Rightarrow> Subscription \<Rightarrow> Subscription" where
  "setCommitID commitID s = s\<lparr>sub_annotations := Some (gm_put AnnotationGitCommit commitID (unnil (sub_annotations s)))\<rparr>"

definition getCommitID :: "Subscription \<Rightarrow> string" where
  "getCommitID s =
     (let a = sub_annotations s
      in if unnil a = [] then ''''
         else if anno a AnnotationGitCommit \<noteq> '''' then anno a AnnotationGitCommit
         else if anno a AnnotationGithubCommit \<noteq> '''' then anno a AnnotationGithubCommit
         else '''')"

section \<open>Registration\<close>

definition hubCloneDepth :: "string \<Rightarrow> int" where
  "hubCloneDepth depth = (if depth \<noteq> '''' then (case go_atoi depth of None \<Rightarrow> 0 | Some n \<Rightarrow> n) else 0)"

text \<open>Certificates and the check of the host are those of the primary channel.\<close>

definition hubConnection ::
  "'w hub_git_env \<Rightarrow> 'w \<Rightarrow> Channel \<Rightarrow> Channel \<Rightarrow> kerr + ChannelConnectionCfg" where
  "hubConnection e w primary chn =
     (case GetChannelSecret (he_secret e w) (he_yamlStr e) (he_trim e) chn of
        Inl er \<Rightarrow> Inl (OtherError er)
      | Inr c \<Rightarrow>
          (let caCert = (case GetChannelConfigMap (he_configMap e w) primary of None \<Rightarrow> '''' | Some m \<Rightarrow> gm_str m ''caCerts'')
           in Inr \<lparr>cc_url = ch_pathname chn, cc_credentials = c, cc_insecure = ch_insecure primary, cc_caCerts = caCert\<rparr>))"

definition hubCloneOptions ::
  "'w hub_git_env \<Rightarrow> 'w \<Rightarrow> Subscription \<Rightarrow> Channel \<Rightarrow> Channel option \<Rightarrow> kerr + GitCloneOption" where
  "hubCloneOptions e w s primary secondary =
     (let (branch, commit, tag, depth) = getBranchCommitDepthAndTag s
      in rbind (hubConnection e w primary primary) (\<lambda>c.
         rbind (case secondary of None \<Rightarrow> Inr None | Some chn \<Rightarrow> rbind (hubConnection e w primary chn) (\<lambda>c2. Inr (Some c2))) (\<lambda>c2.
           Inr \<lparr>go_commit = commit, go_tag = tag, go_branch = GetSubscriptionBranchRef branch, go_destDir = he_folder e s,
                go_depth = hubCloneDepth depth, go_primary = c, go_secondary = c2\<rparr>)))"

definition newBranch :: "GitCloneOption \<Rightarrow> string \<Rightarrow> nsname \<Rightarrow> branchInfo" where
  "newBranch opts commitID k = \<lparr>bi_options = opts, bi_lastCommit = commitID, bi_subs = [(k, ())]\<rparr>"

definition recordBranch ::
  "string \<Rightarrow> string \<Rightarrow> nsname \<Rightarrow> string \<Rightarrow> GitCloneOption \<Rightarrow> string \<Rightarrow> HubGitOps \<Rightarrow> HubGitOps" where
  "recordBranch repoName bName k url opts commitID h =
     (let r = (case map_of (hg_repoRecords h) repoName of
                 None \<Rightarrow> \<lparr>rg_url = url, rg_branchs = [(bName, newBranch opts commitID k)]\<rparr>
               | Some r \<Rightarrow>
                   (let b = (case map_of (rg_branchs r) bName of
                               None \<Rightarrow> newBranch opts commitID k
                             | Some b \<Rightarrow> b\<lparr>bi_lastCommit := commitID, bi_options := opts, bi_subs := gm_put k () (bi_subs b)\<rparr>)
                    in r\<lparr>rg_branchs := gm_put bName b (rg_branchs r)\<rparr>))
      in h\<lparr>hg_repoRecords := gm_put repoName r (hg_repoRecords h)\<rparr>)"

definition RegisterBranch ::
  "'w hub_git_env \<Rightarrow> Subscription \<Rightarrow> HubGitOps \<Rightarrow> 'w \<Rightarrow> 'w \<times> HubGitOps \<times> unit goval" where
  "RegisterBranch e s h w =
     (if shouldSkipHubValidation s then (w, h, Ret ())
      else
        (let repoName = genRepoName (sub_name s) (sub_namespace s);
             h1 = h\<lparr>hg_subRecords := gm_put (subKey s) repoName (hg_subRecords h)\<rparr>
         in case GetSubscriptionRefChannel (he_channel e w) s of
              Inl er \<Rightarrow> (w, h1, Fail er)
            | Inr (None, secondary) \<Rightarrow> (w, h1, Crash NilDereference)
            | Inr (Some primary, secondary) \<Rightarrow>
                (if \<not> isGitChannel primary then (w, h1, Ret ())
                 else case hubCloneOptions e w s primary secondary of
                        Inl er \<Rightarrow> (w, h1, Fail er)
                      | Inr opts \<Rightarrow>
                          (case he_clone e opts w of
                             (w', Inl er) \<Rightarrow> (w', h1, Fail (OtherError er))
                           | (w', Inr commitID) \<Rightarrow>
                               (w', recordBranch repoName (genBranchString s) (subKey s) (ch_pathname primary) opts commitID h1, Ret ())))))"

text \<open>A branch without subscriptions goes, and a repository without branches.\<close>

definition dropSub :: "nsname \<Rightarrow> (string, branchInfo) gmap \<Rightarrow> (string, branchInfo) gmap" where
  "dropSub k bs = filter (\<lambda>(n, b). bi_subs b \<noteq> []) (map (\<lambda>(n, b). (n, b\<lparr>bi_subs := gm_del k (bi_subs b)\<rparr>)) bs)"

definition DeregisterBranch :: "nsname \<Rightarrow> HubGitOps \<Rightarrow> HubGitOps" where
  "DeregisterBranch k h =
     (case map_of (hg_subRecords h) k of
        None \<Rightarrow> h
      | Some repoName \<Rightarrow>
          (let h1 = h\<lparr>hg_subRecords := gm_del k (hg_subRecords h)\<rparr>
           in case map_of (hg_repoRecords h1) repoName of
                None \<Rightarrow> h1
              | Some r \<Rightarrow>
                  (let bs = dropSub k (rg_branchs r)
                   in h1\<lparr>hg_repoRecords := (if bs = [] \<and> rg_branchs r \<noteq> [] then gm_del repoName (hg_repoRecords h1)
                                           else gm_put repoName (r\<lparr>rg_branchs := bs\<rparr>) (hg_repoRecords h1))\<rparr>)))"

section \<open>Reading the registry\<close>

text \<open>The record of a branch; a missing repository or branch is a nil pointer.\<close>

definition branchOf :: "HubGitOps \<Rightarrow> string \<Rightarrow> string \<Rightarrow> branchInfo goval" where
  "branchOf h repoName bName =
     (case map_of (hg_repoRecords h) repoName of
        None \<Rightarrow> Crash NilDereference
      | Some r \<Rightarrow> (case map_of (rg_branchs r) bName of None \<Rightarrow> Crash NilDereference | Some b \<Rightarrow> Ret b))"

definition GetLatestCommitID ::
  "'w hub_git_env \<Rightarrow> Subscription \<Rightarrow> HubGitOps \<Rightarrow> 'w \<Rightarrow> 'w \<times> HubGitOps \<times> string goval" where
  "GetLatestCommitID e s h w =
     (case map_of (hg_subRecords h) (subKey s) of
        None \<Rightarrow> (let (w', h', r) = RegisterBranch e s h w in (w', h', gbind r (\<lambda>x. Ret '''')))
      | Some repoName \<Rightarrow>
          (w, h, if hg_repoRecords h = [] then Fail (OtherError ''failed to register the branch'')
                 else gbind (branchOf h repoName (genBranchString s)) (\<lambda>b. Ret (bi_lastCommit b))))"

definition GetRepoRootDirctory :: "Subscription \<Rightarrow> HubGitOps \<Rightarrow> string goval" where
  "GetRepoRootDirctory s h =
     (case map_of (hg_subRecords h) (subKey s) of
        None \<Rightarrow> Ret ''''
      | Some repoKey \<Rightarrow> gbind (branchOf h repoKey (genBranchString s)) (\<lambda>b. Ret (go_destDir (bi_options b))))"

definition DownloadAnsibleHookResource ::
  "'w hub_git_env \<Rightarrow> Subscription \<Rightarrow> HubGitOps \<Rightarrow> 'w \<Rightarrow> 'w \<times> HubGitOps \<times> unit goval" where
  "DownloadAnsibleHookResource e s h w =
     (case GetRepoRootDirctory s h of
        Ret root \<Rightarrow> if root \<noteq> '''' then (w, h, Ret ()) else RegisterBranch e s h w
      | Fail er \<Rightarrow> (w, h, Fail er)
      | Crash p \<Rightarrow> (w, h, Crash p))"

section \<open>The watch for new commits\<close>

text \<open>A subscription that cannot be read counts as done, unless it is missing.\<close>

definition updateCommitAnnotation :: "'w hub_git_env \<Rightarrow> nsname \<Rightarrow> string \<Rightarrow> 'w \<Rightarrow> 'w \<times> unit goval" where
  "updateCommitAnnotation e k newCommit w =
     (case he_getSub e w k of
        Inl er \<Rightarrow> (w, if \<not> IsNotFound er then Ret () else Fail er)
      | Inr x \<Rightarrow>
          (case sub_annotations (hs_sub x) of
             None \<Rightarrow> (w, Crash NilMap)
           | Some a \<Rightarrow>
               (case he_updateSub e w (x\<lparr>hs_sub := (hs_sub x)\<lparr>sub_annotations := Some (gm_put AnnotationGitCommit newCommit a)\<rparr>\<rparr>) of
                  (w', Some er) \<Rightarrow> (w', Fail er)
                | (w', None) \<Rightarrow> (w', Ret ()))))"

fun notifySubs :: "'w hub_git_env \<Rightarrow> string \<Rightarrow> nsname list \<Rightarrow> 'w \<Rightarrow> 'w \<times> gopanic option" where
  "notifySubs e newCommit [] w = (w, None)"
| "notifySubs e newCommit (k # ks) w =
     (case updateCommitAnnotation e k (fakeCommitID newCommit) w of
        (w', Crash p) \<Rightarrow> (w', Some p)
      | (w', r) \<Rightarrow> notifySubs e newCommit ks w')"

definition setLastCommit :: "string \<Rightarrow> string \<Rightarrow> string \<Rightarrow> HubGitOps \<Rightarrow> HubGitOps" where
  "setLastCommit repoName bName commitID h =
     h\<lparr>hg_repoRecords := map (\<lambda>(n, r). (n, if n = repoName
         then r\<lparr>rg_branchs := map (\<lambda>(m, b). (m, if m = bName then b\<lparr>bi_lastCommit := commitID\<rparr> else b)) (rg_branchs r)\<rparr> else r))
       (hg_repoRecords h)\<rparr>"

text \<open>A clone that fails gives an empty commit.\<close>

fun watchBranches ::
  "'w hub_git_env \<Rightarrow> (string \<times> string \<times> branchInfo) list \<Rightarrow> HubGitOps \<Rightarrow> 'w \<Rightarrow> 'w \<times> HubGitOps \<times> gopanic option" where
  "watchBranches e [] h w = (w, h, None)"
| "watchBranches e ((repoName, bName, b) # xs) h w =
     (let (w1, r) = he_clone e (bi_options b) w; newCommit = (case r of Inl er \<Rightarrow> '''' | Inr c \<Rightarrow> c)
      in if newCommit = '''' \<or> newCommit = bi_lastCommit b then watchBranches e xs h w1
         else (let h1 = setLastCommit repoName bName newCommit h
               in case notifySubs e newCommit (map fst (bi_subs b)) w1 of
                    (w2, Some p) \<Rightarrow> (w2, h1, Some p)
                  | (w2, None) \<Rightarrow> watchBranches e xs h1 w2))"

definition GitWatch :: "'w hub_git_env \<Rightarrow> HubGitOps \<Rightarrow> 'w \<Rightarrow> 'w \<times> HubGitOps \<times> gopanic option" where
  "GitWatch e h w =
     watchBranches e (concat (map (\<lambda>(n, r). map (\<lambda>(m, b). (n, m, b)) (rg_branchs r)) (hg_repoRecords h))) h w"

section \<open>Hook jobs of a repository\<close>

record gitSortResult =
  gr_kustomized :: "string list"
  gr_kubRes :: "string list"

text \<open>What the walk has found when it ends, also when it ends with an error.\<close>

fun walkedFiles ::
  "repo_env \<Rightarrow> (string \<Rightarrow> bool) \<Rightarrow> string \<Rightarrow> SortedFiles \<Rightarrow> (string \<times> (string + bool)) list \<Rightarrow> SortedFiles" where
  "walkedFiles e ignored repoRoot f [] = f"
| "walkedFiles e ignored repoRoot f ((path, info) # ps) =
     (case info of
        Inl er \<Rightarrow> f
      | Inr isDir \<Rightarrow> (case visitPath e ignored (\<lambda>p. False) repoRoot f path isDir of
                        Inl er \<Rightarrow> f | Inr f' \<Rightarrow> walkedFiles e ignored repoRoot f' ps))"

fun buildAll :: "(string \<Rightarrow> kerr + string) \<Rightarrow> string list \<Rightarrow> kerr + string list" where
  "buildAll build [] = Inr []"
| "buildAll build (d # ds) = rbind (build d) (\<lambda>r. rbind (buildAll build ds) (\<lambda>rs. Inr (r # rs)))"

text \<open>Kustomizations found before an error of the walk hide the error.\<close>

definition sortClonedGitRepoGievnDestPath ::
  "'w hub_git_env \<Rightarrow> 'w \<Rightarrow> string \<Rightarrow> string \<Rightarrow> kerr + gitSortResult" where
  "sortClonedGitRepoGievnDestPath e w repoRoot destPath =
     (let path = path_join repoRoot destPath
      in if \<not> IsPathWithinRoot repoRoot path then Inl (OtherError (escapesMsg path repoRoot))
         else (let dirs = map snd (sf_kustomize (walkedFiles (he_repo e w) (he_ignored e w path) repoRoot noFiles (he_walk e w path)))
               in if dirs \<noteq> [] then rbind (buildAll (he_kustomize e w) dirs) (\<lambda>out. Inr \<lparr>gr_kustomized = out, gr_kubRes = []\<rparr>)
                  else (case SortResources (he_repo e w) (he_ignored e w path) None repoRoot path (he_walk e w path) of
                          Inl er \<Rightarrow> Inl (OtherError er)
                        | Inr f \<Rightarrow> Inr \<lparr>gr_kustomized = [], gr_kubRes = sf_others f\<rparr>)))"

definition parseAnsibleJobResoures :: "(string \<Rightarrow> string + string \<times> string) \<Rightarrow> string \<Rightarrow> string list" where
  "parseAnsibleJobResoures yaml file =
     KubeResourceParser yaml file (\<lambda>(api, kind). api = '''' \<or> kind = '''' \<or> \<not> EqualFold kind AnsibleJobKind)"

text \<open>The jobs of one document; what cannot be decoded is skipped.\<close>

definition jobsIn :: "'w hub_git_env \<Rightarrow> 'w \<Rightarrow> string \<Rightarrow> AnsibleJob list" where
  "jobsIn e w file =
     List.map_filter (\<lambda>r. case he_job e r of Inl er \<Rightarrow> None | Inr j \<Rightarrow> Some j)
       (parseAnsibleJobResoures (re_yaml (he_repo e w)) file)"

definition parseFromKutomizedAsAnsibleJobs :: "'w hub_git_env \<Rightarrow> 'w \<Rightarrow> string list \<Rightarrow> AnsibleJob list" where
  "parseFromKutomizedAsAnsibleJobs e w kustomizes = concat (map (jobsIn e w) kustomizes)"

fun parseAsAnsibleJobs :: "'w hub_git_env \<Rightarrow> 'w \<Rightarrow> string list \<Rightarrow> kerr + AnsibleJob list" where
  "parseAsAnsibleJobs e w [] = Inr []"
| "parseAsAnsibleJobs e w (f # fs) =
     (case re_read (he_repo e w) f of
        Inl er \<Rightarrow> Inl (OtherError er)
      | Inr file \<Rightarrow> rbind (parseAsAnsibleJobs e w fs) (\<lambda>js. Inr (jobsIn e w file @ js)))"

definition getHookPath :: "Subscription \<Rightarrow> string \<times> string" where
  "getHookPath s =
     (let a = sub_annotations s
      in if anno a AnnotationGithubPath \<noteq> '''' then (anno a AnnotationGithubPath @ ''/prehook'', anno a AnnotationGithubPath @ ''/posthook'')
         else if anno a AnnotationGitPath \<noteq> '''' then (anno a AnnotationGitPath @ ''/prehook'', anno a AnnotationGitPath @ ''/posthook'')
         else ('''', ''''))"

definition HasHookFolders :: "'w hub_git_env \<Rightarrow> Subscription \<Rightarrow> HubGitOps \<Rightarrow> 'w \<Rightarrow> bool goval" where
  "HasHookFolders e s h w =
     (let (pre, post) = getHookPath s
      in if pre = '''' \<and> post = '''' then Ret False
         else gbind (GetRepoRootDirctory s h) (\<lambda>root.
                Ret (he_stat e w (root @ ''/'' @ pre) = None \<or> he_stat e w (root @ ''/'' @ post) = None)))"

text \<open>Jobs of a kustomization keep their own namespace.\<close>

definition GetHooks :: "'w hub_git_env \<Rightarrow> Subscription \<Rightarrow> string \<Rightarrow> HubGitOps \<Rightarrow> 'w \<Rightarrow> AnsibleJob list goval" where
  "GetHooks e s hookPath h w =
     gbind (GetRepoRootDirctory s h) (\<lambda>root.
       (case he_stat e w (root @ ''/'' @ hookPath) of
          Some er \<Rightarrow> (if IsNotFound er then Ret [] else Fail er)
        | None \<Rightarrow>
            lift_err (rbind (sortClonedGitRepoGievnDestPath e w root hookPath) (\<lambda>res.
              if gr_kustomized res \<noteq> [] then Inr (parseFromKutomizedAsAnsibleJobs e w (gr_kustomized res))
              else rbind (parseAsAnsibleJobs e w (gr_kubRes res)) (\<lambda>js. Inr (map (\<lambda>j. j\<lparr>aj_namespace := sub_namespace s\<rparr>) js))))))"

end
