(* ===== verification/Hooks.thy ===== *)
theory Hooks
  imports HubGit
begin

text \<open>
  Ansible hooks of the hub (\<open>pkg/controller/mcmhub/hook.go\<close> and \<open>ansiblejob.go\<close>): the registry of the
  jobs that run before and after a subscription is deployed. The API of the hub, JSON, the hash and
  owner references are arguments. The locks around the registry are left out: each operation is one step.
\<close>

section \<open>Data\<close>

definition AnnotationHookType :: string where "AnnotationHookType = group @ ''/hook-type''"
definition AnnotationHookTemplate :: string where "AnnotationHookTemplate = group @ ''/hook-template''"
definition JobCompleted :: string where "JobCompleted = ''successful''"
definition PreHookType :: string where "PreHookType = ''pre''"
definition PostHookType :: string where "PostHookType = ''post''"

text \<open>The zero value of a job.\<close>

definition noJob :: AnsibleJob where
  "noJob = \<lparr>aj_name = '''', aj_namespace = '''', aj_annotations = None, aj_resourceVersion = '''', aj_created = 0, aj_owners = [],
     aj_secret = '''', aj_extraVars = None, aj_status = '''', aj_rest = JNull, aj_statusRest = JNull\<rparr>"

record Job =
  jb_original :: AnsibleJob
  jb_instance :: "AnsibleJob list"

type_synonym JobInstances = "(nsname, Job) gmap"

text \<open>
  \<open>lastSub\<close> is a pointer to the subscription of the reconcile that stored it, which goes on changing it:
  \<open>hk_shared\<close> says that the pointer was stored in the running reconcile.
\<close>

record Hooks =
  hk_pre :: JobInstances
  hk_post :: JobInstances
  hk_lastSub :: HubSub
  hk_shared :: bool

type_synonym hook_registry = "(nsname, Hooks) gmap"

record appliedJobs =
  ap_last :: string
  ap_jobs :: "string list"

text \<open>
  \<open>hk_vars\<close> and \<open>hk_encode\<close> are JSON objects, \<open>hk_sha\<close> the hash in hexadecimal, \<open>hk_selected\<close> the number of
  clusters a placement selects.
\<close>

record 'w hook_env =
  hk_git :: "'w hub_git_env"
  hk_prop :: "'w propagation_env"
  hk_listJobs :: "'w \<Rightarrow> string \<Rightarrow> kerr + AnsibleJob list"
  hk_getJob :: "'w \<Rightarrow> nsname \<Rightarrow> kerr + AnsibleJob"
  hk_createJob :: "'w \<Rightarrow> AnsibleJob \<Rightarrow> 'w \<times> kerr option"
  hk_exists :: "kerr \<Rightarrow> bool"
  hk_rule :: "'w \<Rightarrow> nsname \<Rightarrow> kerr + PlacementRule"
  hk_selected :: "'w \<Rightarrow> nsname \<Rightarrow> kerr + int"
  hk_vars :: "string \<Rightarrow> kerr + (string, json) gmap"
  hk_encode :: "(string, json) gmap \<Rightarrow> kerr + string"
  hk_deepEqual :: "json option \<Rightarrow> json option \<Rightarrow> bool"
  hk_sha :: "string \<Rightarrow> string"
  hk_setOwner :: "HubSub \<Rightarrow> AnsibleJob \<Rightarrow> kerr + AnsibleJob"

definition show_int :: "int \<Rightarrow> string" where
  "show_int i = (if i < 0 then CHR ''-'' # go_itoa (nat (- i)) else go_itoa (nat i))"

definition NamespacedNameFormat :: "string \<Rightarrow> nsname" where
  "NamespacedNameFormat str =
     (if str \<noteq> '''' then (case go_split (CHR ''/'') str of [ns, n] \<Rightarrow> (ns, n) | _ \<Rightarrow> ('''', '''')) else ('''', ''''))"

section \<open>Clusters of a placement\<close>

text \<open>A reference may name another namespace here, and an unsupported one gives no clusters.\<close>

definition hookClustersFromPlacementRef :: "'w propagation_env \<Rightarrow> 'w \<Rightarrow> Subscription \<Rightarrow> PlacementRef \<Rightarrow> kerr + string list" where
  "hookClustersFromPlacementRef e w sub pref =
     (if \<not> supportedRef pref then Inr []
      else getDecisionsFromPlacementRef e w pref (if pref_namespace pref \<noteq> '''' then pref_namespace pref else sub_namespace sub))"

definition GetClustersByPlacement :: "'w propagation_env \<Rightarrow> 'w \<Rightarrow> HubSub \<Rightarrow> kerr + string list" where
  "GetClustersByPlacement e w inst =
     rbind (case hs_placement inst of
              None \<Rightarrow> Inr []
            | Some p \<Rightarrow>
                (case pl_ref p of
                   Some pref \<Rightarrow> hookClustersFromPlacementRef e w (hs_sub inst) pref
                 | None \<Rightarrow> rbind (PlaceByGenericPlacmentFields (pe_hub e w) (pl_generic p)) (\<lambda>clmap. Inr (map (\<lambda>(k, cl). mc_name cl) clmap))))
       (\<lambda>clusters. Inr (go_sort (\<lambda>a b. a < b) clusters))"

definition notReadyMsg :: "HubSub \<Rightarrow> kerr" where
  "notReadyMsg x = OtherError (''placement cluster decision list is NOT ready, appsub: '' @ nsname_string (subKey (hs_sub x)))"

text \<open>\<open>Inr\<close> stands for ready; whenever the list is not ready there is an error.\<close>

definition IsReadyPlacementDecisionList :: "'w hook_env \<Rightarrow> 'w \<Rightarrow> HubSub \<Rightarrow> kerr + unit" where
  "IsReadyPlacementDecisionList e w x =
     rbind (GetClustersByPlacement (hk_prop e) w x) (\<lambda>clusters.
       if clusters = [] then Inl (OtherError (''no clusters found. sub: '' @ nsname_string (subKey (hs_sub x))))
       else (case (case hs_placement x of None \<Rightarrow> None | Some p \<Rightarrow> pl_ref p) of
               None \<Rightarrow> Inl (notReadyMsg x)
             | Some pref \<Rightarrow>
                 (if pref_kind pref = ''PlacementRule'' then
                    rbind (hk_rule e w (sub_namespace (hs_sub x), pref_name pref)) (\<lambda>rule.
                      if go_sort (\<lambda>a b. a < b) clusters = go_sort (\<lambda>a b. a < b) (map ClusterName (pr_decisions rule)) then Inr ()
                      else Inl (notReadyMsg x))
                  else if pref_kind pref = ''Placement'' then
                    rbind (hk_selected e w (sub_namespace (hs_sub x), pref_name pref)) (\<lambda>n.
                      if n = int (length clusters) then Inr () else Inl (notReadyMsg x))
                  else Inl (notReadyMsg x))))"

section \<open>Jobs\<close>

definition isJobRunSuccessful :: "AnsibleJob \<Rightarrow> bool" where
  "isJobRunSuccessful j = EqualFold (aj_status j) JobCompleted"

definition has_anno :: "AnsibleJob \<Rightarrow> string \<Rightarrow> string \<Rightarrow> bool" where
  "has_anno j k v \<longleftrightarrow> map_of (unnil (aj_annotations j)) k = Some v"

text \<open>The newest job of the subscription for a hook type and a template.\<close>

definition findLastAnsibleJob ::
  "'w hook_env \<Rightarrow> 'w \<Rightarrow> Subscription \<Rightarrow> string \<Rightarrow> nsname \<Rightarrow> kerr + AnsibleJob option" where
  "findLastAnsibleJob e w s hookType jobKey =
     rbind (hk_listJobs e w (sub_namespace s)) (\<lambda>jobs.
       Inr (find (\<lambda>j. has_anno j AnnotationHosting (sub_namespace s @ ''/'' @ sub_name s) \<and> has_anno j AnnotationHookType hookType
                      \<and> has_anno j AnnotationHookTemplate (nsname_string jobKey))
              (go_sort (\<lambda>a b. aj_created a > aj_created b) jobs)))"

definition isEqualClusterList :: "'w hook_env \<Rightarrow> AnsibleJob \<Rightarrow> AnsibleJob \<Rightarrow> kerr + bool" where
  "isEqualClusterList e lastJob newJob =
     (case aj_extraVars lastJob of
        None \<Rightarrow> Inr False
      | Some lastVars \<Rightarrow>
          rbind (hk_vars e (case aj_extraVars newJob of None \<Rightarrow> '''' | Some v \<Rightarrow> v)) (\<lambda>newMap.
          rbind (hk_vars e lastVars) (\<lambda>lastMap.
            Inr (hk_deepEqual e (map_of newMap ''target_clusters'') (map_of lastMap ''target_clusters'')))))"

definition getSyncTimeHash :: "'w hook_env \<Rightarrow> string \<Rightarrow> string" where
  "getSyncTimeHash e syncTime = (if syncTime = '''' then '''' else take 6 (hk_sha e syncTime))"

text \<open>The job that is registered for a template; when the jobs cannot be listed it is the zero value.\<close>

definition chooseJob :: "'w hook_env \<Rightarrow> 'w \<Rightarrow> Subscription \<Rightarrow> nsname \<Rightarrow> AnsibleJob \<Rightarrow> string \<Rightarrow> AnsibleJob" where
  "chooseJob e w s jobKey newJob hookType =
     (case findLastAnsibleJob e w s hookType jobKey of
        Inl er \<Rightarrow> noJob
      | Inr None \<Rightarrow> newJob
      | Inr (Some lastJob) \<Rightarrow>
          (if \<not> isJobRunSuccessful lastJob then lastJob
           else if aj_name lastJob = aj_name newJob then lastJob
           else if getSyncTimeHash e (anno (sub_annotations s) AnnotationManualReconcileTime) \<noteq> '''' then newJob
           else (case isEqualClusterList e lastJob newJob of
                   Inl er \<Rightarrow> lastJob
                 | Inr same \<Rightarrow> (if \<not> same then newJob else lastJob))))"

definition registryAnsibleJob ::
  "'w hook_env \<Rightarrow> 'w \<Rightarrow> Subscription \<Rightarrow> nsname \<Rightarrow> AnsibleJob \<Rightarrow> string \<Rightarrow> JobInstances \<Rightarrow> JobInstances" where
  "registryAnsibleJob e w s jobKey newJob hookType js =
     (case map_of js jobKey of
        None \<Rightarrow> js
      | Some rec \<Rightarrow> gm_put jobKey (rec\<lparr>jb_instance := [chooseJob e w s jobKey newJob hookType]\<rparr>) js)"

definition addingHostingSubscriptionAnno :: "nsname \<Rightarrow> string \<Rightarrow> AnsibleJob \<Rightarrow> AnsibleJob" where
  "addingHostingSubscriptionAnno k hookType job =
     job\<lparr>aj_annotations := Some (gm_put AnnotationHookTemplate (aj_namespace job @ ''/'' @ aj_name job)
       (gm_put AnnotationHookType hookType (gm_put AnnotationHosting (nsname_string k) (unnil (aj_annotations job)))))\<rparr>"

text \<open>The variables of a job get the list of target clusters, unless the placement is local.\<close>

definition targetVars :: "'w hook_env \<Rightarrow> 'w \<Rightarrow> HubSub \<Rightarrow> AnsibleJob \<Rightarrow> kerr + AnsibleJob" where
  "targetVars e w x job =
     (case hs_placement x of
        None \<Rightarrow> Inr job
      | Some p \<Rightarrow>
          (if pl_local p = Some True then Inr job
           else rbind (GetClustersByPlacement (hk_prop e) w x) (\<lambda>clusters.
                  if clusters = [] then Inr (job\<lparr>aj_extraVars := None\<rparr>)
                  else rbind (case aj_extraVars job of None \<Rightarrow> Inr [] | Some v \<Rightarrow> hk_vars e v) (\<lambda>m.
                         rbind (hk_encode e (gm_put ''target_clusters'' (JArr (map JStr clusters)) m)) (\<lambda>v.
                           Inr (job\<lparr>aj_extraVars := Some v\<rparr>))))))"

definition overrideAnsibleInstance :: "'w hook_env \<Rightarrow> 'w \<Rightarrow> HubSub \<Rightarrow> AnsibleJob \<Rightarrow> string \<Rightarrow> kerr + AnsibleJob" where
  "overrideAnsibleInstance e w x job hookType =
     (let j1 = job\<lparr>aj_resourceVersion := '''', aj_status := '''', aj_statusRest := JNull,
                   aj_secret := (case sp_hooksecret (sub_spec (hs_sub x)) of None \<Rightarrow> aj_secret job | Some n \<Rightarrow> n)\<rparr>
      in rbind (targetVars e w x j1) (\<lambda>j2.
           hk_setOwner e x (addingHostingSubscriptionAnno (subKey (hs_sub x)) hookType (j2\<lparr>aj_namespace := sub_namespace (hs_sub x)\<rparr>))))"

text \<open>The first six bytes of the commit; a shorter commit is a slice out of range.\<close>

definition suffixBasedOnSpecAndCommitID ::
  "'w hub_git_env \<Rightarrow> HubSub \<Rightarrow> HubGitOps \<Rightarrow> 'w \<Rightarrow> 'w \<times> HubGitOps \<times> string goval" where
  "suffixBasedOnSpecAndCommitID e x h w =
     (case GetLatestCommitID e (hs_sub x) h w of
        (w', h', Ret commitID) \<Rightarrow>
          (w', h', if length commitID < 6 then Crash IndexOutOfRange
                   else Ret (''-'' @ show_int (hs_generation x) @ ''-'' @ take 6 commitID))
      | (w', h', Fail er) \<Rightarrow> (w', h', Ret '''')
      | (w', h', Crash p) \<Rightarrow> (w', h', Crash p))"

text \<open>What a registration is about: why it was made, the version of the decision, the hook type.\<close>

record registration =
  rn_updated :: bool
  rn_version :: string
  rn_type :: string

definition jobSuffix :: "'w hook_env \<Rightarrow> HubSub \<Rightarrow> registration \<Rightarrow> string \<Rightarrow> string" where
  "jobSuffix e x r sfx =
     (let gen = show_int (hs_generation x);
          s1 = (if rn_updated r then ''-'' @ gen @ ''-'' @ rn_version r else sfx);
          hash = getSyncTimeHash e (anno (sub_annotations (hs_sub x)) AnnotationManualReconcileTime)
      in if hash \<noteq> '''' then ''-'' @ gen @ ''-'' @ hash else s1)"

definition registryJob ::
  "'w hook_env \<Rightarrow> HubSub \<Rightarrow> registration \<Rightarrow> AnsibleJob \<Rightarrow> HubGitOps \<Rightarrow> JobInstances \<Rightarrow> 'w \<Rightarrow> 'w \<times> HubGitOps \<times> JobInstances \<times> unit goval" where
  "registryJob e x r job h js w =
     (case overrideAnsibleInstance e w x job (rn_type r) of
        Inl er \<Rightarrow> (w, h, js, Fail er)
      | Inr ins \<Rightarrow>
          (let jobKey = (aj_namespace job, aj_name job);
               js1 = (if map_of js jobKey = None then gm_put jobKey \<lparr>jb_original = noJob, jb_instance = []\<rparr> js else js)
           in case suffixBasedOnSpecAndCommitID (hk_git e) x h w of
                (w', h', Crash p) \<Rightarrow> (w', h', js1, Crash p)
              | (w', h', Fail er) \<Rightarrow> (w', h', js1, Fail er)
              | (w', h', Ret sfx) \<Rightarrow>
                  (if sfx = '''' \<or> aj_extraVars ins = None then (w', h', js1, Ret ())
                   else (let js2 = map (\<lambda>(k, rec). (k, if k = jobKey then rec\<lparr>jb_original := ins\<rparr> else rec)) js1;
                             nx = ins\<lparr>aj_name := aj_name ins @ jobSuffix e x r sfx\<rparr>
                         in (w', h', registryAnsibleJob e w' (hs_sub x) jobKey nx (rn_type r) js2, Ret ())))))"

fun registryJobs ::
  "'w hook_env \<Rightarrow> HubSub \<Rightarrow> registration \<Rightarrow> AnsibleJob list \<Rightarrow> HubGitOps \<Rightarrow> JobInstances \<Rightarrow> 'w \<Rightarrow> 'w \<times> HubGitOps \<times> JobInstances \<times> unit goval" where
  "registryJobs e x r [] h js w = (w, h, js, Ret ())"
| "registryJobs e x r (job # jobs) h js w =
     (case registryJob e x r job h js w of
        (w', h', js', Ret u) \<Rightarrow> registryJobs e x r jobs h' js' w'
      | (w', h', js', Fail er) \<Rightarrow> (w', h', js', Fail er)
      | (w', h', js', Crash p) \<Rightarrow> (w', h', js', Crash p))"

section \<open>Applying and checking jobs\<close>

fun applyEach :: "'w hook_env \<Rightarrow> Job list \<Rightarrow> 'w \<Rightarrow> 'w \<times> kerr option" where
  "applyEach e [] w = (w, None)"
| "applyEach e (j # js) w =
     (case jb_instance j of
        [] \<Rightarrow> applyEach e js w
      | nx # rest \<Rightarrow>
          (let jKey = (aj_namespace nx, aj_name nx)
           in case hk_getJob e w jKey of
                Inr job \<Rightarrow> applyEach e js w
              | Inl er \<Rightarrow>
                  (if \<not> IsNotFound er then (w, Some (OtherError (''failed to get job '' @ nsname_string jKey @ '', err: '' @ err_msg er)))
                   else case hk_createJob e w nx of
                          (w', None) \<Rightarrow> applyEach e js w'
                        | (w', Some er') \<Rightarrow>
                            (if \<not> hk_exists e er' then (w', Some (OtherError (''failed to apply job '' @ nsname_string jKey @ '', err: '' @ err_msg er')))
                             else applyEach e js w'))))"

definition applyJobs :: "'w hook_env \<Rightarrow> HubSub \<Rightarrow> JobInstances \<Rightarrow> 'w \<Rightarrow> 'w \<times> kerr option" where
  "applyJobs e x js w =
     (if IsSubscriptionBeDeleted (\<lambda>k. rbind (he_getSub (hk_git e) w k) (\<lambda>y. Inr (hs_sub y))) (subKey (hs_sub x)) then (w, None)
      else applyEach e (map snd js) w)"

definition isJobDone :: "'w hook_env \<Rightarrow> 'w \<Rightarrow> nsname \<Rightarrow> kerr + bool" where
  "isJobDone e w k =
     (case hk_getJob e w k of
        Inl er \<Rightarrow> (if IsNotFound er then Inr False else Inl er)
      | Inr job \<Rightarrow> if isJobRunSuccessful job then Inr True else Inr False)"

text \<open>A job without instances ends the check.\<close>

fun jobsCompleted :: "'w hook_env \<Rightarrow> 'w \<Rightarrow> Job list \<Rightarrow> kerr + bool" where
  "jobsCompleted e w [] = Inr True"
| "jobsCompleted e w (j # js) =
     (if jb_instance j = [] then Inr True
      else (let nx = last (jb_instance j)
            in case isJobDone e w (aj_namespace nx, aj_name nx) of
                 Inl er \<Rightarrow> Inl er
               | Inr ok \<Rightarrow> (if \<not> ok then Inr False else jobsCompleted e w js)))"

definition isJobsCompleted :: "'w hook_env \<Rightarrow> 'w \<Rightarrow> JobInstances \<Rightarrow> kerr + bool" where
  "isJobsCompleted e w js = jobsCompleted e w (map snd js)"

section \<open>Status\<close>

definition ansiblestatusFormat :: "AnsibleJob \<Rightarrow> string" where
  "ansiblestatusFormat j = (let ns = (if aj_namespace j = '''' then ''default'' else aj_namespace j) in ns @ ''/'' @ aj_name j)"

definition formatAnsibleFromTopo :: "AnsibleJob \<Rightarrow> string" where
  "formatAnsibleFromTopo j =
     (let ns = (if aj_namespace j = '''' then ''default'' else aj_namespace j)
      in ''hook'' @ ''/'' @ '''' @ ''/'' @ AnsibleJobKind @ ''/'' @ ns @ ''/'' @ aj_name j @ ''/'' @ ''0'')"

definition getJobsString :: "(AnsibleJob \<Rightarrow> string) \<Rightarrow> AnsibleJob list \<Rightarrow> string list" where
  "getJobsString format jobs = map format jobs"

definition outputAppliedJobs :: "(AnsibleJob \<Rightarrow> string) \<Rightarrow> JobInstances \<Rightarrow> appliedJobs" where
  "outputAppliedJobs format js =
     (let applied = map (getJobsString format) (filter (\<lambda>is. is \<noteq> []) (map (\<lambda>(k, j). jb_instance j) js))
      in \<lparr>ap_last = go_join (CHR '','') (map last applied), ap_jobs = concat applied\<rparr>)"

definition constructPrehookStatus :: "Hooks \<Rightarrow> string" where
  "constructPrehookStatus k = ap_last (outputAppliedJobs ansiblestatusFormat (hk_pre k))"

definition constructPosthookStatus :: "Hooks \<Rightarrow> string" where
  "constructPosthookStatus k = ap_last (outputAppliedJobs ansiblestatusFormat (hk_post k))"

definition ConstructStatus :: "Hooks \<Rightarrow> string \<times> string" where
  "ConstructStatus k = (constructPrehookStatus k, constructPosthookStatus k)"

definition AppendStatusToSubscription :: "hook_registry \<Rightarrow> Subscription \<Rightarrow> SubscriptionStatus" where
  "AppendStatusToSubscription a s =
     (case map_of a (subKey s) of
        None \<Rightarrow> sub_status s
      | Some k \<Rightarrow> (sub_status s)\<lparr>st_prehook := fst (ConstructStatus k), st_posthook := snd (ConstructStatus k)\<rparr>)"

definition AppendPreHookStatusToSubscription :: "hook_registry \<Rightarrow> Subscription \<Rightarrow> SubscriptionStatus" where
  "AppendPreHookStatusToSubscription a s =
     (case map_of a (subKey s) of
        None \<Rightarrow> sub_status s
      | Some k \<Rightarrow> (sub_status s)\<lparr>st_prehook := constructPrehookStatus k, st_posthook := ''''\<rparr>)"

text \<open>The last jobs before and after, in the format of the topology.\<close>

definition GetLastAppliedInstance :: "hook_registry \<Rightarrow> nsname \<Rightarrow> string \<times> string" where
  "GetLastAppliedInstance a k =
     (case map_of a k of
        None \<Rightarrow> ('''', '''')
      | Some hk \<Rightarrow> (ap_last (outputAppliedJobs formatAnsibleFromTopo (hk_pre hk)), ap_last (outputAppliedJobs formatAnsibleFromTopo (hk_post hk))))"

section \<open>Registration\<close>

definition DeregisterSubscription :: "nsname \<Rightarrow> hook_registry \<Rightarrow> hook_registry" where
  "DeregisterSubscription k a = gm_del k a"

definition isSubscriptionSpecChange :: "HubSub \<Rightarrow> HubSub \<Rightarrow> bool" where
  "isSubscriptionSpecChange o' n \<longleftrightarrow> hs_generation o' \<noteq> hs_generation n"

definition isDesiredStateChanged :: "HubSub \<Rightarrow> HubSub \<Rightarrow> bool" where
  "isDesiredStateChanged oldSub newSub =
     (let oa = sub_annotations (hs_sub oldSub); na = sub_annotations (hs_sub newSub)
      in if anno na AnnotationGitTargetCommit \<noteq> '''' \<and> anno oa AnnotationGitTargetCommit \<noteq> anno na AnnotationGitTargetCommit then True
         else if anno na AnnotationGitTag \<noteq> '''' \<and> anno oa AnnotationGitTag \<noteq> anno na AnnotationGitTag then True
         else if anno oa AnnotationManualReconcileTime \<noteq> anno na AnnotationManualReconcileTime then True
         else unmaskFakeCommitID (getCommitID (hs_sub oldSub)) \<noteq> unmaskFakeCommitID (getCommitID (hs_sub newSub)))"

definition isSubscriptionUpdate :: "hook_registry \<Rightarrow> HubSub \<Rightarrow> bool" where
  "isSubscriptionUpdate a x =
     (case map_of a (subKey (hs_sub x)) of
        None \<Rightarrow> True
      | Some k \<Rightarrow> isSubscriptionSpecChange (hk_lastSub k) x \<or> isDesiredStateChanged (hk_lastSub k) x)"

definition putPre :: "nsname \<Rightarrow> JobInstances \<Rightarrow> hook_registry \<Rightarrow> hook_registry" where
  "putPre k js a = map (\<lambda>(k', hk). (k', if k' = k then hk\<lparr>hk_pre := js\<rparr> else hk)) a"

definition putPost :: "nsname \<Rightarrow> JobInstances \<Rightarrow> hook_registry \<Rightarrow> hook_registry" where
  "putPost k js a = map (\<lambda>(k', hk). (k', if k' = k then hk\<lparr>hk_post := js\<rparr> else hk)) a"

definition preOf :: "hook_registry \<Rightarrow> nsname \<Rightarrow> JobInstances" where
  "preOf a k = (case map_of a k of None \<Rightarrow> [] | Some hk \<Rightarrow> hk_pre hk)"

definition postOf :: "hook_registry \<Rightarrow> nsname \<Rightarrow> JobInstances" where
  "postOf a k = (case map_of a k of None \<Rightarrow> [] | Some hk \<Rightarrow> hk_post hk)"

text \<open>The jobs of one kind; the entry of the subscription exists.\<close>

definition registerHook ::
  "'w hook_env \<Rightarrow> HubSub \<Rightarrow> string \<Rightarrow> AnsibleJob list \<Rightarrow> bool \<Rightarrow> string \<Rightarrow> HubGitOps \<Rightarrow> hook_registry \<Rightarrow> 'w
    \<Rightarrow> 'w \<times> HubGitOps \<times> hook_registry \<times> unit goval" where
  "registerHook e x hookFlag jobs upd rv h a w =
     (let k = subKey (hs_sub x)
      in if hookFlag = PreHookType
         then (let (w', h', js, r) = registryJobs e x \<lparr>rn_updated = upd, rn_version = rv, rn_type = ''prehook''\<rparr> jobs h (preOf a k) w
               in (w', h', putPre k js a, r))
         else (let (w', h', js, r) = registryJobs e x \<lparr>rn_updated = upd, rn_version = rv, rn_type = ''posthook''\<rparr> jobs h (postOf a k) w
               in (w', h', putPost k js a, r)))"

text \<open>Jobs that cannot be read count as none.\<close>

definition addHookToRegisitry ::
  "'w hook_env \<Rightarrow> HubSub \<Rightarrow> bool \<Rightarrow> string \<Rightarrow> HubGitOps \<Rightarrow> hook_registry \<Rightarrow> 'w \<Rightarrow> 'w \<times> HubGitOps \<times> hook_registry \<times> unit goval" where
  "addHookToRegisitry e x upd rv h a w =
     (let (prePath, postPath) = getHookPath (hs_sub x); k = subKey (hs_sub x)
      in case (GetHooks (hk_git e) (hs_sub x) prePath h w, GetHooks (hk_git e) (hs_sub x) postPath h w) of
           (Crash p, r) \<Rightarrow> (w, h, a, Crash p)
         | (r, Crash p) \<Rightarrow> (w, h, a, Crash p)
         | (pre, post) \<Rightarrow>
             (let preJobs = (case pre of Ret js \<Rightarrow> js | _ \<Rightarrow> []); postJobs = (case post of Ret js \<Rightarrow> js | _ \<Rightarrow> []);
                  a1 = (if preJobs \<noteq> [] \<or> postJobs \<noteq> []
                        then map (\<lambda>(k', hk). (k', if k' = k then hk\<lparr>hk_lastSub := x, hk_shared := True\<rparr> else hk)) a else a)
              in case (if preJobs \<noteq> [] then registerHook e x PreHookType preJobs upd rv h a1 w else (w, h, a1, Ret ())) of
                   (w2, h2, a2, Ret u) \<Rightarrow>
                     (if postJobs \<noteq> [] then registerHook e x PostHookType postJobs upd rv h2 a2 w2 else (w2, h2, a2, Ret ()))
                 | (w2, h2, a2, r) \<Rightarrow> (w2, h2, a2, r)))"

definition RegisterSubscription ::
  "'w hook_env \<Rightarrow> HubSub \<Rightarrow> bool \<Rightarrow> string \<Rightarrow> HubGitOps \<Rightarrow> hook_registry \<Rightarrow> 'w \<Rightarrow> 'w \<times> HubGitOps \<times> hook_registry \<times> unit goval" where
  "RegisterSubscription e x upd rv h a w =
     (let s = hs_sub x; k = subKey s
      in case he_channel (hk_git e) w (NamespacedNameFormat (sp_channel (sub_spec s))) of
           Inl er \<Rightarrow> (w, h, a, Fail er)
         | Inr chn \<Rightarrow>
             (if \<not> EqualFold (ch_type chn) ''Git'' \<and> \<not> EqualFold (ch_type chn) ''GitHub'' then (w, h, a, Ret ())
              else case HasHookFolders (hk_git e) s h w of
                     Crash p \<Rightarrow> (w, h, a, Crash p)
                   | Fail er \<Rightarrow> (w, h, a, Fail er)
                   | Ret hooks \<Rightarrow>
                       (if \<not> hooks then (w, h, a, Ret ())
                        else case IsReadyPlacementDecisionList e w x of
                               Inl er \<Rightarrow> (w, h, a, Fail er)
                             | Inr u \<Rightarrow>
                                 (if getCommitID s \<noteq> '''' \<and> \<not> upd \<and> \<not> isSubscriptionUpdate a x then (w, h, a, Ret ())
                                  else (let a1 = (if map_of a k = None
                                                  then gm_put k \<lparr>hk_pre = [], hk_post = [], hk_lastSub = x, hk_shared = True\<rparr> a else a)
                                        in case DownloadAnsibleHookResource (hk_git e) s h w of
                                             (w', h', Crash p) \<Rightarrow> (w', h', a1, Crash p)
                                           | (w', h', Fail er) \<Rightarrow>
                                               (w', h', a1, Fail (OtherError (''failed to download from git source of subscription '' @ nsname_string k
                                                                              @ '', err: '' @ err_msg er)))
                                           | (w', h', Ret u) \<Rightarrow> addHookToRegisitry e x upd rv h' a1 w')))))"

section \<open>Hooks of a subscription\<close>

definition isRegistered :: "hook_registry \<Rightarrow> nsname \<Rightarrow> bool" where
  "isRegistered a k \<longleftrightarrow> map_of a k \<noteq> None"

definition HasHooks :: "hook_registry \<Rightarrow> string \<Rightarrow> nsname \<Rightarrow> bool" where
  "HasHooks a hookType k =
     (if \<not> isRegistered a k then False
      else if hookType = PreHookType then (if preOf a k = [] then False else True)
      else if postOf a k = [] then False else True)"

definition applyHooks :: "'w hook_env \<Rightarrow> hook_registry \<Rightarrow> nsname \<Rightarrow> JobInstances \<Rightarrow> 'w \<Rightarrow> 'w \<times> kerr option" where
  "applyHooks e a k js w = (case map_of a k of None \<Rightarrow> (w, None) | Some hk \<Rightarrow> applyJobs e (hk_lastSub hk) js w)"

definition ApplyPreHooks :: "'w hook_env \<Rightarrow> hook_registry \<Rightarrow> nsname \<Rightarrow> 'w \<Rightarrow> 'w \<times> kerr option" where
  "ApplyPreHooks e a k w = (if HasHooks a PreHookType k then applyHooks e a k (preOf a k) w else (w, None))"

definition ApplyPostHooks :: "'w hook_env \<Rightarrow> hook_registry \<Rightarrow> nsname \<Rightarrow> 'w \<Rightarrow> 'w \<times> kerr option" where
  "ApplyPostHooks e a k w = (if HasHooks a PostHookType k then applyHooks e a k (postOf a k) w else (w, None))"

definition IsPreHooksCompleted :: "'w hook_env \<Rightarrow> hook_registry \<Rightarrow> nsname \<Rightarrow> 'w \<Rightarrow> kerr + bool" where
  "IsPreHooksCompleted e a k w =
     (if \<not> isRegistered a k then Inr True else if preOf a k = [] then Inr True else isJobsCompleted e w (preOf a k))"

text \<open>A subscription that is not registered is a nil pointer here.\<close>

definition IsPostHooksCompleted :: "'w hook_env \<Rightarrow> hook_registry \<Rightarrow> nsname \<Rightarrow> 'w \<Rightarrow> bool goval" where
  "IsPostHooksCompleted e a k w =
     (case map_of a k of
        None \<Rightarrow> Crash NilDereference
      | Some hk \<Rightarrow> if hk_post hk = [] then Ret True else lift_err (isJobsCompleted e w (hk_post hk)))"

end
