(* ===== verification/HubGitFacts.thy ===== *)
theory HubGitFacts
  imports HubGit
begin

text \<open>
  The Git registry of the hub: what it records stays consistent whatever subscriptions come, change
  and go, a branch that was registered is found again, and who is told about a new commit.
\<close>

section \<open>Consistency\<close>

definition branch_ok :: "(nsname, string) gmap \<Rightarrow> string \<Rightarrow> branchInfo \<Rightarrow> bool" where
  "branch_ok subs n b \<longleftrightarrow> wf_gm (bi_subs b) \<and> bi_subs b \<noteq> [] \<and> (\<forall>k \<in> fst ` set (bi_subs b). map_of subs k = Some n)"

definition repo_ok :: "(nsname, string) gmap \<Rightarrow> string \<Rightarrow> RepoRegistery \<Rightarrow> bool" where
  "repo_ok subs n r \<longleftrightarrow> wf_gm (rg_branchs r) \<and> rg_branchs r \<noteq> [] \<and> (\<forall>(m, b) \<in> set (rg_branchs r). branch_ok subs n b)"

text \<open>
  Every branch of the registry is used by a subscription, every repository has a branch, and the
  subscriptions of a repository are recorded under its name, which their own name determines.
\<close>

definition registry_ok :: "HubGitOps \<Rightarrow> bool" where
  "registry_ok h \<longleftrightarrow> wf_gm (hg_subRecords h) \<and> wf_gm (hg_repoRecords h)
     \<and> (\<forall>(n, r) \<in> set (hg_repoRecords h). repo_ok (hg_subRecords h) n r)
     \<and> (\<forall>(k, n) \<in> set (hg_subRecords h). n = genRepoName (snd k) (fst k))"

inductive registry_step :: "'w hub_git_env \<Rightarrow> HubGitOps \<Rightarrow> HubGitOps \<Rightarrow> bool" for e where
  register: "RegisterBranch e s h w = (w', h', r) \<Longrightarrow> registry_step e h h'"
| deregister: "registry_step e h (DeregisterBranch k h)"
| watch: "GitWatch e h w = (w', h', p) \<Longrightarrow> registry_step e h h'"

inductive registry_reach :: "'w hub_git_env \<Rightarrow> HubGitOps \<Rightarrow> bool" for e where
  start: "registry_reach e \<lparr>hg_subRecords = [], hg_repoRecords = []\<rparr>"
| step: "registry_reach e h \<Longrightarrow> registry_step e h h' \<Longrightarrow> registry_reach e h'"

lemma set_gm_put: "set (gm_put k v m) \<subseteq> insert (k, v) (set m)"
  by (induction m) (auto simp: gm_put_def)

lemma set_gm_put_wf: "wf_gm m \<Longrightarrow> set (gm_put k v m) = insert (k, v) {p \<in> set m. fst p \<noteq> k}"
  by (induction m) (auto simp: gm_put_def wf_gm_def image_iff)

lemma set_gm_del: "set (gm_del k m) = {p \<in> set m. fst p \<noteq> k}"
  by (auto simp: gm_del_def)

lemma wf_map_of: "wf_gm m \<Longrightarrow> (k, v) \<in> set m \<longleftrightarrow> map_of m k = Some v"
  by (simp add: wf_gm_def)

text \<open>More recorded subscriptions keep a branch as it is; an empty map is written by a put.\<close>

lemma branch_ok_mono: "branch_ok subs n b \<Longrightarrow> (\<And>k. map_of subs k = Some n \<Longrightarrow> map_of subs' k = Some n) \<Longrightarrow> branch_ok subs' n b"
  by (auto simp: branch_ok_def)

lemma repo_ok_mono: "repo_ok subs n r \<Longrightarrow> (\<And>k. map_of subs k = Some n \<Longrightarrow> map_of subs' k = Some n) \<Longrightarrow> repo_ok subs' n r"
  unfolding repo_ok_def using branch_ok_mono [of subs n _ subs'] by blast

lemma gm_put_not_Nil [simp]: "gm_put k v m \<noteq> []"
  by (cases m) (auto simp: gm_put_def)

lemma registry_put_sub:
  assumes ok: "registry_ok h"
  shows "registry_ok (h\<lparr>hg_subRecords := gm_put k (genRepoName (snd k) (fst k)) (hg_subRecords h)\<rparr>)"
proof -
  have same: "map_of (gm_put k (genRepoName (snd k) (fst k)) (hg_subRecords h)) k' = Some n"
    if "map_of (hg_subRecords h) k' = Some n" for k' n
  proof -
    have "n = genRepoName (snd k') (fst k')" using ok map_of_SomeD [OF that] unfolding registry_ok_def by blast
    with that show ?thesis by (simp add: gmap_simps)
  qed
  have "repo_ok (gm_put k (genRepoName (snd k) (fst k)) (hg_subRecords h)) n r" if "(n, r) \<in> set (hg_repoRecords h)" for n r
    by (rule repo_ok_mono [of "hg_subRecords h", OF _ same]) (use that ok in \<open>auto simp: registry_ok_def\<close>)
  moreover have "m = genRepoName (snd k') (fst k')"
    if "(k', m) \<in> set (gm_put k (genRepoName (snd k) (fst k)) (hg_subRecords h))" for k' m
    using subsetD [OF set_gm_put that] ok by (auto simp: registry_ok_def)
  ultimately show ?thesis using ok by (auto simp: registry_ok_def gm.wf_put)
qed

lemma registry_recordBranch:
  assumes ok: "registry_ok h" and k: "map_of (hg_subRecords h) k = Some n"
  shows "registry_ok (recordBranch n bName k url opts commitID h)"
proof -
  have new: "branch_ok (hg_subRecords h) n (newBranch opts commitID k)"
    using k by (simp add: branch_ok_def newBranch_def wf_gm_def)
  define r' where "r' = (case map_of (hg_repoRecords h) n of
      None \<Rightarrow> \<lparr>rg_url = url, rg_branchs = [(bName, newBranch opts commitID k)]\<rparr>
    | Some r \<Rightarrow> (let b = (case map_of (rg_branchs r) bName of None \<Rightarrow> newBranch opts commitID k
          | Some b \<Rightarrow> b\<lparr>bi_lastCommit := commitID, bi_options := opts, bi_subs := gm_put k () (bi_subs b)\<rparr>)
        in r\<lparr>rg_branchs := gm_put bName b (rg_branchs r)\<rparr>))"
  have r': "repo_ok (hg_subRecords h) n r'"
  proof (cases "map_of (hg_repoRecords h) n")
    case None
    with new show ?thesis by (simp add: r'_def repo_ok_def wf_gm_def)
  next
    case (Some r)
    then have r: "repo_ok (hg_subRecords h) n r" using ok map_of_SomeD [OF Some] by (auto simp: registry_ok_def)
    have up: "branch_ok (hg_subRecords h) n (b\<lparr>bi_lastCommit := commitID, bi_options := opts, bi_subs := gm_put k () (bi_subs b)\<rparr>)"
      if "branch_ok (hg_subRecords h) n b" for b
      using that k set_gm_put [of k "()" "bi_subs b"] by (auto simp: branch_ok_def gm.wf_put)
    define b' where "b' = (case map_of (rg_branchs r) bName of None \<Rightarrow> newBranch opts commitID k
        | Some b \<Rightarrow> b\<lparr>bi_lastCommit := commitID, bi_options := opts, bi_subs := gm_put k () (bi_subs b)\<rparr>)"
    have b': "branch_ok (hg_subRecords h) n b'"
    proof (cases "map_of (rg_branchs r) bName")
      case (Some b)
      with r map_of_SomeD [OF Some] have "branch_ok (hg_subRecords h) n b" by (auto simp: repo_ok_def)
      with up Some show ?thesis by (simp add: b'_def)
    qed (simp add: b'_def new)
    have "r' = r\<lparr>rg_branchs := gm_put bName b' (rg_branchs r)\<rparr>" by (simp add: r'_def b'_def Some Let_def)
    with r b' set_gm_put [of bName b' "rg_branchs r"] show ?thesis by (fastforce simp: repo_ok_def gm.wf_put)
  qed
  have "recordBranch n bName k url opts commitID h = h\<lparr>hg_repoRecords := gm_put n r' (hg_repoRecords h)\<rparr>"
    by (simp add: recordBranch_def r'_def)
  with ok r' set_gm_put [of n r' "hg_repoRecords h"] show ?thesis by (fastforce simp: registry_ok_def gm.wf_put)
qed

lemma recorded_key: "map_of (gm_put k v m) k = Some v"
  by (simp add: gmap_simps)

lemma registry_RegisterBranch:
  assumes ok: "registry_ok h" and run: "RegisterBranch e s h w = (w', h', r)"
  shows "registry_ok h'"
proof (cases "shouldSkipHubValidation s")
  case False
  let ?n = "genRepoName (sub_name s) (sub_namespace s)"
  let ?h = "h\<lparr>hg_subRecords := gm_put (subKey s) ?n (hg_subRecords h)\<rparr>"
  have h: "registry_ok ?h" using registry_put_sub [OF ok, of "subKey s"] by (simp add: subKey_def)
  have "registry_ok (recordBranch ?n b (subKey s) u opts c ?h)" for b u opts c
    by (rule registry_recordBranch [OF h]) (simp add: recorded_key)
  with h run False show ?thesis
    by (auto simp: RegisterBranch_def Let_def split: sum.splits prod.splits option.splits if_splits)
qed (use ok run in \<open>auto simp: RegisterBranch_def\<close>)

lemma branch_ok_dropped:
  assumes "branch_ok subs n b" "gm_del k (bi_subs b) \<noteq> []"
  shows "branch_ok (gm_del k subs) n (b\<lparr>bi_subs := gm_del k (bi_subs b)\<rparr>)"
  using assms by (auto simp: branch_ok_def set_gm_del gm.wf_del map_of_gm_del)

lemma wf_gm_images: "wf_gm m \<Longrightarrow> wf_gm (filter P (map (\<lambda>(n, b). (n, f b)) m))"
  unfolding wf_gm_def by (rule distinct_map_filter) (simp add: comp_def case_prod_beta)

lemma repo_ok_dropped:
  assumes r: "repo_ok subs n r" and some: "dropSub k (rg_branchs r) \<noteq> []"
  shows "repo_ok (gm_del k subs) n (r\<lparr>rg_branchs := dropSub k (rg_branchs r)\<rparr>)"
proof -
  have "branch_ok (gm_del k subs) n b" if "(m, b) \<in> set (dropSub k (rg_branchs r))" for m b
    using that r by (auto simp: repo_ok_def dropSub_def intro!: branch_ok_dropped)
  moreover have "wf_gm (dropSub k (rg_branchs r))" using r by (simp add: repo_ok_def dropSub_def wf_gm_images)
  ultimately show ?thesis using some by (auto simp: repo_ok_def)
qed

text \<open>A repository that does not belong to the subscription keeps its subscriptions.\<close>

lemma repo_ok_other:
  assumes "repo_ok subs n r" "map_of subs k \<noteq> Some n"
  shows "repo_ok (gm_del k subs) n r"
  using assms by (intro repo_ok_mono [OF assms(1)]) (auto simp: map_of_gm_del)

lemma registry_DeregisterBranch:
  assumes ok: "registry_ok h"
  shows "registry_ok (DeregisterBranch k h)"
proof (cases "map_of (hg_subRecords h) k")
  case (Some n)
  have names: "\<forall>(k', m) \<in> set (gm_del k (hg_subRecords h)). m = genRepoName (snd k') (fst k')"
    and wfs: "wf_gm (gm_del k (hg_subRecords h))" "wf_gm (hg_repoRecords h)"
    using ok by (auto simp: registry_ok_def set_gm_del gm.wf_del)
  have others: "repo_ok (gm_del k (hg_subRecords h)) m r" if "(m, r) \<in> set (hg_repoRecords h)" "m \<noteq> n" for m r
    using that ok Some by (auto simp: registry_ok_def intro!: repo_ok_other)
  show ?thesis
  proof (cases "map_of (hg_repoRecords h) n")
    case None
    then have "m \<noteq> n" if "(m, r) \<in> set (hg_repoRecords h)" for m r using that wfs(2) by (auto simp: wf_map_of)
    with others names wfs Some None show ?thesis by (auto simp: DeregisterBranch_def Let_def registry_ok_def)
  next
    case r: (Some r)
    then have "repo_ok (hg_subRecords h) n r" using ok map_of_SomeD [OF r] by (auto simp: registry_ok_def)
    then have kept: "repo_ok (gm_del k (hg_subRecords h)) n (r\<lparr>rg_branchs := dropSub k (rg_branchs r)\<rparr>)" "rg_branchs r \<noteq> []"
      if "dropSub k (rg_branchs r) \<noteq> []" using that repo_ok_dropped by (blast, simp add: repo_ok_def)
    have nonempty: "rg_branchs r \<noteq> []" using \<open>repo_ok (hg_subRecords h) n r\<close> by (simp add: repo_ok_def)
    show ?thesis
    proof (cases "dropSub k (rg_branchs r) = []")
      case True
      with Some r nonempty others names wfs show ?thesis
        by (auto simp: DeregisterBranch_def Let_def registry_ok_def set_gm_del gm.wf_del)
    next
      case False
      with Some r others names wfs kept [OF False] show ?thesis
        by (auto simp: DeregisterBranch_def Let_def registry_ok_def set_gm_put_wf gm.wf_put)
    qed
  qed
qed (use ok in \<open>simp add: DeregisterBranch_def\<close>)

lemma wf_gm_map: "wf_gm (map (\<lambda>(n, b). (n, f n b)) m) \<longleftrightarrow> wf_gm m"
  by (simp add: wf_gm_def comp_def case_prod_beta)

lemma branch_ok_commit [simp]: "branch_ok subs n (b\<lparr>bi_lastCommit := c\<rparr>) = branch_ok subs n b"
  by (simp add: branch_ok_def)

lemma repo_ok_commit:
  "repo_ok subs n r \<Longrightarrow> repo_ok subs n (r\<lparr>rg_branchs := map (\<lambda>(m', b). (m', if m' = m then b\<lparr>bi_lastCommit := c\<rparr> else b)) (rg_branchs r)\<rparr>)"
  unfolding repo_ok_def by (auto simp: wf_gm_map)

lemma registry_setLastCommit: "registry_ok h \<Longrightarrow> registry_ok (setLastCommit n m c h)"
  unfolding registry_ok_def setLastCommit_def using repo_ok_commit [of "hg_subRecords h" _ _ m c]
  by (auto simp: wf_gm_map split: prod.splits)

lemma registry_watchBranches: "registry_ok h \<Longrightarrow> watchBranches e xs h w = (w', h', p) \<Longrightarrow> registry_ok h'"
  by (induction e xs h w rule: watchBranches.induct)
    (auto simp: Let_def registry_setLastCommit split: prod.splits option.splits if_splits)

lemma registry_step_ok: "registry_step e h h' \<Longrightarrow> registry_ok h \<Longrightarrow> registry_ok h'"
  by (induction rule: registry_step.induct)
    (auto simp: GitWatch_def intro: registry_RegisterBranch registry_DeregisterBranch registry_watchBranches)

text \<open>
  C27: in every state that registrations, also failed ones, deregistrations and watches reach, each
  branch of the registry is used by a subscription that is recorded for its repository, no
  repository is without branches, and the name of a repository follows from that of its subscriptions.
\<close>

theorem registry_consistent: "registry_reach e h \<Longrightarrow> registry_ok h"
proof (induction rule: registry_reach.induct)
  case start
  show ?case by (simp add: registry_ok_def wf_gm_def)
next
  case (step h h')
  then show ?case by (blast intro: registry_step_ok)
qed

section \<open>A branch that was registered\<close>

lemma recordBranch_found:
  "branchOf (recordBranch n b k url opts c h) n b = Ret b' \<Longrightarrow> bi_lastCommit b' = c \<and> bi_options b' = opts"
  by (auto simp: branchOf_def recordBranch_def Let_def gmap_simps newBranch_def split: option.splits)

lemma recordBranch_Ret: "\<exists>b'. branchOf (recordBranch n b k url opts c h) n b = Ret b'"
  by (auto simp: branchOf_def recordBranch_def Let_def gmap_simps split: option.splits)

lemma recordBranch_subs [simp]: "hg_subRecords (recordBranch n b k url opts c h) = hg_subRecords h"
  by (simp add: recordBranch_def Let_def)

lemma recordBranch_not_Nil [simp]: "hg_repoRecords (recordBranch n b k url opts c h) \<noteq> []"
  by (simp add: recordBranch_def Let_def)

text \<open>What a successful registration of a Git subscription has done.\<close>

lemma RegisterBranch_Ret:
  assumes "RegisterBranch e s h w = (w', h', Ret ())" "\<not> shouldSkipHubValidation s"
    "GetSubscriptionRefChannel (he_channel e w) s = Inr (Some chn, sec)" "isGitChannel chn"
  obtains opts c where "hubCloneOptions e w s chn sec = Inr opts" "he_clone e opts w = (w', Inr c)"
    "h' = recordBranch (genRepoName (sub_name s) (sub_namespace s)) (genBranchString s) (subKey s) (ch_pathname chn) opts c
       (h\<lparr>hg_subRecords := gm_put (subKey s) (genRepoName (sub_name s) (sub_namespace s)) (hg_subRecords h)\<rparr>)"
  using assms by (auto simp: RegisterBranch_def Let_def split: sum.splits prod.splits)

lemma hubCloneOptions_dest: "hubCloneOptions e w s chn sec = Inr opts \<Longrightarrow> go_destDir opts = he_folder e s"
  by (auto simp: hubCloneOptions_def Let_def rbind_Inr_iff split: prod.splits)

text \<open>
  After a registration of a Git subscription that succeeds, the registry gives its folder and
  the commit of the clone just made, without a further clone and without a panic.
\<close>

theorem registered_branch_found:
  assumes "RegisterBranch e s h w = (w', h', Ret ())" "\<not> shouldSkipHubValidation s"
    "GetSubscriptionRefChannel (he_channel e w) s = Inr (Some chn, sec)" "isGitChannel chn"
  shows "\<exists>opts c. hubCloneOptions e w s chn sec = Inr opts \<and> he_clone e opts w = (w', Inr c)
    \<and> GetLatestCommitID e s h' v = (v, h', Ret c) \<and> GetRepoRootDirctory s h' = Ret (he_folder e s)"
proof -
  obtain opts c where o: "hubCloneOptions e w s chn sec = Inr opts" "he_clone e opts w = (w', Inr c)"
    and h': "h' = recordBranch (genRepoName (sub_name s) (sub_namespace s)) (genBranchString s) (subKey s) (ch_pathname chn) opts c
       (h\<lparr>hg_subRecords := gm_put (subKey s) (genRepoName (sub_name s) (sub_namespace s)) (hg_subRecords h)\<rparr>)"
    by (rule RegisterBranch_Ret [OF assms])
  obtain b where b: "branchOf h' (genRepoName (sub_name s) (sub_namespace s)) (genBranchString s) = Ret b"
    unfolding h' using recordBranch_Ret by blast
  from recordBranch_found [OF this [unfolded h']] have "bi_lastCommit b = c" "bi_options b = opts" by auto
  moreover have "map_of (hg_subRecords h') (subKey s) = Some (genRepoName (sub_name s) (sub_namespace s))"
    by (simp add: h' recorded_key)
  moreover have "hg_repoRecords h' \<noteq> []" by (simp add: h')
  ultimately show ?thesis using o b hubCloneOptions_dest [OF o(1)]
    by (intro exI [of _ opts] exI [of _ c]) (simp add: GetLatestCommitID_def GetRepoRootDirctory_def)
qed

text \<open>
  A subscription that is recorded while its branch is not: reading its folder panics. This happens
  when a subscription that is registered turns to another branch and skips the validation of the hub.
\<close>

lemma skipped_branch_panics:
  assumes "shouldSkipHubValidation s" "map_of (hg_subRecords h) (subKey s) = Some n"
    "branchOf h n (genBranchString s) = Crash NilDereference" "fst (getHookPath s) \<noteq> ''''"
  shows "RegisterBranch e s h w = (w, h, Ret ()) \<and> HasHookFolders e s h w = Crash NilDereference"
  using assms by (auto simp: RegisterBranch_def HasHookFolders_def GetRepoRootDirctory_def Let_def split: prod.splits)

section \<open>New commits\<close>

lemma unmask_fake [simp]: "unmaskFakeCommitID (fakeCommitID c) = c"
  by (simp add: unmaskFakeCommitID_def fakeCommitID_def)

text \<open>A repository that is registered under two branches is cloned once per branch, into one folder.\<close>

lemma old_branch_stays:
  assumes "RegisterBranch e s h w = (w', h', Ret ())" "\<not> shouldSkipHubValidation s"
    "GetSubscriptionRefChannel (he_channel e w) s = Inr (Some chn, sec)" "isGitChannel chn"
    and old: "branchOf h (genRepoName (sub_name s) (sub_namespace s)) b = Ret bi" and other: "b \<noteq> genBranchString s"
  shows "branchOf h' (genRepoName (sub_name s) (sub_namespace s)) b = Ret bi"
proof -
  obtain opts c where h': "h' = recordBranch (genRepoName (sub_name s) (sub_namespace s)) (genBranchString s) (subKey s) (ch_pathname chn) opts c
       (h\<lparr>hg_subRecords := gm_put (subKey s) (genRepoName (sub_name s) (sub_namespace s)) (hg_subRecords h)\<rparr>)"
    by (rule RegisterBranch_Ret [OF assms(1-4)])
  from old other show ?thesis
    by (auto simp: h' branchOf_def recordBranch_def Let_def gmap_simps split: option.splits)
qed

lemma sorted_walk: "walkPaths e ig (\<lambda>p. False) root f ps = Inr f' \<Longrightarrow> walkedFiles e ig root f ps = f'"
  by (induction e ig root f ps rule: walkedFiles.induct) (auto simp: rbind_Inr_iff split: sum.splits)

end
