(* ===== verification/HooksFacts.thy ===== *)
theory HooksFacts
  imports Hooks HubGitFacts
begin

text \<open>
  Ansible hooks: which job stands for a template, when the jobs of a subscription count as
  completed, that applied jobs exist, and that no second job is started while one is running.
\<close>

section \<open>One job per template\<close>

definition one_each :: "JobInstances \<Rightarrow> bool" where
  "one_each js \<longleftrightarrow> (\<forall>(k, j) \<in> set js. length (jb_instance j) \<le> 1)"

definition hooks_ok :: "hook_registry \<Rightarrow> bool" where
  "hooks_ok a \<longleftrightarrow> (\<forall>(k, hk) \<in> set a. one_each (hk_pre hk) \<and> one_each (hk_post hk))"

text \<open>The registry under registrations of any subscription, also failing ones, and deregistrations.\<close>

inductive hook_reach :: "'w hook_env \<Rightarrow> hook_registry \<Rightarrow> bool" for e where
  start: "hook_reach e []"
| register: "hook_reach e a \<Longrightarrow> RegisterSubscription e x upd rv h a w = (w', h', a', r) \<Longrightarrow> hook_reach e a'"
| deregister: "hook_reach e a \<Longrightarrow> hook_reach e (DeregisterSubscription k a)"

lemma one_each_put: "one_each js \<Longrightarrow> length (jb_instance j) \<le> 1 \<Longrightarrow> one_each (gm_put k j js)"
  using set_gm_put [of k j js] by (fastforce simp: one_each_def)

lemma registryAnsibleJob_one: "one_each js \<Longrightarrow> one_each (registryAnsibleJob e w s jobKey nx t js)"
  by (auto simp: registryAnsibleJob_def intro: one_each_put split: option.splits)

lemma registryJob_one: "registryJob e x r job h js w = (w', h', js', q) \<Longrightarrow> one_each js \<Longrightarrow> one_each js'"
proof -
  have orig: "one_each (map (\<lambda>(k, rec). (k, if k = key then rec\<lparr>jb_original := ins\<rparr> else rec)) js1)" if "one_each js1" for key ins js1
    using that by (auto simp: one_each_def)
  show "registryJob e x r job h js w = (w', h', js', q) \<Longrightarrow> one_each js \<Longrightarrow> one_each js'"
    unfolding registryJob_def Let_def
    by (auto split: sum.splits prod.splits goval.splits if_splits intro!: registryAnsibleJob_one orig one_each_put)
qed

lemma registryJobs_one: "registryJobs e x r jobs h js w = (w', h', js', q) \<Longrightarrow> one_each js \<Longrightarrow> one_each js'"
  by (induction e x r jobs h js w rule: registryJobs.induct)
    (auto split: prod.splits goval.splits dest: registryJob_one)

lemma hooks_ok_found: "hooks_ok a \<Longrightarrow> map_of a k = Some hk \<Longrightarrow> one_each (hk_pre hk) \<and> one_each (hk_post hk)"
  unfolding hooks_ok_def using map_of_SomeD by fastforce

lemma hooks_ok_preOf: "hooks_ok a \<Longrightarrow> one_each (preOf a k)" and hooks_ok_postOf: "hooks_ok a \<Longrightarrow> one_each (postOf a k)"
  by (auto simp: preOf_def postOf_def dest: hooks_ok_found split: option.splits) (simp_all add: one_each_def)

lemma registerHook_ok: "registerHook e x t jobs upd rv h a w = (w', h', a', q) \<Longrightarrow> hooks_ok a \<Longrightarrow> hooks_ok a'"
  unfolding registerHook_def Let_def
  by (auto split: prod.splits if_splits dest!: registryJobs_one simp: hooks_ok_preOf hooks_ok_postOf)
    (auto simp: hooks_ok_def putPre_def putPost_def)

lemma addHookToRegisitry_ok: "addHookToRegisitry e x upd rv h a w = (w', h', a', q) \<Longrightarrow> hooks_ok a \<Longrightarrow> hooks_ok a'"
proof -
  have last: "hooks_ok (map (\<lambda>(k', hk). (k', if k' = k then hk\<lparr>hk_lastSub := x, hk_shared := True\<rparr> else hk)) a)" if "hooks_ok a" for k
    using that by (auto simp: hooks_ok_def)
  show "addHookToRegisitry e x upd rv h a w = (w', h', a', q) \<Longrightarrow> hooks_ok a \<Longrightarrow> hooks_ok a'"
    unfolding addHookToRegisitry_def Let_def
    by (auto split: prod.splits goval.splits if_splits dest!: registerHook_ok intro: last)
qed

lemma hooks_ok_put: "hooks_ok a \<Longrightarrow> one_each (hk_pre hk) \<Longrightarrow> one_each (hk_post hk) \<Longrightarrow> hooks_ok (gm_put k hk a)"
  using set_gm_put [of k hk a] by (fastforce simp: hooks_ok_def)

lemma RegisterSubscription_ok:
  assumes "RegisterSubscription e x upd rv h a w = (w', h', a', q)" "hooks_ok a"
  shows "hooks_ok a'"
proof -
  define a1 where "a1 = (if map_of a (subKey (hs_sub x)) = None
      then gm_put (subKey (hs_sub x)) \<lparr>hk_pre = [], hk_post = [], hk_lastSub = x, hk_shared = True\<rparr> a else a)"
  have "hooks_ok a1" using assms(2) by (simp add: a1_def hooks_ok_put one_each_def)
  with assms show ?thesis
    unfolding RegisterSubscription_def Let_def a1_def [symmetric]
    by (auto split: sum.splits prod.splits goval.splits if_splits dest: addHookToRegisitry_ok)
qed

lemma hook_reach_ok: "hook_reach e a \<Longrightarrow> hooks_ok a"
proof (induction rule: hook_reach.induct)
  case (register a x upd rv h w w' h' a' r)
  then show ?case by (blast intro: RegisterSubscription_ok)
qed (auto simp: hooks_ok_def DeregisterSubscription_def gm_del_def)

section \<open>Completion\<close>

text \<open>The job of a record is on the hub and has run successfully.\<close>

definition job_done :: "'w hook_env \<Rightarrow> 'w \<Rightarrow> Job \<Rightarrow> bool" where
  "job_done e w j \<longleftrightarrow> (\<exists>i job. jb_instance j = [i] \<and> hk_getJob e w (aj_namespace i, aj_name i) = Inr job \<and> isJobRunSuccessful job)"

lemma isJobDone_True: "isJobDone e w k = Inr True \<longleftrightarrow> (\<exists>job. hk_getJob e w k = Inr job \<and> isJobRunSuccessful job)"
  by (auto simp: isJobDone_def split: sum.splits)

lemma jobsCompleted_True:
  "\<forall>j \<in> set js. length (jb_instance j) = 1 \<Longrightarrow> jobsCompleted e w js = Inr True \<longleftrightarrow> (\<forall>j \<in> set js. job_done e w j)"
proof (induction js)
  case (Cons j js)
  then obtain i where "jb_instance j = [i]" by (auto simp: length_Suc_conv)
  moreover have "job_done e w j \<longleftrightarrow> isJobDone e w (aj_namespace i, aj_name i) = Inr True"
    using calculation by (simp add: job_done_def isJobDone_True)
  ultimately show ?case using Cons by (auto split: sum.splits)
qed simp

text \<open>A template without a job hides what comes after it.\<close>

lemma jobsCompleted_hidden: "jb_instance j = [] \<Longrightarrow> jobsCompleted e w (j # js) = Inr True"
  by simp

text \<open>
  C12: in every state that registrations and deregistrations reach, the hooks before a
  deployment count as completed exactly when the one job of every template exists on the hub and
  has run successfully, provided every template got a job. A template gets none while the commit is
  unknown or when it has no variables.
\<close>

theorem prehooks_completed_exact:
  assumes "hook_reach e a" "\<forall>j \<in> snd ` set (preOf a k). jb_instance j \<noteq> []"
  shows "IsPreHooksCompleted e a k w = Inr True \<longleftrightarrow> (\<forall>j \<in> snd ` set (preOf a k). job_done e w j)"
proof -
  have "one_each (preOf a k)" by (rule hooks_ok_preOf [OF hook_reach_ok [OF assms(1)]])
  with assms(2) have "\<forall>j \<in> set (map snd (preOf a k)). length (jb_instance j) = 1"
    by (fastforce simp: one_each_def le_Suc_eq)
  from jobsCompleted_True [OF this, of e w] have
    "isJobsCompleted e w (preOf a k) = Inr True \<longleftrightarrow> (\<forall>j \<in> snd ` set (preOf a k). job_done e w j)"
    by (simp only: isJobsCompleted_def set_map)
  then show ?thesis
    by (cases "map_of a k") (simp_all add: IsPreHooksCompleted_def isRegistered_def preOf_def)
qed

section \<open>Applied jobs exist\<close>

text \<open>
  The API of jobs: a job that was created, or that the server says exists, can be read afterwards,
  and creating a job takes none away.
\<close>

definition job_api :: "'w hook_env \<Rightarrow> bool" where
  "job_api e \<longleftrightarrow> (\<forall>w w' j r. hk_createJob e w j = (w', r) \<longrightarrow>
     ((r = None \<or> (\<exists>er. r = Some er \<and> hk_exists e er)) \<longrightarrow> (\<exists>x. hk_getJob e w' (aj_namespace j, aj_name j) = Inr x))
     \<and> (\<forall>k x. hk_getJob e w k = Inr x \<longrightarrow> hk_getJob e w' k = Inr x))"

definition job_there :: "'w hook_env \<Rightarrow> 'w \<Rightarrow> Job \<Rightarrow> bool" where
  "job_there e w j \<longleftrightarrow> (case jb_instance j of [] \<Rightarrow> True | i # rest \<Rightarrow> \<exists>x. hk_getJob e w (aj_namespace i, aj_name i) = Inr x)"

lemma job_api_keeps: "job_api e \<Longrightarrow> hk_createJob e w j = (w', r) \<Longrightarrow> hk_getJob e w k = Inr x \<Longrightarrow> hk_getJob e w' k = Inr x"
  unfolding job_api_def by blast

lemma job_api_there:
  "job_api e \<Longrightarrow> hk_createJob e w j = (w', r) \<Longrightarrow> r = None \<or> (\<exists>er. r = Some er \<and> hk_exists e er)
    \<Longrightarrow> \<exists>x. hk_getJob e w' (aj_namespace j, aj_name j) = Inr x"
  unfolding job_api_def by blast

text \<open>One step of the loop that goes on: the job is there, and what was there stays.\<close>

lemma applyEach_step:
  assumes api: "job_api e" and run: "applyEach e (j # js) w = (w', None)"
  obtains w1 where "applyEach e js w1 = (w', None)" "job_there e w1 j" "\<forall>k x. hk_getJob e w k = Inr x \<longrightarrow> hk_getJob e w1 k = Inr x"
proof (cases "jb_instance j")
  case Nil
  then show thesis using run that [of w] by (simp add: job_there_def)
next
  case (Cons i rest)
  show thesis
  proof (cases "hk_getJob e w (aj_namespace i, aj_name i)")
    case (Inr x)
    then show thesis using run Cons that [of w] by (simp add: job_there_def)
  next
    case (Inl er)
    obtain w1 r where c: "hk_createJob e w i = (w1, r)" by force
    from run Cons Inl c have go: "applyEach e js w1 = (w', None)" and r: "r = None \<or> (\<exists>er. r = Some er \<and> hk_exists e er)"
      by (auto simp: Let_def split: if_splits option.splits)
    from job_api_there [OF api c r] have "job_there e w1 j" by (simp add: job_there_def Cons)
    with go job_api_keeps [OF api c] that show thesis by blast
  qed
qed

lemma applyEach_ok:
  assumes api: "job_api e"
  shows "applyEach e js w = (w', None) \<Longrightarrow>
    (\<forall>j \<in> set js. job_there e w' j) \<and> (\<forall>k x. hk_getJob e w k = Inr x \<longrightarrow> hk_getJob e w' k = Inr x)"
proof (induction js arbitrary: w)
  case (Cons j js)
  obtain w1 where w1: "applyEach e js w1 = (w', None)" "job_there e w1 j" "\<forall>k x. hk_getJob e w k = Inr x \<longrightarrow> hk_getJob e w1 k = Inr x"
    by (rule applyEach_step [OF api Cons.prems])
  note ih = Cons.IH [OF w1(1)]
  from w1(2) ih have "job_there e w' j" by (auto simp: job_there_def split: list.splits)
  with ih w1(3) show ?case by simp
qed simp

text \<open>
  C31: when applying the hooks before a deployment reports no error, and the subscription is not
  being deleted, every job that is registered for a template is on the hub, and no job was removed.
\<close>

theorem applied_prehooks_exist:
  assumes "job_api e" "ApplyPreHooks e a k w = (w', None)" "map_of a k = Some hk"
    "\<not> IsSubscriptionBeDeleted (\<lambda>k. rbind (he_getSub (hk_git e) w k) (\<lambda>y. Inr (hs_sub y))) (subKey (hs_sub (hk_lastSub hk)))"
  shows "(\<forall>j \<in> snd ` set (preOf a k). job_there e w' j) \<and> (\<forall>k x. hk_getJob e w k = Inr x \<longrightarrow> hk_getJob e w' k = Inr x)"
proof (cases "preOf a k = []")
  case True
  with assms(2) have "w' = w" by (auto simp: ApplyPreHooks_def HasHooks_def split: if_splits)
  with True show ?thesis by simp
next
  case False
  with assms have "applyEach e (map snd (preOf a k)) w = (w', None)"
    by (simp add: ApplyPreHooks_def HasHooks_def isRegistered_def applyHooks_def applyJobs_def)
  from applyEach_ok [OF assms(1) this] show ?thesis by auto
qed

section \<open>No second job\<close>

text \<open>The last job of a template, as registering it sees it.\<close>

lemma registryJob_registered:
  assumes "registryJob e x r job h js w = (w', h', js', Ret ())"
    "overrideAnsibleInstance e w x job (rn_type r) = Inr ins" "aj_extraVars ins \<noteq> None"
    "suffixBasedOnSpecAndCommitID (hk_git e) x h w = (w', h', Ret sfx)" "sfx \<noteq> ''''"
  shows "\<exists>j. map_of js' (aj_namespace job, aj_name job) = Some j
    \<and> jb_instance j = [chooseJob e w' (hs_sub x) (aj_namespace job, aj_name job) (ins\<lparr>aj_name := aj_name ins @ jobSuffix e x r sfx\<rparr>) (rn_type r)]"
proof -
  let ?key = "(aj_namespace job, aj_name job)"
  have there: "\<exists>rec. map_of (map (\<lambda>(k, rec). (k, if k = ?key then rec\<lparr>jb_original := ins\<rparr> else rec)) m) ?key = Some rec"
    if "map_of m ?key \<noteq> None" for m :: JobInstances
    using that by (induction m) auto
  define js1 where "js1 = (if map_of js ?key = None then gm_put ?key \<lparr>jb_original = noJob, jb_instance = []\<rparr> js else js)"
  have "map_of js1 ?key \<noteq> None" by (auto simp: js1_def gmap_simps)
  from there [OF this] obtain rec where
    rec: "map_of (map (\<lambda>(k, rec). (k, if k = ?key then rec\<lparr>jb_original := ins\<rparr> else rec)) js1) ?key = Some rec" by blast
  have "js' = registryAnsibleJob e w' (hs_sub x) ?key (ins\<lparr>aj_name := aj_name ins @ jobSuffix e x r sfx\<rparr>) (rn_type r)
      (map (\<lambda>(k, rec). (k, if k = ?key then rec\<lparr>jb_original := ins\<rparr> else rec)) js1)"
    using assms by (simp add: registryJob_def Let_def js1_def)
  with rec show ?thesis by (simp add: registryAnsibleJob_def gmap_simps)
qed


text \<open>
  The annotation by which a job is found again names the namespace of the subscription: a job of
  a kustomization, which keeps its own namespace in the key, is not found.
\<close>

lemma template_annotation:
  assumes "overrideAnsibleInstance e w x job t = Inr ins" "\<And>x j j'. hk_setOwner e x j = Inr j' \<Longrightarrow> aj_annotations j' = aj_annotations j"
  shows "has_anno ins AnnotationHookTemplate (nsname_string (aj_namespace job, aj_name job)) \<longleftrightarrow> aj_namespace job = sub_namespace (hs_sub x)"
proof -
  have name: "aj_name j2 = aj_name j1" if "targetVars e w x j1 = Inr j2" for j1 j2
    using that by (auto simp: targetVars_def rbind_Inr_iff split: option.splits if_splits)
  from assms(1) obtain j1 j2 where j: "targetVars e w x j1 = Inr j2" "aj_name j1 = aj_name job"
      "hk_setOwner e x (addingHostingSubscriptionAnno (subKey (hs_sub x)) t (j2\<lparr>aj_namespace := sub_namespace (hs_sub x)\<rparr>)) = Inr ins"
    by (auto simp: overrideAnsibleInstance_def Let_def rbind_Inr_iff)
  from assms(2) [OF j(3)] name [OF j(1)] j(2) show ?thesis
    by (auto simp: has_anno_def addingHostingSubscriptionAnno_def gmap_simps nsname_string_def)
qed

end
