(* ===== verification/HookExamples.thy ===== *)
theory HookExamples
  imports HooksFacts HubExamples
begin

text \<open>
  A hub in memory with a Git repository that has a job to run before the deployment, on which
  branches and hooks are registered, applied and checked.
\<close>

section \<open>The hub\<close>

type_synonym hubw = "hub \<times> AnsibleJob list"

definition on_works :: "(hub \<Rightarrow> hub \<times> kerr option) \<Rightarrow> hubw \<Rightarrow> hubw \<times> kerr option" where
  "on_works f w = (case f (fst w) of (v, r) \<Rightarrow> ((v, snd w), r))"

definition hubw_works :: "hubw work_client" where
  "hubw_works = \<lparr>wk_list = (\<lambda>w. wk_list hub_works (fst w)), wk_page = (\<lambda>w. wk_page hub_works (fst w)),
     wk_create = (\<lambda>w x. on_works (\<lambda>v. wk_create hub_works v x) w), wk_update = (\<lambda>w x. on_works (\<lambda>v. wk_update hub_works v x) w),
     wk_delete = (\<lambda>w x. on_works (\<lambda>v. wk_delete hub_works v x) w)\<rparr>"

definition prop_ex :: "hubw propagation_env" where
  "prop_ex = \<lparr>pe_hub = (\<lambda>w. pe_hub hub_ex (fst w)), pe_cluster = (\<lambda>w. pe_cluster hub_ex (fst w)), pe_requirement = pe_requirement hub_ex,
     pe_selector = pe_selector hub_ex, pe_decisions = (\<lambda>w. pe_decisions hub_ex (fst w)), pe_showRef = pe_showRef hub_ex,
     pe_admin = (\<lambda>w. pe_admin hub_ex (fst w)), pe_configMap = (\<lambda>w. pe_configMap hub_ex (fst w)), pe_works = hubw_works,
     pe_reports = \<lparr>rpc_get = (\<lambda>w k. Inr no_report), rpc_create = (\<lambda>w r. (w, None)), rpc_update = (\<lambda>w r. (w, None))\<rparr>,
     pe_statuses = \<lparr>stc_list = (\<lambda>w ns l. Inr []), stc_delete = (\<lambda>w p. (w, None))\<rparr>,
     pe_event = (\<lambda>s a m r w. w), pe_now = (\<lambda>w. 0), pe_marshalNs = pe_marshalNs hub_ex, pe_marshalSub = pe_marshalSub hub_ex,
     pe_marshal = pe_marshal hub_ex, pe_unmarshal = pe_unmarshal hub_ex, pe_emptyU = pe_emptyU hub_ex, pe_semEq = (=)\<rparr>"

text \<open>The subscription asks for the hooks below \<open>app\<close>.\<close>

definition hooked_sub :: Subscription where
  "hooked_sub = hub_sub\<lparr>sub_annotations := Some [(AnnotationGitPath, ''app'')]\<rparr>"

definition hooked :: HubSub where
  "hooked = placed\<lparr>hs_sub := hooked_sub\<rparr>"

definition job_ex :: "string \<Rightarrow> string \<Rightarrow> AnsibleJob" where
  "job_ex ns n = noJob\<lparr>aj_namespace := ns, aj_name := n, aj_extraVars := Some ''{}''\<rparr>"

definition repo_ex :: Channel where
  "repo_ex = \<lparr>ch_name = ''repo'', ch_namespace = ''chns'', ch_annotations = None, ch_type = ''Git'', ch_pathname = ''https://git/repo'',
     ch_secretRef = None, ch_configMapRef = None, ch_insecure = False\<rparr>"

definition hubgit_ex :: "hubw hub_git_env" where
  "hubgit_ex = \<lparr>he_channel = (\<lambda>w k. if k = (''chns'', ''repo'') then Inr repo_ex else Inl (NotFound '''')),
     he_secret = (\<lambda>w k. Inl (NotFound '''')), he_configMap = (\<lambda>w k. Inl (NotFound '''')), he_yamlStr = Inr, he_trim = (\<lambda>s. s),
     he_folder = (\<lambda>s. ''/tmp/'' @ sub_namespace s @ ''/'' @ sub_name s), he_clone = (\<lambda>o' w. (w, Inr ''c0ffee01'')),
     he_getSub = (\<lambda>w k. Inr hooked), he_updateSub = (\<lambda>w x. (w, None)),
     he_stat = (\<lambda>w p. if HasSuffix p ''/prehook'' then None else Some (NotFound '''')),
     he_repo = (\<lambda>w. \<lparr>re_exists = (\<lambda>p. False), re_read = (\<lambda>p. Inr ''job''), re_yaml = (\<lambda>s. Inr (''v1'', AnsibleJobKind))\<rparr>),
     he_walk = (\<lambda>w p. [(p, Inr True), (p @ ''/job.yaml'', Inr False)]), he_ignored = (\<lambda>w p f. False),
     he_kustomize = (\<lambda>w d. Inl (OtherError '''')), he_job = (\<lambda>s. Inr (job_ex '''' s))\<rparr>"

definition job_of :: "hubw \<Rightarrow> nsname \<Rightarrow> AnsibleJob option" where
  "job_of w k = find (\<lambda>j. (aj_namespace j, aj_name j) = k) (snd w)"

definition hook_ex :: "hubw hook_env" where
  "hook_ex = \<lparr>hk_git = hubgit_ex, hk_prop = prop_ex, hk_listJobs = (\<lambda>w ns. Inr (filter (\<lambda>j. aj_namespace j = ns) (snd w))),
     hk_getJob = (\<lambda>w k. case job_of w k of None \<Rightarrow> Inl (NotFound '''') | Some j \<Rightarrow> Inr j),
     hk_createJob = (\<lambda>w j. if job_of w (aj_namespace j, aj_name j) = None then ((fst w, snd w @ [j]), None)
        else (w, Some (OtherError ''exists''))),
     hk_exists = (\<lambda>er. er = OtherError ''exists''), hk_rule = (\<lambda>w k. Inl (NotFound '''')), hk_selected = (\<lambda>w k. Inr 2),
     hk_vars = (\<lambda>s. Inr []), hk_encode = (\<lambda>m. Inr ''{..}''), hk_deepEqual = (=), hk_sha = (\<lambda>s. s), hk_setOwner = (\<lambda>x j. Inr j)\<rparr>"

lemma find_append: "find P (xs @ ys) = (case find P xs of None \<Rightarrow> find P ys | Some x \<Rightarrow> Some x)"
  by (induction xs) auto

lemma hook_ex_api: "job_api hook_ex"
  by (auto simp: job_api_def hook_ex_def job_of_def find_append split: option.splits if_splits)

section \<open>Branches\<close>

definition reg0 :: HubGitOps where "reg0 = \<lparr>hg_subRecords = [], hg_repoRecords = []\<rparr>"

definition options_ex :: GitCloneOption where
  "options_ex = \<lparr>go_commit = '''', go_tag = '''', go_branch = '''', go_destDir = ''/tmp/ns/app'', go_depth = 0,
     go_primary = \<lparr>cc_url = ''https://git/repo'', cc_credentials = \<lparr>cr_user = '''', cr_token = '''', cr_sshKey = '''', cr_passphrase = '''',
       cr_clientKey = '''', cr_clientCert = ''''\<rparr>, cc_insecure = False, cc_caCerts = ''''\<rparr>, go_secondary = None\<rparr>"

definition reg1 :: HubGitOps where
  "reg1 = \<lparr>hg_subRecords = [((''ns'', ''app''), ''appns'')],
     hg_repoRecords = [(''appns'', \<lparr>rg_url = ''https://git/repo'', rg_branchs =
       [(''nobranchdummy'', \<lparr>bi_options = options_ex, bi_lastCommit = ''c0ffee01'', bi_subs = [((''ns'', ''app''), ())]\<rparr>)]\<rparr>)]\<rparr>"

lemma register_ex: "RegisterBranch hubgit_ex hooked_sub reg0 ([], []) = (([], []), reg1, Ret ())"
  by code_simp

theorem registry_consistent_witness: "registry_reach hubgit_ex reg1 \<and> registry_ok reg1"
proof -
  have "registry_reach hubgit_ex reg0" unfolding reg0_def by (rule registry_reach.start)
  from registry_reach.step [OF this registry_step.register [OF register_ex]] have 1: "registry_reach hubgit_ex reg1" .
  from registry_consistent [OF 1] 1 show ?thesis by simp
qed

theorem registered_branch_found_witness:
  "GetLatestCommitID hubgit_ex hooked_sub reg1 ([], []) = (([], []), reg1, Ret ''c0ffee01'')
   \<and> GetRepoRootDirctory hooked_sub reg1 = Ret ''/tmp/ns/app''"
proof -
  have 2: "\<not> shouldSkipHubValidation hooked_sub" "isGitChannel repo_ex" by code_simp+
  have 3: "GetSubscriptionRefChannel (he_channel hubgit_ex ([], [])) hooked_sub = Inr (Some repo_ex, None)" by code_simp
  from registered_branch_found [OF register_ex 2(1) 3 2(2), of "([], [])"]
  obtain opts c where "he_clone hubgit_ex opts ([], []) = (([], []), Inr c)"
    "GetLatestCommitID hubgit_ex hooked_sub reg1 ([], []) = (([], []), reg1, Ret c)" "GetRepoRootDirctory hooked_sub reg1 = Ret (he_folder hubgit_ex hooked_sub)"
    by blast
  then show ?thesis by (simp add: hubgit_ex_def hooked_sub_def hub_sub_def)
qed

section \<open>Hooks\<close>

text \<open>The job of the template as it is registered, and the same job after it has run.\<close>

definition run_job :: AnsibleJob where
  "run_job = (job_ex ''ns'' ''job-1-c0ffee'')\<lparr>aj_extraVars := Some ''{..}'',
     aj_annotations := Some [(AnnotationHosting, ''ns/app''), (AnnotationHookType, ''prehook''), (AnnotationHookTemplate, ''ns/job'')]\<rparr>"

definition done_job :: AnsibleJob where
  "done_job = run_job\<lparr>aj_status := ''successful''\<rparr>"

definition hooks1 :: hook_registry where
  "hooks1 = [((''ns'', ''app''), \<lparr>hk_pre = [((''ns'', ''job''), \<lparr>jb_original = run_job\<lparr>aj_name := ''job''\<rparr>, jb_instance = [run_job]\<rparr>)],
     hk_post = [], hk_lastSub = hooked, hk_shared = True\<rparr>)]"

lemma hooks1_registered: "RegisterSubscription hook_ex hooked False ''7'' reg1 [] ([], []) = (([], []), reg1, hooks1, Ret ())"
  by code_simp

theorem prehooks_completed_exact_witness:
  "IsPreHooksCompleted hook_ex hooks1 (''ns'', ''app'') ([], [done_job]) = Inr True
   \<and> IsPreHooksCompleted hook_ex hooks1 (''ns'', ''app'') ([], [run_job]) \<noteq> Inr True"
proof -
  have 1: "hook_reach hook_ex hooks1" by (rule hook_reach.register [OF hook_reach.start hooks1_registered])
  have 2: "preOf hooks1 (''ns'', ''app'') = [((''ns'', ''job''), \<lparr>jb_original = run_job\<lparr>aj_name := ''job''\<rparr>, jb_instance = [run_job]\<rparr>)]"
    by (simp add: preOf_def hooks1_def)
  have 3: "hk_getJob hook_ex ([], [done_job]) (aj_namespace run_job, aj_name run_job) = Inr done_job"
    "hk_getJob hook_ex ([], [run_job]) (aj_namespace run_job, aj_name run_job) = Inr run_job"
    "isJobRunSuccessful done_job" "\<not> isJobRunSuccessful run_job" by code_simp+
  from prehooks_completed_exact [OF 1, of "(''ns'', ''app'')"] 3 show ?thesis by (auto simp: 2 job_done_def)
qed

theorem applied_prehooks_exist_witness:
  "ApplyPreHooks hook_ex hooks1 (''ns'', ''app'') ([], []) = (([], [run_job]), None)
   \<and> list_all (job_there hook_ex ([], [run_job])) (map snd (preOf hooks1 (''ns'', ''app'')))"
proof -
  have 1: "ApplyPreHooks hook_ex hooks1 (''ns'', ''app'') ([], []) = (([], [run_job]), None)" by code_simp
  let ?hk = "the (map_of hooks1 (''ns'', ''app''))"
  have 2: "map_of hooks1 (''ns'', ''app'') = Some ?hk" by (simp add: hooks1_def)
  have 3: "\<not> IsSubscriptionBeDeleted (\<lambda>k. rbind (he_getSub (hk_git hook_ex) ([], []) k) (\<lambda>y. Inr (hs_sub y))) (subKey (hs_sub (hk_lastSub ?hk)))"
    by code_simp
  from applied_prehooks_exist [OF hook_ex_api 1 2 3] 1 show ?thesis by (simp add: list_all_iff)
qed


end
