(* ===== verification/Polling.thy ===== *)
theory Polling
  imports Subscriber
begin

text \<open>
  What the subscribers of Helm repositories and of object buckets have in common
  (\<open>pkg/subscriber/helmrepo\<close>, \<open>pkg/subscriber/objectbucket\<close>): retried rounds, the polling goroutine of an item,
  and the table of items. A round is an argument. The running goroutine is the field \<open>pi_loop\<close> with its
  period, retry interval and retries; one turn of it is \<open>pollTurn\<close>.
\<close>

record PollItem =
  pi_item :: AppSubscriberItem
  pi_rate :: string
  pi_syncTime :: string
  pi_started :: bool
  pi_loop :: "(duration \<times> duration \<times> nat) option"
  pi_success :: bool
  pi_clusterAdmin :: bool

abbreviation pi_sub :: "'a PollItem_scheme \<Rightarrow> Subscription" where
  "pi_sub it \<equiv> ai_subscription (pi_item it)"

record 'w poll_env =
  po_tz :: tzdb
  po_clock :: "'w \<Rightarrow> gotime \<times> int"
  po_sleep :: "duration \<Rightarrow> 'w \<Rightarrow> 'w"

type_synonym ('w, 'i) round = "'i \<Rightarrow> 'w \<Rightarrow> 'w \<times> 'i \<times> gopanic option"

section \<open>Rounds\<close>

text \<open>One round, and while it is not successful up to \<open>retries\<close> more.\<close>

primrec retryRounds ::
  "'w poll_env \<Rightarrow> ('w, 'a PollItem_scheme) round \<Rightarrow> duration \<Rightarrow> nat \<Rightarrow> ('w, 'a PollItem_scheme) round" where
  "retryRounds e round retryInterval 0 it w = round it w"
| "retryRounds e round retryInterval (Suc retries) it w =
     (case round it w of
        (w', it', Some p) \<Rightarrow> (w', it', Some p)
      | (w', it', None) \<Rightarrow>
          (if \<not> pi_success it' then retryRounds e round retryInterval retries it' (po_sleep e retryInterval w') else (w', it', None)))"

definition windowBlocks :: "'w poll_env \<Rightarrow> Subscription \<Rightarrow> 'w \<Rightarrow> gopanic + bool" where
  "windowBlocks e s w =
     (case sp_timewindow (sub_spec s) of
        None \<Rightarrow> Inr False
      | Some tw \<Rightarrow> rbind (NextStartPoint (po_tz e) (fst (po_clock e w)) (Some tw) (snd (po_clock e w))) (\<lambda>d. Inr (d > 0)))"

definition pollTurn ::
  "'w poll_env \<Rightarrow> ('w, 'a PollItem_scheme) round \<Rightarrow> duration \<Rightarrow> nat \<Rightarrow> ('w, 'a PollItem_scheme) round" where
  "pollTurn e round retryInterval retries it w =
     (case windowBlocks e (pi_sub it) w of
        Inl p \<Rightarrow> (w, it, Some p)
      | Inr blocked \<Rightarrow>
          (if blocked then (w, it, None)
           else if GetPauseLabel (pi_sub it) then (w, it, None)
           else retryRounds e round retryInterval retries it w))"

section \<open>Starting and stopping\<close>

definition stopPolling :: "'a PollItem_scheme \<Rightarrow> 'a PollItem_scheme" where
  "stopPolling it = (if pi_started it then it\<lparr>pi_started := False, pi_loop := None\<rparr> else it)"

definition startPolling ::
  "'w poll_env \<Rightarrow> string \<Rightarrow> ('w, 'a PollItem_scheme) round \<Rightarrow> bool \<Rightarrow> ('w, 'a PollItem_scheme) round" where
  "startPolling e chType round restart it w =
     (if pi_started it \<and> \<not> restart then (w, it, None)
      else (let it' = (if pi_started it then stopPolling it else it)\<lparr>pi_started := True\<rparr>;
                (loopPeriod, retryInterval, retries) = GetReconcileInterval (pi_rate it') chType
            in if EqualFold (pi_rate it') ''off'' then retryRounds e round retryInterval retries it' w
               else (w, it'\<lparr>pi_loop := Some (loopPeriod, retryInterval, retries)\<rparr>, None)))"

section \<open>The table of items\<close>

definition readRate :: "strmap option \<Rightarrow> 'a PollItem_scheme \<Rightarrow> 'a PollItem_scheme" where
  "readRate chnAnnotations it =
     (let a = sub_annotations (pi_sub it)
      in it\<lparr>pi_clusterAdmin := EqualFold (anno a AnnotationClusterAdmin) ''true'',
            pi_rate := (if EqualFold (anno a AnnotationResourceReconcileLevel) ''off'' then ''off'' else GetReconcileRate chnAnnotations a),
            pi_syncTime := anno a AnnotationManualReconcileTime\<rparr>)"

definition restartsPolling :: "'a PollItem_scheme \<Rightarrow> 'a PollItem_scheme \<Rightarrow> bool" where
  "restartsPolling old it \<longleftrightarrow>
     (pi_rate old \<noteq> '''' \<and> \<not> EqualFold (pi_rate old) (pi_rate it)) \<or> \<not> EqualFold (pi_syncTime old) (pi_syncTime it)"

text \<open>\<open>fresh\<close> makes an item without state and \<open>renew\<close> what an existing one loses; a missing channel is a nil pointer.\<close>

definition subscribePolling ::
  "'w poll_env \<Rightarrow> string \<Rightarrow> ('w, 'a PollItem_scheme) round \<Rightarrow> (AppSubscriberItem \<Rightarrow> 'a PollItem_scheme)
    \<Rightarrow> ('a PollItem_scheme \<Rightarrow> 'a PollItem_scheme)
    \<Rightarrow> AppSubscriberItem \<Rightarrow> (nsname, 'a PollItem_scheme) gmap \<Rightarrow> 'w \<Rightarrow> 'w \<times> (nsname, 'a PollItem_scheme) gmap \<times> gopanic option" where
  "subscribePolling e chType round fresh renew subitem items w =
     (let key = (sub_namespace (ai_subscription subitem), sub_name (ai_subscription subitem));
          old = renew ((case map_of items key of None \<Rightarrow> fresh subitem | Some it \<Rightarrow> it)\<lparr>pi_item := subitem\<rparr>)
      in case ai_channel subitem of
           None \<Rightarrow> (w, gm_put key old items, Some NilDereference)
         | Some chn \<Rightarrow>
             (let it = readRate (ch_annotations chn) old; (w', it', p) = startPolling e chType round (restartsPolling old it) it w
              in (w', gm_put key it' items, p)))"

definition unsubscribePolling ::
  "'w SyncSource \<Rightarrow> nsname \<Rightarrow> (nsname, 'a PollItem_scheme) gmap \<Rightarrow> 'w \<Rightarrow> 'w \<times> (nsname, 'a PollItem_scheme) gmap \<times> outcome" where
  "unsubscribePolling ss key items w =
     (case map_of items key of
        None \<Rightarrow> (w, items, Done)
      | Some it \<Rightarrow> (let (w', o') = ss_purge ss (pi_sub (stopPolling it)) w in (w', gm_del key items, o')))"

section \<open>Polling follows the rate\<close>

text \<open>
  The life of a subscriber: items are subscribed and unsubscribed, and the goroutine of an item takes
  a turn. A panic ends the process.
\<close>

inductive poll_reach ::
  "'w poll_env \<Rightarrow> string \<Rightarrow> ('w, 'a PollItem_scheme) round \<Rightarrow> (AppSubscriberItem \<Rightarrow> 'a PollItem_scheme)
    \<Rightarrow> ('a PollItem_scheme \<Rightarrow> 'a PollItem_scheme)
    \<Rightarrow> 'w SyncSource \<Rightarrow> 'w \<Rightarrow> (nsname, 'a PollItem_scheme) gmap \<Rightarrow> bool" for e chType round fresh renew ss where
  init: "poll_reach e chType round fresh renew ss w []"
| subscribe: "\<lbrakk>poll_reach e chType round fresh renew ss w items; subscribePolling e chType round fresh renew i items w = (w', items', None)\<rbrakk>
    \<Longrightarrow> poll_reach e chType round fresh renew ss w' items'"
| unsubscribe: "\<lbrakk>poll_reach e chType round fresh renew ss w items; unsubscribePolling ss key items w = (w', items', o')\<rbrakk>
    \<Longrightarrow> poll_reach e chType round fresh renew ss w' items'"
| poll: "\<lbrakk>poll_reach e chType round fresh renew ss w items; map_of items key = Some it; pi_loop it = Some (per, ri, n);
      pollTurn e round ri n it w = (w', it', None)\<rbrakk> \<Longrightarrow> poll_reach e chType round fresh renew ss w' (gm_put key it' items)"

definition poll_rates :: "string set" where "poll_rates = {''off'', ''low'', ''medium'', ''high''}"

text \<open>An item that is polled at the interval of its rate, or not at all when the rate is off.\<close>

definition follows_rate :: "string \<Rightarrow> 'a PollItem_scheme \<Rightarrow> bool" where
  "follows_rate chType it \<longleftrightarrow> pi_started it \<and> pi_rate it \<in> poll_rates
     \<and> pi_loop it = (if pi_rate it = ''off'' then None else Some (GetReconcileInterval (pi_rate it) chType))"

lemma poll_rates_fold: "a \<in> poll_rates \<Longrightarrow> b \<in> poll_rates \<Longrightarrow> EqualFold a b \<longleftrightarrow> a = b"
proof -
  have "go_lower ''off'' = ''off''" "go_lower ''low'' = ''low''" "go_lower ''medium'' = ''medium''" "go_lower ''high'' = ''high''" by code_simp+
  then have "go_lower a = a" if "a \<in> poll_rates" for a using that unfolding poll_rates_def by blast
  then show "a \<in> poll_rates \<Longrightarrow> b \<in> poll_rates \<Longrightarrow> EqualFold a b \<longleftrightarrow> a = b" unfolding EqualFold_def by metis
qed

lemma poll_rates_in: "GetReconcileRate c a \<in> poll_rates" "''off'' \<in> poll_rates" "'''' \<notin> poll_rates"
  by (auto simp: GetReconcileRate_def poll_rates_def Let_def)

lemma readRate_fields:
  "pi_loop (readRate c it) = pi_loop it" "pi_started (readRate c it) = pi_started it" "pi_rate (readRate c it) \<in> poll_rates"
  by (auto simp: readRate_def Let_def poll_rates_in)

text \<open>
  What the rounds of both subscribers have in common: they leave the goroutine, the rate, the
  time of the last manual synchronization and the administrator flag alone.
\<close>

definition same_poll :: "'a PollItem_scheme \<Rightarrow> 'a PollItem_scheme \<Rightarrow> bool" where
  "same_poll it it' \<longleftrightarrow> pi_loop it' = pi_loop it \<and> pi_started it' = pi_started it \<and> pi_rate it' = pi_rate it \<and> pi_syncTime it' = pi_syncTime it
     \<and> pi_clusterAdmin it' = pi_clusterAdmin it"

lemma same_poll_refl [simp]: "same_poll it it"
  by (simp add: same_poll_def)

lemma same_poll_trans: "same_poll a b \<Longrightarrow> same_poll b c \<Longrightarrow> same_poll a c"
  by (simp add: same_poll_def)

lemma same_poll_follows: "same_poll it it' \<Longrightarrow> follows_rate chType it \<Longrightarrow> follows_rate chType it'"
  by (simp add: same_poll_def follows_rate_def)

lemma set_put_snd: "\<forall>x \<in> snd ` set m. P x \<Longrightarrow> P v \<Longrightarrow> \<forall>x \<in> snd ` set (gm_put k v m). P x"
  by (induction m) (auto simp: gm_put_def)

locale polling =
  fixes e :: "'w poll_env" and chType :: string and round :: "('w, 'a PollItem_scheme) round"
    and fresh :: "AppSubscriberItem \<Rightarrow> 'a PollItem_scheme" and renew :: "'a PollItem_scheme \<Rightarrow> 'a PollItem_scheme" and ss :: "'w SyncSource"
  assumes round_keeps: "round it w = (w', it', p) \<Longrightarrow> same_poll it it'"
    and renew_keeps: "same_poll it (renew it)"
    and renew_item: "pi_item (renew it) = pi_item it"
    and fresh_item: "\<not> pi_started (fresh i)" "pi_loop (fresh i) = None"
begin

lemma retries_keep: "retryRounds e round ri n it w = (w', it', p) \<Longrightarrow> same_poll it it'"
proof (induction n arbitrary: it w)
  case 0
  then show ?case using round_keeps by simp
next
  case (Suc n)
  obtain w1 it1 p1 where r: "round it w = (w1, it1, p1)" by (metis prod_cases3)
  note k = round_keeps [OF r]
  show ?case
  proof (cases "p1 = None \<and> \<not> pi_success it1")
    case True
    with Suc.prems r have "retryRounds e round ri n it1 (po_sleep e ri w1) = (w', it', p)" by simp
    from same_poll_trans [OF k Suc.IH [OF this]] show ?thesis .
  next
    case False
    with Suc.prems r have "it' = it1" by (auto split: option.splits if_splits)
    with k show ?thesis by simp
  qed
qed

lemma turn_keeps: "pollTurn e round ri n it w = (w', it', p) \<Longrightarrow> same_poll it it'"
  unfolding pollTurn_def by (auto dest: retries_keep split: sum.splits if_splits)

lemma start_follows:
  assumes st: "startPolling e chType round restart it w = (w', it', p)" and rate: "pi_rate it \<in> poll_rates"
    and new: "\<not> pi_started it \<Longrightarrow> pi_loop it = None" and running: "pi_started it \<Longrightarrow> \<not> restart \<Longrightarrow> follows_rate chType it"
  shows "follows_rate chType it'"
proof (cases "pi_started it \<and> \<not> restart")
  case True
  with st running show ?thesis by (simp add: startPolling_def)
next
  case False
  define it1 where "it1 = (if pi_started it then stopPolling it else it)\<lparr>pi_started := True\<rparr>"
  have it1: "pi_started it1" "pi_loop it1 = None" "pi_rate it1 = pi_rate it"
    using new by (auto simp: it1_def stopPolling_def)
  obtain lp ri n where iv: "GetReconcileInterval (pi_rate it) chType = (lp, ri, n)" by (metis prod_cases3)
  have run: "(if EqualFold (pi_rate it) ''off'' then retryRounds e round ri n it1 w
       else (w, it1\<lparr>pi_loop := Some (lp, ri, n)\<rparr>, None)) = (w', it', p)"
    using st False unfolding startPolling_def Let_def it1_def [symmetric] it1(3) iv by (simp only: if_False prod.case)
  show ?thesis
  proof (cases "pi_rate it = ''off''")
    case True
    with run have "retryRounds e round ri n it1 w = (w', it', p)" by simp
    from retries_keep [OF this] it1 True show ?thesis by (simp add: follows_rate_def same_poll_def poll_rates_in)
  next
    case on: False
    with rate have "\<not> EqualFold (pi_rate it) ''off''" using poll_rates_fold poll_rates_in by blast
    with run it1 rate on iv show ?thesis by (auto simp: follows_rate_def)
  qed
qed

lemma subscribe_follows:
  assumes inv: "\<forall>it \<in> snd ` set items. follows_rate chType it"
    and run: "subscribePolling e chType round fresh renew i items w = (w', items', None)"
  shows "\<forall>it \<in> snd ` set items'. follows_rate chType it"
proof -
  let ?key = "(sub_namespace (ai_subscription i), sub_name (ai_subscription i))"
  define old where "old = renew ((case map_of items ?key of None \<Rightarrow> fresh i | Some it \<Rightarrow> it)\<lparr>pi_item := i\<rparr>)"
  from run obtain chn where chn: "ai_channel i = Some chn" by (auto simp: subscribePolling_def Let_def split: option.splits)
  define it where "it = readRate (ch_annotations chn) old"
  from run obtain it' where st: "startPolling e chType round (restartsPolling old it) it w = (w', it', None)"
    and items': "items' = gm_put ?key it' items"
    unfolding subscribePolling_def Let_def chn option.case old_def [symmetric] it_def [symmetric] by (auto split: prod.splits)
  have it: "pi_loop it = pi_loop old" "pi_started it = pi_started old" "pi_rate it \<in> poll_rates"
    by (simp_all add: it_def readRate_fields)
  have old: "follows_rate chType old \<or> (\<not> pi_started old \<and> pi_loop old = None)"
  proof (cases "map_of items ?key")
    case None
    then show ?thesis using fresh_item renew_keeps [of "(fresh i)\<lparr>pi_item := i\<rparr>"] by (simp add: old_def same_poll_def)
  next
    case (Some x)
    then have "follows_rate chType x" using inv map_of_SomeD [OF Some] by force
    then show ?thesis using renew_keeps [of "x\<lparr>pi_item := i\<rparr>"] by (simp add: old_def Some follows_rate_def same_poll_def)
  qed
  have "follows_rate chType it'"
  proof (rule start_follows [OF st it(3)])
    show "pi_loop it = None" if "\<not> pi_started it" using that old it by (auto simp: follows_rate_def)
    show "follows_rate chType it" if "pi_started it" "\<not> restartsPolling old it"
    proof -
      have f: "follows_rate chType old" using that(1) old it by auto
      then have r: "pi_rate old \<in> poll_rates" by (simp add: follows_rate_def)
      then have "pi_rate old \<noteq> ''''" using poll_rates_in(3) by metis
      with that(2) have "EqualFold (pi_rate old) (pi_rate it)" by (simp add: restartsPolling_def)
      with poll_rates_fold [OF r it(3)] have "pi_rate old = pi_rate it" by blast
      with f it show ?thesis by (simp add: follows_rate_def)
    qed
  qed
  with inv show ?thesis unfolding items' by (rule set_put_snd)
qed

lemma reach_follows: "poll_reach e chType round fresh renew ss w items \<Longrightarrow> \<forall>it \<in> snd ` set items. follows_rate chType it"
proof (induction rule: poll_reach.induct)
  case (subscribe w items i w' items')
  show ?case by (rule subscribe_follows [OF subscribe.IH subscribe.hyps(2)])
next
  case (unsubscribe w items key w' items' o')
  from unsubscribe.hyps(2) have "set items' \<subseteq> set items"
    unfolding unsubscribePolling_def gm_del_def Let_def by (auto split: option.splits prod.splits)
  with unsubscribe.IH show ?case by blast
next
  case (poll w items key it per ri n w' it')
  from poll.IH map_of_SomeD [OF poll.hyps(2)] have "follows_rate chType it" by force
  with turn_keeps [OF poll.hyps(4)] have "follows_rate chType it'" by (rule same_poll_follows)
  with poll.IH show ?case by (rule set_put_snd)
qed simp

end

end
