(* ===== verification/HelmSubscriber.thy ===== *)
theory HelmSubscriber
  imports Polling
begin

text \<open>
  The subscriber of Helm repositories (\<open>pkg/subscriber/helmrepo\<close>): it reads the index of a repository,
  filters it and hands one release per chart to the synchronizer. HTTP, YAML, the hash and the API
  servers are arguments. The fields \<open>count\<close> and \<open>syncinterval\<close> of an item are never read and left out.
\<close>

section \<open>Data\<close>

definition releaseGvk :: GVK where
  "releaseGvk = ((group, ''v1''), ''HelmRelease'')"

record HelmItem = PollItem +
  hm_hash :: string

datatype httpAuth = NoAuth | AuthHeader string | BasicAuth string string

record httpResponse =
  hp_code :: int
  hp_status :: string
  hp_body :: "kerr + string"

text \<open>
  \<open>hv_request\<close> is the error of a malformed address, \<open>hv_http\<close> sends a request (without checking the
  certificate when the flag is set), \<open>hv_index\<close> decodes an index into its entries, which may be nil, and its
  API version. \<open>hv_release\<close> reads releases of the cluster, \<open>hv_hubRelease\<close> those of the hub.
\<close>

record ('w, 'v, 'm) helm_sub_env =
  hv_sync :: "'w SyncSource"
  hv_subs :: "'w sub_client"
  hv_refs :: "'w ref_env"
  hv_now :: "'w \<Rightarrow> int"
  hv_poll :: "'w poll_env"
  hv_helm :: "('v, 'm) helm_env"
  hv_release :: "'w \<Rightarrow> nsname \<Rightarrow> kerr + HelmRelease"
  hv_request :: "string \<Rightarrow> kerr option"
  hv_http :: "'w \<Rightarrow> bool \<Rightarrow> string \<Rightarrow> httpAuth \<Rightarrow> kerr + httpResponse"
  hv_hash :: "string \<Rightarrow> string"
  hv_index :: "string \<Rightarrow> kerr + IndexFile option \<times> string"
  hv_hubSecret :: "'w \<Rightarrow> nsname \<Rightarrow> kerr + strmap"
  hv_hubConfigMap :: "'w \<Rightarrow> nsname \<Rightarrow> kerr + strmap"
  hv_hubRelease :: "'w \<Rightarrow> nsname \<Rightarrow> kerr + HelmRelease"
  hv_showSub :: "Subscription \<Rightarrow> string"

section \<open>The index of a repository\<close>

text \<open>\<open>strconv.ParseBool\<close>.\<close>

definition go_parseBool :: "string \<Rightarrow> bool option" where
  "go_parseBool s =
     (if s \<in> {''1'', ''t'', ''T'', ''TRUE'', ''true'', ''True''} then Some True
      else if s \<in> {''0'', ''f'', ''F'', ''FALSE'', ''false'', ''False''} then Some False else None)"

definition parseBoolErr :: "string \<Rightarrow> kerr" where
  "parseBoolErr s = OtherError (''strconv.ParseBool: parsing '' @ CHR 0x22 # s @ CHR 0x22 # '': invalid syntax'')"

text \<open>Whether the client skips the check of the certificate. The client is the default one of the process.\<close>

definition getHelmRepoClient :: "strmap option \<Rightarrow> bool \<Rightarrow> kerr + bool" where
  "getHelmRepoClient chnCfg insecureSkipVerify =
     (case chnCfg of
        None \<Rightarrow> Inr insecureSkipVerify
      | Some d \<Rightarrow>
          (if \<not> insecureSkipVerify \<and> gm_str d ''insecureSkipVerify'' \<noteq> '''' then
             (case go_parseBool (gm_str d ''insecureSkipVerify'') of
                None \<Rightarrow> Inl (parseBoolErr (gm_str d ''insecureSkipVerify'')) | Some b \<Rightarrow> Inr b)
           else Inr insecureSkipVerify))"

definition repoAuth :: "strmap option \<Rightarrow> kerr + httpAuth" where
  "repoAuth chnSrt =
     (case chnSrt of
        None \<Rightarrow> Inr NoAuth
      | Some d \<Rightarrow>
          (case map_of d ''authHeader'' of
             Some h \<Rightarrow> Inr (AuthHeader h)
           | None \<Rightarrow>
               (case map_of d ''user'' of
                  None \<Rightarrow> Inr NoAuth
                | Some user \<Rightarrow>
                    (case map_of d ''password'' of
                       Some password \<Rightarrow> Inr (BasicAuth user password)
                     | None \<Rightarrow> Inl (OtherError ''password not found in secret for basic authentication'')))))"

definition loadIndex :: "('w, 'v, 'm) helm_sub_env \<Rightarrow> string \<Rightarrow> kerr + IndexFile option" where
  "loadIndex e body =
     rbind (hv_index e body) (\<lambda>(idx, apiVersion).
       if apiVersion = '''' then Inl (OtherError ''no API version specified'')
       else Inr (map_option (sortEntries (hv_helm e)) idx))"

definition getHelmRepoIndex ::
  "('w, 'v, 'm) helm_sub_env \<Rightarrow> 'w \<Rightarrow> bool \<Rightarrow> Subscription \<Rightarrow> strmap option \<Rightarrow> string \<Rightarrow> kerr + IndexFile option \<times> string" where
  "getHelmRepoIndex e w insecure s chnSrt repoURL =
     (let url = TrimSuffix repoURL ''/'' @ ''/index.yaml''
      in case hv_request e url of
           Some er \<Rightarrow> Inl er
         | None \<Rightarrow>
             rbind (repoAuth chnSrt) (\<lambda>auth.
             rbind (hv_http e w insecure url auth) (\<lambda>resp.
               if hp_code resp \<noteq> 200 then Inl (OtherError (''http request '' @ url @ '' failed: status '' @ hp_status resp))
               else rbind (hp_body resp) (\<lambda>body.
                    rbind (loadIndex e body) (\<lambda>idx.
                      case idx of
                        None \<Rightarrow> Inr (None, hv_hash e body)
                      | Some entries \<Rightarrow> rbind (FilterCharts (hv_helm e) s entries) (\<lambda>f. Inr (Some f, hv_hash e body)))))))"

text \<open>The secret and the config map are those of the primary channel, also for the secondary one.\<close>

definition getRepoInfo :: "('w, 'v, 'm) helm_sub_env \<Rightarrow> 'w \<Rightarrow> HelmItem \<Rightarrow> bool \<Rightarrow> (IndexFile option \<times> string) goval" where
  "getRepoInfo e w it usePrimary =
     (let i = pi_item it; channel = (if \<not> usePrimary \<and> ai_secondary i \<noteq> None then ai_secondary i else ai_channel i)
      in case channel of
           None \<Rightarrow> Crash NilDereference
         | Some chn \<Rightarrow>
             lift_err (rbind (getHelmRepoClient (map_option ro_data (ai_configMap i)) (ch_insecure chn)) (\<lambda>insecure.
               getHelmRepoIndex e w insecure (ai_subscription i) (map_option ro_data (ai_secret i)) (ch_pathname chn))))"

section \<open>Releases\<close>

definition getHelmReleaseNames :: "('w, 'v, 'm) helm_sub_env \<Rightarrow> IndexFile \<Rightarrow> Subscription \<Rightarrow> string list" where
  "getHelmReleaseNames e idx s = map (\<lambda>(packageName, cvs). PkgToReleaseCRName (he_sha (hv_helm e)) s packageName) idx"

definition isHelmReleaseExists :: "('w, 'v, 'm) helm_sub_env \<Rightarrow> 'w \<Rightarrow> string \<Rightarrow> string \<Rightarrow> kerr + bool" where
  "isHelmReleaseExists e w ns n =
     (case hv_release e w (ns, n) of Inl er \<Rightarrow> (if IsNotFound er then Inr False else Inl er) | Inr h \<Rightarrow> Inr True)"

text \<open>The status is not looked at.\<close>

definition isHelmReleaseStatusPopulated :: "('w, 'v, 'm) helm_sub_env \<Rightarrow> 'w \<Rightarrow> nsname \<Rightarrow> string \<Rightarrow> string \<Rightarrow> kerr + bool" where
  "isHelmReleaseStatusPopulated e w hostSub ns n =
     (case hv_release e w (ns, n) of
        Inl er \<Rightarrow> (if IsNotFound er then Inr False else Inl er)
      | Inr h \<Rightarrow> (case sub_get (hv_subs e) w hostSub of Inl er \<Rightarrow> (if IsNotFound er then Inr False else Inl er) | Inr s \<Rightarrow> Inr True))"

definition isParentMultiClusterHub :: "Subscription \<Rightarrow> bool" where
  "isParentMultiClusterHub s \<longleftrightarrow>
     list_ex (\<lambda>o'. or_kind o' = ''MultiClusterHub'' \<and> index_str ''open-cluster-management'' (or_apiVersion o') \<noteq> None) (sub_owners s)"

text \<open>The releases of the charts, with the last error; a chart that fails is left out.\<close>

fun chartReleases ::
  "('w, 'v, 'm) helm_sub_env \<Rightarrow> 'w \<Rightarrow> HelmItem \<Rightarrow> IndexFile \<Rightarrow> ResourceUnit list \<Rightarrow> kerr option \<Rightarrow> gopanic + ResourceUnit list \<times> kerr option" where
  "chartReleases e w it [] units doErr = Inr (units, doErr)"
| "chartReleases e w it ((packageName, cvs) # idx) units doErr =
     (let i = pi_item it
      in case ai_channel i of
           None \<Rightarrow> Inl NilDereference
         | Some chn \<Rightarrow>
             (case CreateHelmCRManifest (hv_helm e) (hv_release e w) (ch_pathname chn) packageName cvs (ai_channel i) (ai_secondary i)
                     (ai_subscription i) (pi_clusterAdmin it) of
                Crash p \<Rightarrow> Inl p
              | Fail er \<Rightarrow> chartReleases e w it idx units (Some er)
              | Ret dpl \<Rightarrow> chartReleases e w it idx (units @ [\<lparr>ru_resource = dpl, ru_gvk = releaseGvk\<rparr>]) doErr))"

definition manageHelmCR :: "('w, 'v, 'm) helm_sub_env \<Rightarrow> HelmItem \<Rightarrow> IndexFile \<Rightarrow> 'w \<Rightarrow> 'w \<times> outcome" where
  "manageHelmCR e it idx w =
     (case chartReleases e w it idx [] None of
        Inl p \<Rightarrow> (w, Panic p)
      | Inr (units, doErr) \<Rightarrow>
          (let end = (case doErr of None \<Rightarrow> Done | Some er \<Rightarrow> Err er)
           in if length units > 0 \<or> (length units = 0 \<and> doErr = None) then
                (case ss_process (hv_sync e) (pi_sub it) units [] [] (pi_clusterAdmin it) False w of
                   (w', Done) \<Rightarrow> (w', end) | (w', o') \<Rightarrow> (w', o'))
              else (w, end)))"

definition processSubscription :: "('w, 'v, 'm) helm_sub_env \<Rightarrow> IndexFile \<Rightarrow> string \<Rightarrow> HelmItem \<Rightarrow> 'w \<Rightarrow> 'w \<times> HelmItem \<times> outcome" where
  "processSubscription e idx hash it w =
     (case manageHelmCR e it idx w of (w', Done) \<Rightarrow> (w', it\<lparr>hm_hash := hash\<rparr>, Done) | (w', o') \<Rightarrow> (w', it, o'))"

section \<open>Rounds\<close>

text \<open>Processing sets the flag of success; an error of a read clears it and ends the round.\<close>

definition processRound :: "('w, 'v, 'm) helm_sub_env \<Rightarrow> IndexFile \<Rightarrow> string \<Rightarrow> HelmItem \<Rightarrow> 'w \<Rightarrow> 'w \<times> HelmItem \<times> outcome" where
  "processRound e idx hash it w =
     (case processSubscription e idx hash it w of
        (w', it', Done) \<Rightarrow> (w', it'\<lparr>pi_success := True\<rparr>, Done)
      | (w', it', Err er) \<Rightarrow> (w', it'\<lparr>pi_success := False\<rparr>, Err er)
      | (w', it', Panic p) \<Rightarrow> (w', it', Panic p))"

fun hubReleases ::
  "('w, 'v, 'm) helm_sub_env \<Rightarrow> IndexFile \<Rightarrow> string \<Rightarrow> string list \<Rightarrow> HelmItem \<Rightarrow> 'w \<Rightarrow> 'w \<times> HelmItem \<times> gopanic option" where
  "hubReleases e idx hash [] it w = (w, it, None)"
| "hubReleases e idx hash (n # ns) it w =
     (let ns0 = sub_namespace (pi_sub it)
      in case isHelmReleaseExists e w ns0 n of
           Inl er \<Rightarrow> (w, it\<lparr>pi_success := False\<rparr>, None)
         | Inr found \<Rightarrow>
             (case (if found then isHelmReleaseStatusPopulated e w (ns0, sub_name (pi_sub it)) ns0 n else Inr False) of
                Inl er \<Rightarrow> (w, it\<lparr>pi_success := False\<rparr>, None)
              | Inr populated \<Rightarrow>
                  (if hash \<noteq> hm_hash it \<or> \<not> pi_success it \<or> \<not> found \<or> \<not> populated then
                     (case processRound e idx hash it w of
                        (w', it', Done) \<Rightarrow> hubReleases e idx hash ns it' w'
                      | (w', it', Err er) \<Rightarrow> (w', it', None)
                      | (w', it', Panic p) \<Rightarrow> (w', it', Some p))
                   else hubReleases e idx hash ns it w)))"

text \<open>Whether the last release exists; an error ends the round.\<close>

fun lastExists :: "('w, 'v, 'm) helm_sub_env \<Rightarrow> 'w \<Rightarrow> string \<Rightarrow> string list \<Rightarrow> bool \<Rightarrow> kerr + bool" where
  "lastExists e w ns [] b = Inr b"
| "lastExists e w ns (n # names) b = rbind (isHelmReleaseExists e w ns n) (\<lambda>b'. lastExists e w ns names b')"

definition deployIndex :: "('w, 'v, 'm) helm_sub_env \<Rightarrow> IndexFile \<Rightarrow> string \<Rightarrow> HelmItem \<Rightarrow> 'w \<Rightarrow> 'w \<times> HelmItem \<times> gopanic option" where
  "deployIndex e idx hash it w =
     (let names = getHelmReleaseNames e idx (pi_sub it)
      in if isParentMultiClusterHub (pi_sub it) then hubReleases e idx hash names it w
         else case lastExists e w (sub_namespace (pi_sub it)) names False of
                Inl er \<Rightarrow> (w, it\<lparr>pi_success := False\<rparr>, None)
              | Inr found \<Rightarrow>
                  (if hash \<noteq> hm_hash it \<or> \<not> pi_success it \<or> \<not> found then
                     (case processRound e idx hash it w of
                        (w', it', Panic p) \<Rightarrow> (w', it', Some p) | (w', it', o') \<Rightarrow> (w', it', None))
                   else (w, it, None)))"

text \<open>The index of the primary channel, and when it cannot be read that of the secondary one.\<close>

definition repoIndex :: "('w, 'v, 'm) helm_sub_env \<Rightarrow> 'w \<Rightarrow> HelmItem \<Rightarrow> (IndexFile option \<times> string) goval" where
  "repoIndex e w it =
     (case getRepoInfo e w it True of
        Fail er \<Rightarrow> (if ai_secondary (pi_item it) \<noteq> None then getRepoInfo e w it False else Fail er)
      | r \<Rightarrow> r)"

definition helmRound :: "('w, 'v, 'm) helm_sub_env \<Rightarrow> ('w, HelmItem) round" where
  "helmRound e it00 w00 =
     (let it0 = it00\<lparr>pi_success := False\<rparr>;
          w0 = UpdateLastUpdateTime (hv_now e w00) (hv_subs e) (sub_namespace (pi_sub it0), sub_name (pi_sub it0)) w00
      in case refreshItem (hv_refs e) (pi_item it0) w0 of
           (w1, Inl p) \<Rightarrow> (w1, it0, Some p)
         | (w1, Inr item) \<Rightarrow>
             (let it1 = it0\<lparr>pi_item := item\<rparr>
              in case repoIndex e w1 it1 of
                   Crash p \<Rightarrow> (w1, it1, Some p)
                 | Fail er \<Rightarrow> (w1, it1, None)
                 | Ret (idx, hash) \<Rightarrow> deployIndex e (unnil idx) hash it1 w1))"

definition helmRetries :: "('w, 'v, 'm) helm_sub_env \<Rightarrow> duration \<Rightarrow> nat \<Rightarrow> ('w, HelmItem) round" where
  "helmRetries e retryInterval retries = retryRounds (hv_poll e) (helmRound e) retryInterval retries"

definition helmPoll :: "('w, 'v, 'm) helm_sub_env \<Rightarrow> duration \<Rightarrow> nat \<Rightarrow> ('w, HelmItem) round" where
  "helmPoll e retryInterval retries = pollTurn (hv_poll e) (helmRound e) retryInterval retries"

definition helmStop :: "HelmItem \<Rightarrow> HelmItem" where
  "helmStop it = stopPolling it"

definition helmStart :: "('w, 'v, 'm) helm_sub_env \<Rightarrow> bool \<Rightarrow> ('w, HelmItem) round" where
  "helmStart e restart = startPolling (hv_poll e) ''HelmRepo'' (helmRound e) restart"

definition newHelmItem :: "AppSubscriberItem \<Rightarrow> HelmItem" where
  "newHelmItem i = \<lparr>pi_item = i, pi_rate = '''', pi_syncTime = '''', pi_started = False, pi_loop = None, pi_success = False,
     pi_clusterAdmin = False, hm_hash = ''''\<rparr>"

definition helmSubscribe ::
  "('w, 'v, 'm) helm_sub_env \<Rightarrow> AppSubscriberItem \<Rightarrow> (nsname, HelmItem) gmap \<Rightarrow> 'w \<Rightarrow> 'w \<times> (nsname, HelmItem) gmap \<times> gopanic option" where
  "helmSubscribe e subitem = subscribePolling (hv_poll e) ''HelmRepo'' (helmRound e) newHelmItem (\<lambda>it. it\<lparr>hm_hash := ''''\<rparr>) subitem"

definition helmUnsubscribe ::
  "('w, 'v, 'm) helm_sub_env \<Rightarrow> nsname \<Rightarrow> (nsname, HelmItem) gmap \<Rightarrow> 'w \<Rightarrow> 'w \<times> (nsname, HelmItem) gmap \<times> outcome" where
  "helmUnsubscribe e = unsubscribePolling (hv_sync e)"

section \<open>Charts of a subscription on the hub\<close>

definition wrapErr :: "string \<Rightarrow> kerr \<Rightarrow> kerr" where
  "wrapErr msg er = OtherError (msg @ '': '' @ err_msg er)"

definition getChartIndexWithChannel :: "('w, 'v, 'm) helm_sub_env \<Rightarrow> 'w \<Rightarrow> Channel \<Rightarrow> Subscription \<Rightarrow> kerr + IndexFile option" where
  "getChartIndexWithChannel e w chn s =
     rbind (case ch_secretRef chn of
              None \<Rightarrow> Inr None
            | Some (ns, n) \<Rightarrow>
                (case hv_hubSecret e w (ch_namespace chn, n) of
                   Inl er \<Rightarrow> Inl (wrapErr (''failed to get reference secret '' @ nsname_string (ch_namespace chn, n) @ '' from channel'') er)
                 | Inr d \<Rightarrow> Inr (Some d))) (\<lambda>secret.
     rbind (case ch_configMapRef chn of
              None \<Rightarrow> Inr []
            | Some (ns, n) \<Rightarrow>
                (let cfgKey = (if ns = '''' then ch_namespace chn else ns, n)
                 in case hv_hubConfigMap e w cfgKey of
                      Inl er \<Rightarrow> Inl (wrapErr (''failed to get reference configmap '' @ nsname_string cfgKey @ '' from channel'') er)
                    | Inr d \<Rightarrow> Inr d)) (\<lambda>cfg.
       (case getHelmRepoClient (Some cfg) (ch_insecure chn) of
          Inl er \<Rightarrow> Inl (wrapErr (''Unable to create client for helm repo '' @ ch_pathname chn) er)
        | Inr insecure \<Rightarrow>
            (case getHelmRepoIndex e w insecure s secret (ch_pathname chn) of
               Inl er \<Rightarrow> Inl (wrapErr (''unable to retrieve the helm repo index '' @ ch_pathname chn) er)
             | Inr (idx, hash) \<Rightarrow> Inr idx))))"

fun ChartIndexToHelmReleases ::
  "('w, 'v, 'm) helm_sub_env \<Rightarrow> 'w \<Rightarrow> Channel \<Rightarrow> Channel option \<Rightarrow> Subscription \<Rightarrow> IndexFile \<Rightarrow> HelmRelease list goval" where
  "ChartIndexToHelmReleases e w chn secondary s [] = Ret []"
| "ChartIndexToHelmReleases e w chn secondary s ((pkgName, cvs) # idx) =
     (case CreateOrUpdateHelmChart (hv_helm e) (hv_hubRelease e w) pkgName (PkgToReleaseCRName (he_sha (hv_helm e)) s pkgName) cvs chn secondary s of
        Crash p \<Rightarrow> Crash p
      | Fail er \<Rightarrow> Fail (wrapErr (''failed to get helm chart of '' @ pkgName @ '' for subscription '' @ hv_showSub e s) er)
      | Ret h \<Rightarrow>
          gbind (lift_err (Override (hv_helm e) h s)) (\<lambda>h'.
          gbind (ChartIndexToHelmReleases e w chn secondary s idx) (\<lambda>hs. Ret (h' # hs))))"

definition GetSubscriptionChartsOnHub ::
  "('w, 'v, 'm) helm_sub_env \<Rightarrow> 'w \<Rightarrow> Channel \<Rightarrow> Channel option \<Rightarrow> Subscription \<Rightarrow> HelmRelease list goval" where
  "GetSubscriptionChartsOnHub e w chn secondary s =
     gbind (lift_err (case getChartIndexWithChannel e w chn s of
                        Inr idx \<Rightarrow> Inr idx
                      | Inl er \<Rightarrow>
                          (case secondary of
                             None \<Rightarrow> Inl (wrapErr (''unable to retrieve the helm repo index from '' @ ch_pathname chn) er)
                           | Some chn2 \<Rightarrow>
                               (case getChartIndexWithChannel e w chn2 s of
                                  Inr idx \<Rightarrow> Inr idx
                                | Inl er2 \<Rightarrow> Inl (wrapErr (''unable to retrieve the helm repo index from '' @ ch_pathname chn2) er2)))))
       (\<lambda>idx. if idx = Some []
              then Fail (OtherError (''unable to find any matching Helm chart for deployment. Check the Helm repo and the ''
                                     @ ''subscription'' @ [CHR 0x27] @ ''s filter values''))
              else ChartIndexToHelmReleases e w chn secondary s (unnil idx))"

end
