(* ===== verification/ObjectBucket.thy ===== *)
theory ObjectBucket
  imports Polling GitSubscriber Propagation
begin

text \<open>
  Object buckets: the store (\<open>pkg/utils/aws/objectstore.go\<close>) and the subscriber of buckets
  (\<open>pkg/subscriber/objectbucket\<close>), which turns the objects of a bucket and its kustomizations into resources
  and hands them to the synchronizer. The S3 client and YAML are arguments.
\<close>

section \<open>The store\<close>

text \<open>
  The S3 client of a connection: \<open>s3_head\<close> is the error of a bucket, \<open>s3_pages\<close> the pages of a listing below a
  prefix, each with an error or with keys, \<open>s3_get\<close> the content of an object.
\<close>

record 'w s3_client =
  s3_head :: "'w \<Rightarrow> string \<Rightarrow> kerr option"
  s3_pages :: "'w \<Rightarrow> string \<Rightarrow> string option \<Rightarrow> (kerr + string list) list"
  s3_get :: "'w \<Rightarrow> string \<Rightarrow> string \<Rightarrow> kerr + string"

record s3_config =
  sc_endpoint :: string
  sc_accessKey :: string
  sc_secretKey :: string
  sc_region :: string
  sc_insecure :: bool
  sc_caCert :: "string option"

definition go_contains :: "string \<Rightarrow> string \<Rightarrow> bool" where
  "go_contains s t \<longleftrightarrow> index_str t s \<noteq> None"

definition isAwsS3ObjectBucket :: "string \<Rightarrow> bool" where
  "isAwsS3ObjectBucket endpoint =
     (if go_contains (go_lower endpoint) (go_lower ''s3://'') then True
      else if go_contains (go_lower endpoint) (go_lower ''s3'') \<and> go_contains (go_lower endpoint) (go_lower ''aws'') then True
      else False)"

text \<open>Whether certificates are checked, and against which root; one that cannot be parsed is ignored.\<close>

definition createCustomTLSConfig :: "(string \<Rightarrow> bool) \<Rightarrow> string \<Rightarrow> string \<Rightarrow> bool \<times> string option" where
  "createCustomTLSConfig parses objInsecureSkipVerify objCaCert =
     (if objInsecureSkipVerify = ''true'' then (True, None)
      else if \<not> EqualFold objCaCert '''' then (if \<not> parses objCaCert then (False, None) else (False, Some objCaCert))
      else (False, None))"

text \<open>The settings of a connection; the SDK resolves the endpoint of AWS from the region.\<close>

definition InitObjectStoreConnection ::
  "(string \<Rightarrow> bool) \<Rightarrow> (s3_config \<Rightarrow> kerr + 'w s3_client) \<Rightarrow> string \<Rightarrow> string \<Rightarrow> string \<Rightarrow> string \<Rightarrow> string \<Rightarrow> string \<Rightarrow> kerr + 'w s3_client" where
  "InitObjectStoreConnection parses connect endpoint accessKeyID secretAccessKey region objInsecureSkipVerify objCaCert =
     (let objectRegion = (if isAwsS3ObjectBucket endpoint then region else ''minio'');
          (insecure, root) = createCustomTLSConfig parses objInsecureSkipVerify objCaCert
      in connect \<lparr>sc_endpoint = (if objectRegion = ''minio'' then endpoint else ''''), sc_accessKey = accessKeyID, sc_secretKey = secretAccessKey,
           sc_region = objectRegion, sc_insecure = insecure, sc_caCert = root\<rparr>)"

definition folderPrefix :: "string option \<Rightarrow> string option" where
  "folderPrefix folderName = map_option (\<lambda>f. if length f > 0 \<and> last f \<noteq> CHR ''/'' then f @ ''/'' else f) folderName"

text \<open>Keys of folders are skipped; the first page that fails ends the list.\<close>

fun listPages :: "(kerr + string list) list \<Rightarrow> string list \<Rightarrow> kerr + string list" where
  "listPages [] keys = Inr keys"
| "listPages (Inl er # ps) keys = Inl er"
| "listPages (Inr page # ps) keys = listPages ps (keys @ filter (\<lambda>key. length key > 0 \<and> last key \<noteq> CHR ''/'') page)"

definition ListObjects :: "'w s3_client \<Rightarrow> 'w \<Rightarrow> string \<Rightarrow> string option \<Rightarrow> kerr + string list" where
  "ListObjects c w bucket folderName = listPages (s3_pages c w bucket (folderPrefix folderName)) []"

section \<open>Items\<close>

record 'w BucketItem = PollItem +
  ob_bucket :: string
  ob_store :: "'w s3_client option"

record 'w bucket_env =
  ob_sync :: "'w SyncSource"
  ob_subs :: "'w sub_client"
  ob_refs :: "'w ref_env"
  ob_now :: "'w \<Rightarrow> int"
  ob_poll :: "'w poll_env"
  ob_parses :: "string \<Rightarrow> bool"
  ob_connect :: "s3_config \<Rightarrow> kerr + 'w s3_client"
  ob_yamlStr :: "string \<Rightarrow> kerr + string"
  ob_object :: "string \<Rightarrow> kerr + Unstructured"
  ob_setNested :: "Unstructured \<Rightarrow> string list \<Rightarrow> json \<Rightarrow> Unstructured option"
  ob_sel :: "LabelSelector option \<Rightarrow> (strmap \<Rightarrow> bool) option"
  ob_kust :: "'w kust_env"

section \<open>Connecting\<close>

text \<open>\<open>strings.LastIndex\<close> of a one-byte separator; slicing at -1 panics.\<close>

definition splitBucket :: "string \<Rightarrow> (string \<times> string) goval" where
  "splitBucket pathName =
     (let p = (if HasSuffix pathName ''/'' then butlast pathName else pathName)
      in if CHR ''/'' \<notin> set p then Crash IndexOutOfRange
         else Ret (butlast (rev (dropWhile (\<lambda>c. c \<noteq> CHR ''/'') (rev p))), rev (takeWhile (\<lambda>c. c \<noteq> CHR ''/'') (rev p))))"

text \<open>The keys of a secret; the region only when it is set.\<close>

definition storeKeys :: "(string \<Rightarrow> kerr + string) \<Rightarrow> strmap option \<Rightarrow> kerr + string \<times> string \<times> string" where
  "storeKeys yamlStr secret =
     (case secret of
        None \<Rightarrow> Inr ('''', '''', '''')
      | Some d \<Rightarrow>
          rbind (yamlStr (gm_str d ''AccessKeyID'')) (\<lambda>accessKeyID.
          rbind (yamlStr (gm_str d ''SecretAccessKey'')) (\<lambda>secretAccessKey.
          rbind (if length (gm_str d ''Region'') > 0 then yamlStr (gm_str d ''Region'') else Inr '''') (\<lambda>region.
            Inr (accessKeyID, secretAccessKey, region)))))"

text \<open>The certificates are those of the primary channel, also for the secondary one.\<close>

definition getChannelConfig ::
  "'w bucket_env \<Rightarrow> bool \<Rightarrow> 'w BucketItem \<Rightarrow> 'w \<Rightarrow> 'w \<times> 'w BucketItem \<times> (string \<times> (string \<times> string \<times> string) \<times> string \<times> string) goval" where
  "getChannelConfig e primary it w =
     (let i = pi_item it;
          w1 = UpdateLastUpdateTime (ob_now e w) (ob_subs e) (sub_namespace (pi_sub it), sub_name (pi_sub it)) w
      in case (if primary then ai_channel i else ai_secondary i) of
           None \<Rightarrow> (w1, it, Crash NilDereference)
         | Some chn \<Rightarrow>
             (if ch_pathname chn = '''' then (w1, it, Fail (OtherError (''Empty Pathname in channel '' @ ch_name chn)))
              else case splitBucket (ch_pathname chn) of
                     Crash p \<Rightarrow> (w1, it, Crash p)
                   | Fail er \<Rightarrow> (w1, it, Fail er)
                   | Ret (endpoint, bucket) \<Rightarrow>
                       (w1, it\<lparr>ob_bucket := bucket\<rparr>,
                        lift_err (rbind (storeKeys (ob_yamlStr e) (map_option ro_data (if primary then ai_secret i else ai_secondarySecret i)))
                          (\<lambda>keys. Inr (endpoint, keys, if ch_insecure chn then ''true'' else '''',
                                       case ai_configMap i of None \<Rightarrow> '''' | Some m \<Rightarrow> gm_str (ro_data m) ''caCerts''))))))"

definition getAwsHandler :: "'w bucket_env \<Rightarrow> bool \<Rightarrow> 'w BucketItem \<Rightarrow> 'w \<Rightarrow> 'w \<times> 'w BucketItem \<times> unit goval" where
  "getAwsHandler e primary it w =
     (case getChannelConfig e primary it w of
        (w1, it1, Crash p) \<Rightarrow> (w1, it1, Crash p)
      | (w1, it1, Fail er) \<Rightarrow> (w1, it1, Fail er)
      | (w1, it1, Ret (endpoint, (ak, sk, region), insecure, ca)) \<Rightarrow>
          (case InitObjectStoreConnection (ob_parses e) (ob_connect e) endpoint ak sk region insecure ca of
             Inl er \<Rightarrow> (w1, it1, Fail er)
           | Inr c \<Rightarrow>
               (case s3_head c w1 (ob_bucket it1) of
                  Some er \<Rightarrow> (w1, it1, if ai_channel (pi_item it1) = None then Crash NilDereference else Fail er)
                | None \<Rightarrow> (w1, it1\<lparr>ob_store := Some c\<rparr>, Ret ()))))"

definition initObjectStore :: "'w bucket_env \<Rightarrow> 'w BucketItem \<Rightarrow> 'w \<Rightarrow> 'w \<times> 'w BucketItem \<times> unit goval" where
  "initObjectStore e it w =
     (case getAwsHandler e True it w of
        (w1, it1, Fail er) \<Rightarrow> (if ai_secondary (pi_item it1) = None then (w1, it1, Fail er) else getAwsHandler e False it1 w1)
      | r \<Rightarrow> r)"

section \<open>Resources\<close>

definition bucketFilter :: "(LabelSelector option \<Rightarrow> (strmap \<Rightarrow> bool) option) \<Rightarrow> Subscription \<Rightarrow> Unstructured \<Rightarrow> string option" where
  "bucketFilter sel s t =
     (case sp_packageFilter (sub_spec s) of
        None \<Rightarrow> None
      | Some f \<Rightarrow>
          (if sp_package (sub_spec s) \<noteq> '''' \<and> sp_package (sub_spec s) \<noteq> u_name t
           then Some (''Name does not match, skiping:'' @ sp_package (sub_spec s) @ ''|'' @ u_name t)
           else if \<not> LabelChecker sel (pf_labelSelector f) (unnil (u_labels t))
           then Some (''Failed to pass label check to deployable '' @ u_name t)
           else case pf_annotations f of
                  None \<Rightarrow> None
                | Some a \<Rightarrow> if annotationsMatch a (u_annotations t) then None
                            else Some (''Failed to pass annotation check to deployable '' @ u_name t)))"

definition bucketAnnotations :: "Subscription \<Rightarrow> Unstructured \<Rightarrow> Unstructured" where
  "bucketAnnotations s t =
     (case sub_annotations s of
        None \<Rightarrow> t
      | Some sa \<Rightarrow>
          (let a0 = unnil (u_annotations t);
               a1 = (if EqualFold (gm_str sa AnnotationClusterAdmin) ''true'' then gm_put AnnotationClusterAdmin ''true'' a0 else a0);
               a2 = (if gm_str sa AnnotationResourceReconcileOption \<noteq> ''''
                     then gm_put AnnotationResourceReconcileOption (gm_str sa AnnotationResourceReconcileOption) a1 else a1)
           in t\<lparr>u_annotations := Some a2\<rparr>))"

definition doSubscribeManifest :: "'w bucket_env \<Rightarrow> 'w BucketItem \<Rightarrow> Unstructured \<Rightarrow> kerr + ResourceUnit" where
  "doSubscribeManifest e it template =
     (let s = pi_sub it; t1 = SetPartOfLabel s template
      in case bucketFilter (ob_sel e) s t1 of
           Some msg \<Rightarrow> Inl (OtherError msg)
         | None \<Rightarrow>
             (case OverrideResourceBySubscription (ob_setNested e) t1 (u_name template) s of
                Inl er \<Rightarrow> Inl (OtherError (''Failed override package '' @ u_name template @ '' with error: '' @ er))
              | Inr t2 \<Rightarrow>
                  (let t3 = bucketAnnotations s t2;
                       t4 = (if pi_clusterAdmin it then (if u_namespace t3 \<noteq> '''' then t3 else t3\<lparr>u_namespace := sub_namespace s\<rparr>)
                             else t3\<lparr>u_namespace := sub_namespace s\<rparr>)
                   in Inr \<lparr>ru_resource = t4, ru_gvk = gvk t2\<rparr>)))"

text \<open>The resources that pass, with the last error.\<close>

definition subscribeAll :: "'w bucket_env \<Rightarrow> 'w BucketItem \<Rightarrow> Unstructured list \<Rightarrow> kerr option \<Rightarrow> ResourceUnit list \<times> kerr option" where
  "subscribeAll e it tpls doErr =
     foldl (\<lambda>(units, er) t. case doSubscribeManifest e it t of Inl er' \<Rightarrow> (units, Some er') | Inr u \<Rightarrow> (units @ [u], er)) ([], doErr) tpls"

text \<open>The environment of kustomizations reads the bucket of the item.\<close>

definition bucketKust :: "'w bucket_env \<Rightarrow> 'w s3_client \<Rightarrow> string \<Rightarrow> 'w kust_env" where
  "bucketKust e c bucket = (ob_kust e)\<lparr>ke_get := (\<lambda>w key. s3_get c w bucket key), ke_list := (\<lambda>w folder. ListObjects c w bucket (Some folder))\<rparr>"

text \<open>A resource of a kustomization that is filtered out or cannot be overridden is skipped without an error.\<close>

definition processKustomization ::
  "'w bucket_env \<Rightarrow> 'w BucketItem \<Rightarrow> 'w s3_client \<Rightarrow> string \<Rightarrow> string list \<Rightarrow> 'w \<Rightarrow> 'w \<times> ResourceUnit list goval" where
  "processKustomization e it c kustomizeDir allKeys w =
     (let (w', r) = ProcessKustomization (bucketKust e c (ob_bucket it)) kustomizeDir allKeys (sp_packageOverrides (sub_spec (pi_sub it))) w
      in (w', gbind r (\<lambda>rs. Ret (fst (subscribeAll e it rs None)))))"

fun kustomizedUnits ::
  "'w bucket_env \<Rightarrow> 'w BucketItem \<Rightarrow> 'w s3_client \<Rightarrow> string list \<Rightarrow> string list \<Rightarrow> ResourceUnit list \<Rightarrow> kerr option \<Rightarrow> 'w
    \<Rightarrow> 'w \<times> (gopanic + ResourceUnit list \<times> kerr option)" where
  "kustomizedUnits e it c keys [] units doErr w = (w, Inr (units, doErr))"
| "kustomizedUnits e it c keys (d # ds) units doErr w =
     (case processKustomization e it c d keys w of
        (w', Crash p) \<Rightarrow> (w', Inl p)
      | (w', Fail er) \<Rightarrow> kustomizedUnits e it c keys ds units (Some er) w'
      | (w', Ret us) \<Rightarrow> kustomizedUnits e it c keys ds (units @ us) doErr w')"

text \<open>The objects that are not part of a kustomization; one that cannot be read or decoded ends the round.\<close>

fun readTemplates :: "'w bucket_env \<Rightarrow> 'w s3_client \<Rightarrow> string \<Rightarrow> string list \<Rightarrow> 'w \<Rightarrow> kerr + Unstructured list" where
  "readTemplates e c bucket [] w = Inr []"
| "readTemplates e c bucket (key # ks) w =
     rbind (s3_get c w bucket key) (\<lambda>content.
       if length content = 0 then readTemplates e c bucket ks w
       else rbind (ob_object e content) (\<lambda>t. rbind (readTemplates e c bucket ks w) (\<lambda>ts. Inr (t # ts))))"

section \<open>Rounds\<close>

definition bucketFolder :: "Subscription \<Rightarrow> string option" where
  "bucketFolder s = (let p = anno (sub_annotations s) AnnotationBucketPath in if p \<noteq> '''' then Some p else None)"

text \<open>All resources are handed over, also when there are none because of errors.\<close>

definition deployBucket :: "'w bucket_env \<Rightarrow> 'w BucketItem \<Rightarrow> ResourceUnit list \<Rightarrow> kerr option \<Rightarrow> 'w \<Rightarrow> 'w \<times> 'w BucketItem \<times> gopanic option" where
  "deployBucket e it units doErr w =
     (let (allow, deny) = GetAllowDenyLists (pi_sub it)
      in case ss_process (ob_sync e) (pi_sub it) units allow deny (pi_clusterAdmin it) False w of
           (w', Panic p) \<Rightarrow> (w', it, Some p)
         | (w', Err er) \<Rightarrow> (w', it\<lparr>pi_success := False\<rparr>, None)
         | (w', Done) \<Rightarrow> (w', it\<lparr>pi_success := (doErr = None)\<rparr>, None))"

definition collectBucket ::
  "'w bucket_env \<Rightarrow> 'w BucketItem \<Rightarrow> 'w s3_client \<Rightarrow> string list \<Rightarrow> 'w \<Rightarrow> 'w \<times> (ResourceUnit list \<times> kerr option) goval" where
  "collectBucket e it c keys w =
     (let (dirs, files) = CategorizeObjectsForKustomization keys
      in case kustomizedUnits e it c keys (map fst dirs) [] None w of
           (w', Inl p) \<Rightarrow> (w', Crash p)
         | (w', Inr (units, doErr)) \<Rightarrow>
             (w', gbind (lift_err (readTemplates e c (ob_bucket it) files w'))
                    (\<lambda>tpls. let (us, er) = subscribeAll e it tpls doErr in Ret (units @ us, er))))"

definition bucketRound :: "'w bucket_env \<Rightarrow> ('w, 'w BucketItem) round" where
  "bucketRound e it00 w0 =
     (let it0 = it00\<lparr>pi_success := False\<rparr>
      in case refreshItem (ob_refs e) (pi_item it0) w0 of
           (w1, Inl p) \<Rightarrow> (w1, it0, Some p)
         | (w1, Inr item) \<Rightarrow>
             (case initObjectStore e (it0\<lparr>pi_item := item\<rparr>) w1 of
                (w2, it2, Crash p) \<Rightarrow> (w2, it2, Some p)
              | (w2, it2, Fail er) \<Rightarrow> (w2, it2\<lparr>pi_success := False\<rparr>, if ai_channel (pi_item it2) = None then Some NilDereference else None)
              | (w2, it2, Ret u) \<Rightarrow>
                  (case ob_store it2 of
                     None \<Rightarrow> (w2, it2, Some NilDereference)
                   | Some c \<Rightarrow>
                       (case ListObjects c w2 (ob_bucket it2) (bucketFolder (pi_sub it2)) of
                          Inl er \<Rightarrow> (w2, it2\<lparr>pi_success := False\<rparr>, None)
                        | Inr keys \<Rightarrow>
                            (case collectBucket e it2 c keys w2 of
                               (w3, Crash p) \<Rightarrow> (w3, it2, Some p)
                             | (w3, Fail er) \<Rightarrow> (w3, it2\<lparr>pi_success := False\<rparr>, None)
                             | (w3, Ret (units, doErr)) \<Rightarrow> deployBucket e it2 units doErr w3)))))"

definition bucketRetries :: "'w bucket_env \<Rightarrow> duration \<Rightarrow> nat \<Rightarrow> ('w, 'w BucketItem) round" where
  "bucketRetries e retryInterval retries = retryRounds (ob_poll e) (bucketRound e) retryInterval retries"

definition bucketPoll :: "'w bucket_env \<Rightarrow> duration \<Rightarrow> nat \<Rightarrow> ('w, 'w BucketItem) round" where
  "bucketPoll e retryInterval retries = pollTurn (ob_poll e) (bucketRound e) retryInterval retries"

definition bucketStop :: "'w BucketItem \<Rightarrow> 'w BucketItem" where
  "bucketStop it = stopPolling it"

definition bucketStart :: "'w bucket_env \<Rightarrow> bool \<Rightarrow> ('w, 'w BucketItem) round" where
  "bucketStart e restart = startPolling (ob_poll e) ''ObjectBucket'' (bucketRound e) restart"

definition newBucketItem :: "AppSubscriberItem \<Rightarrow> 'w BucketItem" where
  "newBucketItem i = \<lparr>pi_item = i, pi_rate = '''', pi_syncTime = '''', pi_started = False, pi_loop = None, pi_success = False,
     pi_clusterAdmin = False, ob_bucket = '''', ob_store = None\<rparr>"

definition bucketSubscribe ::
  "'w bucket_env \<Rightarrow> AppSubscriberItem \<Rightarrow> (nsname, 'w BucketItem) gmap \<Rightarrow> 'w \<Rightarrow> 'w \<times> (nsname, 'w BucketItem) gmap \<times> gopanic option" where
  "bucketSubscribe e subitem = subscribePolling (ob_poll e) ''ObjectBucket'' (bucketRound e) newBucketItem (\<lambda>it. it) subitem"

definition bucketUnsubscribe ::
  "'w bucket_env \<Rightarrow> nsname \<Rightarrow> (nsname, 'w BucketItem) gmap \<Rightarrow> 'w \<Rightarrow> 'w \<times> (nsname, 'w BucketItem) gmap \<times> outcome" where
  "bucketUnsubscribe e = unsubscribePolling (ob_sync e)"

end
