(* ===== verification/PollingFacts.thy ===== *)
theory PollingFacts
  imports HelmSubscriber ObjectBucket
begin

text \<open>
  The subscribers of Helm repositories and of object buckets: both are instances of the polling
  interface, so that what \<open>Polling\<close> shows holds for them, and what a round of each hands to the
  synchronizer, in particular when parts of it fail.
\<close>

section \<open>Rounds leave the goroutine alone\<close>

lemma same_poll_updates [simp]:
  "same_poll it (it'\<lparr>pi_success := b\<rparr>) = same_poll it it'" "same_poll it (it'\<lparr>pi_item := i\<rparr>) = same_poll it it'"
  "same_poll (it\<lparr>pi_success := b\<rparr>) it' = same_poll it it'" "same_poll (it\<lparr>pi_item := i\<rparr>) it' = same_poll it it'"
  by (simp_all add: same_poll_def)

lemma same_poll_hash [simp]: "same_poll it (it'\<lparr>hm_hash := h\<rparr>) = same_poll it it'"
  by (simp add: same_poll_def)

lemma same_poll_bucket [simp]: "same_poll it (it'\<lparr>ob_bucket := b\<rparr>) = same_poll it it'" "same_poll it (it'\<lparr>ob_store := c\<rparr>) = same_poll it it'"
  by (simp_all add: same_poll_def)

lemma processRound_keeps: "processRound e idx hash it w = (w', it', o') \<Longrightarrow> same_poll it it'"
  by (auto simp: processRound_def processSubscription_def split: prod.splits outcome.splits)

lemma hubReleases_keeps: "hubReleases e idx hash ns it w = (w', it', p) \<Longrightarrow> same_poll it it'"
proof (induction e idx hash ns it w rule: hubReleases.induct)
  case (2 e idx hash n ns it w)
  then show ?case
    by (auto simp: Let_def split: sum.splits if_splits prod.splits outcome.splits dest!: processRound_keeps intro: same_poll_trans)
qed simp

lemma helmRound_keeps: "helmRound e it w = (w', it', p) \<Longrightarrow> same_poll it it'"
  by (auto simp: helmRound_def deployIndex_def Let_def split: sum.splits if_splits prod.splits outcome.splits goval.splits
      dest!: processRound_keeps hubReleases_keeps)

lemma getChannelConfig_keeps: "getChannelConfig e b it w = (w', it', r) \<Longrightarrow> same_poll it it'"
  by (auto simp: getChannelConfig_def Let_def split: option.splits if_splits goval.splits prod.splits)

lemma getAwsHandler_keeps: "getAwsHandler e b it w = (w', it', r) \<Longrightarrow> same_poll it it'"
  by (auto simp: getAwsHandler_def split: prod.splits goval.splits sum.splits option.splits dest!: getChannelConfig_keeps)

lemma initObjectStore_keeps: "initObjectStore e it w = (w', it', r) \<Longrightarrow> same_poll it it'"
  by (auto simp: initObjectStore_def split: prod.splits goval.splits if_splits dest!: getAwsHandler_keeps intro: same_poll_trans)

lemma bucketRound_keeps: "bucketRound e it w = (w', it', p) \<Longrightarrow> same_poll it it'"
  by (auto simp: bucketRound_def deployBucket_def Let_def
      split: sum.splits prod.splits goval.splits option.splits outcome.splits dest!: initObjectStore_keeps)

interpretation helm: polling "hv_poll e" "''HelmRepo''" "helmRound e" newHelmItem "\<lambda>it. it\<lparr>hm_hash := ''''\<rparr>" "hv_sync e" for e
  by unfold_locales (auto simp: newHelmItem_def intro: helmRound_keeps)

interpretation bucket: polling "ob_poll e" "''ObjectBucket''" "bucketRound e" newBucketItem "\<lambda>it. it" "ob_sync e" for e
  by unfold_locales (auto simp: newBucketItem_def intro: bucketRound_keeps)

section \<open>Polling follows the rate\<close>

text \<open>C33: in every state of the Helm subscriber and of the bucket subscriber, every item of its table is started, has a
  rate, and is polled at the interval of this rate, or is not polled when the rate is off: a
  changed rate restarts the goroutine, and no turn of it and no other item changes that.\<close>

theorem subscribers_follow_rate:
  "(poll_reach (hv_poll e) ''HelmRepo'' (helmRound e) newHelmItem (\<lambda>it. it\<lparr>hm_hash := []\<rparr>) (hv_sync e) w items
     \<longrightarrow> (\<forall>it \<in> snd ` set items. follows_rate ''HelmRepo'' it))
   \<and> (poll_reach (ob_poll b) ''ObjectBucket'' (bucketRound b) newBucketItem (\<lambda>it. it) (ob_sync b) w' items'
     \<longrightarrow> (\<forall>it \<in> snd ` set items'. follows_rate ''ObjectBucket'' it))"
  by (intro conjI impI) (rule helm.reach_follows, assumption, rule bucket.reach_follows)

section \<open>Releases\<close>

text \<open>The release of one chart, and what the charts of an index yield together: releases and errors.\<close>

definition chartResult :: "('w, 'v, 'm) helm_sub_env \<Rightarrow> 'w \<Rightarrow> HelmItem \<Rightarrow> string \<times> ChartVersion list \<Rightarrow> Unstructured goval" where
  "chartResult e w it = (\<lambda>(packageName, cvs).
     case ai_channel (pi_item it) of
       None \<Rightarrow> Crash NilDereference
     | Some chn \<Rightarrow> CreateHelmCRManifest (hv_helm e) (hv_release e w) (ch_pathname chn) packageName cvs (ai_channel (pi_item it))
                    (ai_secondary (pi_item it)) (pi_sub it) (pi_clusterAdmin it))"

definition builtReleases :: "('w, 'v, 'm) helm_sub_env \<Rightarrow> 'w \<Rightarrow> HelmItem \<Rightarrow> IndexFile \<Rightarrow> ResourceUnit list" where
  "builtReleases e w it idx = concat (map (\<lambda>c. case chartResult e w it c of Ret u \<Rightarrow> [\<lparr>ru_resource = u, ru_gvk = releaseGvk\<rparr>] | _ \<Rightarrow> []) idx)"

definition chartErrors :: "('w, 'v, 'm) helm_sub_env \<Rightarrow> 'w \<Rightarrow> HelmItem \<Rightarrow> IndexFile \<Rightarrow> kerr list" where
  "chartErrors e w it idx = concat (map (\<lambda>c. case chartResult e w it c of Fail er \<Rightarrow> [er] | _ \<Rightarrow> []) idx)"

lemma chartReleases_step:
  "chartReleases e w it (c # idx) units doErr =
     (case chartResult e w it c of
        Crash p \<Rightarrow> Inl p | Fail er \<Rightarrow> chartReleases e w it idx units (Some er)
      | Ret u \<Rightarrow> chartReleases e w it idx (units @ [\<lparr>ru_resource = u, ru_gvk = releaseGvk\<rparr>]) doErr)"
  by (cases c) (simp add: chartResult_def Let_def split: option.splits)

lemma chartReleases_exact:
  "chartReleases e w it idx units doErr = Inr (us, er) \<longleftrightarrow>
     (\<forall>c \<in> set idx. \<forall>p. chartResult e w it c \<noteq> Crash p) \<and> us = units @ builtReleases e w it idx
     \<and> er = (if chartErrors e w it idx = [] then doErr else Some (last (chartErrors e w it idx)))"
proof (induction idx arbitrary: units doErr)
  case Nil
  then show ?case by (auto simp: builtReleases_def chartErrors_def)
next
  case (Cons c idx)
  show ?case
    unfolding chartReleases_step
    by (cases "chartResult e w it c") (auto simp: Cons.IH builtReleases_def chartErrors_def)
qed

lemma manageHelmCR_done:
  assumes "manageHelmCR e it idx w = (w', Done)"
  shows "(\<forall>c \<in> set idx. \<exists>u. chartResult e w it c = Ret u)
    \<and> ss_process (hv_sync e) (pi_sub it) (builtReleases e w it idx) [] [] (pi_clusterAdmin it) False w = (w', Done)"
proof -
  from assms obtain us where c: "chartReleases e w it idx [] None = Inr (us, None)"
    and p: "ss_process (hv_sync e) (pi_sub it) us [] [] (pi_clusterAdmin it) False w = (w', Done)"
    by (auto simp: manageHelmCR_def Let_def split: sum.splits prod.splits option.splits if_splits outcome.splits)
  then have k: "\<forall>c \<in> set idx. \<forall>p. chartResult e w it c \<noteq> Crash p" "us = builtReleases e w it idx" "chartErrors e w it idx = []"
    by (auto simp: chartReleases_exact split: if_splits)
  have "\<exists>u. chartResult e w it c = Ret u" if "c \<in> set idx" for c
    using that k(1,3) by (cases "chartResult e w it c") (auto simp: chartErrors_def split: goval.splits)
  with p k show ?thesis by simp
qed

text \<open>What a round that reports success has done last: all releases of the index went through the synchronizer.\<close>

definition allDeployed :: "('w, 'v, 'm) helm_sub_env \<Rightarrow> IndexFile \<Rightarrow> string \<Rightarrow> HelmItem \<Rightarrow> 'w \<Rightarrow> bool" where
  "allDeployed e idx hash it w' \<longleftrightarrow> hm_hash it = hash
     \<and> (\<exists>w. (\<forall>c \<in> set idx. \<exists>u. chartResult e w it c = Ret u)
          \<and> ss_process (hv_sync e) (pi_sub it) (builtReleases e w it idx) [] [] (pi_clusterAdmin it) False w = (w', Done))"

lemma chartResult_updates [simp]:
  "chartResult e w (it\<lparr>pi_success := b\<rparr>) = chartResult e w it" "chartResult e w (it\<lparr>hm_hash := h\<rparr>) = chartResult e w it"
  by (cases "ai_channel (pi_item it)"; simp add: chartResult_def fun_eq_iff)+

lemma builtReleases_updates [simp]:
  "builtReleases e w (it\<lparr>pi_success := b\<rparr>) idx = builtReleases e w it idx"
  "builtReleases e w (it\<lparr>hm_hash := h\<rparr>) idx = builtReleases e w it idx"
  by (simp_all add: builtReleases_def)

lemma processRound_done:
  assumes "processRound e idx hash it w = (w', it', Done)"
  shows "pi_success it' \<and> pi_item it' = pi_item it \<and> allDeployed e idx hash it' w'"
proof -
  from assms have m: "manageHelmCR e it idx w = (w', Done)" and it': "it' = it\<lparr>hm_hash := hash, pi_success := True\<rparr>"
    by (auto simp: processRound_def processSubscription_def split: prod.splits outcome.splits)
  show ?thesis using manageHelmCR_done [OF m] by (auto simp: it' allDeployed_def)
qed

lemma processRound_err: "processRound e idx hash it w = (w', it', Err er) \<Longrightarrow> \<not> pi_success it'"
  by (auto simp: processRound_def split: prod.splits outcome.splits)

lemma hubReleases_success:
  "\<lbrakk>hubReleases e idx hash ns it w = (w', it', None); pi_success it'; pi_success it \<longrightarrow> allDeployed e idx hash it w\<rbrakk>
    \<Longrightarrow> allDeployed e idx hash it' w'"
proof (induction e idx hash ns it w rule: hubReleases.induct)
  case (2 e idx hash n ns it w)
  show ?case
    using "2.prems" "2.IH"(1) "2.IH"(2)
    by (auto simp: Let_def split: sum.splits if_splits prod.splits outcome.splits dest!: processRound_done processRound_err)
qed auto

lemma deployIndex_success:
  assumes "deployIndex e idx hash it w = (w', it', None)" "pi_success it'" "\<not> pi_success it"
  shows "allDeployed e idx hash it' w'"
  using assms unfolding deployIndex_def Let_def
  by (auto split: sum.splits if_splits prod.splits outcome.splits dest!: processRound_done processRound_err intro: hubReleases_success)

lemma processRound_item: "processRound e idx hash it w = (w', it', o') \<Longrightarrow> pi_item it' = pi_item it"
  by (auto simp: processRound_def processSubscription_def split: prod.splits outcome.splits)

lemma hubReleases_item: "hubReleases e idx hash ns it w = (w', it', p) \<Longrightarrow> pi_item it' = pi_item it"
proof (induction ns arbitrary: it w)
  case (Cons n ns)
  obtain w1 it1 o1 where r: "processRound e idx hash it w = (w1, it1, o1)" by (metis prod_cases3)
  from Cons.prems have "pi_item it' = pi_item it \<or> it' = it1 \<or> hubReleases e idx hash ns it1 w1 = (w', it', p)
      \<or> hubReleases e idx hash ns it w = (w', it', p)"
    unfolding hubReleases.simps r Let_def prod.case by (auto split: sum.splits if_splits outcome.splits)
  with processRound_item [OF r] Cons.IH show ?case by metis
qed simp

lemma deployIndex_item: "deployIndex e idx hash it w = (w', it', p) \<Longrightarrow> pi_item it' = pi_item it"
  by (auto simp: deployIndex_def Let_def split: sum.splits if_splits prod.splits outcome.splits
      dest!: processRound_item hubReleases_item)

lemma repoIndex_item:
  assumes "pi_item it = pi_item it'"
  shows "repoIndex e w it = repoIndex e w it'"
  unfolding repoIndex_def getRepoInfo_def assms ..

text \<open>C22: a round of the Helm subscriber that reports success has read the index of the repository, has built a
  release for every chart of it, and has handed exactly these releases to the synchronizer, which
  reported no error; the hash it remembers is that of the index. So a chart that failed is never
  forgotten: the next round tries again.\<close>

theorem helm_success_deploys_all:
  assumes "helmRound e it w = (w', it', None)" "pi_success it'"
  shows "\<exists>w1 w2 idx. repoIndex e w1 it' = Ret (idx, hm_hash it')
    \<and> (\<forall>c \<in> set (unnil idx). \<exists>u. chartResult e w2 it' c = Ret u)
    \<and> length (builtReleases e w2 it' (unnil idx)) = length (unnil idx)
    \<and> ss_process (hv_sync e) (pi_sub it') (builtReleases e w2 it' (unnil idx)) [] [] (pi_clusterAdmin it') False w2 = (w', Done)"
proof -
  from assms obtain w1 it1 idx hash where r: "repoIndex e w1 it1 = Ret (idx, hash)" and n: "\<not> pi_success it1"
    and d: "deployIndex e (unnil idx) hash it1 w1 = (w', it', None)"
    by (auto simp: helmRound_def Let_def split: prod.splits sum.splits goval.splits)
  from deployIndex_success [OF d assms(2) n] obtain w2 where h: "hm_hash it' = hash"
    and a: "\<forall>c \<in> set (unnil idx). \<exists>u. chartResult e w2 it' c = Ret u"
    and s: "ss_process (hv_sync e) (pi_sub it') (builtReleases e w2 it' (unnil idx)) [] [] (pi_clusterAdmin it') False w2 = (w', Done)"
    by (auto simp: allDeployed_def)
  have "length (builtReleases e w2 it' cs) = length cs" if "\<forall>c \<in> set cs. \<exists>u. chartResult e w2 it' c = Ret u" for cs
    using that by (induction cs) (auto simp: builtReleases_def)
  with a r h s repoIndex_item [OF deployIndex_item [OF d, symmetric]] show ?thesis by metis
qed


section \<open>Buckets\<close>

lemma subscribeAll_units:
  "set (fst (subscribeAll e it tpls doErr)) = {u. \<exists>t \<in> set tpls. doSubscribeManifest e it t = Inr u}"
proof -
  have "set (fst (foldl (\<lambda>(units, er) t. case doSubscribeManifest e it t of Inl er' \<Rightarrow> (units, Some er') | Inr u \<Rightarrow> (units @ [u], er)) (us, er) tpls))
    = set us \<union> {u. \<exists>t \<in> set tpls. doSubscribeManifest e it t = Inr u}" for us er
    by (induction tpls arbitrary: us er) (auto split: sum.splits)
  then show ?thesis by (simp add: subscribeAll_def)
qed

lemma doSubscribeManifest_home:
  "doSubscribeManifest e it t = Inr u \<Longrightarrow> \<not> pi_clusterAdmin it \<Longrightarrow> u_namespace (ru_resource u) = sub_namespace (pi_sub it)"
  by (auto simp: doSubscribeManifest_def Let_def split: option.splits sum.splits)

definition from_manifests :: "'w bucket_env \<Rightarrow> 'w BucketItem \<Rightarrow> ResourceUnit list \<Rightarrow> bool" where
  "from_manifests e it units \<longleftrightarrow> (\<forall>u \<in> set units. \<exists>t. doSubscribeManifest e it t = Inr u)"

lemma subscribeAll_from: "subscribeAll e it tpls doErr = (us, er) \<Longrightarrow> from_manifests e it us"
  using subscribeAll_units [of e it tpls doErr] by (auto simp: from_manifests_def)

lemma kustomizedUnits_from:
  "\<lbrakk>kustomizedUnits e it c keys ds units doErr w = (w', Inr (us, er)); from_manifests e it units\<rbrakk> \<Longrightarrow> from_manifests e it us"
proof (induction e it c keys ds units doErr w rule: kustomizedUnits.induct)
  case (2 e it c keys d ds units doErr w)
  show ?case
  proof (cases "processKustomization e it c d keys w")
    case (Pair w1 r)
    show ?thesis
    proof (cases r)
      case (Ret rs)
      then obtain ts where "rs = fst (subscribeAll e it ts None)"
        using Pair by (auto simp: processKustomization_def Let_def gbind_Ret_iff split: prod.splits)
      then have "from_manifests e it rs" by (metis prod.collapse subscribeAll_from)
      then have "from_manifests e it (units @ rs)" using "2.prems"(2) by (auto simp: from_manifests_def)
      with "2.IH"(1) [OF Pair [symmetric] Ret] "2.prems"(1) Pair Ret show ?thesis by simp
    qed (use 2 Pair in auto)
  qed
qed auto

text \<open>C30: whatever the objects of a bucket and its kustomizations say, and whatever the overrides of the subscription
  change, the resources that a round hands to the synchronizer for a subscription without cluster
  administrator rights are in the namespace of the subscription.\<close>

theorem bucket_resources_home:
  assumes "collectBucket e it c keys w = (w', Ret (units, er))" "\<not> pi_clusterAdmin it"
  shows "\<forall>u \<in> set units. u_namespace (ru_resource u) = sub_namespace (pi_sub it)"
proof -
  obtain dirs files where df: "CategorizeObjectsForKustomization keys = (dirs, files)" by force
  obtain w1 r where k: "kustomizedUnits e it c keys (map fst dirs) [] None w = (w1, r)" by force
  from assms(1) df k obtain us1 er1 tpls where r: "r = Inr (us1, er1)"
    and t: "(let (us, er2) = subscribeAll e it tpls er1 in Ret (us1 @ us, er2)) = Ret (units, er)"
    by (auto simp: collectBucket_def gbind_Ret_iff split: sum.splits)
  obtain us2 er2 where s: "subscribeAll e it tpls er1 = (us2, er2)" by force
  from t s have u: "units = us1 @ us2" by simp
  have "from_manifests e it units"
    using kustomizedUnits_from [OF k [unfolded r]] subscribeAll_from [OF s] by (auto simp: u from_manifests_def)
  with assms(2) show ?thesis by (auto simp: from_manifests_def dest: doSubscribeManifest_home)
qed

end
