(* ===== verification/PollingExamples.thy ===== *)
theory PollingExamples
  imports PollingFacts GitExamples
begin

text \<open>
  A small repository of charts and a small bucket on which rounds of the Helm and of the bucket
  subscriber are evaluated.
\<close>

section \<open>Charts\<close>

definition poll_ex :: "'w poll_env" where
  "poll_ex = \<lparr>po_tz = (\<lambda>l. None), po_clock = (\<lambda>w. (\<lparr>t_abs = 0, t_wall = 0\<rparr>, 0)), po_sleep = (\<lambda>d w. w)\<rparr>"

definition no_subs :: "'w sub_client" where
  "no_subs = \<lparr>sub_get = (\<lambda>w k. Inl (NotFound '''')), sub_update_status = (\<lambda>w s. (w, None))\<rparr>"

text \<open>The index has the charts; the API server cannot answer for releases whose names are in \<open>lost\<close>.\<close>

definition charts_ex :: "string list \<Rightarrow> string list \<Rightarrow> (tape, string, string) helm_sub_env" where
  "charts_ex charts lost = \<lparr>hv_sync = tape_sync, hv_subs = no_subs, hv_refs = no_refs, hv_now = (\<lambda>w. 0), hv_poll = poll_ex,
     hv_helm = helm_ex\<lparr>he_json := he_toU helm_ex\<rparr>, hv_release = (\<lambda>w k. Inl (if snd k \<in> set lost then OtherError ''timeout'' else NotFound '''')),
     hv_request = (\<lambda>u. None), hv_http = (\<lambda>w b u a. Inr \<lparr>hp_code = 200, hp_status = '''', hp_body = Inr ''index''\<rparr>),
     hv_hash = (\<lambda>b. b), hv_index = (\<lambda>b. Inr (Some (map (\<lambda>c. (c, [chart_ex ''1.2.3''])) charts), ''v1'')),
     hv_hubSecret = (\<lambda>w k. Inl (NotFound '''')), hv_hubConfigMap = (\<lambda>w k. Inl (NotFound '''')),
     hv_hubRelease = (\<lambda>w k. Inl (NotFound '''')), hv_showSub = (\<lambda>s. '''')\<rparr>"

definition release_ex :: "string \<Rightarrow> ResourceUnit" where
  "release_ex c = \<lparr>ru_resource = \<lparr>u_apiVersion = ''apps.open-cluster-management.io/v1'', u_kind = ''HelmRelease'', u_name = c @ ''-01234'',
     u_namespace = ''ns'', u_resourceVersion = [], u_uid = [], u_labels = None, u_annotations = None,
     u_owners = [\<lparr>or_apiVersion = ''apps.open-cluster-management.io/v1'', or_kind = ''Subscription'', or_name = ''app'', or_uid = ''0123456''\<rparr>],
     u_body = []\<rparr>, ru_gvk = releaseGvk\<rparr>"

definition helm_done :: HelmItem where
  "helm_done = (newHelmItem (git_item None))\<lparr>pi_success := True, hm_hash := ''index''\<rparr>"

theorem helm_success_deploys_all_witness:
  "helmRound (charts_ex [''nginx''] []) (newHelmItem (git_item None)) [] = ([release_ex ''nginx''], helm_done, None)
   \<and> pi_success helm_done
   \<and> (\<exists>w1 idx. repoIndex (charts_ex [''nginx''] []) w1 helm_done = Ret (idx, ''index''))"
proof -
  have 1: "helmRound (charts_ex [''nginx''] []) (newHelmItem (git_item None)) [] = ([release_ex ''nginx''], helm_done, None)" by code_simp
  have 2: "pi_success helm_done" "hm_hash helm_done = ''index''" by code_simp+
  from helm_success_deploys_all [OF 1 2(1)] 1 2 show ?thesis by auto
qed

text \<open>Two charts, one of which fails.\<close>

definition two_charts :: IndexFile where
  "two_charts = [(''nginx'', [chart_ex ''1.2.3'']), (''redis'', [chart_ex ''1.2.3''])]"


section \<open>A bucket\<close>

text \<open>The bucket holds the objects with the given keys; an object is the kind it is named after.\<close>

definition store_ex :: "string list \<Rightarrow> 'w s3_client" where
  "store_ex keys = \<lparr>s3_head = (\<lambda>w b. None), s3_pages = (\<lambda>w b p. [Inr keys]), s3_get = (\<lambda>w b k. Inr k)\<rparr>"

definition bucket_ex :: "string list \<Rightarrow> tape bucket_env" where
  "bucket_ex keys = \<lparr>ob_sync = tape_sync, ob_subs = no_subs, ob_refs = no_refs, ob_now = (\<lambda>w. 0), ob_poll = poll_ex, ob_parses = (\<lambda>s. True),
     ob_connect = (\<lambda>c. Inr (store_ex keys)), ob_yamlStr = Inr, ob_object = (\<lambda>s. Inr (obj_ex s)), ob_setNested = (\<lambda>u p j. None),
     ob_sel = (\<lambda>l. Some (\<lambda>m. True)), ob_kust = kust_fail\<rparr>"

definition fetched_ex :: "string \<Rightarrow> ResourceUnit" where
  "fetched_ex kind = \<lparr>ru_resource = (obj_ex kind)\<lparr>u_namespace := ''ns''\<rparr>, ru_gvk = (('''', ''v1''), kind)\<rparr>"

theorem bucket_resources_home_witness:
  "collectBucket (bucket_ex []) (newBucketItem (git_item None)) (store_ex []) [''Service'', ''Pod''] [] = ([], Ret ([fetched_ex ''Service'', fetched_ex ''Pod''], None))
   \<and> list_all (\<lambda>u. u_namespace (ru_resource u) = ''ns'') [fetched_ex ''Service'', fetched_ex ''Pod'']"
proof -
  let ?e = "bucket_ex []" and ?it = "newBucketItem (git_item None)"
  have 1: "collectBucket ?e ?it (store_ex []) [''Service'', ''Pod''] [] = ([], Ret ([fetched_ex ''Service'', fetched_ex ''Pod''], None))" by code_simp
  have 2: "\<not> pi_clusterAdmin (newBucketItem (git_item None) :: tape BucketItem)"
    "sub_namespace (pi_sub (newBucketItem (git_item None) :: tape BucketItem)) = ''ns''"
    by (simp_all add: newBucketItem_def git_item_def git_sub_def)
  from bucket_resources_home [OF 1 2(1)] 1 2(2) show ?thesis by simp
qed

section \<open>Polling\<close>

definition helm_polled :: HelmItem where
  "helm_polled = (newHelmItem (git_item None))\<lparr>pi_rate := ''medium'', pi_started := True, pi_loop := Some (900000000000, 90000000000, 1)\<rparr>"

definition bucket_polled :: "tape BucketItem" where
  "bucket_polled = (newBucketItem (git_item None))\<lparr>pi_rate := ''medium'', pi_started := True, pi_loop := Some (900000000000, 90000000000, 1)\<rparr>"

lemma bucket_polled_subscribe:
  "subscribePolling (ob_poll (bucket_ex [])) ''ObjectBucket'' (bucketRound (bucket_ex [])) newBucketItem (\<lambda>it. it) (git_item None) [] []
     = ([], [((''ns'', ''app''), bucket_polled)], None)"
proof -
  have 1: "ai_channel (git_item None) = Some git_chn" "sub_namespace (ai_subscription (git_item None)) = ''ns''" "sub_name (ai_subscription (git_item None)) = ''app''"
    "sub_annotations (ai_subscription (git_item None)) = None"
    by (simp_all add: git_item_def git_sub_def)
  have 2: "GetReconcileRate (ch_annotations git_chn) None = ''medium''" "GetReconcileInterval ''medium'' ''ObjectBucket'' = (900000000000, 90000000000, 1)"
    "\<not> EqualFold (anno None AnnotationResourceReconcileLevel) ''off''" "\<not> EqualFold ''medium'' ''off''" "\<not> EqualFold (anno None AnnotationClusterAdmin) ''true''"
    "anno None AnnotationManualReconcileTime = ''''"
    by code_simp+
  show ?thesis
    by (simp add: subscribePolling_def startPolling_def readRate_def 1 2 newBucketItem_def bucket_polled_def gm_put_def)
qed

theorem subscribers_follow_rate_witness:
  "follows_rate ''HelmRepo'' helm_polled \<and> follows_rate ''ObjectBucket'' bucket_polled"
proof -
  let ?h = "charts_ex [''nginx''] []" and ?b = "bucket_ex []"
  have "subscribePolling (hv_poll ?h) ''HelmRepo'' (helmRound ?h) newHelmItem (\<lambda>it. it\<lparr>hm_hash := []\<rparr>) (git_item None) [] []
     = ([], [((''ns'', ''app''), helm_polled)], None)" by code_simp
  note h = poll_reach.subscribe [OF poll_reach.init this]
  note b = poll_reach.subscribe [OF poll_reach.init bucket_polled_subscribe, of "ob_sync ?b"]
  from subscribers_follow_rate [THEN conjunct1, rule_format, OF h, of helm_polled]
    subscribers_follow_rate [THEN conjunct2, rule_format, OF b, of bucket_polled] show ?thesis by simp
qed

section \<open>Broken buckets\<close>

text \<open>When every object of a bucket is part of a kustomization and none can be built, the round hands over no resources at all:
  everything that was deployed is removed.\<close>

lemma broken_bucket_hands_nothing:
  "collectBucket (bucket_ex []) (newBucketItem (git_item None)) (store_ex []) [''k/kustomization.yaml''] [] = ([], Ret ([], Some (OtherError ''failed to run kustomize build: broken'')))"
  by code_simp

lemma empty_handover_purges:
  "deployBucket (e\<lparr>ob_sync := kubeSyncSource k sy\<rparr>) it [] doErr w =
     (case PurgeAllSubscribedResources k sy (pi_sub it) w of
        (w', Panic p) \<Rightarrow> (w', it, Some p) | (w', Err er) \<Rightarrow> (w', it\<lparr>pi_success := False\<rparr>, None)
      | (w', Done) \<Rightarrow> (w', it\<lparr>pi_success := (doErr = None)\<rparr>, None))"
  using kube.process_none [of k sy] by (auto simp: deployBucket_def kubeSyncSource_def split: prod.splits outcome.splits)

end
