(* ===== verification/SpokeController.thy ===== *)
theory SpokeController
  imports Hooks GitSubscriber HelmSubscriber ObjectBucket
begin

text \<open>
  The controller of subscriptions on a managed cluster (\<open>pkg/controller/subscription\<close>): it collects the channel of a
  local subscription with its secrets and config maps, decides whether the subscription acts for a cluster
  administrator, and hands it to the subscriber of its channel type. The tables of the three
  subscribers are the state of the process. Git and GitHub channels share one subscriber.
\<close>

section \<open>Subscribers\<close>

record 'w spoke_state =
  sk_git :: "(nsname, SubscriberItem) gmap"
  sk_helm :: "(nsname, HelmItem) gmap"
  sk_bucket :: "(nsname, 'w BucketItem) gmap"

text \<open>
  \<open>sc_get\<close> reads a subscription of the cluster and \<open>sc_channel\<close> a channel of the hub, \<open>sc_over\<close> is what decoding a
  config map over another one gives, \<open>sc_order\<close> the order in which the map of subscribers is traversed,
  \<open>sc_updateStatus\<close> writes the status with the reference to the status object.
\<close>

record ('w, 'a, 'r, 'h, 'v, 'm) spoke_env =
  sc_git :: "('w, 'a, 'r, 'h, 'v, 'm) git_sub_env"
  sc_helm :: "('w, 'v, 'm) helm_sub_env"
  sc_bucket :: "'w bucket_env"
  sc_order :: "'w \<Rightarrow> string list"
  sc_standalone :: bool
  sc_get :: "'w \<Rightarrow> nsname \<Rightarrow> kerr + HubSub"
  sc_channel :: "'w \<Rightarrow> nsname \<Rightarrow> kerr + Channel"
  sc_refs :: "'w ref_env"
  sc_over :: "RefObject \<Rightarrow> RefObject \<Rightarrow> RefObject"
  sc_admin :: "'w \<Rightarrow> admin_reads"
  sc_updateStatus :: "'w \<Rightarrow> HubSub \<Rightarrow> string \<Rightarrow> 'w \<times> kerr option"
  sc_sleep :: "duration \<Rightarrow> 'w \<Rightarrow> 'w"
  sc_tz :: tzdb
  sc_clock :: "'w \<Rightarrow> gotime \<times> int"
  sc_now :: "'w \<Rightarrow> int"

definition subscriberTypes :: "string list" where
  "subscriberTypes = [''helmrepo'', ''github'', ''git'', ''objectbucket'']"

definition unsubscribeFrom ::
  "('w, 'a, 'r, 'h, 'v, 'm) spoke_env \<Rightarrow> nsname \<Rightarrow> string \<Rightarrow> 'w spoke_state \<Rightarrow> 'w \<Rightarrow> 'w \<times> 'w spoke_state \<times> outcome" where
  "unsubscribeFrom e key k st w =
     (if k = ''git'' \<or> k = ''github'' then (case UnsubscribeItem (sc_git e) key (sk_git st) w of (w', m, o') \<Rightarrow> (w', st\<lparr>sk_git := m\<rparr>, o'))
      else if k = ''helmrepo'' then (case helmUnsubscribe (sc_helm e) key (sk_helm st) w of (w', m, o') \<Rightarrow> (w', st\<lparr>sk_helm := m\<rparr>, o'))
      else if k = ''objectbucket'' then (case bucketUnsubscribe (sc_bucket e) key (sk_bucket st) w of (w', m, o') \<Rightarrow> (w', st\<lparr>sk_bucket := m\<rparr>, o'))
      else (w, st, Done))"

text \<open>A type without a subscriber is not subscribed.\<close>

definition subscribeTo ::
  "('w, 'a, 'r, 'h, 'v, 'm) spoke_env \<Rightarrow> AppSubscriberItem \<Rightarrow> string \<Rightarrow> 'w spoke_state \<Rightarrow> 'w \<Rightarrow> 'w \<times> 'w spoke_state \<times> gopanic option" where
  "subscribeTo e i k st w =
     (if k = ''git'' \<or> k = ''github'' then (case SubscribeItem (sc_git e) i (sk_git st) w of (w', m, p) \<Rightarrow> (w', st\<lparr>sk_git := m\<rparr>, p))
      else if k = ''helmrepo'' then (case helmSubscribe (sc_helm e) i (sk_helm st) w of (w', m, p) \<Rightarrow> (w', st\<lparr>sk_helm := m\<rparr>, p))
      else if k = ''objectbucket'' then (case bucketSubscribe (sc_bucket e) i (sk_bucket st) w of (w', m, p) \<Rightarrow> (w', st\<lparr>sk_bucket := m\<rparr>, p))
      else (w, st, None))"

text \<open>Unsubscribing one after the other: up to the first error, or whatever the errors.\<close>

fun unsubscribeUntil ::
  "('w, 'a, 'r, 'h, 'v, 'm) spoke_env \<Rightarrow> nsname \<Rightarrow> string list \<Rightarrow> 'w spoke_state \<Rightarrow> 'w \<Rightarrow> 'w \<times> 'w spoke_state \<times> outcome" where
  "unsubscribeUntil e key [] st w = (w, st, Done)"
| "unsubscribeUntil e key (k # ks) st w =
     (case unsubscribeFrom e key k st w of
        (w', st', Done) \<Rightarrow> unsubscribeUntil e key ks st' w'
      | (w', st', o') \<Rightarrow> (w', st', o'))"

fun unsubscribeEach ::
  "('w, 'a, 'r, 'h, 'v, 'm) spoke_env \<Rightarrow> nsname \<Rightarrow> string list \<Rightarrow> 'w spoke_state \<Rightarrow> 'w \<Rightarrow> 'w \<times> 'w spoke_state \<times> gopanic option" where
  "unsubscribeEach e key [] st w = (w, st, None)"
| "unsubscribeEach e key (k # ks) st w =
     (case unsubscribeFrom e key k st w of
        (w', st', Panic p) \<Rightarrow> (w', st', Some p)
      | (w', st', o') \<Rightarrow> unsubscribeEach e key ks st' w')"

section \<open>The item of a subscription\<close>

text \<open>A channel is read again a second later when it cannot be read.\<close>

definition readChannel ::
  "('w, 'a, 'r, 'h, 'v, 'm) spoke_env \<Rightarrow> string \<Rightarrow> nsname \<Rightarrow> 'w \<Rightarrow> 'w \<times> (kerr + Channel)" where
  "readChannel e msg key w =
     (case sc_channel e w key of
        Inr c \<Rightarrow> (w, Inr c)
      | Inl er \<Rightarrow>
          (let w' = sc_sleep e 1000000000 w
           in (w', case sc_channel e w' key of Inr c \<Rightarrow> Inr c | Inl er' \<Rightarrow> Inl (wrapErr msg er'))))"

text \<open>A reference of a channel is read in the namespace of the channel.\<close>

definition readReference ::
  "(nsname \<Rightarrow> kerr + RefObject) \<Rightarrow> string \<Rightarrow> Channel option \<Rightarrow> (Channel \<Rightarrow> nsname option) \<Rightarrow> kerr + RefObject option" where
  "readReference get msg chn ref =
     (case chn of
        None \<Rightarrow> Inr None
      | Some c \<Rightarrow>
          (case ref c of
             None \<Rightarrow> Inr None
           | Some (ns, n) \<Rightarrow> (case get (ch_namespace c, n) of Inl er \<Rightarrow> Inl (wrapErr msg er) | Inr r \<Rightarrow> Inr (Some r))))"

definition readReferences ::
  "('w, 'a, 'r, 'h, 'v, 'm) spoke_env \<Rightarrow> Subscription \<Rightarrow> Channel \<Rightarrow> Channel option \<Rightarrow> 'w \<Rightarrow> kerr + AppSubscriberItem" where
  "readReferences e s chn secondary w =
     (let secret = rf_remoteSecret (sc_refs e) w; configMap = rf_remoteConfigMap (sc_refs e) w
      in rbind (readReference secret ''failed to get reference secret from channel'' (Some chn) ch_secretRef) (\<lambda>s1.
         rbind (readReference secret ''failed to get reference secret from the secondary channel'' secondary ch_secretRef) (\<lambda>s2.
         rbind (readReference configMap ''failed to get reference configmap from channel'' (Some chn) ch_configMapRef) (\<lambda>c1.
         rbind (readReference configMap ''failed to get reference configmap from the secondary channel'' secondary ch_configMapRef) (\<lambda>c2.
           Inr \<lparr>ai_subscription = s, ai_subConfigMap = None, ai_channel = Some chn, ai_secret = s1, ai_configMap = c1, ai_secondary = secondary,
                ai_secondarySecret = s2, ai_secondaryConfigMap = c2\<rparr>)))))"

definition deployReferred ::
  "('w, 'a, 'r, 'h, 'v, 'm) spoke_env \<Rightarrow> 'w ref_client \<Rightarrow> string \<Rightarrow> Subscription \<Rightarrow> RefObject option \<Rightarrow> 'w \<Rightarrow> 'w \<times> kerr option" where
  "deployReferred e c what s r w =
     (case r of
        None \<Rightarrow> (w, None)
      | Some o' \<Rightarrow>
          (case ListAndDeployReferredObject c (rf_same (sc_refs e)) (rf_conv (sc_refs e)) s (ro_object o') w of
             (w', None) \<Rightarrow> (w', None)
           | (w', Some er) \<Rightarrow> (w', Some (wrapErr (what @ u_name (ro_object o') @ '' for subscription '' @ sub_name s) er))))"

fun inTurn :: "('w \<Rightarrow> 'w \<times> kerr option) list \<Rightarrow> 'w \<Rightarrow> 'w \<times> kerr option" where
  "inTurn [] w = (w, None)"
| "inTurn (f # fs) w = (case f w of (w', None) \<Rightarrow> inTurn fs w' | (w', Some er) \<Rightarrow> (w', Some er))"

definition deployReferences :: "('w, 'a, 'r, 'h, 'v, 'm) spoke_env \<Rightarrow> AppSubscriberItem \<Rightarrow> 'w \<Rightarrow> 'w \<times> kerr option" where
  "deployReferences e i =
     (let quote = [CHR 0x27]; s = ai_subscription i; sec = rf_secrets (sc_refs e); cm = rf_configMaps (sc_refs e)
      in inTurn [deployReferred e sec (''Can'' @ quote @ ''t deploy reference secret '') s (ai_secret i), deployReferred e sec (''Can'' @ quote @ ''t deploy reference secret '') s (ai_secondarySecret i),
                 deployReferred e cm (''can'' @ quote @ ''t deploy reference configmap '') s (ai_configMap i),
                 deployReferred e cm (''can'' @ quote @ ''t deploy reference configmap '') s (ai_secondaryConfigMap i)])"

text \<open>
  The config map of the package filter, in the namespace of the subscription or in the one of the
  channel on the hub; the second is decoded over the first.
\<close>

definition readFilter :: "('w, 'a, 'r, 'h, 'v, 'm) spoke_env \<Rightarrow> Subscription \<Rightarrow> 'w \<Rightarrow> kerr + RefObject option" where
  "readFilter e s w =
     (case (case sp_packageFilter (sub_spec s) of None \<Rightarrow> None | Some f \<Rightarrow> pf_filterRef f) of
        None \<Rightarrow> Inr None
      | Some n \<Rightarrow>
          (let l = (sub_namespace s, n); r = (fst (NamespacedNameFormat (sp_channel (sub_spec s))), n)
           in case (rf_localConfigMap (sc_refs e) w l, rf_remoteConfigMap (sc_refs e) w r) of
                (Inl el, Inl er) \<Rightarrow>
                  Inl (wrapErr (''failed to get reference configMap at local '' @ fst l @ ''/'' @ snd l @ '' or hub '' @ fst r @ ''/'' @ snd r
                        @ '' of subsciption '' @ sub_name s @ '' from hub'') er)
              | (Inr a, Inl er) \<Rightarrow> Inr (Some a)
              | (Inl el, Inr b) \<Rightarrow> Inr (Some b)
              | (Inr a, Inr b) \<Rightarrow> Inr (Some (sc_over e a b))))"

text \<open>Everything the subscribers need: the channels, their references, deployed on the cluster, and the filter.\<close>

definition gatherItem :: "('w, 'a, 'r, 'h, 'v, 'm) spoke_env \<Rightarrow> Subscription \<Rightarrow> 'w \<Rightarrow> 'w \<times> (kerr + AppSubscriberItem)" where
  "gatherItem e s w =
     (case readChannel e ''failed to get channel'' (NamespacedNameFormat (sp_channel (sub_spec s))) w of
        (w1, Inl er) \<Rightarrow> (w1, Inl er)
      | (w1, Inr chn) \<Rightarrow>
          (case (if sp_secondary (sub_spec s) = '''' then (w1, Inr None)
                 else case readChannel e ''failed to get the secondary channel'' (NamespacedNameFormat (sp_secondary (sub_spec s))) w1 of
                        (w2, Inl er) \<Rightarrow> (w2, Inl er)
                      | (w2, Inr c) \<Rightarrow> (w2, Inr (Some c))) of
             (w2, Inl er) \<Rightarrow> (w2, Inl er)
           | (w2, Inr secondary) \<Rightarrow>
               (case readReferences e s chn secondary w2 of
                  Inl er \<Rightarrow> (w2, Inl er)
                | Inr i \<Rightarrow>
                    (case deployReferences e i w2 of
                       (w3, Some er) \<Rightarrow> (w3, Inl er)
                     | (w3, None) \<Rightarrow> (w3, rbind (readFilter e s w3) (\<lambda>f. Inr (i\<lparr>ai_subConfigMap := f\<rparr>)))))))"

section \<open>One reconcile\<close>

definition gitLike :: "string \<Rightarrow> bool" where
  "gitLike k \<longleftrightarrow> EqualFold k ''git'' \<or> EqualFold k ''github''"

text \<open>
  The administrator annotation follows the decision; \<open>Ret None\<close> means that the decision is pending. A missing
  map of annotations cannot be written.
\<close>

definition decideAdmin :: "admin_reads \<Rightarrow> string \<Rightarrow> Subscription \<Rightarrow> Subscription option goval" where
  "decideAdmin r subtype s =
     (if gitLike subtype \<or> EqualFold subtype ''objectbucket'' \<or> EqualFold subtype ''helmrepo'' then
        (let (isClusterAdmin, pending) = IsClusterAdmin r s
         in if pending then Ret None
            else if isClusterAdmin then
              (case sub_annotations s of
                 None \<Rightarrow> Crash NilMap
               | Some m \<Rightarrow> Ret (Some (s\<lparr>sub_annotations := Some (gm_put AnnotationClusterAdmin ''true'' m)\<rparr>)))
            else Ret (Some (s\<lparr>sub_annotations := map_option (gm_del AnnotationClusterAdmin) (sub_annotations s)\<rparr>)))
      else Ret (Some s))"

text \<open>The subscribers of other types, unless the subscription is paused.\<close>

definition otherTypes :: "string \<Rightarrow> Subscription \<Rightarrow> string list \<Rightarrow> string list" where
  "otherTypes subtype s ks = filter (\<lambda>k. \<not> (gitLike k \<and> gitLike subtype) \<and> k \<noteq> subtype \<and> \<not> GetPauseLabel s) ks"

text \<open>\<open>Ret True\<close> is the pending administrator decision. The subscription is returned as it was changed in place.\<close>

definition doReconcile ::
  "('w, 'a, 'r, 'h, 'v, 'm) spoke_env \<Rightarrow> Subscription \<Rightarrow> 'w spoke_state \<Rightarrow> 'w \<Rightarrow> 'w \<times> 'w spoke_state \<times> Subscription \<times> bool goval" where
  "doReconcile e s st w =
     (case gatherItem e s w of
        (w1, Inl er) \<Rightarrow> (w1, st, s, Fail er)
      | (w1, Inr i) \<Rightarrow>
          (let subtype = go_lower (case ai_channel i of None \<Rightarrow> '''' | Some c \<Rightarrow> ch_type c)
           in case decideAdmin (sc_admin e w1) subtype s of
                Crash p \<Rightarrow> (w1, st, s, Crash p)
              | Fail er \<Rightarrow> (w1, st, s, Fail er)
              | Ret None \<Rightarrow> (w1, st, s, Ret True)
              | Ret (Some s1) \<Rightarrow>
                  (case unsubscribeEach e (sub_namespace s1, sub_name s1) (otherTypes subtype s1 (sc_order e w1)) st w1 of
                     (w2, st2, Some p) \<Rightarrow> (w2, st2, s1, Crash p)
                   | (w2, st2, None) \<Rightarrow>
                       (case subscribeTo e (i\<lparr>ai_subscription := s1\<rparr>) subtype st2 w2 of
                          (w3, st3, Some p) \<Rightarrow> (w3, st3, s1, Crash p)
                        | (w3, st3, None) \<Rightarrow> (w3, st3, s1, Ret False)))))"

definition localOnly :: "HubSub \<Rightarrow> bool" where
  "localOnly x \<longleftrightarrow> (case hs_placement x of None \<Rightarrow> False
     | Some pl \<Rightarrow> pl_local pl = Some True \<and> pl_ref pl = None \<and> pl_clusters pl = None \<and> pl_selector pl = None)"

definition appstatusReference :: "nsname \<Rightarrow> string" where
  "appstatusReference key = ''kubectl get appsubstatus -n '' @ fst key @ '' '' @ TrimSuffix (snd key) ''-local''"

definition setPhase :: "HubSub \<Rightarrow> kerr option \<Rightarrow> HubSub" where
  "setPhase x er =
     x\<lparr>hs_sub := (hs_sub x)\<lparr>sub_status := (case er of
         None \<Rightarrow> (sub_status (hs_sub x))\<lparr>st_phase := SubscriptionSubscribed, st_reason := ''''\<rparr>
       | Some r \<Rightarrow> (sub_status (hs_sub x))\<lparr>st_phase := SubscriptionFailed, st_reason := err_msg r, st_statuses := Some []\<rparr>)\<rparr>\<rparr>"

text \<open>The message of the time window, and when it has to be looked at again.\<close>

definition windowStatus :: "('w, 'a, 'r, 'h, 'v, 'm) spoke_env \<Rightarrow> Subscription \<Rightarrow> 'w \<Rightarrow> gopanic + string \<times> duration" where
  "windowStatus e s w =
     (case sp_timewindow (sub_spec s) of
        None \<Rightarrow> Inr (''Active'', 0)
      | Some tw \<Rightarrow>
          rbind (IsInWindow (sc_tz e) (fst (sc_clock e w)) (Some tw) (snd (sc_clock e w))) (\<lambda>b.
          rbind (NextStatusReconcile (sc_tz e) (fst (sc_clock e w)) (Some tw) (snd (sc_clock e w))) (\<lambda>d.
            Inr (if b then ''Active'' else ''Blocked'', d))))"

definition reportPhase ::
  "('w, 'a, 'r, 'h, 'v, 'm) spoke_env \<Rightarrow> nsname \<Rightarrow> HubSub \<Rightarrow> kerr option \<Rightarrow> 'w \<Rightarrow> 'w \<times> (gopanic + duration \<times> kerr option)" where
  "reportPhase e key x reconcileErr w =
     (let y = setPhase (case sc_get e w key of Inl er \<Rightarrow> x | Inr y \<Rightarrow> y) reconcileErr
      in if GetPauseLabel (hs_sub y) then (w, Inr (0, None))
         else case windowStatus e (hs_sub y) w of
                Inl p \<Rightarrow> (w, Inl p)
              | Inr (message, nextStatusUpateAt) \<Rightarrow>
                  (case sc_updateStatus e w
                          (y\<lparr>hs_sub := (hs_sub y)\<lparr>sub_status := (sub_status (hs_sub y))\<lparr>st_time := sc_now e w, st_message := message\<rparr>\<rparr>\<rparr>)
                          (appstatusReference key) of
                     (w', Some er) \<Rightarrow> (w', Inr (1000000000, Some er))
                   | (w', None) \<Rightarrow> (w', Inr (if reconcileErr \<noteq> None then 300000000000 else nextStatusUpateAt, None))))"

text \<open>A subscription that is gone: the error that is returned is that of the config maps.\<close>

definition goneReconcile ::
  "('w, 'a, 'r, 'h, 'v, 'm) spoke_env \<Rightarrow> nsname \<Rightarrow> 'w spoke_state \<Rightarrow> 'w \<Rightarrow> 'w \<times> 'w spoke_state \<times> (gopanic + duration \<times> kerr option)" where
  "goneReconcile e key st w =
     (case unsubscribeUntil e key (sc_order e w) st w of
        (w1, st1, Panic p) \<Rightarrow> (w1, st1, Inl p)
      | (w1, st1, Err er) \<Rightarrow> (w1, st1, Inr (2000000000, Some er))
      | (w1, st1, Done) \<Rightarrow>
          (let (w2, e2) = DeleteReferredObjects (rf_secrets (sc_refs e)) key w1;
               (w3, e3) = DeleteReferredObjects (rf_configMaps (sc_refs e)) key w2
           in (w3, st1, Inr (0, e3))))"

definition spokeReconcile ::
  "('w, 'a, 'r, 'h, 'v, 'm) spoke_env \<Rightarrow> nsname \<Rightarrow> 'w spoke_state \<Rightarrow> 'w \<Rightarrow> 'w \<times> 'w spoke_state \<times> (gopanic + duration \<times> kerr option)" where
  "spokeReconcile e key st w =
     (case sc_get e w key of
        Inl er \<Rightarrow> (if IsNotFound er then goneReconcile e key st w else (w, st, Inr (0, Some er)))
      | Inr x \<Rightarrow>
          (if localOnly x then
             (if (anno (sub_annotations (hs_sub x)) AnnotationHosting = '''') = sc_standalone e then
                (case doReconcile e (hs_sub x) st w of
                   (w1, st1, s1, Crash p) \<Rightarrow> (w1, st1, Inl p)
                 | (w1, st1, s1, Ret True) \<Rightarrow> (w1, st1, Inr (5000000000, None))
                 | (w1, st1, s1, r) \<Rightarrow>
                     (let (w2, q) = reportPhase e key (x\<lparr>hs_sub := s1\<rparr>) (case r of Fail er \<Rightarrow> Some er | _ \<Rightarrow> None) w1 in (w2, st1, q)))
              else (w, st, Inr (0, None)))
           else if GetPauseLabel (hs_sub x) then (w, st, Inr (0, None))
           else case unsubscribeEach e key (sc_order e w) st w of
                  (w', st', Some p) \<Rightarrow> (w', st', Inl p)
                | (w', st', None) \<Rightarrow> (w', st', Inr (0, None))))"

text \<open>What is reconciled when a channel changes; \<open>subs\<close> are the subscriptions that the list gives.\<close>

definition spokeChannelMapper :: "Subscription list \<Rightarrow> nsname \<Rightarrow> nsname list" where
  "spokeChannelMapper subs chn = map subKey (filter (\<lambda>s. sp_channel (sub_spec s) = fst chn @ ''/'' @ snd chn) subs)"

section \<open>The lease of the agent\<close>

text \<open>\<open>ls_rest\<close> is what an update keeps.\<close>

record Lease =
  ls_name :: string
  ls_namespace :: string
  ls_duration :: int
  ls_renew :: int
  ls_rest :: json

record 'w lease_client =
  lc_get :: "'w \<Rightarrow> nsname \<Rightarrow> kerr + Lease"
  lc_create :: "'w \<Rightarrow> Lease \<Rightarrow> 'w \<times> kerr option"
  lc_update :: "'w \<Rightarrow> Lease \<Rightarrow> 'w \<times> kerr option"

record 'w LeaseReconciler =
  lr_hub :: "'w lease_client option"
  lr_local :: "'w lease_client"
  lr_cluster :: string
  lr_name :: string
  lr_duration :: int
  lr_namespace :: string

definition updateLease :: "'w LeaseReconciler \<Rightarrow> string \<Rightarrow> 'w lease_client \<Rightarrow> int \<Rightarrow> 'w \<Rightarrow> 'w \<times> kerr option" where
  "updateLease r ns c t w =
     (case lc_get c w (ns, lr_name r) of
        Inl er \<Rightarrow>
          (if IsNotFound er
           then lc_create c w \<lparr>ls_name = lr_name r, ls_namespace = ns, ls_duration = lr_duration r, ls_renew = t, ls_rest = JNull\<rparr>
           else (w, Some er))
      | Inr l \<Rightarrow> lc_update c w (l\<lparr>ls_renew := t\<rparr>))"

text \<open>\<open>compNs\<close> is the namespace of the component, which is read when it is not yet known.\<close>

definition leaseReconcile :: "string \<Rightarrow> int \<Rightarrow> 'w LeaseReconciler \<Rightarrow> 'w \<Rightarrow> 'w \<times> 'w LeaseReconciler" where
  "leaseReconcile compNs t r w =
     (let r1 = (if lr_namespace r = '''' then r\<lparr>lr_namespace := compNs\<rparr> else r)
      in case updateLease r1 (lr_namespace r1) (lr_local r1) t w of
           (w', None) \<Rightarrow> (w', r1)
         | (w', Some er) \<Rightarrow> (case lr_hub r1 of None \<Rightarrow> (w', r1) | Some c \<Rightarrow> (fst (updateLease r1 (lr_cluster r1) c t w'), r1)))"

definition CheckHubKubeConfig :: "'c \<Rightarrow> kerr + 'c \<Rightarrow> kerr option" where
  "CheckHubKubeConfig known current =
     (case current of
        Inl er \<Rightarrow> Some (OtherError (''failed to get hub kubeconfig checksum, error: '' @ err_msg er))
      | Inr s \<Rightarrow> if s \<noteq> known then Some (OtherError ''hub kubeconfig has changed, restart the controller'') else None)"

end
