(* ===== verification/SpokeFacts.thy ===== *)
theory SpokeFacts
  imports SpokeController GitSubscriberFacts PollingFacts
begin

text \<open>
  The controller of the managed cluster. The interface \<open>Subscriber\<close> that its three subscribers implement is the
  locale \<open>subscriber\<close>, with the laws that subscribing puts exactly one item into the table and that
  unsubscribing takes it out. Over it, a reconcile is a simple update of who holds which subscription.
\<close>

section \<open>The interface of a subscriber\<close>

definition itemKey :: "AppSubscriberItem \<Rightarrow> nsname" where
  "itemKey i = (sub_namespace (ai_subscription i), sub_name (ai_subscription i))"

definition asAdmin :: "Subscription \<Rightarrow> bool" where
  "asAdmin s \<longleftrightarrow> EqualFold (anno (sub_annotations s) AnnotationClusterAdmin) ''true''"

locale subscriber =
  fixes subscribe :: "AppSubscriberItem \<Rightarrow> (nsname, 'i) gmap \<Rightarrow> 'w \<Rightarrow> 'w \<times> (nsname, 'i) gmap \<times> gopanic option"
    and unsubscribe :: "nsname \<Rightarrow> (nsname, 'i) gmap \<Rightarrow> 'w \<Rightarrow> 'w \<times> (nsname, 'i) gmap \<times> outcome"
    and elevated :: "'i \<Rightarrow> bool"
  assumes subscribe_puts: "subscribe i items w = (w', items', None) \<Longrightarrow>
      \<exists>it. items' = gm_put (itemKey i) it items \<and> elevated it = asAdmin (ai_subscription i)"
    and unsubscribe_takes: "unsubscribe k items w = (w', items', o') \<Longrightarrow> map_of items' = (map_of items)(k := None)"
begin

text \<open>What counts of a table: which subscriptions have an item, and whether it acts for an administrator.\<close>

definition view :: "(nsname, 'i) gmap \<Rightarrow> nsname \<Rightarrow> bool option" where
  "view items k = map_option elevated (map_of items k)"

lemma view_subscribe:
  "subscribe i items w = (w', items', None) \<Longrightarrow> view items' = (view items)(itemKey i \<mapsto> asAdmin (ai_subscription i))"
  by (auto simp: view_def gmap_simps fun_eq_iff dest!: subscribe_puts)

lemma view_unsubscribe: "unsubscribe k items w = (w', items', o') \<Longrightarrow> view items' = (view items)(k := None)"
  by (auto simp: view_def fun_eq_iff dest!: unsubscribe_takes)

end

lemma git_Start_admin: "Start e restart it w = (w', it', p) \<Longrightarrow> si_clusterAdmin it' = si_clusterAdmin it"
  by (auto simp: Start_def Stop_def Let_def held_def split: if_splits prod.splits dest!: retries_held)

interpretation gitSub: subscriber "SubscribeItem e" "UnsubscribeItem e" si_clusterAdmin for e
proof unfold_locales
  fix i items w w' items'
  assume "SubscribeItem e i items w = (w', items', None)"
  then show "\<exists>it. items' = gm_put (itemKey i) it items \<and> si_clusterAdmin it = asAdmin (ai_subscription i)"
    by (auto simp: SubscribeItem_def Let_def itemKey_def asAdmin_def readAnnotations_def newItem_def held_def
        split: option.splits if_splits prod.splits dest!: retries_held git_Start_admin)
qed (auto simp: UnsubscribeItem_def map_of_gm_del fun_upd_idem split: option.splits prod.splits)

context polling
begin

lemma start_admin: "startPolling e chType round restart it w = (w', it', p) \<Longrightarrow> pi_clusterAdmin it' = pi_clusterAdmin it"
  by (auto simp: startPolling_def stopPolling_def Let_def same_poll_def split: if_splits prod.splits dest!: retries_keep)

lemma subscribe_item:
  assumes "subscribePolling e chType round fresh renew i items w = (w', items', None)"
  shows "\<exists>it. items' = gm_put (itemKey i) it items \<and> pi_clusterAdmin it = asAdmin (ai_subscription i)"
proof -
  let ?old = "renew ((case map_of items (itemKey i) of None \<Rightarrow> fresh i | Some it \<Rightarrow> it)\<lparr>pi_item := i\<rparr>)"
  have "pi_clusterAdmin (readRate c ?old) = EqualFold (anno (sub_annotations (pi_sub ?old)) AnnotationClusterAdmin) ''true''" for c
    by (simp add: readRate_def Let_def)
  then have "pi_clusterAdmin (readRate c ?old) = asAdmin (ai_subscription i)" for c by (simp add: asAdmin_def renew_item)
  with assms show ?thesis
    by (auto simp: subscribePolling_def Let_def itemKey_def [symmetric] split: option.splits prod.splits dest!: start_admin)
qed

end

lemma unsubscribePolling_takes: "unsubscribePolling ss k items w = (w', items', o') \<Longrightarrow> map_of items' = (map_of items)(k := None)"
  by (auto simp: unsubscribePolling_def map_of_gm_del fun_upd_idem split: option.splits prod.splits)

interpretation helmSub: subscriber "helmSubscribe e" "helmUnsubscribe e" pi_clusterAdmin for e
  unfolding helmSubscribe_def helmUnsubscribe_def by unfold_locales (auto intro: helm.subscribe_item unsubscribePolling_takes)

interpretation bucketSub: subscriber "bucketSubscribe e" "bucketUnsubscribe e" pi_clusterAdmin for e
  unfolding bucketSubscribe_def bucketUnsubscribe_def by unfold_locales (auto intro: bucket.subscribe_item unsubscribePolling_takes)

section \<open>Who holds a subscription\<close>

definition subscriberOf :: "string \<Rightarrow> string" where
  "subscriberOf k = (if k = ''github'' then ''git'' else k)"

text \<open>By subscriber, whether it has an item of the subscription and whether that acts for an administrator.\<close>

definition holding :: "'w spoke_state \<Rightarrow> nsname \<Rightarrow> string \<Rightarrow> bool option" where
  "holding st key t =
     (if t = ''git'' then map_option si_clusterAdmin (map_of (sk_git st) key)
      else if t = ''helmrepo'' then map_option pi_clusterAdmin (map_of (sk_helm st) key)
      else if t = ''objectbucket'' then map_option pi_clusterAdmin (map_of (sk_bucket st) key) else None)"

lemma holding_updates:
  "holding (st\<lparr>sk_git := g\<rparr>) q t = (if t = ''git'' then gitSub.view g q else holding st q t)"
  "holding (st\<lparr>sk_helm := h\<rparr>) q t = (if t = ''helmrepo'' then helmSub.view h q else holding st q t)"
  "holding (st\<lparr>sk_bucket := b\<rparr>) q t = (if t = ''objectbucket'' then bucketSub.view b q else holding st q t)"
  "gitSub.view (sk_git st) q = holding st q ''git''" "helmSub.view (sk_helm st) q = holding st q ''helmrepo''"
  "bucketSub.view (sk_bucket st) q = holding st q ''objectbucket''"
  by (simp_all add: holding_def gitSub.view_def helmSub.view_def bucketSub.view_def)

lemma holding_unsubscribe:
  assumes run: "unsubscribeFrom e key k st w = (w', st', o')" and k: "k \<in> set subscriberTypes"
  shows "holding st' q t = (if q = key \<and> t = subscriberOf k then None else holding st q t)"
proof -
  consider "k = ''git'' \<or> k = ''github''" | "k = ''helmrepo''" | "k = ''objectbucket''" using k by (auto simp: subscriberTypes_def)
  then show ?thesis
  proof cases
    case 1
    then obtain m where m: "UnsubscribeItem (sc_git e) key (sk_git st) w = (w', m, o')" "st' = st\<lparr>sk_git := m\<rparr>" and t: "subscriberOf k = ''git''"
      using run by (auto simp: unsubscribeFrom_def subscriberOf_def split: prod.splits)
    from gitSub.view_unsubscribe [OF m(1)] show ?thesis unfolding m(2) t by (simp add: holding_updates)
  next
    case 2
    then obtain m where m: "helmUnsubscribe (sc_helm e) key (sk_helm st) w = (w', m, o')" "st' = st\<lparr>sk_helm := m\<rparr>" and t: "subscriberOf k = ''helmrepo''"
      using run by (auto simp: unsubscribeFrom_def subscriberOf_def split: prod.splits)
    from helmSub.view_unsubscribe [OF m(1)] show ?thesis unfolding m(2) t by (simp add: holding_updates)
  next
    case 3
    then obtain m where m: "bucketUnsubscribe (sc_bucket e) key (sk_bucket st) w = (w', m, o')" "st' = st\<lparr>sk_bucket := m\<rparr>" and t: "subscriberOf k = ''objectbucket''"
      using run by (auto simp: unsubscribeFrom_def subscriberOf_def split: prod.splits)
    from bucketSub.view_unsubscribe [OF m(1)] show ?thesis unfolding m(2) t by (simp add: holding_updates)
  qed
qed

lemma holding_subscribe:
  assumes run: "subscribeTo e i k st w = (w', st', None)" and k: "k \<in> set subscriberTypes"
  shows "holding st' q t = (if q = itemKey i \<and> t = subscriberOf k then Some (asAdmin (ai_subscription i)) else holding st q t)"
proof -
  consider "k = ''git'' \<or> k = ''github''" | "k = ''helmrepo''" | "k = ''objectbucket''" using k by (auto simp: subscriberTypes_def)
  then show ?thesis
  proof cases
    case 1
    then obtain m where m: "SubscribeItem (sc_git e) i (sk_git st) w = (w', m, None)" "st' = st\<lparr>sk_git := m\<rparr>" and t: "subscriberOf k = ''git''"
      using run by (auto simp: subscribeTo_def subscriberOf_def split: prod.splits)
    from gitSub.view_subscribe [OF m(1)] show ?thesis unfolding m(2) t by (simp add: holding_updates)
  next
    case 2
    then obtain m where m: "helmSubscribe (sc_helm e) i (sk_helm st) w = (w', m, None)" "st' = st\<lparr>sk_helm := m\<rparr>" and t: "subscriberOf k = ''helmrepo''"
      using run by (auto simp: subscribeTo_def subscriberOf_def split: prod.splits)
    from helmSub.view_subscribe [OF m(1)] show ?thesis unfolding m(2) t by (simp add: holding_updates)
  next
    case 3
    then obtain m where m: "bucketSubscribe (sc_bucket e) i (sk_bucket st) w = (w', m, None)" "st' = st\<lparr>sk_bucket := m\<rparr>" and t: "subscriberOf k = ''objectbucket''"
      using run by (auto simp: subscribeTo_def subscriberOf_def split: prod.splits)
    from bucketSub.view_subscribe [OF m(1)] show ?thesis unfolding m(2) t by (simp add: holding_updates)
  qed
qed

lemma holding_each:
  "unsubscribeEach e key ks st w = (w', st', None) \<Longrightarrow> set ks \<subseteq> set subscriberTypes \<Longrightarrow>
     holding st' q t = (if q = key \<and> t \<in> subscriberOf ` set ks then None else holding st q t)"
proof (induction ks arbitrary: st w)
  case (Cons k ks)
  obtain w1 st1 o1 where u: "unsubscribeFrom e key k st w = (w1, st1, o1)" by (metis prod_cases3)
  with Cons.prems have "unsubscribeEach e key ks st1 w1 = (w', st', None)" by (cases o1) auto
  from Cons.IH [OF this] Cons.prems(2) holding_unsubscribe [OF u] show ?case by auto
qed simp

lemma holding_until:
  "unsubscribeUntil e key ks st w = (w', st', Done) \<Longrightarrow> set ks \<subseteq> set subscriberTypes \<Longrightarrow>
     holding st' q t = (if q = key \<and> t \<in> subscriberOf ` set ks then None else holding st q t)"
proof (induction ks arbitrary: st w)
  case (Cons k ks)
  obtain w1 st1 o1 where u: "unsubscribeFrom e key k st w = (w1, st1, o1)" by (metis prod_cases3)
  with Cons.prems have "unsubscribeUntil e key ks st1 w1 = (w', st', Done)" by (cases o1) auto
  from Cons.IH [OF this] Cons.prems(2) holding_unsubscribe [OF u] show ?case by auto
qed simp

section \<open>One reconcile\<close>

lemma gatherItem_fields: "gatherItem e s w = (w', Inr i) \<Longrightarrow> ai_subscription i = s \<and> (\<exists>c. ai_channel i = Some c)"
  by (auto simp: gatherItem_def readReferences_def Let_def rbind_Inr_iff split: prod.splits sum.splits if_splits option.splits)

lemma decideAdmin_flag:
  assumes "decideAdmin r subtype s = Ret (Some s1)" "subtype \<in> set subscriberTypes"
  shows "asAdmin s1 = fst (IsClusterAdmin r s) \<and> sub_name s1 = sub_name s \<and> sub_namespace s1 = sub_namespace s \<and> sub_labels s1 = sub_labels s"
proof -
  have sup: "gitLike subtype \<or> EqualFold subtype ''objectbucket'' \<or> EqualFold subtype ''helmrepo''"
    using assms(2) by (auto simp: subscriberTypes_def gitLike_def)
  have t: "EqualFold ''true'' ''true''" "\<not> EqualFold '''' ''true''" by code_simp+
  show ?thesis using assms(1) sup t unfolding decideAdmin_def Let_def
    by (auto simp: asAdmin_def anno_def gm_str_put gm_str_del split: prod.splits if_splits option.splits)
qed

lemma others_of:
  assumes t: "subtype \<in> set subscriberTypes" and ks: "set ks = set subscriberTypes"
  shows "subscriberOf ` set (otherTypes subtype s ks) = (if GetPauseLabel s then {} else {''git'', ''helmrepo'', ''objectbucket''} - {subscriberOf subtype})"
proof -
  have g: "gitLike ''git''" "gitLike ''github''" "\<not> gitLike ''helmrepo''" "\<not> gitLike ''objectbucket''" by code_simp+
  have eq: "set (otherTypes subtype s ks) = set (otherTypes subtype s subscriberTypes)" using ks by (simp add: otherTypes_def)
  consider "subtype = ''git''" | "subtype = ''github''" | "subtype = ''helmrepo''" | "subtype = ''objectbucket''"
    using t by (auto simp: subscriberTypes_def)
  then show ?thesis unfolding eq
    by cases (simp_all add: otherTypes_def subscriberTypes_def g subscriberOf_def insert_Diff_if insert_commute)
qed

lemma otherTypes_sub: "set (otherTypes subtype s ks) \<subseteq> set ks"
  by (auto simp: otherTypes_def)

lemma holding_none: "t \<notin> {''git'', ''helmrepo'', ''objectbucket''} \<Longrightarrow> holding st k t = None"
  by (simp add: holding_def)

lemma doReconcile_steps:
  assumes "doReconcile e s st w = (w', st', s', Ret False)"
  obtains w1 i c s1 w2 st2 where "gatherItem e s w = (w1, Inr i)" "ai_channel i = Some c" "ai_subscription i = s"
    "decideAdmin (sc_admin e w1) (go_lower (ch_type c)) s = Ret (Some s1)"
    "unsubscribeEach e (sub_namespace s1, sub_name s1) (otherTypes (go_lower (ch_type c)) s1 (sc_order e w1)) st w1 = (w2, st2, None)"
    "subscribeTo e (i\<lparr>ai_subscription := s1\<rparr>) (go_lower (ch_type c)) st2 w2 = (w', st', None)" "s' = s1"
proof -
  obtain w1 i where g: "gatherItem e s w = (w1, Inr i)"
    using assms by (cases "gatherItem e s w"; cases "snd (gatherItem e s w)") (auto simp: doReconcile_def)
  obtain c where i: "ai_channel i = Some c" "ai_subscription i = s" using gatherItem_fields [OF g] by blast
  obtain s1 where d: "decideAdmin (sc_admin e w1) (go_lower (ch_type c)) s = Ret (Some s1)"
    using assms by (auto simp: doReconcile_def g i Let_def split: goval.splits option.splits)
  obtain w2 st2 where u: "unsubscribeEach e (sub_namespace s1, sub_name s1) (otherTypes (go_lower (ch_type c)) s1 (sc_order e w1)) st w1 = (w2, st2, None)"
    using assms by (auto simp: doReconcile_def Let_def g i d split: prod.splits option.splits)
  from assms have "subscribeTo e (i\<lparr>ai_subscription := s1\<rparr>) (go_lower (ch_type c)) st2 w2 = (w', st', None)" "s' = s1"
    by (auto simp: doReconcile_def Let_def g i d u split: prod.splits option.splits)
  with g i d u that show ?thesis by blast
qed

lemma doReconcile_held:
  assumes run: "doReconcile e s st w = (w', st', s', Ret False)" and order: "\<forall>v. set (sc_order e v) = set subscriberTypes"
    and item: "gatherItem e s w = (w1, Inr i)" "ai_channel i = Some chn" and type: "go_lower (ch_type chn) \<in> set subscriberTypes"
  shows "holding st' k t =
    (if k \<noteq> (sub_namespace s, sub_name s) then holding st k t
     else if t = subscriberOf (go_lower (ch_type chn)) then Some (fst (IsClusterAdmin (sc_admin e w1) s))
     else if GetPauseLabel s then holding st k t else None)"
  using run
proof (cases rule: doReconcile_steps)
  case (1 w1' i' c s1 w2 st2)
  with item have eq: "w1' = w1" "i' = i" "c = chn" by auto
  note d = decideAdmin_flag [OF 1(4) [unfolded eq] type]
  then have p: "GetPauseLabel s1 = GetPauseLabel s" by (simp add: GetPauseLabel_def)
  note o' = others_of [OF type order [rule_format, of w1], of s1]
  have "set (otherTypes (go_lower (ch_type chn)) s1 (sc_order e w1)) \<subseteq> set subscriberTypes" using otherTypes_sub order by metis
  from holding_each [OF 1(5) [unfolded eq] this] holding_subscribe [OF 1(6) [unfolded eq] type] d
  show ?thesis by (auto simp: o' p itemKey_def intro!: holding_none)
qed

text \<open>
  C5: when the controller of a managed cluster has handed over a subscription, the subscriber of its
  channel type holds it, as an administrator exactly when the decision on the reads of that moment says so, and no other
  subscriber holds it unless the subscription is paused; what is held of other subscriptions has not changed.
\<close>

theorem doReconcile_hands_over:
  assumes run: "doReconcile e s st w = (w', st', s', Ret False)" and order: "\<forall>v. set (sc_order e v) = set subscriberTypes"
    and item: "gatherItem e s w = (w1, Inr i)" "ai_channel i = Some chn" and type: "go_lower (ch_type chn) \<in> set subscriberTypes"
  shows "holding st' k t =
    (if k \<noteq> (sub_namespace s, sub_name s) then holding st k t
     else if t = subscriberOf (go_lower (ch_type chn)) then Some (fst (IsClusterAdmin (sc_admin e w1) s))
     else if GetPauseLabel s then holding st k t else None)"
  by (rule doReconcile_held [OF assms])

text \<open>
  C26: a subscription that is gone, or that is no longer local and is not paused, is held by no subscriber after its
  reconcile, unless the reconcile panics or asks to come back; what is held of other subscriptions has not changed.
\<close>

theorem released_everywhere:
  assumes run: "spokeReconcile e key st w = (w', st', Inr (0, q))" and order: "\<forall>v. set (sc_order e v) = set subscriberTypes"
    and left: "(\<exists>er. sc_get e w key = Inl er \<and> IsNotFound er) \<or> (\<exists>x. sc_get e w key = Inr x \<and> \<not> localOnly x \<and> \<not> GetPauseLabel (hs_sub x))"
  shows "holding st' k t = (if k = key then None else holding st k t)"
proof -
  have all: "subscriberOf ` set (sc_order e w) = {''git'', ''helmrepo'', ''objectbucket''}"
    unfolding order [rule_format] subscriberTypes_def by (auto simp: subscriberOf_def)
  have sub: "set (sc_order e w) \<subseteq> set subscriberTypes" using order by simp
  from left show ?thesis
  proof (elim disjE exE conjE)
    fix er
    assume "sc_get e w key = Inl er" "IsNotFound er"
    with run obtain v where "unsubscribeUntil e key (sc_order e w) st w = (v, st', Done)"
      by (auto simp: spokeReconcile_def goneReconcile_def Let_def split: prod.splits outcome.splits)
    from holding_until [OF this sub] show ?thesis by (auto simp: all intro!: holding_none)
  next
    fix x
    assume "sc_get e w key = Inr x" "\<not> localOnly x" "\<not> GetPauseLabel (hs_sub x)"
    with run have "unsubscribeEach e key (sc_order e w) st w = (w', st', None)" by (auto simp: spokeReconcile_def split: prod.splits option.splits)
    from holding_each [OF this sub] show ?thesis by (auto simp: all intro!: holding_none)
  qed
qed

section \<open>At most one subscriber\<close>

definition single :: "'w spoke_state \<Rightarrow> nsname \<Rightarrow> bool" where
  "single st k \<longleftrightarrow> (\<forall>t u. holding st k t \<noteq> None \<longrightarrow> holding st k u \<noteq> None \<longrightarrow> t = u)"

lemma single_less: "single st k \<Longrightarrow> \<forall>t. holding st' k t = holding st k t \<or> holding st' k t = None \<Longrightarrow> single st' k"
  unfolding single_def by metis

lemma until_less:
  "unsubscribeUntil e key ks st w = (w', st', o') \<Longrightarrow> set ks \<subseteq> set subscriberTypes \<Longrightarrow> holding st' k t = holding st k t \<or> holding st' k t = None"
proof (induction ks arbitrary: st w)
  case (Cons c ks)
  obtain w1 st1 o1 where u: "unsubscribeFrom e key c st w = (w1, st1, o1)" by (metis prod_cases3)
  have h: "holding st1 k t = holding st k t \<or> holding st1 k t = None" using holding_unsubscribe [OF u] Cons.prems(2) by simp
  show ?case
  proof (cases o1)
    case Done
    with Cons.prems u have "unsubscribeUntil e key ks st1 w1 = (w', st', o')" by simp
    from Cons.IH [OF this] Cons.prems(2) h show ?thesis by auto
  qed (use Cons.prems u h in auto)
qed simp

lemma go_lower_idem: "go_lower (go_lower s) = go_lower s"
proof -
  have "lower_char (lower_char c) = lower_char c" for c
  proof (cases "65 \<le> (of_char c :: nat) \<and> (of_char c :: nat) \<le> 90")
    case True
    then have "of_char (char_of ((of_char c :: nat) + 32) :: char) = (of_char c :: nat) + 32" by simp
    with True show ?thesis by (simp add: lower_char_def Let_def)
  qed (auto simp: lower_char_def Let_def)
  then show ?thesis by (simp add: go_lower_def)
qed

text \<open>A type that no subscriber is for: the subscription is released.\<close>

lemma unsupported_released:
  assumes run: "doReconcile e s st w = (w', st', s', Ret False)" and order: "\<forall>v. set (sc_order e v) = set subscriberTypes"
    and item: "gatherItem e s w = (w1, Inr i)" "ai_channel i = Some chn" and type: "go_lower (ch_type chn) \<notin> set subscriberTypes"
    and live: "\<not> GetPauseLabel s"
  shows "holding st' k t = (if k = (sub_namespace s, sub_name s) then None else holding st k t)"
  using run
proof (cases rule: doReconcile_steps)
  case (1 w1' i' c s1 w2 st2)
  with item have eq: "w1' = w1" "i' = i" "c = chn" by auto
  let ?t = "go_lower (ch_type chn)"
  have lows: "go_lower ''git'' = ''git''" "go_lower ''github'' = ''github''" by code_simp+
  have ng: "\<not> gitLike ?t" using type by (auto simp: gitLike_def EqualFold_def go_lower_idem lows subscriberTypes_def)
  have s1: "sub_name s1 = sub_name s" "sub_namespace s1 = sub_namespace s" "sub_labels s1 = sub_labels s"
    using 1(4) by (auto simp: decideAdmin_def Let_def split: if_splits prod.splits option.splits)
  then have "\<not> GetPauseLabel s1" using live by (simp add: GetPauseLabel_def)
  with ng type have o': "set (otherTypes ?t s1 (sc_order e w1)) = set subscriberTypes"
    using order by (auto simp: otherTypes_def)
  have all: "subscriberOf ` set subscriberTypes = {''git'', ''helmrepo'', ''objectbucket''}" by (simp add: subscriberTypes_def subscriberOf_def insert_commute)
  have "st' = st2" using 1(6) type unfolding eq by (auto simp: subscribeTo_def subscriberTypes_def split: if_splits)
  with holding_each [OF 1(5) [unfolded eq] eq_refl [OF o']] show ?thesis by (auto simp: o' all s1 intro!: holding_none)
qed

text \<open>
  The life of the agent: subscriptions that are not paused are reconciled, the goroutines of the
  subscribers take their turns, and the world changes in between. A panic ends the process.
\<close>

inductive spoke_reach :: "('w, 'a, 'r, 'h, 'v, 'm) spoke_env \<Rightarrow> 'w \<Rightarrow> 'w spoke_state \<Rightarrow> bool" for e where
  start: "spoke_reach e w \<lparr>sk_git = [], sk_helm = [], sk_bucket = []\<rparr>"
| world: "spoke_reach e w st \<Longrightarrow> spoke_reach e v st"
| reconcile: "\<lbrakk>spoke_reach e w st; \<forall>x. sc_get e w key = Inr x \<longrightarrow> \<not> GetPauseLabel (hs_sub x);
    spokeReconcile e key st w = (w', st', Inr r)\<rbrakk> \<Longrightarrow> spoke_reach e w' st'"
| git: "\<lbrakk>spoke_reach e w st; map_of (sk_git st) key = Some it; si_loop it = Some (per, ri, n); pollOnce (sc_git e) ri n it w = (w', it', None)\<rbrakk>
    \<Longrightarrow> spoke_reach e w' (st\<lparr>sk_git := gm_put key it' (sk_git st)\<rparr>)"
| helm: "\<lbrakk>spoke_reach e w st; map_of (sk_helm st) key = Some it; pi_loop it = Some (per, ri, n);
    pollTurn (hv_poll (sc_helm e)) (helmRound (sc_helm e)) ri n it w = (w', it', None)\<rbrakk>
    \<Longrightarrow> spoke_reach e w' (st\<lparr>sk_helm := gm_put key it' (sk_helm st)\<rparr>)"
| bucket: "\<lbrakk>spoke_reach e w st; map_of (sk_bucket st) key = Some it; pi_loop it = Some (per, ri, n);
    pollTurn (ob_poll (sc_bucket e)) (bucketRound (sc_bucket e)) ri n it w = (w', it', None)\<rbrakk>
    \<Longrightarrow> spoke_reach e w' (st\<lparr>sk_bucket := gm_put key it' (sk_bucket st)\<rparr>)"

lemma single_doReconcile:
  assumes run: "doReconcile e s st w = (w', st', s', r)" "\<forall>p. r \<noteq> Crash p" and order: "\<forall>v. set (sc_order e v) = set subscriberTypes"
    and live: "\<not> GetPauseLabel s" and single: "\<forall>k. single st k"
  shows "single st' k"
proof (cases "r = Ret False")
  case False
  with run have "st' = st"
    by (auto simp: doReconcile_def Let_def split: prod.splits sum.splits goval.splits option.splits)
  with single show ?thesis by blast
next
  case True
  note run' = run(1) [unfolded True]
  from run' obtain w1 i chn where item: "gatherItem e s w = (w1, Inr i)" "ai_channel i = Some chn"
    by (cases rule: doReconcile_steps) blast
  show ?thesis
  proof (cases "go_lower (ch_type chn) \<in> set subscriberTypes")
    case True
    from doReconcile_held [OF run' order item True, where k = k] spec [OF single, of k] live show ?thesis
      unfolding single_def by (simp split: if_splits)
  next
    case False
    from unsupported_released [OF run' order item False live, where k = k] spec [OF single, of k] show ?thesis
      unfolding single_def by (simp split: if_splits)
  qed
qed

lemma single_spokeReconcile:
  assumes run: "spokeReconcile e key st w = (w', st', Inr r)" and order: "\<forall>v. set (sc_order e v) = set subscriberTypes"
    and live: "\<forall>x. sc_get e w key = Inr x \<longrightarrow> \<not> GetPauseLabel (hs_sub x)" and single: "\<forall>k. single st k"
  shows "single st' k"
proof (cases "sc_get e w key")
  case (Inl er)
  have sub: "set (sc_order e w) \<subseteq> set subscriberTypes" using order by simp
  show ?thesis
  proof (cases "IsNotFound er")
    case True
    with run Inl obtain v o' where "unsubscribeUntil e key (sc_order e w) st w = (v, st', o')"
      by (auto simp: spokeReconcile_def goneReconcile_def Let_def split: prod.splits outcome.splits)
    from until_less [OF this sub] single show ?thesis by (metis single_less)
  next
    case False
    with run Inl have "st' = st" by (simp add: spokeReconcile_def)
    with single show ?thesis by blast
  qed
next
  case (Inr x)
  note np = live [rule_format, OF Inr]
  show ?thesis
  proof (cases "localOnly x")
    case False
    with run Inr np have "unsubscribeEach e key (sc_order e w) st w = (w', st', None)" by (auto simp: spokeReconcile_def split: prod.splits option.splits)
    from holding_each [OF this, where q = k] order have "\<forall>t. holding st' k t = holding st k t \<or> holding st' k t = None" by auto
    with spec [OF single, of k] show ?thesis by (rule single_less)
  next
    case True
    obtain w1 st1 s1 q where d: "doReconcile e (hs_sub x) st w = (w1, st1, s1, q)" by (metis prod_cases4)
    from run Inr True d have "st' = st \<or> st' = st1 \<and> (\<forall>p. q \<noteq> Crash p)"
      by (auto simp: spokeReconcile_def split: if_splits goval.splits bool.splits prod.splits)
    with single_doReconcile [OF d _ order np single] single show ?thesis by metis
  qed
qed

text \<open>
  C10: as long as no paused subscription is reconciled, every subscription is held by at most one of the
  subscribers of a managed cluster, whatever is reconciled, polled and changed in between, also when its channel changes its type.
\<close>

theorem at_most_one_subscriber:
  assumes "spoke_reach e w st" and order: "\<forall>v. set (sc_order e v) = set subscriberTypes"
    and "holding st k t \<noteq> None" "holding st k u \<noteq> None"
  shows "t = u"
proof -
  from assms(1) have "\<forall>k. single st k"
  proof (induction rule: spoke_reach.induct)
    case (start w)
    show ?case by (simp add: single_def holding_def gitSub.view_def helmSub.view_def bucketSub.view_def)
  next
    case (reconcile w st key w' st' r)
    from single_spokeReconcile [OF reconcile.hyps(3) order reconcile.hyps(2) reconcile.IH] show ?case by blast
  next
    case (git w st key it per ri n w' it')
    from pollOnce_held [OF git.hyps(4)] have "gitSub.view (gm_put key it' (sk_git st)) = gitSub.view (sk_git st)"
      using git.hyps(2) by (auto simp: gitSub.view_def gmap_simps held_def fun_eq_iff)
    then have "holding (st\<lparr>sk_git := gm_put key it' (sk_git st)\<rparr>) = holding st" by (simp add: fun_eq_iff holding_updates)
    with git.IH show ?case by (metis single_def)
  next
    case (helm w st key it per ri n w' it')
    from helm.turn_keeps [OF helm.hyps(4)] have "helmSub.view (gm_put key it' (sk_helm st)) = helmSub.view (sk_helm st)"
      using helm.hyps(2) by (auto simp: helmSub.view_def gmap_simps same_poll_def fun_eq_iff)
    then have "holding (st\<lparr>sk_helm := gm_put key it' (sk_helm st)\<rparr>) = holding st" by (simp add: fun_eq_iff holding_updates)
    with helm.IH show ?case by (metis single_def)
  next
    case (bucket w st key it per ri n w' it')
    from bucket.turn_keeps [OF bucket.hyps(4)] have "bucketSub.view (gm_put key it' (sk_bucket st)) = bucketSub.view (sk_bucket st)"
      using bucket.hyps(2) by (auto simp: bucketSub.view_def gmap_simps same_poll_def fun_eq_iff)
    then have "holding (st\<lparr>sk_bucket := gm_put key it' (sk_bucket st)\<rparr>) = holding st" by (simp add: fun_eq_iff holding_updates)
    with bucket.IH show ?case by (metis single_def)
  qed simp
  with assms(3,4) show ?thesis unfolding single_def by blast
qed

end
