(* ===== verification/SpokeExamples.thy ===== *)
theory SpokeExamples
  imports SpokeFacts PollingExamples
begin

text \<open>A managed cluster on which a subscription is reconciled whose channel used to be a Helm repository and is now a Git repository.\<close>

definition spoke_ex :: "kerr + HubSub \<Rightarrow> (tape, unit, unit, unit, string, string) spoke_env" where
  "spoke_ex got = \<lparr>sc_git = git_ex tape_sync ''Service'' [''/tmp/ns/app/svc.yaml''] kust_fail, sc_helm = charts_ex [] [], sc_bucket = bucket_ex [],
     sc_order = (\<lambda>w. [''objectbucket'', ''git'', ''helmrepo'', ''github'']), sc_standalone = True, sc_get = (\<lambda>w k. got),
     sc_channel = (\<lambda>w k. if k = (''chns'', ''repo'') then Inr git_chn else Inl (NotFound '''')), sc_refs = no_refs, sc_over = (\<lambda>a b. b),
     sc_admin = (\<lambda>w. \<lparr>ar_webhook = (\<lambda>n. None), ar_binding = (\<lambda>n. Inl (NotFound '''')), ar_bindings = Inr [], ar_work = (\<lambda>n. Inr []), ar_decode = (\<lambda>s. s)\<rparr>),
     sc_updateStatus = (\<lambda>w x r. (w, None)), sc_sleep = (\<lambda>d w. w), sc_tz = (\<lambda>l. None), sc_clock = (\<lambda>w. (\<lparr>t_abs = 0, t_wall = 0\<rparr>, 0)), sc_now = (\<lambda>w. 0)\<rparr>"

definition local_sub :: HubSub where
  "local_sub = \<lparr>hs_sub = (git_sub None)\<lparr>sub_spec := (sub_spec (git_sub None))\<lparr>sp_channel := ''chns/repo''\<rparr>\<rparr>,
     hs_placement = Some \<lparr>pl_clusters = None, pl_selector = None, pl_ref = None, pl_local = Some True\<rparr>, hs_generation = 1\<rparr>"

definition was_helm :: "tape spoke_state" where
  "was_helm = \<lparr>sk_git = [], sk_helm = [((''ns'', ''app''), helm_polled)], sk_bucket = []\<rparr>"

lemma spoke_order: "\<forall>v. set (sc_order (spoke_ex got) v) = set subscriberTypes"
  by (auto simp: spoke_ex_def subscriberTypes_def)

lemma gathered:
  "gatherItem (spoke_ex (Inr local_sub)) (hs_sub local_sub) [] = ([], Inr ((git_item None)\<lparr>ai_subscription := hs_sub local_sub\<rparr>))"
  by code_simp

theorem doReconcile_hands_over_witness:
  "\<exists>w' st' s'. doReconcile (spoke_ex (Inr local_sub)) (hs_sub local_sub) was_helm [] = (w', st', s', Ret False)
     \<and> holding was_helm (''ns'', ''app'') ''helmrepo'' = Some False
     \<and> holding st' (''ns'', ''app'') ''git'' = Some False \<and> holding st' (''ns'', ''app'') ''helmrepo'' = None"
proof -
  let ?d = "doReconcile (spoke_ex (Inr local_sub)) (hs_sub local_sub) was_helm []"
  have "case ?d of (w', st', s', r) \<Rightarrow> (case r of Ret b \<Rightarrow> \<not> b | _ \<Rightarrow> False)" by code_simp
  then obtain w' st' s' where 1: "?d = (w', st', s', Ret False)" by (cases ?d) (auto split: goval.splits)
  have 2: "ai_channel ((git_item None)\<lparr>ai_subscription := hs_sub local_sub\<rparr>) = Some git_chn" by (simp add: git_item_def)
  have 3: "go_lower (ch_type git_chn) = ''git''" "sub_namespace (hs_sub local_sub) = ''ns''" "sub_name (hs_sub local_sub) = ''app''"
    "fst (IsClusterAdmin (sc_admin (spoke_ex (Inr local_sub)) []) (hs_sub local_sub)) = False" "GetPauseLabel (hs_sub local_sub) = False" by code_simp+
  have 4: "holding was_helm (''ns'', ''app'') ''helmrepo'' = Some False" by code_simp
  from doReconcile_hands_over [OF 1 spoke_order gathered 2] 1 3 4 show ?thesis by (simp add: subscriberTypes_def subscriberOf_def)
qed

theorem released_everywhere_witness:
  "\<exists>w' st'. spokeReconcile (spoke_ex (Inl (NotFound ''gone''))) (''ns'', ''app'') was_helm [] = (w', st', Inr (0, None))
     \<and> holding st' (''ns'', ''app'') ''helmrepo'' = None"
proof -
  let ?e = "spoke_ex (Inl (NotFound ''gone''))"
  let ?d = "spokeReconcile ?e (''ns'', ''app'') was_helm []"
  have "case ?d of (w', st', r) \<Rightarrow> r = Inr (0, None)" by code_simp
  then obtain w' st' where 1: "?d = (w', st', Inr (0, None))" by (cases ?d) auto
  have 2: "sc_get ?e [] (''ns'', ''app'') = Inl (NotFound ''gone'')" "IsNotFound (NotFound ''gone'')" by code_simp+
  from released_everywhere [OF 1 spoke_order] 1 2 show ?thesis by auto
qed

theorem at_most_one_subscriber_witness:
  "\<exists>w st. spoke_reach (spoke_ex (Inr local_sub)) w st \<and> holding st (''ns'', ''app'') ''git'' = Some False \<and> holding st (''ns'', ''app'') ''helmrepo'' = None"
proof -
  let ?e = "spoke_ex (Inr local_sub)" and ?st = "\<lparr>sk_git = [], sk_helm = [], sk_bucket = []\<rparr> :: tape spoke_state"
  let ?d = "spokeReconcile ?e (''ns'', ''app'') ?st []"
  have "case ?d of (w', st', r) \<Rightarrow> r = Inr (0, None) \<and> holding st' (''ns'', ''app'') ''git'' = Some False" by code_simp
  then obtain w' st' where 1: "?d = (w', st', Inr (0, None))" "holding st' (''ns'', ''app'') ''git'' = Some False" by (cases ?d) auto
  have 2: "\<forall>x. sc_get ?e [] (''ns'', ''app'') = Inr x \<longrightarrow> \<not> GetPauseLabel (hs_sub x)"
    by (simp add: spoke_ex_def local_sub_def git_sub_def GetPauseLabel_def anno_def)
  from spoke_reach.reconcile [OF spoke_reach.start 2 1(1)] have r: "spoke_reach ?e w' st'" .
  from at_most_one_subscriber [OF r spoke_order, of "(''ns'', ''app'')" "''git''" "''helmrepo''"] r 1(2) show ?thesis by fastforce
qed

end
