(* ===== verification/AppSubSummary.thy ===== *)
theory AppSubSummary
  imports Hooks
begin

text \<open>
  The periodic summary of application reports on the hub
  (\<open>pkg/controller/appsubsummary/appsubsummary_controller.go\<close>): the results of all cluster reports are collected per subscription,
  the report of each subscription gets them with new counts, and one view of its status is kept for
  a failing cluster. Printing the memory usage is left out; the owner reference that \<open>newAppSubReport\<close> looks up
  is never written and left out, too.
\<close>

section \<open>Data\<close>

record AppSubClusterStatus =
  ac_cluster :: string
  ac_phase :: string

record AppSubClustersStatus =
  ts_clusters :: "AppSubClusterStatus list"
  ts_deployed :: int
  ts_failed :: int
  ts_propagationFailed :: int

type_synonym statusMap = "(string, AppSubClustersStatus) gmap"

text \<open>A view of the status object of a subscription (\<open>vw_scope\<close>) in the namespace of a cluster.\<close>

record ManagedClusterView =
  vw_name :: string
  vw_namespace :: string
  vw_label :: string
  vw_scope :: nsname

text \<open>
  \<open>se_selector\<close> is the error of building a selector from a label value, \<open>se_iter\<close> the order in which a map is traversed,
  \<open>se_sort\<close> and \<open>se_sortResults\<close> sort by cluster, ties in any order.
\<close>

record 'w summary_env =
  se_clusterReports :: "'w \<Rightarrow> kerr + SubscriptionReport list"
  se_reports :: "'w report_client"
  se_views :: "'w \<Rightarrow> kerr + ManagedClusterView list"
  se_labelled :: "'w \<Rightarrow> string \<Rightarrow> kerr + ManagedClusterView list"
  se_getView :: "'w \<Rightarrow> nsname \<Rightarrow> kerr + ManagedClusterView"
  se_createView :: "'w \<Rightarrow> ManagedClusterView \<Rightarrow> 'w \<times> kerr option"
  se_deleteView :: "'w \<Rightarrow> ManagedClusterView \<Rightarrow> 'w \<times> kerr option"
  se_selector :: "string \<Rightarrow> kerr option"
  se_iter :: "statusMap \<Rightarrow> statusMap"
  se_sort :: "AppSubClusterStatus list \<Rightarrow> AppSubClusterStatus list"
  se_sortResults :: "SubscriptionReportResult list \<Rightarrow> SubscriptionReportResult list"

section \<open>Collecting the results\<close>

definition countPhase :: "string \<Rightarrow> AppSubClustersStatus \<Rightarrow> AppSubClustersStatus" where
  "countPhase phase t =
     (if phase = ''failed'' then t\<lparr>ts_failed := ts_failed t + 1\<rparr>
      else if phase = ''deployed'' then t\<lparr>ts_deployed := ts_deployed t + 1\<rparr>
      else if phase = ''propagationFailed'' then t\<lparr>ts_propagationFailed := ts_propagationFailed t + 1\<rparr>
      else t)"

definition noStatus :: AppSubClustersStatus where
  "noStatus = \<lparr>ts_clusters = [], ts_deployed = 0, ts_failed = 0, ts_propagationFailed = 0\<rparr>"

definition addResult :: "string \<Rightarrow> SubscriptionReportResult \<Rightarrow> statusMap \<Rightarrow> statusMap" where
  "addResult cluster result m =
     (if ParseNamespacedName (rr_source result) = ('''', '''') then m
      else (let cs = \<lparr>ac_cluster = cluster, ac_phase = rr_result result\<rparr>;
                t = countPhase (ac_phase cs) (case map_of m (rr_source result) of Some t \<Rightarrow> t | None \<Rightarrow> noStatus)
            in gm_put (rr_source result) (t\<lparr>ts_clusters := ts_clusters t @ [cs]\<rparr>) m))"

definition UpdateAppSubMapsPerCluster :: "SubscriptionReport \<Rightarrow> statusMap \<Rightarrow> statusMap" where
  "UpdateAppSubMapsPerCluster rp = fold (addResult (rp_namespace rp)) (rp_results rp)"

section \<open>The application reports\<close>

definition newAppSubReport :: "nsname \<Rightarrow> json list \<Rightarrow> SubscriptionReportSummary \<Rightarrow> AppSubClustersStatus \<Rightarrow> SubscriptionReport" where
  "newAppSubReport key resources summary t =
     (let iClusters = (case go_atoi (rs_clusters summary) of None \<Rightarrow> 0 | Some i \<Rightarrow> i);
          inProgress = iClusters - ts_propagationFailed t - ts_deployed t - ts_failed t
      in \<lparr>rp_name = snd key, rp_namespace = fst key, rp_labels = [(AnnotationHosting, hostingLabel key)], rp_type = ''Application'',
          rp_summary = \<lparr>rs_deployed = show_int (ts_deployed t), rs_inProgress = show_int (if inProgress < 0 then 0 else inProgress),
            rs_failed = show_int (ts_failed t), rs_propagationFailed = show_int (ts_propagationFailed t), rs_clusters = rs_clusters summary\<rparr>,
          rp_results = map (\<lambda>c. \<lparr>rr_source = ac_cluster c, rr_timestamp = 0, rr_result = ac_phase c\<rparr>) (ts_clusters t), rp_resources = resources\<rparr>)"

definition emptyReport :: SubscriptionReport where
  "emptyReport = \<lparr>rp_name = '''', rp_namespace = '''', rp_labels = [], rp_type = '''',
     rp_summary = \<lparr>rs_deployed = '''', rs_inProgress = '''', rs_failed = '''', rs_propagationFailed = '''', rs_clusters = ''''\<rparr>, rp_results = [], rp_resources = []\<rparr>"

text \<open>A report that is missing is skipped; one that cannot be read for another reason counts as empty.\<close>

definition updateAppSubReport :: "'w summary_env \<Rightarrow> string \<times> AppSubClustersStatus \<Rightarrow> 'w \<Rightarrow> 'w" where
  "updateAppSubReport e = (\<lambda>(appsub, t) w.
     (let key = ParseNamespacedName appsub
      in if key = ('''', '''') then w
         else case (case rpc_get (se_reports e) w key of
                      Inr rp \<Rightarrow> Some rp
                    | Inl er \<Rightarrow> if IsNotFound er then None else Some emptyReport) of
                None \<Rightarrow> w
              | Some rp \<Rightarrow>
                  (let new = newAppSubReport key (rp_resources rp) (rp_summary rp) t;
                       results = se_sortResults e (rp_results new)
                   in if gm_equal (rp_labels rp) (rp_labels new) \<and> rp_summary rp = rp_summary new \<and> se_sortResults e (rp_results rp) = results then w
                      else fst (rpc_update (se_reports e) w (rp\<lparr>rp_labels := rp_labels new, rp_results := results, rp_summary := rp_summary new\<rparr>)))))"

definition createOrUpdateAppSubReport :: "'w summary_env \<Rightarrow> statusMap \<Rightarrow> 'w \<Rightarrow> 'w" where
  "createOrUpdateAppSubReport e m = fold (updateAppSubReport e) (se_iter e m)"

section \<open>The views of failing clusters\<close>

definition createManagedClusterViewPerApp :: "'w summary_env \<Rightarrow> nsname \<Rightarrow> string \<Rightarrow> 'w \<Rightarrow> 'w" where
  "createManagedClusterViewPerApp e app cluster w =
     (let name = fst app @ ''-'' @ snd app
      in case se_getView e w (cluster, name) of
           Inr v \<Rightarrow> w
         | Inl er \<Rightarrow>
             (if IsNotFound er
              then fst (se_createView e w \<lparr>vw_name = name, vw_namespace = cluster, vw_label = hostingLabel app, vw_scope = app\<rparr>)
              else w))"

definition cleanManagedClusterViewPerApp :: "'w summary_env \<Rightarrow> nsname \<Rightarrow> string \<Rightarrow> 'w \<Rightarrow> 'w" where
  "cleanManagedClusterViewPerApp e app newFailingCluster w =
     (case se_selector e (hostingLabel app) of
        Some er \<Rightarrow> w
      | None \<Rightarrow>
          (case se_labelled e w (hostingLabel app) of
             Inl er \<Rightarrow> w
           | Inr views \<Rightarrow> fold (\<lambda>v w. if vw_namespace v = newFailingCluster then w else fst (se_deleteView e w v)) views w))"

text \<open>The first failing cluster, counted over all applications; after fifty of them no more views are made.\<close>

definition refreshView :: "'w summary_env \<Rightarrow> string \<times> AppSubClustersStatus \<Rightarrow> nat \<times> 'w \<Rightarrow> nat \<times> 'w" where
  "refreshView e = (\<lambda>(appsub, t) (total, w).
     (let app = ParseNamespacedName appsub
      in if app = ('''', '''') then (total, w)
         else case find (\<lambda>c. ac_phase c = ''failed'') (se_sort e (ts_clusters t)) of
                None \<Rightarrow> (total, cleanManagedClusterViewPerApp e app '''' w)
              | Some c \<Rightarrow>
                  (if total + 1 > 50 then (total + 1, cleanManagedClusterViewPerApp e app '''' w)
                   else (total + 1, cleanManagedClusterViewPerApp e app (ac_cluster c) (createManagedClusterViewPerApp e app (ac_cluster c) w)))))"

definition RefreshManagedClusterViews :: "'w summary_env \<Rightarrow> statusMap \<Rightarrow> 'w \<Rightarrow> 'w" where
  "RefreshManagedClusterViews e m w = snd (fold (refreshView e) (se_iter e m) (0, w))"

definition IsReadyManagedClusterView :: "'w summary_env \<Rightarrow> 'w \<Rightarrow> bool" where
  "IsReadyManagedClusterView e w = (case se_views e w of Inl er \<Rightarrow> False | Inr vs \<Rightarrow> True)"

definition generateAppSubSummary :: "'w summary_env \<Rightarrow> 'w \<Rightarrow> 'w \<times> kerr option" where
  "generateAppSubSummary e w =
     (case se_clusterReports e w of
        Inl er \<Rightarrow> (w, Some er)
      | Inr reports \<Rightarrow>
          (if reports = [] then (w, None)
           else (let m = fold UpdateAppSubMapsPerCluster reports []; w1 = createOrUpdateAppSubReport e m w
                 in (if IsReadyManagedClusterView e w1 then RefreshManagedClusterViews e m w1 else w1, None))))"

definition houseKeeping :: "'w summary_env \<Rightarrow> 'w \<Rightarrow> 'w" where
  "houseKeeping e w = fst (generateAppSubSummary e w)"

end
