(* ===== verification/HubResources.thy ===== *)
theory HubResources
  imports Hooks HelmSubscriber ObjectBucket
begin

text \<open>
  The resources of a subscription as the hub sees them (\<open>gitrepo_sync.go\<close>, \<open>metaupdate.go\<close> and \<open>hub.go\<close> of
  \<open>pkg/controller/mcmhub\<close>): references to the objects of a Git repository, of Helm charts or of a bucket, the
  report that records them, and the propagation that follows.
\<close>

section \<open>Object references\<close>

record ObjectReference =
  xr_kind :: string
  xr_namespace :: string
  xr_name :: string
  xr_apiVersion :: string

type_synonym refmap = "(ObjectReference, ObjectReference) gmap"

definition refOf :: "Unstructured \<Rightarrow> ObjectReference" where
  "refOf u = \<lparr>xr_kind = u_kind u, xr_namespace = u_namespace u, xr_name = u_name u, xr_apiVersion = u_apiVersion u\<rparr>"

definition refJson :: "ObjectReference \<Rightarrow> json" where
  "refJson r = JObj [(''kind'', JStr (xr_kind r)), (''namespace'', JStr (xr_namespace r)), (''name'', JStr (xr_name r)),
     (''apiVersion'', JStr (xr_apiVersion r))]"

text \<open>A reference keeps its own namespace only for a subscription administrator.\<close>

definition homeRef :: "Subscription \<Rightarrow> bool \<Rightarrow> ObjectReference \<Rightarrow> ObjectReference" where
  "homeRef s isAdmin r =
     (if isAdmin then (if xr_namespace r = '''' then r\<lparr>xr_namespace := sub_namespace s\<rparr> else r)
      else r\<lparr>xr_namespace := sub_namespace s\<rparr>)"

text \<open>The release that stands for a chart of a Git repository.\<close>

record helmSpec =
  hx_chartName :: string
  hx_version :: string
  hx_urls :: "string list"
  hx_chartPath :: string

text \<open>A file of a rendered chart: its name, its content and, when it could be read, its kind and version.\<close>

record renderedFile =
  rd_name :: string
  rd_content :: string
  rd_head :: "(string \<times> string) option"

text \<open>
  \<open>hc_decode\<close> decodes YAML into an object and \<open>hc_typed\<close> only into its API version and kind, \<open>hc_chartJson\<close> encodes a
  release, \<open>hc_render\<close> downloads a chart, renders it without installing it and sorts its files, \<open>hc_build\<close> turns a file into objects
  (kind, group, version, name, namespace), \<open>hc_namespaced\<close> is the scope of a kind when it is known. The other fields
  are the environments of the parts that are used.
\<close>

record ('w, 'v, 'm) hub_env =
  hc_hooks :: "'w hook_env"
  hc_helm :: "('w, 'v, 'm) helm_sub_env"
  hc_bucket :: "'w bucket_env"
  hc_kust :: "'w kust_env"
  hc_decode :: "string \<Rightarrow> kerr + Unstructured"
  hc_typed :: "string \<Rightarrow> kerr + string \<times> string"
  hc_chartJson :: "string \<Rightarrow> helmSpec \<Rightarrow> kerr + string"
  hc_render :: "'w \<Rightarrow> HelmRelease \<Rightarrow> renderedFile list option"
  hc_build :: "'w \<Rightarrow> string \<Rightarrow> (string \<times> string \<times> string \<times> string \<times> string) list option"
  hc_namespaced :: "string \<Rightarrow> string \<Rightarrow> string \<Rightarrow> bool option"
  hc_patchStatus :: "'w \<Rightarrow> HubSub \<Rightarrow> HubSub \<Rightarrow> 'w \<times> (kerr + HubSub)"
  hc_tz :: tzdb
  hc_clock :: "'w \<Rightarrow> gotime \<times> int"
  hc_now :: "'w \<Rightarrow> int"
  hc_requeue :: duration

abbreviation hc_git :: "('w, 'v, 'm) hub_env \<Rightarrow> 'w hub_git_env" where
  "hc_git e \<equiv> hk_git (hc_hooks e)"

abbreviation hc_prop :: "('w, 'v, 'm) hub_env \<Rightarrow> 'w propagation_env" where
  "hc_prop e \<equiv> hk_prop (hc_hooks e)"

section \<open>Resources of a Git repository\<close>

definition addObjectReference :: "('w, 'v, 'm) hub_env \<Rightarrow> refmap \<Rightarrow> string \<Rightarrow> kerr + refmap" where
  "addObjectReference e m filecontent = rbind (hc_decode e filecontent) (\<lambda>obj. Inr (gm_put (refOf obj) (refOf obj) m))"

fun addReferences :: "('w, 'v, 'm) hub_env \<Rightarrow> string list \<Rightarrow> refmap \<Rightarrow> kerr + refmap" where
  "addReferences e [] m = Inr m"
| "addReferences e (d # ds) m = rbind (addObjectReference e m d) (addReferences e ds)"

text \<open>The directory part of a path, with the separator.\<close>

definition path_dir :: "string \<Rightarrow> string" where
  "path_dir p = rev (dropWhile (\<lambda>c. c \<noteq> CHR ''/'') (rev p))"

definition inHookFolder :: "string \<Rightarrow> bool" where
  "inHookFolder rscFile \<longleftrightarrow> HasSuffix (path_dir rscFile) ''/prehook/'' \<or> HasSuffix (path_dir rscFile) ''/posthook/''"

text \<open>A file that cannot be read is skipped, and so are the files of hooks.\<close>

fun hubSubscribeResources :: "('w, 'v, 'm) hub_env \<Rightarrow> 'w \<Rightarrow> string list \<Rightarrow> refmap \<Rightarrow> kerr + refmap" where
  "hubSubscribeResources e w [] m = Inr m"
| "hubSubscribeResources e w (f # fs) m =
     (case re_read (he_repo (hc_git e) w) f of
        Inl er \<Rightarrow> hubSubscribeResources e w fs m
      | Inr file \<Rightarrow>
          (if inHookFolder f then hubSubscribeResources e w fs m
           else rbind (addReferences e (ParseKubeResoures (re_yaml (he_repo (hc_git e) w)) file) m) (hubSubscribeResources e w fs)))"

fun hubKustomized :: "('w, 'v, 'm) hub_env \<Rightarrow> string list \<Rightarrow> refmap \<Rightarrow> kerr + refmap" where
  "hubKustomized e [] m = Inr m"
| "hubKustomized e (r # rs) m =
     (let resourceFile = trim_set [tab, CHR '' '', newline] r
      in case hc_typed e resourceFile of
           Inl er \<Rightarrow> hubKustomized e rs m
         | Inr (api, kind) \<Rightarrow>
             (if api = '''' \<or> kind = '''' then hubKustomized e rs m
              else rbind (addObjectReference e m resourceFile) (hubKustomized e rs)))"

fun hubSubscribeKustomizations ::
  "('w, 'v, 'm) hub_env \<Rightarrow> Subscription \<Rightarrow> string \<Rightarrow> string list \<Rightarrow> refmap \<Rightarrow> 'w \<Rightarrow> 'w \<times> refmap goval" where
  "hubSubscribeKustomizations e s baseDir [] m w = (w, Ret m)"
| "hubSubscribeKustomizations e s baseDir (dir # dirs) m w =
     (case VerifyAndOverrideKustomize (hc_kust e) (unnil (sp_packageOverrides (sub_spec s))) (relativePath baseDir dir) dir w of
        (w1, Panic p) \<Rightarrow> (w1, Crash p)
      | (w1, Err er) \<Rightarrow> (w1, Fail er)
      | (w1, Done) \<Rightarrow>
          (case ke_build (hc_kust e) w1 dir of
             Inl er \<Rightarrow> (w1, Fail er)
           | Inr out \<Rightarrow>
               (case hubKustomized e (ParseYAML out) m of
                  Inl er \<Rightarrow> (w1, Fail er)
                | Inr m' \<Rightarrow> hubSubscribeKustomizations e s baseDir dirs m' w1)))"

text \<open>The first version of a chart stands for it; an empty list, a version that is not found or one without addresses panics.\<close>

fun hubSubscribeHelmCharts :: "('w, 'v, 'm) hub_env \<Rightarrow> Channel \<Rightarrow> IndexFile \<Rightarrow> IndexFile \<Rightarrow> refmap \<Rightarrow> refmap goval" where
  "hubSubscribeHelmCharts e chn all [] m = Ret m"
| "hubSubscribeHelmCharts e chn all ((packageName, chartVersions) # idx) m =
     (case chartVersions of
        [] \<Rightarrow> Crash IndexOutOfRange
      | v # vs \<Rightarrow>
          (case he_get (hv_helm (hc_helm e)) all packageName (cv_version v) of
             Inl er \<Rightarrow> Crash NilDereference
           | Inr cv \<Rightarrow>
               (case cv_urls cv of
                  [] \<Rightarrow> Crash IndexOutOfRange
                | url # urls \<Rightarrow>
                    gbind (lift_err (rbind (hc_chartJson e (packageName @ ''-'' @ cv_version v)
                             \<lparr>hx_chartName = packageName, hx_version = cv_version v, hx_urls = [ch_pathname chn], hx_chartPath = url\<rparr>)
                             (addObjectReference e m)))
                      (hubSubscribeHelmCharts e chn all idx))))"

text \<open>An error of one group of files is noted, and the others are still processed.\<close>

definition noteErr :: "kerr + refmap \<Rightarrow> refmap \<times> string \<Rightarrow> refmap \<times> string" where
  "noteErr r = (\<lambda>(m, msg). case r of Inl er \<Rightarrow> (m, msg @ err_msg er @ ''/n'') | Inr m' \<Rightarrow> (m', msg))"

definition processFiles :: "('w, 'v, 'm) hub_env \<Rightarrow> 'w \<Rightarrow> string list list \<Rightarrow> refmap \<times> string" where
  "processFiles e w groups = foldl (\<lambda>acc fs. noteErr (hubSubscribeResources e w fs (fst acc)) acc) ([], '''') groups"

definition processRepo ::
  "('w, 'v, 'm) hub_env \<Rightarrow> Channel \<Rightarrow> Subscription \<Rightarrow> string \<Rightarrow> string \<Rightarrow> string \<Rightarrow> bool \<Rightarrow> 'w \<Rightarrow> 'w \<times> ObjectReference list goval" where
  "processRepo e chn s localRepoRoot subPath baseDir isAdmin w =
     (let g = hc_git e
      in case SortResources (he_repo g w) (he_ignored g w subPath) None localRepoRoot subPath (he_walk g w subPath) of
           Inl er \<Rightarrow> (w, Fail (OtherError er))
         | Inr f \<Rightarrow>
             (case GenerateHelmIndexFile (hv_helm (hc_helm e)) s localRepoRoot (sf_charts f) of
                Inl er \<Rightarrow> (w, Fail er)
              | Inr idx \<Rightarrow>
                  (let (m1, msg1) = processFiles e w [sf_crds f, sf_rbac f, sf_others f]
                   in case hubSubscribeKustomizations e s baseDir (map snd (sf_kustomize f)) m1 w of
                        (w', Crash p) \<Rightarrow> (w', Crash p)
                      | (w', kust) \<Rightarrow>
                          (let (m2, msg2) = noteErr (case kust of Ret m \<Rightarrow> Inr m | Fail er \<Rightarrow> Inl er | Crash p \<Rightarrow> Inr m1) (m1, msg1)
                           in (w', case hubSubscribeHelmCharts e chn idx idx m2 of
                                     Crash p \<Rightarrow> Crash p
                                   | Fail er \<Rightarrow> Fail (OtherError (msg2 @ err_msg er @ ''/n''))
                                   | Ret m3 \<Rightarrow> if msg2 \<noteq> '''' then Fail (OtherError msg2)
                                              else Ret (map (\<lambda>(k, r). homeRef s isAdmin r) m3))))))"

definition hubResourcePath :: "(Subscription \<Rightarrow> string) \<Rightarrow> Subscription \<Rightarrow> string" where
  "hubResourcePath localFolder s =
     (let a = sub_annotations s
      in if anno a AnnotationGithubPath \<noteq> '''' then path_join (localFolder s) (anno a AnnotationGithubPath)
         else if anno a AnnotationGitPath \<noteq> '''' then path_join (localFolder s) (anno a AnnotationGitPath)
         else localFolder s)"

definition GetGitResources ::
  "('w, 'v, 'm) hub_env \<Rightarrow> Subscription \<Rightarrow> bool \<Rightarrow> HubGitOps \<Rightarrow> 'w \<Rightarrow> 'w \<times> HubGitOps \<times> Subscription \<times> ObjectReference list goval" where
  "GetGitResources e s isAdmin h w =
     (case GetSubscriptionRefChannel (he_channel (hc_git e) w) s of
        Inl er \<Rightarrow> (w, h, s, Fail er)
      | Inr (None, sec) \<Rightarrow> (w, h, s, Crash NilDereference)
      | Inr (Some chn, sec) \<Rightarrow>
          (if \<not> IsGitChannel (ch_type chn) then (w, h, s, Ret [])
           else case GetLatestCommitID (hc_git e) s h w of
                  (w1, h1, Crash p) \<Rightarrow> (w1, h1, s, Crash p)
                | (w1, h1, Fail er) \<Rightarrow> (w1, h1, s, Fail er)
                | (w1, h1, Ret commit) \<Rightarrow>
                    (let s1 = s\<lparr>sub_annotations := Some (unnil (sub_annotations s))\<rparr>; oldCommit = getCommitID s1
                     in case GetRepoRootDirctory s1 h1 of
                          Crash p \<Rightarrow> (w1, h1, s1, Crash p)
                        | Fail er \<Rightarrow> (w1, h1, s1, Fail er)
                        | Ret baseDir \<Rightarrow>
                            (let resourcePath = hubResourcePath (he_folder (hc_git e)) s1
                             in if \<not> IsPathWithinRoot baseDir resourcePath then (w1, h1, s1, Fail (OtherError (escapesMsg resourcePath baseDir)))
                                else case processRepo e chn s1 (he_folder (hc_git e) s1) resourcePath baseDir isAdmin w1 of
                                       (w2, Ret refs) \<Rightarrow>
                                         (w2, h1, if oldCommit = '''' \<or> \<not> EqualFold oldCommit commit then setCommitID commit s1 else s1, Ret refs)
                                     | (w2, r) \<Rightarrow> (w2, h1, s1, r)))))"

section \<open>Resources of Helm charts\<close>

text \<open>The objects of a file that could be built, or else the file itself.\<close>

definition renderedRefs :: "('w, 'v, 'm) hub_env \<Rightarrow> 'w \<Rightarrow> HelmRelease \<Rightarrow> renderedFile \<Rightarrow> ObjectReference list" where
  "renderedRefs e w h f =
     (case hc_build e w (rd_content f) of
        Some infos \<Rightarrow> map (\<lambda>(kind, g, v, n, ns). \<lparr>xr_kind = kind, xr_namespace = ns, xr_name = n, xr_apiVersion = g @ ''/'' @ v\<rparr>) infos
      | None \<Rightarrow>
          (case rd_head f of
             None \<Rightarrow> []
           | Some (kind, version) \<Rightarrow> [\<lparr>xr_kind = kind, xr_namespace = hl_namespace h, xr_name = rd_name f, xr_apiVersion = version\<rparr>]))"

definition generateResourceList :: "('w, 'v, 'm) hub_env \<Rightarrow> 'w \<Rightarrow> HelmRelease \<Rightarrow> ObjectReference list" where
  "generateResourceList e w h = (case hc_render e w h of None \<Rightarrow> [] | Some files \<Rightarrow> concat (map (renderedRefs e w h) files))"

definition getHelmTopoResources :: "('w, 'v, 'm) hub_env \<Rightarrow> 'w \<Rightarrow> HelmRelease list \<Rightarrow> Subscription \<Rightarrow> bool \<Rightarrow> ObjectReference list" where
  "getHelmTopoResources e w helmRls s isAdmin =
     concat (map (\<lambda>h. map (homeRef s isAdmin) (filter (\<lambda>r. xr_kind r \<noteq> ''Namespace'') (generateResourceList e w h))) helmRls)"

section \<open>Resources of a bucket\<close>

text \<open>The handler of a channel and its bucket. Only the secret and the certificates of this channel are used.\<close>

definition hubObjectStore :: "('w, 'v, 'm) hub_env \<Rightarrow> 'w \<Rightarrow> Channel \<Rightarrow> ('w s3_client \<times> string) goval" where
  "hubObjectStore e w chn =
     (if ch_pathname chn = '''' then Fail (OtherError (''Empty Pathname in channel '' @ ch_pathname chn))
      else gbind (splitBucket (ch_pathname chn)) (\<lambda>(endpoint, bucket).
           gbind (lift_err (case ch_secretRef chn of
                     None \<Rightarrow> Inr ('''', '''', '''')
                   | Some (ns, n) \<Rightarrow>
                       (case he_secret (hc_git e) w (ch_namespace chn, n) of
                          Inl er \<Rightarrow> Inl (wrapErr ''failed to get reference secret from channel'' er)
                        | Inr d \<Rightarrow> storeKeys (ob_yamlStr (hc_bucket e)) (Some d)))) (\<lambda>(ak, sk, region).
             (let ca = (case ch_configMapRef chn of
                          None \<Rightarrow> ''''
                        | Some r \<Rightarrow> (case GetChannelConfigMap (he_configMap (hc_git e) w) chn of None \<Rightarrow> '''' | Some d \<Rightarrow> gm_str d ''caCerts''))
              in case InitObjectStoreConnection (ob_parses (hc_bucket e)) (ob_connect (hc_bucket e)) endpoint ak sk region
                        (if ch_insecure chn then ''true'' else ''false'') ca of
                   Inl er \<Rightarrow> Fail er
                 | Inr c \<Rightarrow> (case s3_head c w bucket of Some er \<Rightarrow> Fail er | None \<Rightarrow> Ret (c, bucket))))))"

definition bucketRefs :: "Subscription \<Rightarrow> bool \<Rightarrow> Unstructured list \<Rightarrow> ObjectReference list" where
  "bucketRefs s isAdmin us = map (homeRef s isAdmin \<circ> refOf) (filter (\<lambda>u. u_kind u \<noteq> ''Namespace'') us)"

definition processKustomizationForHub ::
  "('w, 'v, 'm) hub_env \<Rightarrow> string \<Rightarrow> string list \<Rightarrow> 'w s3_client \<Rightarrow> string \<Rightarrow> Subscription \<Rightarrow> bool \<Rightarrow> 'w \<Rightarrow> 'w \<times> ObjectReference list goval" where
  "processKustomizationForHub e dir keys c bucket s isAdmin w =
     (let (w', r) = ProcessKustomization (bucketKust (hc_bucket e) c bucket) dir keys (sp_packageOverrides (sub_spec s)) w
      in (w', gbind r (\<lambda>us. Ret (bucketRefs s isAdmin us))))"

fun hubKustomizeDirs ::
  "('w, 'v, 'm) hub_env \<Rightarrow> string list \<Rightarrow> 'w s3_client \<Rightarrow> string \<Rightarrow> Subscription \<Rightarrow> bool \<Rightarrow> string list \<Rightarrow> 'w
    \<Rightarrow> 'w \<times> (gopanic + ObjectReference list \<times> string list)" where
  "hubKustomizeDirs e keys c bucket s isAdmin [] w = (w, Inr ([], []))"
| "hubKustomizeDirs e keys c bucket s isAdmin (d # ds) w =
     (case processKustomizationForHub e d keys c bucket s isAdmin w of
        (w', Crash p) \<Rightarrow> (w', Inl p)
      | (w', r) \<Rightarrow>
          (case hubKustomizeDirs e keys c bucket s isAdmin ds w' of
             (w'', Inl p) \<Rightarrow> (w'', Inl p)
           | (w'', Inr (refs, msgs)) \<Rightarrow>
               (w'', Inr (case r of Ret rs \<Rightarrow> (rs @ refs, msgs)
                          | Fail er \<Rightarrow> (refs, (''kustomization error in '' @ d @ '': '' @ err_msg er) # msgs)
                          | Crash p \<Rightarrow> (refs, msgs)))))"

text \<open>The objects that can be read and decoded, and the errors of those that cannot be read.\<close>

fun hubBucketFiles :: "('w, 'v, 'm) hub_env \<Rightarrow> 'w \<Rightarrow> 'w s3_client \<Rightarrow> string \<Rightarrow> string list \<Rightarrow> Unstructured list \<times> string list" where
  "hubBucketFiles e w c bucket [] = ([], [])"
| "hubBucketFiles e w c bucket (key # ks) =
     (let (us, msgs) = hubBucketFiles e w c bucket ks
      in case s3_get c w bucket key of
           Inl er \<Rightarrow> (us, (''failed to get object '' @ key @ '': '' @ err_msg er) # msgs)
         | Inr content \<Rightarrow>
             (if length content = 0 then (us, msgs)
              else case hc_decode e content of Inl er \<Rightarrow> (us, msgs) | Inr u \<Rightarrow> (u # us, msgs)))"

definition getObjectBucketResources ::
  "('w, 'v, 'm) hub_env \<Rightarrow> Subscription \<Rightarrow> Channel \<Rightarrow> Channel option \<Rightarrow> bool \<Rightarrow> 'w \<Rightarrow> 'w \<times> ObjectReference list goval" where
  "getObjectBucketResources e s chn secondary isAdmin w =
     (case (case hubObjectStore e w chn of
              Fail er \<Rightarrow> (case secondary of None \<Rightarrow> Fail er | Some chn2 \<Rightarrow> hubObjectStore e w chn2)
            | r \<Rightarrow> r) of
        Crash p \<Rightarrow> (w, Crash p)
      | Fail er \<Rightarrow> (w, Fail er)
      | Ret (c, bucket) \<Rightarrow>
          (case ListObjects c w bucket (bucketFolder s) of
             Inl er \<Rightarrow> (w, Fail er)
           | Inr keys \<Rightarrow>
               (let (dirs, files) = CategorizeObjectsForKustomization keys
                in case hubKustomizeDirs e keys c bucket s isAdmin (map fst dirs) w of
                     (w', Inl p) \<Rightarrow> (w', Crash p)
                   | (w', Inr (refs, msgs)) \<Rightarrow>
                       (let (us, msgs2) = hubBucketFiles e w' c bucket files
                        in (w', if msgs @ msgs2 \<noteq> [] then Fail (OtherError (go_join (CHR '','') (msgs @ msgs2)))
                                else Ret (refs @ bucketRefs s isAdmin us))))))"

section \<open>The report of a subscription\<close>

definition IsNamespacedResource :: "('w, 'v, 'm) hub_env \<Rightarrow> string \<Rightarrow> string \<Rightarrow> string \<Rightarrow> bool" where
  "IsNamespacedResource e g v kind = (case hc_namespaced e g v kind of None \<Rightarrow> True | Some b \<Rightarrow> b)"

definition scopedRef :: "('w, 'v, 'm) hub_env \<Rightarrow> ObjectReference \<Rightarrow> ObjectReference" where
  "scopedRef e r =
     (let (g, v) = ParseAPIVersion (xr_apiVersion r)
      in if g = '''' \<and> v = '''' then r
         else if \<not> IsNamespacedResource e g v (xr_kind r) then r\<lparr>xr_namespace := ''''\<rparr> else r)"

definition atoi0 :: "string \<Rightarrow> int" where
  "atoi0 s = (case go_atoi s of None \<Rightarrow> 0 | Some i \<Rightarrow> i)"

text \<open>The owner reference of a new report is not part of the record.\<close>

definition newAppReport :: "Subscription \<Rightarrow> ObjectReference list \<Rightarrow> int \<Rightarrow> int \<Rightarrow> SubscriptionReport" where
  "newAppReport s refs failedCount clusterCount =
     \<lparr>rp_name = sub_name s, rp_namespace = sub_namespace s,
      rp_labels = [(AnnotationHosting, take 63 (sub_namespace s @ ''.'' @ sub_name s))], rp_type = ''Application'',
      rp_summary = \<lparr>rs_deployed = ''0'', rs_inProgress = (if failedCount > 0 then ''0'' else show_int clusterCount), rs_failed = ''0'',
        rs_propagationFailed = show_int failedCount, rs_clusters = show_int clusterCount\<rparr>,
      rp_results = [], rp_resources = map refJson refs\<rparr>"

definition updateAppReport :: "SubscriptionReport \<Rightarrow> ObjectReference list \<Rightarrow> int \<Rightarrow> int \<Rightarrow> SubscriptionReport" where
  "updateAppReport rp refs failedCount clusterCount =
     (let sm = rp_summary rp
      in rp\<lparr>rp_resources := map refJson refs,
            rp_summary := sm\<lparr>rs_inProgress := show_int (clusterCount - atoi0 (rs_deployed sm) - atoi0 (rs_failed sm)),
              rs_propagationFailed := show_int failedCount, rs_clusters := show_int clusterCount\<rparr>\<rparr>)"

definition createAppAppsubReport ::
  "('w, 'v, 'm) hub_env \<Rightarrow> Subscription \<Rightarrow> ObjectReference list \<Rightarrow> int \<Rightarrow> int \<Rightarrow> 'w \<Rightarrow> 'w \<times> kerr option" where
  "createAppAppsubReport e s resources failedCount clusterCount w =
     (let refs = map (scopedRef e) resources; c = pe_reports (hc_prop e)
      in case rpc_get c w (subKey s) of
           Inl er \<Rightarrow> (if IsNotFound er then rpc_create c w (newAppReport s refs failedCount clusterCount) else (w, Some er))
         | Inr rp \<Rightarrow> (if failedCount > 0 then (w, None) else rpc_update c w (updateAppReport rp refs failedCount clusterCount)))"

section \<open>Propagation of a subscription\<close>

definition AddAppLabels :: "Subscription \<Rightarrow> Subscription" where
  "AddAppLabels s =
     (let l = unnil (sub_labels s); part = ''app.kubernetes.io/part-of'';
          put = (\<lambda>k v m. if gm_str m k \<noteq> v then gm_put k v m else m)
      in s\<lparr>sub_labels := Some (if gm_str l ''app'' \<noteq> '''' then put part (gm_str l ''app'') l
                              else put ''app'' (sub_name s) (put part (sub_name s) l))\<rparr>)"

definition channelLabel :: "Channel \<Rightarrow> Subscription \<Rightarrow> Subscription" where
  "channelLabel chn s =
     (let level = anno (ch_annotations chn) AnnotationResourceReconcileLevel
      in if level \<noteq> '''' then s\<lparr>sub_labels := Some (gm_put AnnotationResourceReconcileLevel level (unnil (sub_labels s)))\<rparr> else s)"

text \<open>The resources by the type of the primary channel; another type has none.\<close>

definition hubResources ::
  "('w, 'v, 'm) hub_env \<Rightarrow> Channel \<Rightarrow> Channel option \<Rightarrow> Subscription \<Rightarrow> bool \<Rightarrow> HubGitOps \<Rightarrow> 'w
    \<Rightarrow> 'w \<times> HubGitOps \<times> Subscription \<times> ObjectReference list goval" where
  "hubResources e chn secondary s isAdmin h w =
     (let tp = go_lower (ch_type chn)
      in if tp = ''git'' \<or> tp = ''github'' then GetGitResources e s isAdmin h w
         else if tp = ''helmrepo'' then
           (w, h, s, gbind (GetSubscriptionChartsOnHub (hc_helm e) w chn secondary s) (\<lambda>rls. Ret (getHelmTopoResources e w rls s isAdmin)))
         else if tp = ''objectbucket'' then (let (w', r) = getObjectBucketResources e s chn secondary isAdmin w in (w', h, s, r))
         else (w, h, s, Ret []))"

definition propagateTo ::
  "('w, 'v, 'm) hub_env \<Rightarrow> HubSub \<Rightarrow> ManageClusters list \<Rightarrow> HubGitOps \<Rightarrow> 'w \<Rightarrow> 'w \<times> HubGitOps \<times> HubSub \<times> unit goval" where
  "propagateTo e x clusters h w =
     (case PropagateAppSubManifestWork (hc_prop e) (hs_sub x) clusters w of
        (w', s', Some er) \<Rightarrow> (w', h, x\<lparr>hs_sub := s'\<rparr>, Fail er)
      | (w', s', None) \<Rightarrow> (w', h, x\<lparr>hs_sub := s'\<rparr>, Ret ()))"

definition reportAndPropagate ::
  "('w, 'v, 'm) hub_env \<Rightarrow> HubSub \<Rightarrow> ObjectReference list \<Rightarrow> HubGitOps \<Rightarrow> 'w \<Rightarrow> 'w \<times> HubGitOps \<times> HubSub \<times> unit goval" where
  "reportAndPropagate e x refs h w =
     (if refs = [] then (w, h, x, Ret ())
      else case getClustersByPlacement (hc_prop e) w x of
             Inl er \<Rightarrow> (let (w', r) = createAppAppsubReport e (hs_sub x) refs 1 1 w in (w', h, x, Fail er))
           | Inr clusters \<Rightarrow>
               (case createAppAppsubReport e (hs_sub x) refs 0 (int (length clusters)) w of
                  (w', Some er) \<Rightarrow> (w', h, x, Fail er)
                | (w', None) \<Rightarrow> propagateTo e x clusters h w'))"

text \<open>The subscription is changed in place: labels, annotations and the commit.\<close>

definition doMCMHubReconcile ::
  "('w, 'v, 'm) hub_env \<Rightarrow> HubSub \<Rightarrow> HubGitOps \<Rightarrow> 'w \<Rightarrow> 'w \<times> HubGitOps \<times> HubSub \<times> unit goval" where
  "doMCMHubReconcile e x h w =
     (case GetSubscriptionRefChannel (he_channel (hc_git e) w) (hs_sub x) of
        Inl er \<Rightarrow> (w, h, x, Fail er)
      | Inr (chn, sec) \<Rightarrow>
          (if chn \<noteq> None \<and> sec \<noteq> None \<and> ch_type (the chn) \<noteq> ch_type (the sec)
           then (w, h, x, Fail (OtherError (''the type of primary and secondary channels is different. primary channel type: '' @ ch_type (the chn)
                                            @ '', secondary channel type: '' @ ch_type (the sec))))
           else case chn of
                  None \<Rightarrow> (w, h, x, Crash NilDereference)
                | Some primary \<Rightarrow>
                    (let (s1, isAdmin) = AddClusterAdminAnnotation (pe_admin (hc_prop e) w) (channelLabel primary (hs_sub x));
                         s2 = AddAppLabels s1
                     in if shouldSkipHubValidation s2 then
                          (case getClustersByPlacement (hc_prop e) w (x\<lparr>hs_sub := s2\<rparr>) of
                             Inl er \<Rightarrow> (w, h, x\<lparr>hs_sub := s2\<rparr>, Fail er)
                           | Inr clusters \<Rightarrow> propagateTo e (x\<lparr>hs_sub := s2\<rparr>) clusters h w)
                        else case hubResources e primary sec s2 isAdmin h w of
                               (w', h', s3, Crash p) \<Rightarrow> (w', h', x\<lparr>hs_sub := s3\<rparr>, Crash p)
                             | (w', h', s3, Fail er) \<Rightarrow> (w', h', x\<lparr>hs_sub := s3\<rparr>, Fail er)
                             | (w', h', s3, Ret refs) \<Rightarrow> reportAndPropagate e (x\<lparr>hs_sub := s3\<rparr>) refs h' w')))"

end
