(* ===== verification/HubController.thy ===== *)
theory HubController
  imports HubResources
begin

text \<open>
  The controller of subscriptions on the hub (\<open>pkg/controller/mcmhub/mcmhub_controller.go\<close>): one reconcile, with the
  deferred commit at its end. The state of the process is the Git registry and the registry of hooks;
  everything else is in the world. A panic is the end of a reconcile: what its deferred commit would
  still do is not modelled. Metrics and logs are left out.
\<close>

section \<open>Data\<close>

definition placementDecisionFlag :: string where "placementDecisionFlag = ''--fired-by-placementdecision''"
definition subscriptionActive :: string where "subscriptionActive = ''Active''"
definition subscriptionBlock :: string where "subscriptionBlock = ''Blocked''"
definition SubscriptionPropagationFailed :: string where "SubscriptionPropagationFailed = ''PropagationFailed''"
definition SubscriptionPropagated :: string where "SubscriptionPropagated = ''Propagated''"
definition PreHookSucessful :: string where "PreHookSucessful = ''PreHookSucessful''"
definition defaulRequeueInterval :: duration where "defaulRequeueInterval = 15 * 1000000000"

record hub_state =
  hb_git :: HubGitOps
  hb_hooks :: hook_registry

text \<open>What the deferred commit sees: the flags, the error of the phase before, the subscription and the result so far.\<close>

record commit =
  cs_branch :: bool
  cs_prehook :: bool
  cs_preErr :: "string option"
  cs_ins :: HubSub
  cs_local :: bool
  cs_after :: duration

definition plainCommit :: "HubSub \<Rightarrow> commit" where
  "plainCommit x = \<lparr>cs_branch = True, cs_prehook = True, cs_preErr = None, cs_ins = x, cs_local = False, cs_after = 0\<rparr>"

definition setStatus :: "(SubscriptionStatus \<Rightarrow> SubscriptionStatus) \<Rightarrow> HubSub \<Rightarrow> HubSub" where
  "setStatus f x = x\<lparr>hs_sub := (hs_sub x)\<lparr>sub_status := f (sub_status (hs_sub x))\<rparr>\<rparr>"

section \<open>The request\<close>

text \<open>\<open>strings.LastIndex\<close> of a separator that is not empty.\<close>

fun last_index :: "string \<Rightarrow> string \<Rightarrow> nat option" where
  "last_index sep s =
     (case s of
        [] \<Rightarrow> (if sep = [] then Some 0 else None)
      | c # cs \<Rightarrow> (case last_index sep cs of Some i \<Rightarrow> Some (Suc i) | None \<Rightarrow> if HasPrefix s sep then Some 0 else None))"

definition substringAfter :: "string \<Rightarrow> string \<Rightarrow> string" where
  "substringAfter value a =
     (case last_index a value of
        None \<Rightarrow> ''''
      | Some pos \<Rightarrow> if pos + length a \<ge> length value then '''' else drop (pos + length a) value)"

text \<open>A request that a placement decision fired carries its resource version in the name.\<close>

definition parseRequest :: "nsname \<Rightarrow> nsname \<times> bool \<times> string" where
  "parseRequest req =
     (let n = snd req
      in if go_contains n placementDecisionFlag
         then (let rv = substringAfter n placementDecisionFlag
               in ((fst req, TrimSuffix (TrimSuffix n rv) placementDecisionFlag), True, rv))
         else (req, False, ''''))"

section \<open>Phases of a reconcile\<close>

text \<open>A missing annotation map cannot be written.\<close>

definition overridePrehookTopoAnnotation :: "hook_registry \<Rightarrow> HubSub \<Rightarrow> HubSub goval" where
  "overridePrehookTopoAnnotation a x =
     (case sub_annotations (hs_sub x) of
        None \<Rightarrow> Crash NilMap
      | Some m \<Rightarrow> Ret (x\<lparr>hs_sub := (hs_sub x)\<lparr>sub_annotations := Some (gm_put AnnotationTopo (fst (GetLastAppliedInstance a (subKey (hs_sub x)))) m)\<rparr>\<rparr>))"

datatype phase = Proceed HubSub "string option" | Stop commit | Abort gopanic

definition notReady :: "nsname \<Rightarrow> string" where
  "notReady key = ''prehook for '' @ nsname_string key @ '' is not ready ''"

text \<open>When prehooks are not completed the reconcile stops; an error of the check stops it as well, with the flag still set.\<close>

definition prehookPhase ::
  "('w, 'v, 'm) hub_env \<Rightarrow> nsname \<Rightarrow> hook_registry \<Rightarrow> HubSub \<Rightarrow> 'w \<Rightarrow> 'w \<times> phase" where
  "prehookPhase e key a x w =
     (if \<not> HasHooks a PreHookType key then (w, Proceed x None)
      else case ApplyPreHooks (hc_hooks e) a key w of
             (w1, Some er) \<Rightarrow> (w1, Stop ((plainCommit x)\<lparr>cs_prehook := False, cs_preErr := Some (notReady key)\<rparr>))
           | (w1, None) \<Rightarrow>
               (case IsPreHooksCompleted (hc_hooks e) a key w1 of
                  Inr True \<Rightarrow>
                    (w1, Proceed (setStatus (\<lambda>st. st\<lparr>st_phase := PreHookSucessful, st_reason := '''', st_time := hc_now e w1, st_statuses := Some []\<rparr>) x)
                           (Some (notReady key)))
                | r \<Rightarrow>
                    (w1, case overridePrehookTopoAnnotation a x of
                           Crash p \<Rightarrow> Abort p
                         | Fail er \<Rightarrow> Abort NilDereference
                         | Ret x1 \<Rightarrow>
                             (case r of
                                Inl er \<Rightarrow> Stop ((plainCommit x1)\<lparr>cs_preErr := Some (notReady key)\<rparr>)
                              | Inr b \<Rightarrow> Stop ((plainCommit x1)\<lparr>cs_prehook := False, cs_preErr := Some (notReady key), cs_after := hc_requeue e\<rparr>)))))"

definition gitPhase ::
  "('w, 'v, 'm) hub_env \<Rightarrow> nsname \<Rightarrow> bool \<Rightarrow> string \<Rightarrow> hub_state \<Rightarrow> HubSub \<Rightarrow> 'w \<Rightarrow> 'w \<times> hub_state \<times> phase" where
  "gitPhase e key upd rv st x w =
     (case RegisterBranch (hc_git e) (hs_sub x) (hb_git st) w of
        (w1, h1, Crash p) \<Rightarrow> (w1, st\<lparr>hb_git := h1\<rparr>, Abort p)
      | (w1, h1, Fail er) \<Rightarrow>
          (w1, st\<lparr>hb_git := h1\<rparr>,
           Stop ((plainCommit x)\<lparr>cs_branch := False, cs_preErr := Some (''failed to initialize Git connection, err: '' @ err_msg er)\<rparr>))
      | (w1, h1, Ret u) \<Rightarrow>
          (case RegisterSubscription (hc_hooks e) x upd rv h1 (hb_hooks st) w1 of
             (w2, h2, a2, Crash p) \<Rightarrow> (w2, \<lparr>hb_git = h2, hb_hooks = a2\<rparr>, Abort p)
           | (w2, h2, a2, Fail er) \<Rightarrow>
               (w2, \<lparr>hb_git = h2, hb_hooks = a2\<rparr>,
                Stop ((plainCommit x)\<lparr>cs_prehook := False, cs_preErr := Some (''failed to register hooks, err: '' @ err_msg er)\<rparr>))
           | (w2, h2, a2, Ret u) \<Rightarrow> (let (w3, ph) = prehookPhase e key a2 x w2 in (w3, \<lparr>hb_git = h2, hb_hooks = a2\<rparr>, ph))))"

text \<open>Propagation, and its outcome in the status.\<close>

definition propagationPhase ::
  "('w, 'v, 'm) hub_env \<Rightarrow> hub_state \<Rightarrow> HubSub \<Rightarrow> string option \<Rightarrow> 'w \<Rightarrow> 'w \<times> hub_state \<times> (gopanic + commit)" where
  "propagationPhase e st x preErr w =
     (case doMCMHubReconcile e x (hb_git st) w of
        (w', h', x', Crash p) \<Rightarrow> (w', st\<lparr>hb_git := h'\<rparr>, Inl p)
      | (w', h', x', Fail er) \<Rightarrow>
          (w', st\<lparr>hb_git := h'\<rparr>,
           Inr ((plainCommit (setStatus (\<lambda>s. s\<lparr>st_phase := SubscriptionPropagationFailed, st_reason := err_msg er, st_statuses := None\<rparr>) x'))
                  \<lparr>cs_preErr := Some (err_msg er)\<rparr>))
      | (w', h', x', Ret u) \<Rightarrow>
          (w', st\<lparr>hb_git := h'\<rparr>,
           Inr ((plainCommit (setStatus (\<lambda>s. s\<lparr>st_phase := SubscriptionPropagated, st_message := '''', st_reason := ''''\<rparr>) x'))
                  \<lparr>cs_preErr := preErr\<rparr>)))"

definition remotePlacement :: "Placement \<Rightarrow> bool" where
  "remotePlacement pl \<longleftrightarrow> pl_ref pl \<noteq> None \<or> pl_clusters pl \<noteq> None \<or> pl_selector pl \<noteq> None"

definition failStatus :: "string \<Rightarrow> HubSub \<Rightarrow> HubSub" where
  "failStatus reason = setStatus (\<lambda>s. s\<lparr>st_phase := SubscriptionPropagationFailed, st_reason := reason\<rparr>)"

definition hubPhase ::
  "('w, 'v, 'm) hub_env \<Rightarrow> nsname \<Rightarrow> bool \<Rightarrow> string \<Rightarrow> hub_state \<Rightarrow> HubSub \<Rightarrow> 'w \<Rightarrow> 'w \<times> hub_state \<times> (gopanic + commit)" where
  "hubPhase e key upd rv st x w =
     (case GetSubscriptionRefChannel (he_channel (hc_git e) w) (hs_sub x) of
        Inl er \<Rightarrow> (w, st, Inr (plainCommit (failStatus (''Failed to find channel: '' @ err_msg er) x)))
      | Inr (None, sec) \<Rightarrow> (w, st, Inl NilDereference)
      | Inr (Some chn, sec) \<Rightarrow>
          (if EqualFold (ch_type chn) ''Git'' \<or> EqualFold (ch_type chn) ''GitHub''
           then (case gitPhase e key upd rv st x w of
                   (w', st', Abort p) \<Rightarrow> (w', st', Inl p)
                 | (w', st', Stop c) \<Rightarrow> (w', st', Inr c)
                 | (w', st', Proceed x' pe) \<Rightarrow> propagationPhase e st' x' pe w')
           else propagationPhase e st x None w))"

text \<open>A subscription of the hub itself: its works go, and so do the statuses of other clusters.\<close>

definition localPhase :: "('w, 'v, 'm) hub_env \<Rightarrow> HubSub \<Rightarrow> 'w \<Rightarrow> ('w \<times> commit) option" where
  "localPhase e x w =
     (let x1 = (if st_phase (sub_status (hs_sub x)) \<noteq> SubscriptionFailed \<and> st_phase (sub_status (hs_sub x)) \<noteq> SubscriptionSubscribed
                then setStatus (\<lambda>s. s\<lparr>st_phase := '''', st_message := '''', st_reason := ''''\<rparr>) x else x);
          x2 = setStatus (\<lambda>s. s\<lparr>st_statuses := map_option (filter (\<lambda>(k, v). k = ''/'')) (st_statuses s)\<rparr>) x1;
          c = (plainCommit x2)\<lparr>cs_local := True\<rparr>
      in if IsHostingAppsub (hs_sub x) then Some (w, c)
         else map_option (\<lambda>(w', er). (w', c)) (cleanupManifestWork (hc_prop e) (subKey (hs_sub x)) w))"

text \<open>\<open>None\<close> means that the clean-up does not end.\<close>

definition reconcilePhase ::
  "('w, 'v, 'm) hub_env \<Rightarrow> nsname \<Rightarrow> bool \<Rightarrow> string \<Rightarrow> hub_state \<Rightarrow> HubSub \<Rightarrow> 'w \<Rightarrow> ('w \<times> hub_state \<times> (gopanic + commit)) option" where
  "reconcilePhase e key upd rv st x w =
     (case hs_placement x of
        None \<Rightarrow> Some (w, st, Inr (plainCommit (failStatus ''Placement must be specified'' x)))
      | Some pl \<Rightarrow>
          (if remotePlacement pl \<and> pl_local pl = Some True
           then Some (w, st, Inr (plainCommit (failStatus ''local placement and remote placement cannot be used together'' x)))
           else if remotePlacement pl then Some (hubPhase e key upd rv st x w)
           else map_option (\<lambda>(w', c). (w', st, Inr c)) (localPhase e x w)))"

section \<open>The commit\<close>

definition IsSubscriptionCompleted :: "('w, 'v, 'm) hub_env \<Rightarrow> nsname \<Rightarrow> 'w \<Rightarrow> bool goval" where
  "IsSubscriptionCompleted e key w =
     (case he_getSub (hc_git e) w key of
        Inl er \<Rightarrow> (if IsNotFound er then Ret True else Fail er)
      | Inr x \<Rightarrow>
          (if st_phase (sub_status (hs_sub x)) \<in> {SubscriptionPropagationFailed, SubscriptionFailed, ''''} then Ret False
           else case hs_placement x of
                  None \<Rightarrow> Crash NilDereference
                | Some pl \<Rightarrow>
                    (if pl_local pl = Some True then Ret True
                     else lift_err (rbind (rpc_get (pe_reports (hc_prop e)) w key) (\<lambda>rp.
                            (let sm = rp_summary rp; atoi = (\<lambda>s. case go_atoi s of None \<Rightarrow> Inl (OtherError (''strconv.Atoi: '' @ s)) | Some i \<Rightarrow> Inr i)
                             in if rs_clusters sm = ''0'' then Inr False
                                else rbind (atoi (rs_clusters sm)) (\<lambda>numClusters.
                                     rbind (atoi (rs_deployed sm)) (\<lambda>numDeployed.
                                     rbind (atoi (rs_inProgress sm)) (\<lambda>numInProgress.
                                       Inr (\<not> numDeployed + numInProgress \<noteq> numClusters \<and> \<not> numInProgress > 0))))))))))"

definition orDefault :: "duration \<Rightarrow> duration" where
  "orDefault d = (if d = 0 then defaulRequeueInterval else d)"

text \<open>
  A status that has changed is patched: the result is whether the patch failed for another reason than
  a missing object, and \<open>None\<close> when there was nothing to patch.
\<close>

definition patchIfChanged :: "('w, 'v, 'm) hub_env \<Rightarrow> HubSub \<Rightarrow> HubSub \<Rightarrow> 'w \<Rightarrow> 'w \<times> HubSub \<times> bool option" where
  "patchIfChanged e o' n w =
     (if \<not> IsHubRelatedStatusChanged (sub_status (hs_sub o')) (sub_status (hs_sub n)) then (w, n, None)
      else (let n1 = setStatus (\<lambda>s. s\<lparr>st_time := hc_now e w\<rparr>) n
            in case hc_patchStatus e w n1 o' of
                 (w', Inr n2) \<Rightarrow> (w', n2, Some False)
               | (w', Inl er) \<Rightarrow> (w', n1, Some (\<not> IsNotFound er))))"

definition prehookStatus :: "hook_registry \<Rightarrow> string \<Rightarrow> HubSub \<Rightarrow> HubSub" where
  "prehookStatus a reason n =
     setStatus (\<lambda>s. (AppendPreHookStatusToSubscription a (hs_sub n))\<lparr>st_phase := SubscriptionPropagationFailed, st_reason := reason, st_statuses := Some []\<rparr>) n"

definition posthookCommit ::
  "('w, 'v, 'm) hub_env \<Rightarrow> nsname \<Rightarrow> hook_registry \<Rightarrow> HubSub \<Rightarrow> HubSub \<Rightarrow> duration \<Rightarrow> 'w \<Rightarrow> 'w \<times> HubSub \<times> duration goval" where
  "posthookCommit e key a o' n d w =
     (if \<not> HasHooks a PostHookType key then (w, n, Ret d)
      else case IsSubscriptionCompleted e key w of
             Crash p \<Rightarrow> (w, n, Crash p)
           | Ret True \<Rightarrow>
               (let w1 = fst (ApplyPostHooks (hc_hooks e) a key w)
                in case patchIfChanged e o' (setStatus (\<lambda>s. AppendStatusToSubscription a (hs_sub n)) n) w1 of
                     (w2, n2, Some True) \<Rightarrow> (w2, n2, Ret (orDefault d))
                   | (w2, n2, r) \<Rightarrow> (w2, n2, Ret d))
           | _ \<Rightarrow> (w, n, Ret (hc_requeue e)))"

definition statusCommit ::
  "('w, 'v, 'm) hub_env \<Rightarrow> nsname \<Rightarrow> hook_registry \<Rightarrow> commit \<Rightarrow> HubSub \<Rightarrow> HubSub \<Rightarrow> 'w \<Rightarrow> 'w \<times> HubSub \<times> duration goval" where
  "statusCommit e key a c o' n w =
     (case (if \<not> cs_prehook c then map_option (\<lambda>er. prehookStatus a er n) (cs_preErr c)
            else Some (setStatus (\<lambda>s. AppendStatusToSubscription a (hs_sub n)) n)) of
        None \<Rightarrow> (w, n, Crash NilDereference)
      | Some n1 \<Rightarrow>
          (case patchIfChanged e o' n1 w of
             (w', n2, Some b) \<Rightarrow> (w', n2, Ret (orDefault (cs_after c)))
           | (w', n2, None) \<Rightarrow>
               (if \<not> cs_prehook c then (w', n2, Ret (hc_requeue e)) else posthookCommit e key a o' n2 (cs_after c) w')))"

definition finalCommit ::
  "('w, 'v, 'm) hub_env \<Rightarrow> nsname \<Rightarrow> hook_registry \<Rightarrow> commit \<Rightarrow> HubSub \<Rightarrow> 'w \<Rightarrow> 'w \<times> HubSub \<times> duration goval" where
  "finalCommit e key a c o' w =
     (let n = cs_ins c
      in if cs_local c then (w, n, Ret 0)
         else if sub_name (hs_sub n) = '''' \<or> (case sub_deleted (hs_sub o') of None \<Rightarrow> False | Some t \<Rightarrow> t \<noteq> 0) then (w, n, Ret (cs_after c))
         else case (case sp_timewindow (sub_spec (hs_sub n)) of
                      None \<Rightarrow> Inr True
                    | Some tw \<Rightarrow> IsInWindow (hc_tz e) (fst (hc_clock e w)) (Some tw) (snd (hc_clock e w))) of
                Inl p \<Rightarrow> (w, n, Crash p)
              | Inr active \<Rightarrow>
                  (let n1 = setStatus (\<lambda>s. s\<lparr>st_message := (if active then subscriptionActive else subscriptionBlock)\<rparr>) n
                   in if \<not> cs_branch c then
                        (case cs_preErr c of
                           None \<Rightarrow> (w, n1, Crash NilDereference)
                         | Some er \<Rightarrow>
                             (case patchIfChanged e o' (prehookStatus a er n1) w of
                                (w', n2, Some True) \<Rightarrow> (w', n2, Ret (orDefault (cs_after c)))
                              | (w', n2, r) \<Rightarrow> (w', n2, Ret (cs_after c))))
                      else if IsSubscriptionBasicChanged (hs_sub o') (hs_sub n1) then
                        (fst (he_updateSub (hc_git e) w n1), n1, Ret (orDefault (cs_after c)))
                      else statusCommit e key a c o' n1 w))"

text \<open>
  The reconcile of a request: \<open>None\<close> means that it does not return, \<open>Crash\<close> that it panics. The error of the
  propagation is not returned to the queue: it is overwritten by the return statement.
\<close>

definition shareLast :: "HubSub \<Rightarrow> hook_registry \<Rightarrow> hook_registry" where
  "shareLast x a = map (\<lambda>(k, hk). (k, if hk_shared hk then hk\<lparr>hk_lastSub := x, hk_shared := False\<rparr> else hk)) a"

definition commitPhase ::
  "('w, 'v, 'm) hub_env \<Rightarrow> nsname \<Rightarrow> HubSub \<Rightarrow> 'w \<times> hub_state \<times> (gopanic + commit) \<Rightarrow> 'w \<times> hub_state \<times> duration goval" where
  "commitPhase e key o' = (\<lambda>(w, st, r).
     case r of
       Inl p \<Rightarrow> (w, st, Crash p)
     | Inr c \<Rightarrow>
         (case finalCommit e key (hb_hooks st) c o' w of
            (w', n, d) \<Rightarrow> (w', st\<lparr>hb_hooks := shareLast n (hb_hooks st)\<rparr>, d)))"

definition hubReconcileSub ::
  "('w, 'v, 'm) hub_env \<Rightarrow> nsname \<Rightarrow> hub_state \<Rightarrow> 'w \<Rightarrow> ('w \<times> hub_state \<times> duration goval) option" where
  "hubReconcileSub e req st w =
     (let (key, upd, rv) = parseRequest req
      in case he_getSub (hc_git e) w key of
           Inl er \<Rightarrow>
             (if IsNotFound er
              then map_option (\<lambda>(w', cleanupErr). (w', \<lparr>hb_git = DeregisterBranch key (hb_git st), hb_hooks = DeregisterSubscription key (hb_hooks st)\<rparr>, Ret 0))
                     (cleanupManifestWork (hc_prop e) key w)
              else Some (w, st, Fail er))
         | Inr x \<Rightarrow> map_option (commitPhase e key x) (reconcilePhase e key upd rv st x w))"

section \<open>Requests\<close>

definition AnnotationRollingUpdateTarget :: string where "AnnotationRollingUpdateTarget = group @ ''/rollingupdate-target''"

text \<open>
  What is reconciled when a subscription, a channel or a placement decision changes; \<open>subs\<close> are the
  subscriptions that the list gives, none when it fails.
\<close>

definition subscriptionMapper :: "Subscription list \<Rightarrow> Subscription \<Rightarrow> nsname list" where
  "subscriptionMapper subs obj =
     [subKey obj]
     @ map subKey (filter (\<lambda>s. anno (sub_annotations s) AnnotationRollingUpdateTarget \<noteq> '''' \<and> anno (sub_annotations s) AnnotationRollingUpdateTarget = sub_name obj) subs)
     @ (case GetHostSubscriptionFromObject (sub_annotations obj) of None \<Rightarrow> [] | Some k \<Rightarrow> if snd k \<noteq> '''' then [k] else [])"

definition channelMapper :: "Subscription list \<Rightarrow> nsname \<Rightarrow> nsname list" where
  "channelMapper subs chn =
     (let name = fst chn @ ''/'' @ snd chn
      in map subKey (filter (\<lambda>s. sp_channel (sub_spec s) = name \<or> sp_secondary (sub_spec s) = name) subs))"

text \<open>\<open>readable\<close> says that reading the decision gives no error other than that it is missing.\<close>

definition placementDecisionMapper :: "HubSub list \<Rightarrow> bool \<Rightarrow> strmap \<Rightarrow> string \<Rightarrow> string \<Rightarrow> nsname list" where
  "placementDecisionMapper subs readable labels ns rv =
     (let placementName = (if gm_str labels placementLabel = '''' then gm_str labels placementRuleLabel else gm_str labels placementLabel)
      in if placementName = '''' then []
         else concat (map (\<lambda>x. case (case hs_placement x of None \<Rightarrow> None | Some p \<Rightarrow> pl_ref p) of
                                 None \<Rightarrow> []
                               | Some r \<Rightarrow>
                                   (let refNs = (if pref_namespace r = '''' then sub_namespace (hs_sub x) else pref_namespace r)
                                    in if pref_name r \<noteq> placementName \<or> refNs \<noteq> ns \<or> \<not> readable then []
                                       else [(sub_namespace (hs_sub x), sub_name (hs_sub x) @ placementDecisionFlag @ rv)])) subs))"

end
