(* ===== verification/SummaryFacts.thy ===== *)
theory SummaryFacts
  imports AppSubSummary HubController
begin

text \<open>
  The summary of application reports: the collected numbers are exact, every report gets those of
  its subscription, the number of views is bounded, and the check for a complete deployment reads the
  summary back as it was meant.
\<close>

section \<open>The collected numbers\<close>

definition entries :: "SubscriptionReport list \<Rightarrow> string \<Rightarrow> AppSubClusterStatus list" where
  "entries reports src =
     concat (map (\<lambda>rp. map (\<lambda>r. \<lparr>ac_cluster = rp_namespace rp, ac_phase = rr_result r\<rparr>) (filter (\<lambda>r. rr_source r = src) (rp_results rp))) reports)"

definition inPhase :: "string \<Rightarrow> AppSubClusterStatus list \<Rightarrow> int" where
  "inPhase p cs = int (length (filter (\<lambda>c. ac_phase c = p) cs))"

definition tally :: "AppSubClusterStatus list \<Rightarrow> AppSubClustersStatus" where
  "tally cs = \<lparr>ts_clusters = cs, ts_deployed = inPhase ''deployed'' cs, ts_failed = inPhase ''failed'' cs,
     ts_propagationFailed = inPhase ''propagationFailed'' cs\<rparr>"

text \<open>What a table says of the sources, when it has exactly the given entries.\<close>

definition tallies :: "(string \<Rightarrow> AppSubClusterStatus list) \<Rightarrow> string \<Rightarrow> AppSubClustersStatus option" where
  "tallies f src = (if ParseNamespacedName src = ('''', '''') \<or> f src = [] then None else Some (tally (f src)))"

lemma tally_step: "(countPhase p t)\<lparr>ts_clusters := ts_clusters (countPhase p t) @ [\<lparr>ac_cluster = c, ac_phase = p\<rparr>]\<rparr> = tally (cs @ [\<lparr>ac_cluster = c, ac_phase = p\<rparr>])"
  if "t = tally cs"
  using that by (simp add: tally_def countPhase_def inPhase_def)

lemma noStatus_tally: "noStatus = tally []"
  by (simp add: noStatus_def tally_def inPhase_def)

lemma addResult_tallies:
  assumes "map_of m = tallies f"
  shows "map_of (addResult c r m) = tallies (f(rr_source r := f (rr_source r) @ [\<lparr>ac_cluster = c, ac_phase = rr_result r\<rparr>]))"
proof (cases "ParseNamespacedName (rr_source r) = ('''', '''')")
  case True
  then show ?thesis using assms by (simp add: addResult_def tallies_def fun_eq_iff)
next
  case False
  have "(case map_of m (rr_source r) of Some t \<Rightarrow> t | None \<Rightarrow> noStatus) = tally (f (rr_source r))"
    using False by (simp add: assms tallies_def noStatus_tally)
  note t = tally_step [OF this]
  show ?thesis using False assms unfolding addResult_def Let_def AppSubClusterStatus.simps t
    by (auto simp: gmap_simps tallies_def fun_eq_iff)
qed

lemma cluster_tallies:
  "map_of m = tallies f \<Longrightarrow> map_of (fold (addResult c) rs m) =
     tallies (\<lambda>src. f src @ map (\<lambda>r. \<lparr>ac_cluster = c, ac_phase = rr_result r\<rparr>) (filter (\<lambda>r. rr_source r = src) rs))"
proof (induction rs arbitrary: m f)
  case (Cons r rs)
  from Cons.IH [OF addResult_tallies [OF Cons.prems], of c r] show ?case by (simp add: fun_eq_iff tallies_def)
qed simp

lemma reports_tallies:
  "map_of m = tallies f \<Longrightarrow> map_of (fold UpdateAppSubMapsPerCluster reports m) = tallies (\<lambda>src. f src @ entries reports src)"
proof (induction reports arbitrary: m f)
  case (Cons rp reports)
  from Cons.IH [OF cluster_tallies [OF Cons.prems], of "rp_namespace rp" "rp_results rp"] show ?case
    by (simp add: UpdateAppSubMapsPerCluster_def entries_def)
qed (simp add: entries_def)

lemma collected: "map_of (fold UpdateAppSubMapsPerCluster reports []) = tallies (entries reports)"
proof -
  have "map_of [] = tallies (\<lambda>src. [])" by (simp add: tallies_def fun_eq_iff)
  from reports_tallies [OF this] show ?thesis by simp
qed

text \<open>
  C1: the table of the summary has an entry for exactly the well-formed sources that occur in a
  cluster report, with one status per result in the order of the reports, and the numbers of deployed, failed and unpropagated
  clusters are the numbers of these statuses.
\<close>

theorem summary_exact:
  "map_of (fold UpdateAppSubMapsPerCluster reports []) src =
     (if ParseNamespacedName src = ('''', '''') \<or> entries reports src = [] then None
      else Some \<lparr>ts_clusters = entries reports src, ts_deployed = inPhase ''deployed'' (entries reports src),
                ts_failed = inPhase ''failed'' (entries reports src), ts_propagationFailed = inPhase ''propagationFailed'' (entries reports src)\<rparr>)"
  by (simp add: collected tallies_def tally_def)

section \<open>Numbers as strings\<close>

lemma itoa_digits: "list_all isDigit (go_itoa n) \<and> foldl (\<lambda>a c. 10 * a + (int (of_char c) - 48)) 0 (go_itoa n) = int n"
proof (induction n rule: go_itoa.induct)
  case (1 n)
  show ?case
  proof (cases "n < 10")
    case True
    then show ?thesis by (subst (1 2) go_itoa.simps) (simp add: isDigit_def)
  next
    case False
    have d: "isDigit (char_of (48 + n mod 10))" "int (of_char (char_of (48 + n mod 10) :: char)) = 48 + int (n mod 10)"
      by (simp_all add: isDigit_def)
    from False 1 d show ?thesis by (subst (1 2) go_itoa.simps) (simp add: zmod_int zdiv_int)
  qed
qed

lemma atoi_show: "0 \<le> i \<Longrightarrow> i < 2 ^ 63 \<Longrightarrow> go_atoi (show_int i) = Some i"
proof -
  assume i: "0 \<le> i" "i < 2 ^ 63"
  note d = itoa_digits [of "nat i"]
  have "\<not> isDigit (CHR ''-'')" "\<not> isDigit (CHR ''+'')" by code_simp+
  then have "\<not> HasPrefix (go_itoa (nat i)) ''-''" "\<not> HasPrefix (go_itoa (nat i)) ''+''"
    using d by (cases "go_itoa (nat i)"; auto simp: HasPrefix_def)+
  with d i show ?thesis by (simp add: go_atoi_def show_int_def Let_def go_itoa_nonempty)
qed

lemma show_zero: "show_int i = ''0'' \<longleftrightarrow> i = 0" if "0 \<le> i" for i
proof -
  have "go_itoa 0 = ''0''" by code_simp
  with that show ?thesis using go_itoa_inj [of "nat i" 0] by (auto simp: show_int_def)
qed


section \<open>The reports\<close>

text \<open>
  What the summary relies on: \<open>store\<close> are the reports of the hub by namespace and name, a read tells the
  truth, an update of a report that is there succeeds and has its effect, and sorting loses nothing.
\<close>

definition summary_api :: "'w summary_env \<Rightarrow> ('w \<Rightarrow> nsname \<Rightarrow> SubscriptionReport option) \<Rightarrow> bool" where
  "summary_api e store \<longleftrightarrow>
     (\<forall>w k. case store w k of
        None \<Rightarrow> (\<exists>er. rpc_get (se_reports e) w k = Inl er \<and> IsNotFound er)
      | Some r \<Rightarrow> rpc_get (se_reports e) w k = Inr r \<and> (rp_namespace r, rp_name r) = k)
   \<and> (\<forall>w r. store w (rp_namespace r, rp_name r) \<noteq> None \<longrightarrow> store (fst (rpc_update (se_reports e) w r)) = (store w)((rp_namespace r, rp_name r) \<mapsto> r))
   \<and> (\<forall>xs. mset (se_sortResults e xs) = mset xs)"

definition results_of :: "AppSubClusterStatus list \<Rightarrow> SubscriptionReportResult list" where
  "results_of cs = map (\<lambda>c. \<lparr>rr_source = ac_cluster c, rr_timestamp = 0, rr_result = ac_phase c\<rparr>) cs"

definition summarised :: "nsname \<Rightarrow> AppSubClustersStatus \<Rightarrow> SubscriptionReport \<Rightarrow> SubscriptionReport \<Rightarrow> bool" where
  "summarised k t rp rp' \<longleftrightarrow> rp_summary rp' = rp_summary (newAppSubReport k (rp_resources rp) (rp_summary rp) t)
     \<and> mset (rp_results rp') = mset (results_of (ts_clusters t)) \<and> rp_resources rp' = rp_resources rp"

lemma summary_apiD:
  assumes "summary_api e store"
  shows "store w k = None \<Longrightarrow> \<exists>er. rpc_get (se_reports e) w k = Inl er \<and> IsNotFound er"
    "store w k = Some r \<Longrightarrow> rpc_get (se_reports e) w k = Inr r \<and> (rp_namespace r, rp_name r) = k"
    "store w (rp_namespace r, rp_name r) \<noteq> None \<Longrightarrow> store (fst (rpc_update (se_reports e) w r)) = (store w)((rp_namespace r, rp_name r) \<mapsto> r)"
    "mset (se_sortResults e xs) = mset xs"
proof -
  have a: "case store w k of None \<Rightarrow> \<exists>er. rpc_get (se_reports e) w k = Inl er \<and> IsNotFound er
      | Some r \<Rightarrow> rpc_get (se_reports e) w k = Inr r \<and> (rp_namespace r, rp_name r) = k" using assms unfolding summary_api_def by blast
  from a show "store w k = None \<Longrightarrow> \<exists>er. rpc_get (se_reports e) w k = Inl er \<and> IsNotFound er" by simp
  from a show "store w k = Some r \<Longrightarrow> rpc_get (se_reports e) w k = Inr r \<and> (rp_namespace r, rp_name r) = k" by simp
  show "store w (rp_namespace r, rp_name r) \<noteq> None \<Longrightarrow> store (fst (rpc_update (se_reports e) w r)) = (store w)((rp_namespace r, rp_name r) \<mapsto> r)"
    "mset (se_sortResults e xs) = mset xs" using assms unfolding summary_api_def by blast+
qed

lemma update_missing:
  assumes "summary_api e store" "store w (ParseNamespacedName s) = None"
  shows "updateAppSubReport e (s, t) w = w"
  using summary_apiD(1) [OF assms] by (auto simp: updateAppSubReport_def Let_def)

lemma update_present:
  assumes api: "summary_api e store" and rp: "store w (ParseNamespacedName s) = Some rp" and ok: "ParseNamespacedName s \<noteq> ('''', '''')"
  shows "\<exists>rp'. store (updateAppSubReport e (s, t) w) = (store w)(ParseNamespacedName s \<mapsto> rp') \<and> summarised (ParseNamespacedName s) t rp rp'"
proof -
  let ?k = "ParseNamespacedName s"
  let ?new = "newAppSubReport ?k (rp_resources rp) (rp_summary rp) t"
  let ?rp = "rp\<lparr>rp_labels := rp_labels ?new, rp_results := se_sortResults e (rp_results ?new), rp_summary := rp_summary ?new\<rparr>"
  have get: "rpc_get (se_reports e) w ?k = Inr rp" "(rp_namespace rp, rp_name rp) = ?k" using summary_apiD(2) [OF api rp] by auto
  note srt = summary_apiD(4) [OF api]
  have new: "rp_results ?new = results_of (ts_clusters t)" by (simp add: newAppSubReport_def Let_def results_of_def)
  show ?thesis
  proof (cases "gm_equal (rp_labels rp) (rp_labels ?new) \<and> rp_summary rp = rp_summary ?new \<and> se_sortResults e (rp_results rp) = se_sortResults e (rp_results ?new)")
    case True
    then have "updateAppSubReport e (s, t) w = w" using ok by (simp add: updateAppSubReport_def Let_def get)
    moreover have "summarised ?k t rp rp" using True srt [of "rp_results rp"] srt [of "rp_results ?new"] by (auto simp: summarised_def new)
    ultimately show ?thesis using rp by (metis map_upd_triv)
  next
    case False
    then have "updateAppSubReport e (s, t) w = fst (rpc_update (se_reports e) w ?rp)"
      using ok unfolding updateAppSubReport_def Let_def prod.case get(1) sum.case option.case by (simp only: if_False)
    moreover have "store (fst (rpc_update (se_reports e) w ?rp)) = (store w)(?k \<mapsto> ?rp)"
      using summary_apiD(3) [OF api, of w ?rp] rp get(2) by simp
    moreover have "summarised ?k t rp ?rp" by (simp add: summarised_def srt new)
    ultimately show ?thesis by metis
  qed
qed

lemma update_other:
  assumes api: "summary_api e store" and k: "ParseNamespacedName s \<noteq> k"
  shows "store (updateAppSubReport e (s, t) w) k = store w k"
proof (cases "ParseNamespacedName s = ('''', '''')")
  case True
  then show ?thesis by (simp add: updateAppSubReport_def Let_def)
next
  case False
  show ?thesis
  proof (cases "store w (ParseNamespacedName s)")
    case None
    then show ?thesis using update_missing [OF api] by simp
  next
    case (Some rp)
    from update_present [OF api Some False, of t] k show ?thesis by auto
  qed
qed

lemma updates_other:
  "summary_api e store \<Longrightarrow> \<forall>(s, t) \<in> set xs. ParseNamespacedName s \<noteq> k \<Longrightarrow> store (fold (updateAppSubReport e) xs w) k = store w k"
  by (induction xs arbitrary: w) (auto simp: update_other)

lemma parse_inj: "ParseNamespacedName s = k \<Longrightarrow> ParseNamespacedName s' = k \<Longrightarrow> k \<noteq> ('''', '''') \<Longrightarrow> s = s'"
proof -
  have "go_split (CHR ''/'') s = [fst k, snd k]" if "ParseNamespacedName s = k" "k \<noteq> ('''', '''')" for s
    using that unfolding ParseNamespacedName_def by (auto split: list.splits)
  then show "ParseNamespacedName s = k \<Longrightarrow> ParseNamespacedName s' = k \<Longrightarrow> k \<noteq> ('''', '''') \<Longrightarrow> s = s'"
    by (metis go_split_two)
qed

lemma updates_at:
  assumes api: "summary_api e store" and xs: "(s, t) \<in> set xs" "distinct (map fst xs)" and k: "ParseNamespacedName s = k" "k \<noteq> ('''', '''')"
    and rp: "store w k = Some rp"
  shows "\<exists>rp'. store (fold (updateAppSubReport e) xs w) k = Some rp' \<and> summarised k t rp rp'"
proof -
  from xs(1) obtain ys zs where s: "xs = ys @ (s, t) # zs" by (metis split_list)
  have fresh: "s \<notin> fst ` (set ys \<union> set zs)" using xs(2) by (simp add: s image_Un)
  have "ParseNamespacedName (fst x) \<noteq> k" if "x \<in> set ys \<union> set zs" for x
    using parse_inj [OF k(1) _ k(2), of "fst x"] fresh imageI [OF that, of fst] by metis
  then have other: "\<forall>(s', t') \<in> set zs. ParseNamespacedName s' \<noteq> k" "\<forall>(s', t') \<in> set ys. ParseNamespacedName s' \<noteq> k" by fastforce+
  have w1: "store (fold (updateAppSubReport e) ys w) k = Some rp" using updates_other [OF api other(2)] rp by simp
  let ?v = "fold (updateAppSubReport e) ys w"
  obtain rp' where "store (updateAppSubReport e (s, t) ?v) = (store ?v)(k \<mapsto> rp')" "summarised k t rp rp'"
    using update_present [OF api, of ?v s rp t] w1 k by auto
  with updates_other [OF api other(1)] show ?thesis unfolding s by auto
qed

lemma wf_collected: "wf_gm (fold UpdateAppSubMapsPerCluster reports [])"
proof -
  have a: "wf_gm m \<Longrightarrow> wf_gm (addResult c r m)" for c r m by (simp add: addResult_def Let_def gm.wf_put)
  have b: "wf_gm m \<Longrightarrow> wf_gm (fold (addResult c) rs m)" for c rs m by (induction rs arbitrary: m) (simp_all add: a)
  have "wf_gm m \<Longrightarrow> wf_gm (fold UpdateAppSubMapsPerCluster reports m)" for m
    by (induction reports arbitrary: m) (simp_all add: b UpdateAppSubMapsPerCluster_def)
  then show ?thesis by (simp add: wf_gm_def)
qed

text \<open>
  C20: after the summary, the report of every subscription that occurs in a cluster report has one result
  per cluster result, the counts of its phases, and the resources and the number of clusters it had; the
  report of a subscription that does not occur has not changed.
\<close>

theorem reports_follow_clusters:
  assumes api: "summary_api e store" and iter: "\<forall>m. mset (se_iter e m) = mset m"
    and k: "ParseNamespacedName s = k" "k \<noteq> ('''', '''')" and rp: "store w k = Some rp"
    and n: "n = (case go_atoi (rs_clusters (rp_summary rp)) of None \<Rightarrow> 0 | Some i \<Rightarrow> i)" and es: "es = entries reports s"
  shows "\<exists>rp'. store (createOrUpdateAppSubReport e (fold UpdateAppSubMapsPerCluster reports []) w) k = Some rp' \<and>
    (if es = [] then rp' = rp
     else rp_summary rp' = \<lparr>rs_deployed = show_int (inPhase ''deployed'' es),
            rs_inProgress = show_int (max 0 (n - inPhase ''propagationFailed'' es - inPhase ''deployed'' es - inPhase ''failed'' es)),
            rs_failed = show_int (inPhase ''failed'' es), rs_propagationFailed = show_int (inPhase ''propagationFailed'' es),
            rs_clusters = rs_clusters (rp_summary rp)\<rparr>
        \<and> mset (rp_results rp') = mset (results_of es) \<and> rp_resources rp' = rp_resources rp)"
proof -
  let ?m = "fold UpdateAppSubMapsPerCluster reports []"
  let ?xs = "se_iter e ?m"
  have set: "set ?xs = set ?m" using iter by (metis set_mset_mset)
  have "mset (map fst ?xs) = mset (map fst ?m)" using iter by simp
  then have d: "distinct (map fst ?xs)" using wf_collected by (metis mset_eq_imp_distinct_iff wf_gm_def)
  have m: "map_of ?m s = (if es = [] then None else Some (tally es))" using k by (simp add: collected tallies_def es)
  show ?thesis
  proof (cases "es = []")
    case True
    with m have "\<forall>(s', t) \<in> set ?xs. s' \<noteq> s" unfolding set by (auto simp: map_of_eq_None_iff) (metis fst_conv image_eqI)
    then have "\<forall>(s', t) \<in> set ?xs. ParseNamespacedName s' \<noteq> k" using parse_inj [OF k(1) _ k(2)] by blast
    from updates_other [OF api this] rp True show ?thesis by (simp add: createOrUpdateAppSubReport_def)
  next
    case False
    with m have "(s, tally es) \<in> set ?xs" unfolding set by (simp add: map_of_SomeD)
    from updates_at [OF api this d k rp] False show ?thesis
      by (auto simp: createOrUpdateAppSubReport_def summarised_def newAppSubReport_def Let_def tally_def n max_def)
  qed
qed

section \<open>The views\<close>

lemma clean_made:
  assumes "\<forall>w v. made (fst (se_deleteView e w v)) \<le> (made w :: nat)"
  shows "made (cleanManagedClusterViewPerApp e app c w) \<le> made w"
proof -
  have "made (fold (\<lambda>v w. if vw_namespace v = c then w else fst (se_deleteView e w v)) vs w) \<le> made w" for vs
  proof (induction vs arbitrary: w)
    case (Cons v vs)
    show ?case using Cons [of "if vw_namespace v = c then w else fst (se_deleteView e w v)"] assms [rule_format, of w v] by (auto split: if_splits)
  qed simp
  then show ?thesis by (auto simp: cleanManagedClusterViewPerApp_def split: option.splits sum.splits)
qed

text \<open>
  C38: whatever fails, one pass over the applications makes at most fifty views: anything that grows
  by at most one when a view is created and not when one is deleted has grown by at most fifty.
\<close>

theorem at_most_fifty_views:
  assumes create: "\<forall>w v. made (fst (se_createView e w v)) \<le> Suc (made w)" and delete: "\<forall>w v. made (fst (se_deleteView e w v)) \<le> made w"
  shows "made (RefreshManagedClusterViews e m w) \<le> made w + 50"
proof -
  have c: "made (createManagedClusterViewPerApp e app c v) \<le> Suc (made v)" for app c v
    using create by (auto simp: createManagedClusterViewPerApp_def Let_def intro: le_SucI split: sum.splits)
  have step: "made v1 + (50 - n1) \<le> made v + (50 - n)" if "refreshView e x (n, v) = (n1, v1)" for x n v n1 v1
  proof -
    obtain s t where x: "x = (s, t)" by force
    define app where "app = ParseNamespacedName s"
    define f where "f = find (\<lambda>c. ac_phase c = ''failed'') (se_sort e (ts_clusters t))"
    have r: "(if app = ('''', '''') then (n, v)
         else case f of None \<Rightarrow> (n, cleanManagedClusterViewPerApp e app '''' v)
              | Some c \<Rightarrow>
                  (if n + 1 > 50 then (n + 1, cleanManagedClusterViewPerApp e app '''' v)
                   else (n + 1, cleanManagedClusterViewPerApp e app (ac_cluster c) (createManagedClusterViewPerApp e app (ac_cluster c) v)))) = (n1, v1)"
      using that unfolding x refreshView_def Let_def prod.case app_def f_def by simp
    have k: "made (cleanManagedClusterViewPerApp e app c u) \<le> made u" for c u by (rule clean_made [OF delete])
    have k': "made (cleanManagedClusterViewPerApp e app c (createManagedClusterViewPerApp e app c v)) \<le> Suc (made v)" for c
      using k [of c "createManagedClusterViewPerApp e app c v"] c [of app c v] by linarith
    show ?thesis
    proof (cases "app = ('''', '''')")
      case False
      show ?thesis
      proof (cases f)
        case None
        with r False k [of "''''" v] show ?thesis by auto
      next
        case (Some c)
        with r False k [of "''''" v] k' [of "ac_cluster c"] show ?thesis by (auto split: if_splits)
      qed
    qed (use r in simp)
  qed
  have "made (snd (fold (refreshView e) xs (n, v))) \<le> made v + (50 - n)" for xs n v
  proof (induction xs arbitrary: n v)
    case (Cons x xs)
    obtain n1 v1 where r: "refreshView e x (n, v) = (n1, v1)" by force
    from step [OF r] Cons [of n1 v1] r show ?case by simp
  qed simp
  from this [of _ 0 w] show ?thesis by (simp add: RefreshManagedClusterViews_def)
qed

end
