(* ===== verification/HubFacts.thy ===== *)
theory HubFacts
  imports HubController HooksFacts PropagationFacts
begin

text \<open>
  The controller of the hub: nothing is propagated before the prehooks are completed, posthooks run
  only after that and after the deployment, an unfinished reconcile comes again, and a request that a
  placement decision fired leads back to its subscription.
\<close>

section \<open>What is left alone\<close>

text \<open>
  An observation of the world that neither clones, nor jobs, nor writes of the subscription change.
  The observation of interest is the manifest works.
\<close>

definition hub_frame :: "('w, 'v, 'm) hub_env \<Rightarrow> ('w \<Rightarrow> 'o) \<Rightarrow> bool" where
  "hub_frame e obs \<longleftrightarrow> (\<forall>o' w. obs (fst (he_clone (hc_git e) o' w)) = obs w) \<and> (\<forall>w j. obs (fst (hk_createJob (hc_hooks e) w j)) = obs w)
     \<and> (\<forall>w x. obs (fst (he_updateSub (hc_git e) w x)) = obs w) \<and> (\<forall>w n o'. obs (fst (hc_patchStatus e w n o')) = obs w)"

lemma hub_frameD:
  assumes "hub_frame e obs"
  shows "he_clone (hc_git e) op w = (w', r) \<Longrightarrow> obs w' = obs w" "hk_createJob (hc_hooks e) w j = (w', q) \<Longrightarrow> obs w' = obs w"
    "he_updateSub (hc_git e) w x = (w', q) \<Longrightarrow> obs w' = obs w" "hc_patchStatus e w n op' = (w', r') \<Longrightarrow> obs w' = obs w"
  using assms unfolding hub_frame_def by (metis fst_conv)+

lemma frame_RegisterBranch:
  assumes "hub_frame e obs" "RegisterBranch (hc_git e) s h w = (w', h', r)"
  shows "obs w' = obs w"
  using assms by (auto simp: RegisterBranch_def Let_def split: if_splits sum.splits prod.splits option.splits dest: hub_frameD(1))

lemma frame_suffix:
  assumes f: "hub_frame e obs" and r: "suffixBasedOnSpecAndCommitID (hc_git e) x h w = (w', h', q)"
  shows "obs w' = obs w"
proof -
  have "obs w1 = obs w" if "GetLatestCommitID (hc_git e) (hs_sub x) h w = (w1, h1, q1)" for w1 h1 q1
    using that by (auto simp: GetLatestCommitID_def split: option.splits prod.splits dest: frame_RegisterBranch [OF f])
  then show ?thesis using r by (auto simp: suffixBasedOnSpecAndCommitID_def split: prod.splits goval.splits)
qed

lemma frame_registryJob:
  assumes f: "hub_frame e obs" and r: "registryJob (hc_hooks e) x rn job h js w = (w', h', js', q)"
  shows "obs w' = obs w"
  using r by (auto simp: registryJob_def Let_def split: sum.splits prod.splits goval.splits if_splits dest: frame_suffix [OF f])

lemma frame_registryJobs:
  assumes f: "hub_frame e obs"
  shows "registryJobs (hc_hooks e) x rn jobs h js w = (w', h', js', q) \<Longrightarrow> obs w' = obs w"
proof (induction jobs arbitrary: h js w)
  case (Cons job jobs)
  obtain w1 h1 js1 q1 where j: "registryJob (hc_hooks e) x rn job h js w = (w1, h1, js1, q1)" by (metis prod_cases4)
  from frame_registryJob [OF f j] have "obs w1 = obs w" .
  with Cons j show ?case by (auto split: goval.splits)
qed simp

lemma frame_registerHook:
  assumes f: "hub_frame e obs" and r: "registerHook (hc_hooks e) x t jobs upd rv h a w = (w', h', a', q)"
  shows "obs w' = obs w"
  using r by (auto simp: registerHook_def Let_def split: if_splits prod.splits dest: frame_registryJobs [OF f])

lemma frame_addHook:
  assumes f: "hub_frame e obs" and r: "addHookToRegisitry (hc_hooks e) x upd rv h a w = (w', h', a', q)"
  shows "obs w' = obs w"
proof -
  have step: "obs w2 = obs w1"
    if "(if P then registerHook (hc_hooks e) x t jobs upd rv h1 a1 w1 else (w1, h1, a1, Ret ())) = (w2, h2, a2, q2)" for P t jobs h1 a1 w1 w2 h2 a2 q2
    using that by (auto split: if_splits dest: frame_registerHook [OF f])
  show ?thesis
    using r unfolding addHookToRegisitry_def Let_def
    by (auto split: prod.splits goval.splits simp del: if_split dest!: step)
qed

lemma frame_RegisterSubscription:
  assumes f: "hub_frame e obs" and r: "RegisterSubscription (hc_hooks e) x upd rv h a w = (w', h', a', q)"
  shows "obs w' = obs w"
proof -
  have d: "obs w1 = obs w" if "DownloadAnsibleHookResource (hc_git e) s h w = (w1, h1, q1)" for s w1 h1 q1
    using that by (auto simp: DownloadAnsibleHookResource_def split: goval.splits if_splits dest: frame_RegisterBranch [OF f])
  show ?thesis
    using r unfolding RegisterSubscription_def Let_def
    by (auto split: sum.splits if_splits goval.splits prod.splits dest!: d frame_addHook [OF f])
qed

lemma frame_applyEach:
  assumes f: "hub_frame e obs"
  shows "applyEach (hc_hooks e) js w = (w', r) \<Longrightarrow> obs w' = obs w"
proof (induction js arbitrary: w)
  case (Cons j js)
  show ?case
  proof (cases "jb_instance j")
    case Nil
    with Cons show ?thesis by simp
  next
    case (Cons i rest)
    obtain w1 q where c: "hk_createJob (hc_hooks e) w i = (w1, q)" by force
    from hub_frameD(2) [OF f c] have "obs w1 = obs w" .
    with Cons c Cons.IH Cons.prems show ?thesis
      by (auto simp: Let_def split: sum.splits if_splits option.splits)
  qed
qed simp

lemma frame_applyHooks:
  assumes f: "hub_frame e obs"
  shows "applyHooks (hc_hooks e) a k js w = (w', r) \<Longrightarrow> obs w' = obs w"
  by (auto simp: applyHooks_def applyJobs_def split: option.splits if_splits dest: frame_applyEach [OF f])

lemma frame_ApplyPreHooks:
  assumes f: "hub_frame e obs"
  shows "ApplyPreHooks (hc_hooks e) a k w = (w', r) \<Longrightarrow> obs w' = obs w"
  by (auto simp: ApplyPreHooks_def split: if_splits dest: frame_applyHooks [OF f])

lemma frame_ApplyPostHooks:
  assumes f: "hub_frame e obs"
  shows "ApplyPostHooks (hc_hooks e) a k w = (w', r) \<Longrightarrow> obs w' = obs w"
  by (auto simp: ApplyPostHooks_def split: if_splits dest: frame_applyHooks [OF f])

lemma frame_prehookPhase:
  assumes f: "hub_frame e obs"
  shows "prehookPhase e key a x w = (w', ph) \<Longrightarrow> obs w' = obs w"
  unfolding prehookPhase_def
  by (auto split: if_splits prod.splits option.splits sum.splits bool.splits dest: frame_ApplyPreHooks [OF f])

lemma frame_gitPhase:
  assumes f: "hub_frame e obs" and r: "gitPhase e key upd rv st x w = (w', st', ph)"
  shows "obs w' = obs w"
proof -
  obtain w1 h1 q1 where b: "RegisterBranch (hc_git e) (hs_sub x) (hb_git st) w = (w1, h1, q1)" by (metis prod_cases3)
  obtain w2 h2 a2 q2 where s: "RegisterSubscription (hc_hooks e) x upd rv h1 (hb_hooks st) w1 = (w2, h2, a2, q2)" by (metis prod_cases4)
  obtain w3 ph3 where p: "prehookPhase e key a2 x w2 = (w3, ph3)" by force
  note k = frame_RegisterBranch [OF f b] frame_RegisterSubscription [OF f s] frame_prehookPhase [OF f p]
  from r have "w' \<in> {w1, w2, w3}" by (auto simp: gitPhase_def b s p split: goval.splits)
  with k show ?thesis by auto
qed

lemma frame_patch:
  assumes f: "hub_frame e obs"
  shows "patchIfChanged e o' n w = (w', n', r) \<Longrightarrow> obs w' = obs w"
  by (auto simp: patchIfChanged_def Let_def split: if_splits prod.splits sum.splits dest: hub_frameD(4) [OF f])

lemma frame_posthookCommit:
  assumes f: "hub_frame e obs" and r: "posthookCommit e key a o' n d w = (w', n', q)"
  shows "obs w' = obs w"
proof -
  obtain w1 er where p: "ApplyPostHooks (hc_hooks e) a key w = (w1, er)" by force
  obtain w2 n2 r2 where c: "patchIfChanged e o' (setStatus (\<lambda>s. AppendStatusToSubscription a (hs_sub n)) n) w1 = (w2, n2, r2)"
    by (metis prod_cases3)
  from r have "w' \<in> {w, w2}" unfolding posthookCommit_def p Let_def fst_conv c
    by (auto split: if_splits goval.splits bool.splits option.splits)
  with frame_ApplyPostHooks [OF f p] frame_patch [OF f c] show ?thesis by auto
qed

lemma frame_statusCommit:
  assumes f: "hub_frame e obs" and r: "statusCommit e key a c o' n w = (w', n', q)"
  shows "obs w' = obs w"
proof (cases "if \<not> cs_prehook c then map_option (\<lambda>er. prehookStatus a er n) (cs_preErr c)
            else Some (setStatus (\<lambda>s. AppendStatusToSubscription a (hs_sub n)) n)")
  case None
  with r show ?thesis by (simp add: statusCommit_def)
next
  case (Some n1)
  obtain w1 n2 p where c: "patchIfChanged e o' n1 w = (w1, n2, p)" by (metis prod_cases3)
  note k = frame_patch [OF f c]
  from r have "w' = w1 \<or> posthookCommit e key a o' n2 (cs_after c) w1 = (w', n', q)"
    unfolding statusCommit_def Some option.case c prod.case by (auto split: option.splits if_splits)
  with k show ?thesis by (metis frame_posthookCommit [OF f])
qed

lemma frame_finalCommit:
  assumes f: "hub_frame e obs" and r: "finalCommit e key a c o' w = (w', n', q)"
  shows "obs w' = obs w"
proof -
  have u: "obs (fst (he_updateSub (hc_git e) w x)) = obs w" for x using f by (simp add: hub_frame_def)
  show ?thesis
    using r unfolding finalCommit_def Let_def
    by (auto simp: u split: if_splits sum.splits option.splits prod.splits bool.splits dest: frame_patch [OF f] frame_statusCommit [OF f])
qed

section \<open>Prehooks first\<close>

lemma prehookPhase_Proceed:
  "prehookPhase e key a x w = (w', Proceed x' pe) \<Longrightarrow>
    \<not> HasHooks a PreHookType key \<or> IsPreHooksCompleted (hc_hooks e) a key w' = Inr True"
  unfolding prehookPhase_def by (auto split: if_splits prod.splits option.splits sum.splits bool.splits goval.splits)

lemma gitPhase_Proceed:
  "gitPhase e key upd rv st x w = (w', st', Proceed x' pe) \<Longrightarrow>
    \<not> HasHooks (hb_hooks st') PreHookType key \<or> IsPreHooksCompleted (hc_hooks e) (hb_hooks st') key w' = Inr True"
  unfolding gitPhase_def by (auto split: prod.splits goval.splits dest: prehookPhase_Proceed)

lemma preOf_shareLast [simp]: "preOf (shareLast n a) key = preOf a key" and postOf_shareLast [simp]: "postOf (shareLast n a) key = postOf a key"
  and isRegistered_shareLast [simp]: "isRegistered (shareLast n a) key = isRegistered a key"
  by (induction a) (auto simp: preOf_def postOf_def isRegistered_def shareLast_def)

lemma HasHooks_shareLast [simp]: "HasHooks (shareLast n a) t key = HasHooks a t key"
  by (simp add: HasHooks_def)

lemma IsPreHooksCompleted_shareLast [simp]: "IsPreHooksCompleted e (shareLast n a) key w = IsPreHooksCompleted e a key w"
  by (simp add: IsPreHooksCompleted_def)

lemma propagationPhase_hooks: "propagationPhase e st x pe w = (w', st', r) \<Longrightarrow> hb_hooks st' = hb_hooks st"
  by (auto simp: propagationPhase_def split: prod.splits goval.splits)

lemma commitPhase_hooks: "commitPhase e key o' (w, st, r) = (w', st', d) \<Longrightarrow> \<exists>n. hb_hooks st' = hb_hooks st \<or> hb_hooks st' = shareLast n (hb_hooks st)"
  by (auto simp: commitPhase_def split: sum.splits prod.splits)

lemma frame_commitPhase: "hub_frame e obs \<Longrightarrow> commitPhase e key o' (w, st, r) = (w', st', d) \<Longrightarrow> obs w' = obs w"
  by (auto simp: commitPhase_def split: sum.splits prod.splits dest: frame_finalCommit)


section \<open>Posthooks last\<close>

text \<open>An observation of the jobs that writes of the subscription leave alone.\<close>

definition job_frame :: "('w, 'v, 'm) hub_env \<Rightarrow> ('w \<Rightarrow> 'o) \<Rightarrow> bool" where
  "job_frame e jobs \<longleftrightarrow> (\<forall>w x. jobs (fst (he_updateSub (hc_git e) w x)) = jobs w) \<and> (\<forall>w n o'. jobs (fst (hc_patchStatus e w n o')) = jobs w)"

lemma job_frame_patch: "job_frame e jobs \<Longrightarrow> patchIfChanged e o' n w = (w', n', r) \<Longrightarrow> jobs w' = jobs w"
  unfolding job_frame_def patchIfChanged_def Let_def by (auto split: if_splits prod.splits sum.splits) (metis fst_conv)+

lemma posthookCommit_completed:
  "posthookCommit e key a o' n d w = (w', n', q) \<Longrightarrow> w' \<noteq> w \<Longrightarrow> HasHooks a PostHookType key \<and> IsSubscriptionCompleted e key w = Ret True"
  unfolding posthookCommit_def by (auto split: if_splits goval.splits bool.splits)

lemma statusCommit_completed:
  assumes f: "job_frame e jobs" and r: "statusCommit e key a c o' n w = (w', n', q)" and ch: "jobs w' \<noteq> jobs w"
  shows "cs_prehook c \<and> HasHooks a PostHookType key \<and> (\<exists>v. jobs v = jobs w \<and> IsSubscriptionCompleted e key v = Ret True)"
proof (cases "if \<not> cs_prehook c then map_option (\<lambda>er. prehookStatus a er n) (cs_preErr c)
            else Some (setStatus (\<lambda>s. AppendStatusToSubscription a (hs_sub n)) n)")
  case None
  with r ch show ?thesis by (simp add: statusCommit_def)
next
  case (Some n1)
  obtain w1 n2 p where c: "patchIfChanged e o' n1 w = (w1, n2, p)" by (metis prod_cases3)
  note k = job_frame_patch [OF f c]
  from r have "w' = w1 \<or> cs_prehook c \<and> posthookCommit e key a o' n2 (cs_after c) w1 = (w', n', q)"
    unfolding statusCommit_def Some option.case c prod.case by (auto split: option.splits if_splits)
  with k ch show ?thesis by (metis posthookCommit_completed)
qed

text \<open>
  When a deployment is complete: the subscription is gone, or it has been propagated or subscribed and is
  local, or the report of its application counts clusters, none in progress and all others deployed.
\<close>

definition deployment_complete :: "('w, 'v, 'm) hub_env \<Rightarrow> nsname \<Rightarrow> 'w \<Rightarrow> bool" where
  "deployment_complete e key v \<longleftrightarrow>
     (\<exists>er. he_getSub (hc_git e) v key = Inl er \<and> IsNotFound er)
     \<or> (\<exists>x. he_getSub (hc_git e) v key = Inr x \<and> st_phase (sub_status (hs_sub x)) \<notin> {SubscriptionPropagationFailed, SubscriptionFailed, ''''}
         \<and> ((\<exists>pl. hs_placement x = Some pl \<and> pl_local pl = Some True)
            \<or> (\<exists>rp i d. rpc_get (pe_reports (hc_prop e)) v key = Inr rp \<and> rs_clusters (rp_summary rp) \<noteq> ''0''
                 \<and> go_atoi (rs_deployed (rp_summary rp)) = Some d \<and> go_atoi (rs_inProgress (rp_summary rp)) = Some i \<and> i \<le> 0
                 \<and> go_atoi (rs_clusters (rp_summary rp)) = Some (d + i))))"


section \<open>Unfinished reconciles come again\<close>

lemma plainCommit_fields [simp]:
  "cs_branch (plainCommit x)" "cs_prehook (plainCommit x)" "cs_preErr (plainCommit x) = None" "cs_ins (plainCommit x) = x"
  "\<not> cs_local (plainCommit x)" "cs_after (plainCommit x) = 0"
  by (simp_all add: plainCommit_def)

lemma setStatus_fields [simp]:
  "sub_name (hs_sub (setStatus f x)) = sub_name (hs_sub x)" "sub_spec (hs_sub (setStatus f x)) = sub_spec (hs_sub x)"
  by (simp_all add: setStatus_def)

text \<open>What the commit sees when prehooks stopped the reconcile.\<close>

definition stopped_by_prehooks :: "('w, 'v, 'm) hub_env \<Rightarrow> HubSub \<Rightarrow> commit \<Rightarrow> bool" where
  "stopped_by_prehooks e x c \<longleftrightarrow> cs_branch c \<and> \<not> cs_local c \<and> cs_preErr c \<noteq> None \<and> cs_after c \<in> {0, hc_requeue e}
     \<and> sub_name (hs_sub (cs_ins c)) = sub_name (hs_sub x) \<and> sub_spec (hs_sub (cs_ins c)) = sub_spec (hs_sub x)"

lemma prehookPhase_Stop: "prehookPhase e key a x w = (w', Stop c) \<Longrightarrow> stopped_by_prehooks e x c"
  unfolding prehookPhase_def stopped_by_prehooks_def overridePrehookTopoAnnotation_def
  by (auto split: if_splits prod.splits option.splits sum.splits bool.splits goval.splits)

lemma gitPhase_Stop: "gitPhase e key upd rv st x w = (w', st', Stop c) \<Longrightarrow> \<not> cs_prehook c \<Longrightarrow> stopped_by_prehooks e x c"
  unfolding gitPhase_def
  by (auto split: prod.splits goval.splits dest: prehookPhase_Stop) (auto simp: stopped_by_prehooks_def)

lemma statusCommit_requeues:
  assumes "\<not> cs_prehook c" "cs_preErr c = Some er" "hc_requeue e > 0" "cs_after c \<in> {0, hc_requeue e}"
    "statusCommit e key a c o' n w = (w', n', q)"
  shows "\<exists>d > 0. q = Ret d"
proof -
  obtain w1 n2 p where c: "patchIfChanged e o' (prehookStatus a er n) w = (w1, n2, p)" by (metis prod_cases3)
  have "orDefault (cs_after c) > 0" using assms(3,4) by (auto simp: orDefault_def defaulRequeueInterval_def)
  with assms c show ?thesis by (auto simp: statusCommit_def split: option.splits)
qed


section \<open>Requests of placement decisions\<close>

declare last_index.simps [simp del]

lemma last_index_Nil [simp]: "sep \<noteq> [] \<Longrightarrow> last_index sep [] = None"
  by (subst last_index.simps) simp

lemma last_index_Cons: "last_index sep (c # cs) = (case last_index sep cs of Some i \<Rightarrow> Some (Suc i) | None \<Rightarrow> if HasPrefix (c # cs) sep then Some 0 else None)"
  by (subst last_index.simps) simp

lemma last_index_none: "\<forall>i < length s. \<not> HasPrefix (drop i s) sep \<Longrightarrow> sep \<noteq> [] \<Longrightarrow> last_index sep s = None"
proof (induction s)
  case (Cons c cs)
  from Cons.prems(1) have "\<not> HasPrefix (c # cs) sep" "\<forall>i < length cs. \<not> HasPrefix (drop i cs) sep" by force+
  with Cons show ?case by (simp add: last_index_Cons)
qed simp

lemma last_index_append: "last_index sep t = Some i \<Longrightarrow> last_index sep (s @ t) = Some (length s + i)"
  by (induction s) (simp_all add: last_index_Cons)

text \<open>The flag does not occur again inside itself, nor in a version without a hyphen.\<close>

lemma flag_once:
  assumes "CHR ''-'' \<notin> set rv"
  shows "last_index placementDecisionFlag (placementDecisionFlag @ rv) = Some 0"
proof -
  let ?t = "tl placementDecisionFlag @ rv"
  have flag: "placementDecisionFlag = CHR ''-'' # tl placementDecisionFlag" "length placementDecisionFlag = 28" by code_simp+
  have two: "\<exists>r. s = CHR ''-'' # CHR ''-'' # r" if "HasPrefix s placementDecisionFlag" for s
    using that unfolding HasPrefix_def placementDecisionFlag_def by (cases s; cases "tl s") auto
  have "\<not> HasPrefix (drop i ?t) placementDecisionFlag" if "i < length ?t" for i
  proof
    assume "HasPrefix (drop i ?t) placementDecisionFlag"
    with two obtain r where r: "drop i ?t = CHR ''-'' # CHR ''-'' # r" by blast
    then have len: "i + 1 < length ?t" by (metis One_nat_def add.commute drop_eq_Nil2 drop_drop drop0 drop_Suc_Cons leI list.distinct(1) plus_1_eq_Suc)
    from r len have hy: "?t ! i = CHR ''-''" "?t ! (i + 1) = CHR ''-''" 
      by (metis add.right_neutral add_lessD1 less_imp_le nth_Cons_0 nth_drop) (metis len less_imp_le add_lessD1 nth_Cons_0 nth_Cons_Suc nth_drop r One_nat_def)
    have t: "length (tl placementDecisionFlag) = 27" "tl placementDecisionFlag ! 26 \<noteq> CHR ''-''"
      "\<forall>j < 26. \<not> (tl placementDecisionFlag ! j = CHR ''-'' \<and> tl placementDecisionFlag ! (j + 1) = CHR ''-'')" by code_simp+
    consider "i < 26" | "i = 26" | "27 \<le> i" by linarith
    then show False
    proof cases
      case 3
      with len t(1) have "rv ! (i - 27) \<in> set rv" by (intro nth_mem) simp
      with 3 hy(1) t(1) assms show False by (simp add: nth_append)
    qed (use hy t in \<open>auto simp: nth_append\<close>)
  qed
  then have none: "last_index placementDecisionFlag ?t = None" by (intro last_index_none) (auto simp: placementDecisionFlag_def)
  have e: "placementDecisionFlag @ rv = CHR ''-'' # ?t" using flag(1) by (metis append_Cons)
  have p: "HasPrefix (CHR ''-'' # ?t) placementDecisionFlag" unfolding e [symmetric] by (simp add: HasPrefix_def)
  show ?thesis unfolding e last_index_Cons none option.case using p by (simp only: if_True)
qed

lemma index_str_append: "\<exists>i. index_str t (s @ t @ r) = Some i"
proof (induction s)
  case Nil
  show ?case by (subst index_str.simps) (simp add: HasPrefix_def)
next
  case (Cons c s)
  then show ?case by (subst index_str.simps) auto
qed

lemma parse_flagged:
  assumes "CHR ''-'' \<notin> set rv"
  shows "parseRequest (ns, n @ placementDecisionFlag @ rv) = ((ns, n), True, rv)"
proof -
  have "go_contains (n @ placementDecisionFlag @ rv) placementDecisionFlag" using index_str_append by (simp add: go_contains_def)
  moreover have "substringAfter (n @ placementDecisionFlag @ rv) placementDecisionFlag = rv"
    by (simp add: substringAfter_def last_index_append [OF flag_once [OF assms]])
  moreover have "TrimSuffix (n @ placementDecisionFlag @ rv) rv = n @ placementDecisionFlag"
    by (metis TrimSuffix_append append.assoc)
  ultimately show ?thesis by (simp add: parseRequest_def)
qed

text \<open>The subscriptions whose placement reference names a decision of a namespace.\<close>

definition placedBy :: "string \<Rightarrow> string \<Rightarrow> HubSub \<Rightarrow> bool" where
  "placedBy name ns x \<longleftrightarrow> (\<exists>p r. hs_placement x = Some p \<and> pl_ref p = Some r \<and> pref_name r = name
     \<and> ns = (if pref_namespace r = '''' then sub_namespace (hs_sub x) else pref_namespace r))"

text \<open>Requests one subscription at a time.\<close>

lemma map_concat_filter:
  assumes "\<And>x. map f (g x) = (if P x then [h x] else [])"
  shows "map f (concat (map g xs)) = map h (filter P xs)"
  by (induction xs) (simp_all add: assms)


section \<open>Subscriptions that are gone\<close>

lemma DeregisterBranch_records: "map_of (hg_subRecords (DeregisterBranch k h)) = (map_of (hg_subRecords h))(k := None)"
  by (auto simp: DeregisterBranch_def Let_def map_of_gm_del fun_eq_iff split: option.splits)


end
