(* ===== verification/HubControlExamples.thy ===== *)
theory HubControlExamples
  imports HubFacts HookExamples PollingExamples
begin

text \<open>
  Reconciles of the subscription \<open>ns/app\<close> on the hub in memory: before its prehook has run, after
  it, after its deployment, and when it is gone.
\<close>

definition idle_sync :: "'w SyncSource" where
  "idle_sync = \<lparr>ss_namespaced = (\<lambda>w u. True), ss_process = (\<lambda>s rs al dl ad st w. (w, Done)), ss_purge = (\<lambda>s w. (w, Done)),
     ss_overall = (\<lambda>s b m w. (w, Done))\<rparr>"

definition hubhelm_ex :: "(hubw, string, string) helm_sub_env" where
  "hubhelm_ex = \<lparr>hv_sync = idle_sync, hv_subs = no_subs, hv_refs = no_refs, hv_now = (\<lambda>w. 0), hv_poll = poll_ex,
     hv_helm = helm_ex, hv_release = (\<lambda>w k. Inl (NotFound '''')),
     hv_request = (\<lambda>u. None), hv_http = (\<lambda>w b u a. Inl (OtherError ''down'')),
     hv_hash = (\<lambda>b. b), hv_index = (\<lambda>b. Inr (None, '''')),
     hv_hubSecret = (\<lambda>w k. Inl (NotFound '''')), hv_hubConfigMap = (\<lambda>w k. Inl (NotFound '''')),
     hv_hubRelease = (\<lambda>w k. Inl (NotFound '''')), hv_showSub = (\<lambda>s. '''')\<rparr>"

definition hubbucket_ex :: "hubw bucket_env" where
  "hubbucket_ex = \<lparr>ob_sync = idle_sync, ob_subs = no_subs, ob_refs = no_refs, ob_now = (\<lambda>w. 0), ob_poll = poll_ex, ob_parses = (\<lambda>s. True),
     ob_connect = (\<lambda>c. Inr (store_ex [])), ob_yamlStr = Inr, ob_object = (\<lambda>s. Inr (obj_ex s)), ob_setNested = (\<lambda>u p j. None),
     ob_sel = (\<lambda>l. Some (\<lambda>m. True)), ob_kust = kust_fail\<rparr>"

definition hubctl_ex :: "hubw hook_env \<Rightarrow> (hubw, string, string) hub_env" where
  "hubctl_ex hooks = \<lparr>hc_hooks = hooks, hc_helm = hubhelm_ex, hc_bucket = hubbucket_ex, hc_kust = kust_fail,
     hc_decode = (\<lambda>s. Inr (obj_ex ''Service'')), hc_typed = (\<lambda>s. Inr (''v1'', ''Service'')), hc_chartJson = (\<lambda>n s. Inr n),
     hc_render = (\<lambda>w h. None), hc_build = (\<lambda>w s. None), hc_namespaced = (\<lambda>g v k. Some True),
     hc_patchStatus = (\<lambda>w n o'. (w, Inr n)), hc_tz = (\<lambda>l. None), hc_clock = (\<lambda>w. (\<lparr>t_abs = 0, t_wall = 0\<rparr>, 0)), hc_now = (\<lambda>w. 0),
     hc_requeue = 30000000000\<rparr>"

definition state0 :: hub_state where "state0 = \<lparr>hb_git = reg0, hb_hooks = []\<rparr>"

section \<open>Prehooks first\<close>

lemma hubctl_frame: "hub_frame (hubctl_ex hook_ex) fst"
  by (auto simp: hub_frame_def hubctl_ex_def hook_ex_def hubgit_ex_def)

lemma hooked_facts:
  "parseRequest (''ns'', ''app'') = ((''ns'', ''app''), False, '''')"
  "he_getSub (hc_git (hubctl_ex hook_ex)) w (''ns'', ''app'') = Inr hooked"
  "hs_placement hooked = Some \<lparr>pl_clusters = None, pl_selector = None,
     pl_ref = Some \<lparr>pref_kind = ''Placement'', pref_apiVersion = '''', pref_name = ''p'', pref_namespace = ''elsewhere''\<rparr>, pl_local = None\<rparr>"
  "GetSubscriptionRefChannel (he_channel (hc_git (hubctl_ex hook_ex)) w) (hs_sub hooked) = Inr (Some repo_ex, None)"
  "EqualFold (ch_type repo_ex) ''Git''"
  by code_simp+

definition after_job :: "(hubw \<times> hub_state \<times> duration goval) option" where
  "after_job = hubReconcileSub (hubctl_ex hook_ex) (''ns'', ''app'') state0 ([], [done_job])"


definition before_job :: "(hubw \<times> hub_state \<times> duration goval) option" where
  "before_job = hubReconcileSub (hubctl_ex hook_ex) (''ns'', ''app'') state0 ([], [])"


section \<open>Posthooks last\<close>

text \<open>The subscription is propagated, both its clusters have deployed it, and it has a posthook.\<close>

definition deployed_sub :: HubSub where
  "deployed_sub = setStatus (\<lambda>s. s\<lparr>st_phase := SubscriptionPropagated, st_message := ''Active'', st_posthook := ''ns/job-1-c0ffee''\<rparr>) hooked"

definition full_report :: SubscriptionReport where
  "full_report = no_report\<lparr>rp_summary := \<lparr>rs_deployed = ''2'', rs_inProgress = ''0'', rs_failed = ''0'', rs_propagationFailed = ''0'', rs_clusters = ''2''\<rparr>\<rparr>"

definition deployed_ex :: "hubw hook_env" where
  "deployed_ex = hook_ex\<lparr>hk_git := hubgit_ex\<lparr>he_getSub := (\<lambda>w k. Inr deployed_sub)\<rparr>,
     hk_prop := prop_ex\<lparr>pe_reports := \<lparr>rpc_get = (\<lambda>w k. Inr full_report), rpc_create = (\<lambda>w r. (w, None)), rpc_update = (\<lambda>w r. (w, None))\<rparr>\<rparr>\<rparr>"

definition posthooks1 :: hook_registry where
  "posthooks1 = [((''ns'', ''app''), \<lparr>hk_pre = [], hk_post = [((''ns'', ''job''), \<lparr>jb_original = run_job\<lparr>aj_name := ''job''\<rparr>, jb_instance = [run_job]\<rparr>)],
     hk_lastSub = deployed_sub, hk_shared = False\<rparr>)]"


section \<open>Placement decisions\<close>


section \<open>A subscription that is gone\<close>

definition gone_ex :: "hubw hook_env" where
  "gone_ex = hook_ex\<lparr>hk_git := hubgit_ex\<lparr>he_getSub := (\<lambda>w k. Inl (NotFound ''gone''))\<rparr>\<rparr>"

lemma hubw_page_api: "page_api hubw_works (\<lambda>w. hub_store (fst w)) hub_after"
  using hub_page_api unfolding page_api_def hubw_works_def on_works_def by (auto split: prod.splits)


end
