(* ===== verification/SummaryExamples.thy ===== *)
theory SummaryExamples
  imports SummaryFacts HubControlExamples
begin

text \<open>Two clusters report on a subscription; the summary of its report, and the check that reads it.\<close>

type_synonym sumw = "SubscriptionReport list \<times> ManagedClusterView list"

definition sum_store :: "sumw \<Rightarrow> nsname \<Rightarrow> SubscriptionReport option" where
  "sum_store w k = find (\<lambda>r. (rp_namespace r, rp_name r) = k) (fst w)"

definition sum_ex :: "sumw summary_env" where
  "sum_ex = \<lparr>se_clusterReports = (\<lambda>w. Inr []),
     se_reports = \<lparr>rpc_get = (\<lambda>w k. case sum_store w k of None \<Rightarrow> Inl (NotFound '''') | Some r \<Rightarrow> Inr r), rpc_create = (\<lambda>w r. ((r # fst w, snd w), None)),
       rpc_update = (\<lambda>w r. ((r # fst w, snd w), None))\<rparr>,
     se_views = (\<lambda>w. Inr (snd w)), se_labelled = (\<lambda>w l. Inr (filter (\<lambda>v. vw_label v = l) (snd w))),
     se_getView = (\<lambda>w k. Inl (NotFound '''')), se_createView = (\<lambda>w v. ((fst w, v # snd w), None)), se_deleteView = (\<lambda>w v. ((fst w, remove1 v (snd w)), None)),
     se_selector = (\<lambda>s. None), se_iter = (\<lambda>m. rev m), se_sort = (\<lambda>cs. sort_key ac_cluster cs), se_sortResults = (\<lambda>rs. sort_key rr_source rs)\<rparr>"

lemma sum_ex_api: "summary_api sum_ex sum_store"
proof -
  have k: "sum_store w k = Some r \<Longrightarrow> (rp_namespace r, rp_name r) = k" for w k r unfolding sum_store_def by (metis (mono_tags, lifting) find_Some_iff)
  have u: "sum_store (r # fst w, snd w) = (sum_store w)((rp_namespace r, rp_name r) \<mapsto> r)" for r w by (auto simp: sum_store_def fun_eq_iff)
  show ?thesis unfolding summary_api_def by (auto simp: sum_ex_def u split: option.splits dest: k)
qed

definition res :: "string \<Rightarrow> string \<Rightarrow> SubscriptionReportResult" where
  "res src r = \<lparr>rr_source = src, rr_timestamp = 0, rr_result = r\<rparr>"

definition on_cluster :: "string \<Rightarrow> SubscriptionReportResult list \<Rightarrow> SubscriptionReport" where
  "on_cluster c rs = emptyReport\<lparr>rp_name := c, rp_namespace := c, rp_results := rs\<rparr>"

definition two_reports :: "SubscriptionReport list" where
  "two_reports = [on_cluster ''c2'' [res ''ns/app'' ''deployed'', res ''ns/web'' ''failed''], on_cluster ''c1'' [res ''ns/app'' ''failed'']]"

definition app_report :: SubscriptionReport where
  "app_report = emptyReport\<lparr>rp_name := ''app'', rp_namespace := ''ns'', rp_summary := (rp_summary emptyReport)\<lparr>rs_clusters := ''3''\<rparr>\<rparr>"

theorem reports_follow_clusters_witness:
  "\<exists>rp'. sum_store (createOrUpdateAppSubReport sum_ex (fold UpdateAppSubMapsPerCluster two_reports []) ([app_report], [])) (''ns'', ''app'') = Some rp'
     \<and> rp_summary rp' = \<lparr>rs_deployed = ''1'', rs_inProgress = ''1'', rs_failed = ''1'', rs_propagationFailed = ''0'', rs_clusters = ''3''\<rparr>"
proof -
  have 1: "\<forall>m. mset (se_iter sum_ex m) = mset m" by (simp add: sum_ex_def)
  have 2: "ParseNamespacedName ''ns/app'' = (''ns'', ''app'')" by code_simp
  have 3: "sum_store ([app_report], []) (''ns'', ''app'') = Some app_report" by code_simp
  have 4: "entries two_reports ''ns/app'' = [\<lparr>ac_cluster = ''c2'', ac_phase = ''deployed''\<rparr>, \<lparr>ac_cluster = ''c1'', ac_phase = ''failed''\<rparr>]"
    "(case go_atoi (rs_clusters (rp_summary app_report)) of None \<Rightarrow> 0 | Some i \<Rightarrow> i) = 3" "rs_clusters (rp_summary app_report) = ''3''" by code_simp+
  have 5: "show_int 1 = ''1''" "show_int 0 = ''0''" by code_simp+
  have 6: "(''ns'', ''app'') \<noteq> ('''', '''')" by simp
  have 7: "inPhase ''deployed'' (entries two_reports ''ns/app'') = 1" "inPhase ''failed'' (entries two_reports ''ns/app'') = 1"
    "inPhase ''propagationFailed'' (entries two_reports ''ns/app'') = 0" by code_simp+
  have 8: "entries two_reports ''ns/app'' \<noteq> []" unfolding 4(1) by simp
  from reports_follow_clusters [where e = sum_ex and store = sum_store and s = "''ns/app''" and k = "(''ns'', ''app'')" and w = "([app_report], [])"
      and rp = app_report and n = 3 and es = "entries two_reports ''ns/app''" and reports = two_reports, OF sum_ex_api 1 2 6 3 4(2) [symmetric] refl] obtain rp' where
    9: "sum_store (createOrUpdateAppSubReport sum_ex (fold UpdateAppSubMapsPerCluster two_reports []) ([app_report], [])) (''ns'', ''app'') = Some rp'"
    "rp_summary rp' = \<lparr>rs_deployed = show_int 1, rs_inProgress = show_int (max 0 (3 - 0 - 1 - 1)), rs_failed = show_int 1, rs_propagationFailed = show_int 0,
       rs_clusters = ''3''\<rparr>"
    unfolding if_not_P [OF 8] 7 4(3) by blast
  have "max 0 (3 - 0 - 1 - 1) = (1 :: int)" by simp
  with 9 show ?thesis by (intro exI [of _ rp'] conjI) (simp_all only: 5)
qed

theorem at_most_fifty_views_witness:
  "length (snd (RefreshManagedClusterViews sum_ex (fold UpdateAppSubMapsPerCluster two_reports []) ([], []))) \<le> 50"
  using at_most_fifty_views [of "\<lambda>w. length (snd w)" sum_ex "fold UpdateAppSubMapsPerCluster two_reports []" "([], [])"]
  by (simp add: sum_ex_def length_remove1)

text \<open>Both clusters have deployed the subscription, as the summary says.\<close>

definition both_deployed :: AppSubClustersStatus where
  "both_deployed = tally [\<lparr>ac_cluster = ''c1'', ac_phase = ''deployed''\<rparr>, \<lparr>ac_cluster = ''c2'', ac_phase = ''deployed''\<rparr>]"

definition summary_two :: SubscriptionReportSummary where
  "summary_two = (rp_summary emptyReport)\<lparr>rs_clusters := ''2''\<rparr>"

definition summarised_ex :: "hubw hook_env" where
  "summarised_ex = hook_ex\<lparr>hk_git := hubgit_ex\<lparr>he_getSub := (\<lambda>w k. Inr deployed_sub)\<rparr>,
     hk_prop := prop_ex\<lparr>pe_reports := \<lparr>rpc_get = (\<lambda>w k. Inr (newAppSubReport (''ns'', ''app'') [] summary_two both_deployed)),
       rpc_create = (\<lambda>w r. (w, None)), rpc_update = (\<lambda>w r. (w, None))\<rparr>\<rparr>\<rparr>"


end
