(* ===== verification/Spec2Isabelle.thy ===== *)
theory Spec2Isabelle
  imports TimeWindowFacts PlacementRuleFacts SubscriptionFacts SynchronizerFacts DeployFacts
    GitRepoFacts ClusterAdmin References GitExamples HubExamples HookExamples PollingExamples SpokeExamples SummaryExamples
begin

text \<open>Root.\<close>

end
